(* ===== verification/Smedc_Prelude.thy ===== *)
theory Smedc_Prelude
  imports Complex_Main "HOL-Library.Char_ord" "HOL-Library.List_Lexorder"
begin

text \<open>
  What the components share: the parts of the JavaScript language and of its standard
  library that the modelled code uses, and the lemma collections of the development.

  \<^item> Strings are \<open>string\<close>: one \<open>char\<close> per code unit, for the code units below 256. The
    code inspects code units only through \<open>trim\<close>, \<open>length\<close>, equality, inclusion and
    ASCII character classes, which are defined here as JavaScript defines them on that
    range.
  \<^item> Numbers are \<open>js_number\<close>: a finite double is a rational number; the infinities and
    \<open>NaN\<close> are values of their own.
  \<^item> A plain object is an association list in insertion order; the first binding of a key
    is its value.
  \<^item> A function that may throw returns \<open>'e + 'a\<close>, with \<open>Inl\<close> the thrown error;
    \<open>res_bind\<close> is the sequencing of two statements, \<open>res_mapM\<close> is \<open>Array.map\<close> and
    \<open>res_forM\<close> a \<open>for\<close> loop whose body may throw.
\<close>

named_theorems res_simps \<open>rules that invert the result of a throwing computation\<close>

section \<open>Results that may be errors\<close>

definition res_bind :: "'e + 'a \<Rightarrow> ('a \<Rightarrow> 'e + 'b) \<Rightarrow> 'e + 'b" where
  "res_bind m f = (case m of Inl e \<Rightarrow> Inl e | Inr x \<Rightarrow> f x)"

definition res_guard :: "bool \<Rightarrow> 'e \<Rightarrow> 'e + unit" where
  "res_guard bad e = (if bad then Inl e else Inr ())"

fun res_mapM :: "('a \<Rightarrow> 'e + 'b) \<Rightarrow> 'a list \<Rightarrow> 'e + 'b list" where
  "res_mapM f [] = Inr []"
| "res_mapM f (x # xs) =
     res_bind (f x) (\<lambda>y. res_bind (res_mapM f xs) (\<lambda>ys. Inr (y # ys)))"

fun res_forM :: "('a \<Rightarrow> 'e + unit) \<Rightarrow> 'a list \<Rightarrow> 'e + unit" where
  "res_forM f [] = Inr ()"
| "res_forM f (x # xs) = res_bind (f x) (\<lambda>_. res_forM f xs)"

definition is_ok :: "'e + 'a \<Rightarrow> bool" where
  "is_ok r = (case r of Inl _ \<Rightarrow> False | Inr _ \<Rightarrow> True)"

text \<open>A missing value is an error; times are milliseconds.\<close>

definition or_else :: "'e \<Rightarrow> 'a option \<Rightarrow> 'e + 'a" where
  "or_else e x = (case x of None \<Rightarrow> Inl e | Some v \<Rightarrow> Inr v)"

type_synonym time_ms = int

lemma res_bind_simps [simp]:
  "res_bind (Inl e) f = Inl e"
  "res_bind (Inr x) f = f x"
  by (simp_all add: res_bind_def)

lemma is_ok_simps [simp]: "is_ok (Inr x)" "\<not> is_ok (Inl e)"
  by (simp_all add: is_ok_def)

lemma is_ok_iff: "is_ok r \<longleftrightarrow> (\<exists>x. r = Inr x)"
  by (cases r) auto

lemma res_bind_Inr [res_simps]:
  "res_bind m f = Inr y \<longleftrightarrow> (\<exists>x. m = Inr x \<and> f x = Inr y)"
  by (cases m) auto

lemma res_bind_Inl [res_simps]:
  "res_bind m f = Inl e \<longleftrightarrow> m = Inl e \<or> (\<exists>x. m = Inr x \<and> f x = Inl e)"
  by (cases m) auto

lemma is_ok_bind [res_simps]:
  "is_ok (res_bind m f) \<longleftrightarrow> (\<exists>x. m = Inr x \<and> is_ok (f x))"
  by (cases m) auto

lemma res_guard_Inr [simp]: "res_guard b e = Inr u \<longleftrightarrow> \<not> b"
  by (simp add: res_guard_def)

lemma res_guard_Inl [simp]: "res_guard b e = Inl e' \<longleftrightarrow> b \<and> e = e'"
  by (simp add: res_guard_def)

lemma or_else_Inr [simp]: "or_else e x = Inr v \<longleftrightarrow> x = Some v"
  by (cases x) (simp_all add: or_else_def)

lemma or_else_Inl [simp]: "or_else e x = Inl e' \<longleftrightarrow> x = None \<and> e = e'"
  by (cases x) (auto simp: or_else_def)

lemma or_else_simps [simp]: "or_else e (Some v) = Inr v" "or_else e None = Inl e"
  by (simp_all add: or_else_def)

lemma res_guard_simps [simp]: "res_guard True e = Inl e" "res_guard False e = Inr ()"
  by (simp_all add: res_guard_def)

lemma res_mapM_cong [fundef_cong]:
  assumes "xs = ys" and "\<And>x. x \<in> set ys \<Longrightarrow> f x = g x"
  shows "res_mapM f xs = res_mapM g ys"
  using assms(2) unfolding assms(1) by (induction ys) auto

lemma res_forM_cong [fundef_cong]:
  assumes "xs = ys" and "\<And>x. x \<in> set ys \<Longrightarrow> f x = g x"
  shows "res_forM f xs = res_forM g ys"
  using assms(2) unfolding assms(1) by (induction ys) auto

lemma res_mapM_Inr:
  "res_mapM f xs = Inr ys \<longleftrightarrow> list_all2 (\<lambda>x y. f x = Inr y) xs ys"
  by (induction xs arbitrary: ys) (auto simp: res_bind_Inr list_all2_Cons1)

lemma res_mapM_length: "res_mapM f xs = Inr ys \<Longrightarrow> length ys = length xs"
  by (auto simp: res_mapM_Inr dest: list_all2_lengthD)

lemma res_mapM_set:
  "res_mapM f xs = Inr ys \<Longrightarrow> y \<in> set ys \<Longrightarrow> \<exists>x\<in>set xs. f x = Inr y"
  by (induction xs arbitrary: ys) (auto simp: res_bind_Inr)

lemma res_mapM_ok: "(\<And>x. x \<in> set xs \<Longrightarrow> is_ok (f x)) \<Longrightarrow> is_ok (res_mapM f xs)"
  by (induction xs) (fastforce simp: is_ok_iff)+

lemma res_mapM_map: "res_mapM (\<lambda>x. Inr (g x)) xs = Inr (map g xs)"
  by (induction xs) auto

lemma res_forM_Inr [simp]: "res_forM f xs = Inr u \<longleftrightarrow> (\<forall>x\<in>set xs. f x = Inr ())"
  by (induction xs) (auto simp: res_bind_Inr)

section \<open>Numbers\<close>

datatype js_number = Fin rat | PosInf | NegInf | NaN

fun js_isFinite :: "js_number \<Rightarrow> bool" where
  "js_isFinite (Fin _) = True"
| "js_isFinite _ = False"

fun js_isInteger :: "js_number \<Rightarrow> bool" where
  "js_isInteger (Fin q) = (of_int \<lfloor>q\<rfloor> = q)"
| "js_isInteger _ = False"

fun js_lt :: "js_number \<Rightarrow> js_number \<Rightarrow> bool" where
  "js_lt (Fin a) (Fin b) = (a < b)"
| "js_lt NaN _ = False"
| "js_lt _ NaN = False"
| "js_lt NegInf NegInf = False"
| "js_lt NegInf _ = True"
| "js_lt _ NegInf = False"
| "js_lt PosInf _ = False"
| "js_lt _ PosInf = True"

definition js_num :: "int \<Rightarrow> js_number" where
  "js_num i = Fin (of_int i)"

lemma js_isInteger_num [simp]: "js_isInteger (js_num i)"
  by (simp add: js_num_def)

lemma js_lt_num [simp]: "js_lt (js_num i) (js_num j) \<longleftrightarrow> i < j"
  by (simp add: js_num_def)

lemma js_num_eq [simp]: "js_num i = js_num j \<longleftrightarrow> i = j"
  by (simp add: js_num_def)

lemma js_isInteger_cases: "js_isInteger x \<longleftrightarrow> (\<exists>i. x = js_num i)"
proof (cases x)
  case (Fin q)
  then show ?thesis
    by (auto simp: js_num_def)
qed (auto simp: js_num_def)

section \<open>Lists, sets and objects\<close>

text \<open>\<open>[...new Set(xs)]\<close>: the elements in the order of their first occurrence.\<close>

fun js_uniq :: "'a list \<Rightarrow> 'a list" where
  "js_uniq [] = []"
| "js_uniq (x # xs) = x # filter (\<lambda>y. y \<noteq> x) (js_uniq xs)"

lemma set_js_uniq [simp]: "set (js_uniq xs) = set xs"
  by (induction xs) auto

lemma distinct_js_uniq [simp]: "distinct (js_uniq xs)"
  by (induction xs) auto

lemma length_js_uniq: "length (js_uniq xs) = card (set xs)"
  by (metis distinct_card distinct_js_uniq set_js_uniq)

lemma length_js_uniq_le: "length (js_uniq xs) \<le> length xs"
  by (simp add: length_js_uniq card_length)

lemma js_uniq_distinct: "distinct xs \<Longrightarrow> js_uniq xs = xs"
proof (induction xs)
  case (Cons x xs)
  then have "filter (\<lambda>y. y \<noteq> x) xs = xs"
    by (simp add: filter_id_conv) metis
  with Cons show ?case by simp
qed simp

lemma length_js_uniq_eq_iff: "length (js_uniq xs) = length xs \<longleftrightarrow> distinct xs"
  by (metis card_distinct distinct_card length_js_uniq)

type_synonym 'a js_object = "(string \<times> 'a) list"

definition obj_get :: "'a js_object \<Rightarrow> string \<Rightarrow> 'a option" where
  "obj_get obj k = map_of obj k"

definition obj_keys :: "'a js_object \<Rightarrow> string list" where
  "obj_keys obj = js_uniq (map fst obj)"

lemma set_obj_keys [simp]: "set (obj_keys obj) = fst ` set obj"
  by (simp add: obj_keys_def)

lemma distinct_obj_keys [simp]: "distinct (obj_keys obj)"
  by (simp add: obj_keys_def)

lemma obj_get_None: "obj_get obj k = None \<longleftrightarrow> k \<notin> fst ` set obj"
  by (simp add: obj_get_def map_of_eq_None_iff)

section \<open>Strings\<close>

text \<open>White space and line terminators, as \<open>String.prototype.trim\<close> and \<open>\s\<close> count them.\<close>

definition is_ws :: "char \<Rightarrow> bool" where
  "is_ws c \<longleftrightarrow> of_char c \<in> {9, 10, 11, 12, 13, 32, 160 :: nat}"

definition js_trim :: "string \<Rightarrow> string" where
  "js_trim s = rev (dropWhile is_ws (rev (dropWhile is_ws s)))"

fun str_join :: "string \<Rightarrow> string list \<Rightarrow> string" where
  "str_join sep [] = []"
| "str_join sep [x] = x"
| "str_join sep (x # y # ys) = x @ sep @ str_join sep (y # ys)"

definition is_lower :: "char \<Rightarrow> bool" where
  "is_lower c \<longleftrightarrow> 97 \<le> (of_char c :: nat) \<and> (of_char c :: nat) \<le> 122"

definition is_upper :: "char \<Rightarrow> bool" where
  "is_upper c \<longleftrightarrow> 65 \<le> (of_char c :: nat) \<and> (of_char c :: nat) \<le> 90"

definition is_digit :: "char \<Rightarrow> bool" where
  "is_digit c \<longleftrightarrow> 48 \<le> (of_char c :: nat) \<and> (of_char c :: nat) \<le> 57"

lemma js_trim_length: "length (js_trim s) \<le> length s"
  unfolding js_trim_def
  by (metis length_dropWhile_le length_rev order_trans)

lemma set_js_trim: "set (js_trim s) \<subseteq> set s"
  unfolding js_trim_def by (auto dest!: set_dropWhileD)

lemma str_join_count:
  "count_list (str_join sep xs) c =
     sum_list (map (\<lambda>x. count_list x c) xs) + count_list sep c * (length xs - 1)"
  by (induction sep xs rule: str_join.induct) (auto simp: algebra_simps)

lemma set_str_join: "set (str_join sep xs) \<subseteq> (\<Union>x\<in>set xs. set x) \<union> set sep"
  by (induction sep xs rule: str_join.induct) auto

section \<open>JSON values\<close>

text \<open>A parsed request body: what \<open>JSON.parse\<close> returns.\<close>

datatype json =
    JNull
  | JBool bool
  | JNum js_number
  | JStr string
  | JArr "json list"
  | JObj "(string \<times> json) list"

end
