(* ===== verification/Json_Text.thy ===== *)
theory Json_Text
  imports Smedc_Prelude
begin

text \<open>
  The text \<^verbatim>\<open>JSON.stringify\<close> produces, which the code hashes, signs, compares and measures:
  string quoting with JSON's escapes, integers in decimal, arrays and objects without white
  space, and the number of UTF-8 bytes of the result. Quoting is shown to be uniquely
  decodable, so keys built from quoted parts are injective in the parts.
\<close>

definition hex_digit :: "nat \<Rightarrow> char" where
  "hex_digit n = (if n < 10 then char_of (48 + n) else char_of (87 + n))"

definition quote_char :: "char \<Rightarrow> string" where
  "quote_char c =
     (let n = (of_char c :: nat) in
      if n = 34 then [CHR 0x5C, CHR 0x22]
      else if n = 92 then [CHR 0x5C, CHR 0x5C]
      else if n = 8 then [CHR 0x5C, CHR ''b'']
      else if n = 9 then [CHR 0x5C, CHR ''t'']
      else if n = 10 then [CHR 0x5C, CHR ''n'']
      else if n = 12 then [CHR 0x5C, CHR ''f'']
      else if n = 13 then [CHR 0x5C, CHR ''r'']
      else if n < 32 then [CHR 0x5C, CHR ''u'', CHR ''0'', CHR ''0'', hex_digit (n div 16), hex_digit (n mod 16)]
      else [c])"

definition js_quote :: "string \<Rightarrow> string" where
  "js_quote s = CHR 0x22 # concat (map quote_char s) @ [CHR 0x22]"

fun nat_text :: "nat \<Rightarrow> string" where
  "nat_text n = (if n < 10 then [char_of (48 + n)] else nat_text (n div 10) @ [char_of (48 + n mod 10)])"

declare nat_text.simps [simp del]

definition int_text :: "int \<Rightarrow> string" where
  "int_text i = (if i < 0 then CHR ''-'' # nat_text (nat (- i)) else nat_text (nat i))"

text \<open>\<open>nf\<close> prints the finite numbers that are not integers below \<open>10^21\<close>.\<close>

definition num_text :: "(rat \<Rightarrow> string) \<Rightarrow> js_number \<Rightarrow> string" where
  "num_text nf n =
     (case n of
        Fin q \<Rightarrow> if of_int \<lfloor>q\<rfloor> = q \<and> \<bar>q\<bar> < 1000000000000000000000 then int_text \<lfloor>q\<rfloor> else nf q
      | _ \<Rightarrow> ''null'')"

fun json_text :: "(rat \<Rightarrow> string) \<Rightarrow> json \<Rightarrow> string" where
  "json_text nf JNull = ''null''"
| "json_text nf (JBool b) = (if b then ''true'' else ''false'')"
| "json_text nf (JNum n) = num_text nf n"
| "json_text nf (JStr s) = js_quote s"
| "json_text nf (JArr xs) = ''['' @ str_join '','' (map (json_text nf) xs) @ '']''"
| "json_text nf (JObj kvs) =
     ''{'' @ str_join '','' (map (\<lambda>(k, v). js_quote k @ '':'' @ json_text nf v) kvs) @ ''}''"

definition utf8_bytes :: "string \<Rightarrow> nat" where
  "utf8_bytes s = sum_list (map (\<lambda>c. if (of_char c :: nat) < 128 then 1 else 2) s)"

section \<open>Quoting is uniquely decodable\<close>

definition hex_value :: "char \<Rightarrow> nat" where
  "hex_value c = (let n = (of_char c :: nat) in if n < 58 then n - 48 else n - 87)"

fun unquote_char :: "string \<Rightarrow> (char \<times> string) option" where
  "unquote_char [] = None"
| "unquote_char (x # xs) =
     (if x = CHR 0x22 then None
      else if x \<noteq> CHR 0x5C then Some (x, xs)
      else case xs of
        [] \<Rightarrow> None
      | y # ys \<Rightarrow>
          if y = CHR ''b'' then Some (char_of (8::nat), ys)
          else if y = CHR ''t'' then Some (char_of (9::nat), ys)
          else if y = CHR ''n'' then Some (char_of (10::nat), ys)
          else if y = CHR ''f'' then Some (char_of (12::nat), ys)
          else if y = CHR ''r'' then Some (char_of (13::nat), ys)
          else if y = CHR ''u'' then
            (case ys of a # b # c # d # zs \<Rightarrow> Some (char_of (16 * hex_value c + hex_value d), zs)
             | _ \<Rightarrow> None)
          else Some (y, ys))"

lemma hex_value_digit: "n < 16 \<Longrightarrow> hex_value (hex_digit n) = n"
  by (auto simp: hex_value_def hex_digit_def Let_def of_char_of)

lemma char_of_of_char_eq: "(of_char c :: nat) = n \<Longrightarrow> c = char_of n"
  by (metis char_of_char)

lemma char_of_quote: "char_of (34::nat) = CHR 0x22" "char_of (92::nat) = CHR 0x5C"
  by (simp_all add: char_of_def bit_0)

lemma unquote_quote_char: "unquote_char (quote_char c @ xs) = Some (c, xs)"
proof -
  let ?n = "of_char c :: nat"
  consider (special) "?n \<in> {34, 92, 8, 9, 10, 12, 13}"
    | (control) "?n < 32" "?n \<notin> {34, 92, 8, 9, 10, 12, 13}"
    | (plain) "\<not> ?n < 32" "?n \<notin> {34, 92}"
    by fastforce
  then show ?thesis
  proof cases
    case special
    then show ?thesis
      by (auto simp: quote_char_def char_of_quote dest!: char_of_of_char_eq)
  next
    case control
    then have "?n div 16 < 16" "?n mod 16 < 16" by auto
    with control show ?thesis
      by (simp add: quote_char_def Let_def hex_value_digit)
  next
    case plain
    then have "c \<noteq> CHR 0x22" "c \<noteq> CHR 0x5C" by auto
    with plain show ?thesis by (simp add: quote_char_def Let_def)
  qed
qed

lemma quoted_body_inj:
  "concat (map quote_char s) @ CHR 0x22 # xs = concat (map quote_char t) @ CHR 0x22 # ys
     \<longleftrightarrow> s = t \<and> xs = ys"
proof (induction s arbitrary: t)
  case Nil
  show ?case
  proof (cases t)
    case (Cons d ds)
    have "unquote_char (quote_char d @ zs) \<noteq> unquote_char (CHR 0x22 # xs)" for zs
      by (simp add: unquote_quote_char)
    with Cons show ?thesis by (auto simp del: unquote_char.simps) metis
  qed auto
next
  case (Cons c cs)
  show ?case
  proof (cases t)
    case Nil
    have "unquote_char (quote_char c @ zs) \<noteq> unquote_char (CHR 0x22 # ys)" for zs
      by (simp add: unquote_quote_char)
    with Nil show ?thesis by (auto simp del: unquote_char.simps) metis
  next
    case (Cons d ds)
    have "quote_char c @ us = quote_char d @ vs \<longleftrightarrow> c = d \<and> us = vs" for us vs
      by (metis option.inject prod.inject unquote_quote_char)
    with Cons Cons.IH show ?thesis by auto
  qed
qed

lemma js_quote_append_inj [simp]:
  "js_quote s @ xs = js_quote t @ ys \<longleftrightarrow> s = t \<and> xs = ys"
  by (simp add: js_quote_def quoted_body_inj)

lemma js_quote_inj [simp]: "js_quote s = js_quote t \<longleftrightarrow> s = t"
  using js_quote_append_inj [of s "[]" t "[]"] by simp

lemma js_quote_head: "\<exists>body. js_quote s = CHR 0x22 # body"
  by (simp add: js_quote_def)

end
