(* ===== verification/Workflow_Schemas.thy ===== *)
theory Workflow_Schemas
  imports Json_Text
begin

text \<open>
  The data and the schemas of \<^verbatim>\<open>packages/domain/src/enterprise-workflows.ts\<close>. A parsed value is a
  record or a datatype value with the source's fields (an enum is a datatype, an optional field
  an option), and each schema is a bool-valued function that holds when the schema's checks
  pass on a value of that shape. The string formats of the zod library (\<open>z.iso.date\<close>,
  \<open>z.iso.datetime\<close>, \<open>z.email\<close>) are the argument \<open>z\<close>.
\<close>

record zod_formats =
  z_isoDate :: "string \<Rightarrow> bool"
  z_isoDatetime :: "string \<Rightarrow> bool"
  z_email :: "string \<Rightarrow> bool"

section \<open>Enumerations and limits\<close>

datatype WorkflowType = MeituanDailyIngestion | MeituanReviewOperations | WeeklyBusinessReport

fun workflow_type_text :: "WorkflowType \<Rightarrow> string" where
  "workflow_type_text MeituanDailyIngestion = ''meituan-daily-ingestion''"
| "workflow_type_text MeituanReviewOperations = ''meituan-review-operations''"
| "workflow_type_text WeeklyBusinessReport = ''weekly-business-report''"

record workflow_limits =
  lim_configBytes :: nat
  lim_sourceIdentities :: nat
  lim_recipientsPerPurpose :: nat
  lim_emailChars :: nat
  lim_brandFactsChars :: nat
  lim_toneChars :: nat
  lim_summaryItems :: nat
  lim_summaryBytes :: nat
  lim_leaseSeconds :: nat
  lim_renewAfterSeconds :: nat
  lim_runRetentionDays :: nat

definition WORKFLOW_LIMITS :: workflow_limits where
  "WORKFLOW_LIMITS =
    \<lparr>lim_configBytes = 1048576, lim_sourceIdentities = 2000, lim_recipientsPerPurpose = 20,
     lim_emailChars = 254, lim_brandFactsChars = 20000, lim_toneChars = 2000,
     lim_summaryItems = 100, lim_summaryBytes = 262144, lim_leaseSeconds = 120,
     lim_renewAfterSeconds = 30, lim_runRetentionDays = 90\<rparr>"

datatype SourceProduct = meituan_erp | meituan_reviews

fun product_text :: "SourceProduct \<Rightarrow> string" where
  "product_text meituan_erp = ''meituan_erp''"
| "product_text meituan_reviews = ''meituan_reviews''"

datatype SourceChannel = ch_erp | ch_meituan | ch_dianping

fun channel_text :: "SourceChannel \<Rightarrow> string" where
  "channel_text ch_erp = ''erp''"
| "channel_text ch_meituan = ''meituan''"
| "channel_text ch_dianping = ''dianping''"

datatype WorkflowDataset =
  ds_business | ds_dishes | ds_in_store_orders | ds_takeaway_orders | ds_delivery_ledger

fun dataset_text :: "WorkflowDataset \<Rightarrow> string" where
  "dataset_text ds_business = ''business''"
| "dataset_text ds_dishes = ''dishes''"
| "dataset_text ds_in_store_orders = ''in_store_orders''"
| "dataset_text ds_takeaway_orders = ''takeaway_orders''"
| "dataset_text ds_delivery_ledger = ''delivery_ledger''"

section \<open>Scalars\<close>

definition is_id_char :: "char \<Rightarrow> bool" where
  "is_id_char c \<longleftrightarrow> is_lower c \<or> is_upper c \<or> is_digit c \<or> c = CHR ''_'' \<or> c = CHR ''-''"

definition workflowIdSchema :: "string \<Rightarrow> bool" where
  "workflowIdSchema s \<longleftrightarrow> 1 \<le> length s \<and> length s \<le> 64 \<and> list_all is_id_char s"

definition workflowVersionSchema :: "js_number \<Rightarrow> bool" where
  "workflowVersionSchema n \<longleftrightarrow>
     js_isInteger n \<and> \<not> js_lt n (js_num 0) \<and> \<not> js_lt (js_num 4294967295) n"

definition is_hex_char :: "char \<Rightarrow> bool" where
  "is_hex_char c \<longleftrightarrow> is_digit c \<or> (97 \<le> (of_char c :: nat) \<and> (of_char c :: nat) \<le> 102)"

definition workflowHashSchema :: "string \<Rightarrow> bool" where
  "workflowHashSchema s \<longleftrightarrow> length s = 64 \<and> list_all is_hex_char s"

definition workflowNameSchema :: "string \<Rightarrow> bool" where
  "workflowNameSchema v \<longleftrightarrow> 1 \<le> length v \<and> length v \<le> 255 \<and> 0 < length (js_trim v)"

definition workflowEnterpriseKeySchema :: "string \<Rightarrow> bool" where
  "workflowEnterpriseKeySchema v \<longleftrightarrow> 1 \<le> length v \<and> length v \<le> 128 \<and> 0 < length (js_trim v)"

record WorkflowWindow =
  w_startDate :: string
  w_endDate :: string

text \<open>Dates are compared as strings, by code units.\<close>

definition workflowDateRangeSchema :: "zod_formats \<Rightarrow> WorkflowWindow \<Rightarrow> bool" where
  "workflowDateRangeSchema z v \<longleftrightarrow>
     z_isoDate z (w_startDate v) \<and> z_isoDate z (w_endDate v) \<and> w_startDate v \<le> w_endDate v"

definition workflowStoresSchema :: "string list \<Rightarrow> bool" where
  "workflowStoresSchema v \<longleftrightarrow>
     list_all workflowNameSchema v \<and> 1 \<le> length v \<and>
     length v \<le> lim_sourceIdentities WORKFLOW_LIMITS \<and> length (js_uniq v) = length v"

text \<open>\<open>String.prototype.toLowerCase\<close> on the code units below 256.\<close>

definition js_lower_char :: "char \<Rightarrow> char" where
  "js_lower_char c =
     (let n = (of_char c :: nat) in
      if (65 \<le> n \<and> n \<le> 90) \<or> (192 \<le> n \<and> n \<le> 222 \<and> n \<noteq> 215) then char_of (n + 32) else c)"

definition js_toLowerCase :: "string \<Rightarrow> string" where
  "js_toLowerCase s = map js_lower_char s"

definition workflowRecipientsSchema :: "zod_formats \<Rightarrow> string list \<Rightarrow> bool" where
  "workflowRecipientsSchema z v \<longleftrightarrow>
     list_all (\<lambda>s. z_email z s \<and> length s \<le> lim_emailChars WORKFLOW_LIMITS) v \<and>
     length v \<le> lim_recipientsPerPurpose WORKFLOW_LIMITS \<and>
     length (js_uniq (map js_toLowerCase v)) = length v"

definition workflowPayloadFits :: "json \<Rightarrow> nat \<Rightarrow> bool" where
  "workflowPayloadFits v maxBytes \<longleftrightarrow> utf8_bytes (json_text (\<lambda>_. []) v) \<le> maxBytes"

section \<open>Source identities and the integration configuration\<close>

record WorkflowSourceIdentity =
  si_product :: SourceProduct
  si_channel :: SourceChannel
  si_accountRef :: string
  si_sourceStoreId :: "string option"
  si_sourceStoreName :: string

definition opt_all :: "('a \<Rightarrow> bool) \<Rightarrow> 'a option \<Rightarrow> bool" where
  "opt_all P v = (case v of None \<Rightarrow> True | Some x \<Rightarrow> P x)"

definition workflowSourceIdentitySchema :: "WorkflowSourceIdentity \<Rightarrow> bool" where
  "workflowSourceIdentitySchema v \<longleftrightarrow>
     workflowNameSchema (si_accountRef v) \<and>
     opt_all workflowNameSchema (si_sourceStoreId v) \<and>
     workflowNameSchema (si_sourceStoreName v) \<and>
     (if si_product v = meituan_erp then si_channel v = ch_erp else si_channel v \<noteq> ch_erp)"

definition workflowReviewSourceIdentitySchema :: "WorkflowSourceIdentity \<Rightarrow> bool" where
  "workflowReviewSourceIdentitySchema v \<longleftrightarrow>
     workflowSourceIdentitySchema v \<and> si_product v = meituan_reviews"

definition workflowSourceIdentityKey :: "WorkflowSourceIdentity \<Rightarrow> string" where
  "workflowSourceIdentityKey source =
     json_text (\<lambda>_. []) (JArr
       [JStr (product_text (si_product source)),
        JStr (channel_text (si_channel source)),
        JStr (si_accountRef source),
        (case si_sourceStoreId source of
           None \<Rightarrow> JArr [JStr ''name'', JStr (si_sourceStoreName source)]
         | Some i \<Rightarrow> JArr [JStr ''id'', JStr i])])"

record SourceAccount =
  sa_product :: SourceProduct
  sa_accountRef :: string
  sa_displayName :: string
  sa_sourceEnterpriseName :: string
  sa_sourceGroupName :: "string option"

record StoreMapping =
  sm_source :: WorkflowSourceIdentity
  sm_storeName :: string

record SourceExclusion =
  se_source :: WorkflowSourceIdentity
  se_reason :: string

record EnterpriseIntegrationConfiguration =
  in_sourceAccounts :: "SourceAccount list"
  in_storeMappings :: "StoreMapping list"
  in_exclusions :: "SourceExclusion list"

text \<open>The JSON form, with the fields in the order of the schema and absent fields left out.\<close>

definition opt_field :: "string \<Rightarrow> ('a \<Rightarrow> json) \<Rightarrow> 'a option \<Rightarrow> (string \<times> json) list" where
  "opt_field k f v = (case v of None \<Rightarrow> [] | Some x \<Rightarrow> [(k, f x)])"

definition json_of_source :: "WorkflowSourceIdentity \<Rightarrow> json" where
  "json_of_source s = JObj
     ([(''product'', JStr (product_text (si_product s))),
       (''channel'', JStr (channel_text (si_channel s))),
       (''accountRef'', JStr (si_accountRef s))] @
      opt_field ''sourceStoreId'' JStr (si_sourceStoreId s) @
      [(''sourceStoreName'', JStr (si_sourceStoreName s))])"

definition json_of_account :: "SourceAccount \<Rightarrow> json" where
  "json_of_account a = JObj
     ([(''product'', JStr (product_text (sa_product a))),
       (''accountRef'', JStr (sa_accountRef a)),
       (''displayName'', JStr (sa_displayName a)),
       (''sourceEnterpriseName'', JStr (sa_sourceEnterpriseName a))] @
      opt_field ''sourceGroupName'' JStr (sa_sourceGroupName a))"

definition json_of_integration :: "EnterpriseIntegrationConfiguration \<Rightarrow> json" where
  "json_of_integration v = JObj
     [(''schemaVersion'', JNum (js_num 1)),
      (''timezone'', JStr ''Asia/Shanghai''),
      (''sourceAccounts'', JArr (map json_of_account (in_sourceAccounts v))),
      (''storeMappings'', JArr (map (\<lambda>m. JObj [(''source'', json_of_source (sm_source m)),
          (''storeName'', JStr (sm_storeName m))]) (in_storeMappings v))),
      (''exclusions'', JArr (map (\<lambda>e. JObj [(''source'', json_of_source (se_source e)),
          (''reason'', JStr (se_reason e))]) (in_exclusions v)))]"

definition account_key :: "SourceProduct \<Rightarrow> string \<Rightarrow> string" where
  "account_key p ref = json_text (\<lambda>_. []) (JArr [JStr (product_text p), JStr ref])"

text \<open>The first loop of the schema's \<open>superRefine\<close>: one issue per repeated account key.\<close>

fun account_issues :: "string list \<Rightarrow> SourceAccount list \<Rightarrow> string list" where
  "account_issues accounts [] = []"
| "account_issues accounts (a # as) =
     (let key = account_key (sa_product a) (sa_accountRef a) in
      (if key \<in> set accounts then [''Duplicate source account.''] else []) @
      account_issues (key # accounts) as)"

text \<open>The second loop, over the mappings and then the exclusions.\<close>

fun identity_issues :: "string list \<Rightarrow> string list \<Rightarrow> WorkflowSourceIdentity list \<Rightarrow> string list" where
  "identity_issues accounts seen [] = []"
| "identity_issues accounts seen (s # ss) =
     (let key = workflowSourceIdentityKey s in
      (if key \<in> set seen
       then [''Source identity is mapped or excluded more than once.''] else []) @
      (if account_key (si_product s) (si_accountRef s) \<notin> set accounts
       then [''Source identity requires a declared source account.''] else []) @
      identity_issues accounts (key # seen) ss)"

definition integration_sources :: "EnterpriseIntegrationConfiguration \<Rightarrow> WorkflowSourceIdentity list" where
  "integration_sources v = map sm_source (in_storeMappings v) @ map se_source (in_exclusions v)"

definition integration_issues :: "EnterpriseIntegrationConfiguration \<Rightarrow> string list" where
  "integration_issues v =
     account_issues [] (in_sourceAccounts v) @
     identity_issues (map (\<lambda>a. account_key (sa_product a) (sa_accountRef a)) (in_sourceAccounts v))
       [] (integration_sources v) @
     (if length (js_uniq (map workflowSourceIdentityKey (integration_sources v)))
           > lim_sourceIdentities WORKFLOW_LIMITS
         \<or> \<not> workflowPayloadFits (json_of_integration v) (lim_configBytes WORKFLOW_LIMITS)
      then [''Integration configuration exceeds limits.''] else [])"

definition enterpriseIntegrationSchema :: "EnterpriseIntegrationConfiguration \<Rightarrow> bool" where
  "enterpriseIntegrationSchema v \<longleftrightarrow>
     list_all (\<lambda>a. workflowNameSchema (sa_accountRef a) \<and> workflowNameSchema (sa_displayName a) \<and>
       workflowNameSchema (sa_sourceEnterpriseName a) \<and>
       opt_all workflowNameSchema (sa_sourceGroupName a)) (in_sourceAccounts v) \<and>
     length (in_sourceAccounts v) \<le> 100 \<and>
     list_all (\<lambda>m. workflowSourceIdentitySchema (sm_source m) \<and> workflowNameSchema (sm_storeName m))
       (in_storeMappings v) \<and>
     length (in_storeMappings v) \<le> lim_sourceIdentities WORKFLOW_LIMITS \<and>
     list_all (\<lambda>e. workflowSourceIdentitySchema (se_source e) \<and> 1 \<le> length (se_reason e) \<and>
       length (se_reason e) \<le> 2000) (in_exclusions v) \<and>
     length (in_exclusions v) \<le> lim_sourceIdentities WORKFLOW_LIMITS \<and>
     integration_issues v = []"

section \<open>Workflow configurations\<close>

record WorkflowMail =
  mail_enabled :: bool
  mail_recipients :: "string list"
  mail_allowedSender :: "string option"

definition workflowMailSchema :: "zod_formats \<Rightarrow> WorkflowMail \<Rightarrow> bool" where
  "workflowMailSchema z v \<longleftrightarrow>
     workflowRecipientsSchema z (mail_recipients v) \<and>
     opt_all (\<lambda>s. z_email z s \<and> length s \<le> lim_emailChars WORKFLOW_LIMITS) (mail_allowedSender v) \<and>
     (\<not> mail_enabled v \<or> (0 < length (mail_recipients v) \<and> mail_allowedSender v \<noteq> None))"

record IgnoredReview =
  ig_source :: WorkflowSourceIdentity
  ig_feedbackId :: string
  ig_reason :: string

record ReportGroup =
  rg_name :: string
  rg_storeNames :: "string list"

record DailyConfiguration =
  dc_storeNames :: "string list"
  dc_datasets :: "WorkflowDataset list"

record ReviewConfiguration =
  rc_storeNames :: "string list"
  rc_ignoredReviewIdentities :: "IgnoredReview list"
  rc_channels :: "SourceChannel list"
  rc_publicationEnabled :: bool
  rc_publicationStores :: "string list"
  rc_brandFacts :: string
  rc_tone :: string
  rc_draftNotification :: WorkflowMail

record WeeklyConfiguration =
  wc_storeNames :: "string list"
  wc_groups :: "ReportGroup list"
  wc_delivery :: WorkflowMail

datatype WorkflowConfiguration =
    DailyConfig DailyConfiguration
  | ReviewConfig ReviewConfiguration
  | WeeklyConfig WeeklyConfiguration

fun config_type :: "WorkflowConfiguration \<Rightarrow> WorkflowType" where
  "config_type (DailyConfig _) = MeituanDailyIngestion"
| "config_type (ReviewConfig _) = MeituanReviewOperations"
| "config_type (WeeklyConfig _) = WeeklyBusinessReport"

fun config_storeNames :: "WorkflowConfiguration \<Rightarrow> string list" where
  "config_storeNames (DailyConfig c) = dc_storeNames c"
| "config_storeNames (ReviewConfig c) = rc_storeNames c"
| "config_storeNames (WeeklyConfig c) = wc_storeNames c"

definition json_of_mail :: "WorkflowMail \<Rightarrow> json" where
  "json_of_mail m = JObj
     ([(''enabled'', JBool (mail_enabled m)), (''recipients'', JArr (map JStr (mail_recipients m)))] @
      opt_field ''allowedSender'' JStr (mail_allowedSender m))"

definition json_config_base :: "string list \<Rightarrow> WorkflowType \<Rightarrow> (string \<times> json) list" where
  "json_config_base stores t =
     [(''schemaVersion'', JNum (js_num 1)), (''storeNames'', JArr (map JStr stores)),
      (''notificationPolicy'', JStr ''action_required''), (''type'', JStr (workflow_type_text t))]"

fun json_of_configuration :: "WorkflowConfiguration \<Rightarrow> json" where
  "json_of_configuration (DailyConfig c) = JObj
     (json_config_base (dc_storeNames c) MeituanDailyIngestion @
      [(''datasets'', JArr (map (JStr \<circ> dataset_text) (dc_datasets c))),
       (''orderScope'', JStr ''settled_only''), (''cleanupPolicy'', JStr ''confirmed_files_only'')])"
| "json_of_configuration (ReviewConfig c) = JObj
     (json_config_base (rc_storeNames c) MeituanReviewOperations @
      [(''executionPolicy'', JObj [(''id'', JStr ''verified-review-operations''), (''version'', JNum (js_num 1))]),
       (''ignoredReviewIdentities'', JArr (map (\<lambda>i. JObj
          [(''source'', json_of_source (ig_source i)), (''feedbackId'', JStr (ig_feedbackId i)),
           (''reason'', JStr (ig_reason i)), (''purpose'', JStr ''exclude_source_record'')])
          (rc_ignoredReviewIdentities c))),
       (''channels'', JArr (map (JStr \<circ> channel_text) (rc_channels c))),
       (''publication'', JObj [(''enabled'', JBool (rc_publicationEnabled c)),
          (''storeNames'', JArr (map JStr (rc_publicationStores c)))]),
       (''brandFacts'', JStr (rc_brandFacts c)), (''tone'', JStr (rc_tone c)),
       (''draftNotification'', json_of_mail (rc_draftNotification c)),
       (''cleanupPolicy'', JStr ''complete_run_only'')])"
| "json_of_configuration (WeeklyConfig c) = JObj
     (json_config_base (wc_storeNames c) WeeklyBusinessReport @
      [(''groups'', JArr (map (\<lambda>g. JObj [(''name'', JStr (rg_name g)),
          (''storeNames'', JArr (map JStr (rg_storeNames g)))]) (wc_groups c))),
       (''delivery'', json_of_mail (wc_delivery c)),
       (''cleanupPolicy'', JStr ''retain_final_report'')])"

text \<open>\<open>JSON.stringify([workflowSourceIdentityKey(source), feedbackId])\<close>.\<close>

definition reviewKey :: "WorkflowSourceIdentity \<Rightarrow> string \<Rightarrow> string" where
  "reviewKey source feedbackId =
     json_text (\<lambda>_. []) (JArr [JStr (workflowSourceIdentityKey source), JStr feedbackId])"

fun configuration_shape :: "zod_formats \<Rightarrow> WorkflowConfiguration \<Rightarrow> bool" where
  "configuration_shape z (DailyConfig c) \<longleftrightarrow>
     workflowStoresSchema (dc_storeNames c) \<and> 1 \<le> length (dc_datasets c) \<and>
     length (dc_datasets c) \<le> 5 \<and> length (js_uniq (dc_datasets c)) = length (dc_datasets c)"
| "configuration_shape z (ReviewConfig c) \<longleftrightarrow>
     workflowStoresSchema (rc_storeNames c) \<and>
     list_all (\<lambda>i. workflowReviewSourceIdentitySchema (ig_source i) \<and>
       workflowNameSchema (ig_feedbackId i) \<and> 1 \<le> length (ig_reason i) \<and> length (ig_reason i) \<le> 2000)
       (rc_ignoredReviewIdentities c) \<and>
     length (rc_ignoredReviewIdentities c) \<le> lim_sourceIdentities WORKFLOW_LIMITS \<and>
     list_all (\<lambda>ch. ch \<noteq> ch_erp) (rc_channels c) \<and> 1 \<le> length (rc_channels c) \<and>
     length (rc_channels c) \<le> 2 \<and> length (js_uniq (rc_channels c)) = length (rc_channels c) \<and>
     list_all workflowNameSchema (rc_publicationStores c) \<and>
     length (rc_publicationStores c) \<le> lim_sourceIdentities WORKFLOW_LIMITS \<and>
     length (js_uniq (rc_publicationStores c)) = length (rc_publicationStores c) \<and>
     length (rc_brandFacts c) \<le> lim_brandFactsChars WORKFLOW_LIMITS \<and>
     length (rc_tone c) \<le> lim_toneChars WORKFLOW_LIMITS \<and>
     workflowMailSchema z (rc_draftNotification c)"
| "configuration_shape z (WeeklyConfig c) \<longleftrightarrow>
     workflowStoresSchema (wc_storeNames c) \<and>
     list_all (\<lambda>g. workflowNameSchema (rg_name g) \<and> workflowStoresSchema (rg_storeNames g)) (wc_groups c) \<and>
     length (wc_groups c) \<le> 100 \<and> workflowMailSchema z (wc_delivery c)"

text \<open>The issues of the configuration schema's \<open>superRefine\<close>.\<close>

fun configuration_type_issues :: "WorkflowConfiguration \<Rightarrow> string list" where
  "configuration_type_issues (DailyConfig c) = []"
| "configuration_type_issues (ReviewConfig c) =
     (let ids = map (\<lambda>i. reviewKey (ig_source i) (ig_feedbackId i)) (rc_ignoredReviewIdentities c) in
      (if length (js_uniq ids) \<noteq> length (rc_ignoredReviewIdentities c)
       then [''Duplicate ignored review identity.''] else []) @
      (if list_ex (\<lambda>s. s \<notin> set (rc_storeNames c)) (rc_publicationStores c) \<or>
          (rc_publicationEnabled c \<and> rc_publicationStores c = [])
       then [''Publication requires a nonempty subset of collection stores.''] else []))"
| "configuration_type_issues (WeeklyConfig c) =
     (let gs = wc_groups c in
      if length (js_uniq (map rg_name gs)) \<noteq> length gs \<or>
         length (js_uniq (concat (map rg_storeNames gs)))
           \<noteq> foldl (\<lambda>n g. n + length (rg_storeNames g)) 0 gs \<or>
         list_ex (\<lambda>g. list_ex (\<lambda>s. s \<notin> set (wc_storeNames c)) (rg_storeNames g)) gs
      then [''Report groups need unique names, disjoint membership and selected stores.''] else [])"

definition configuration_issues :: "WorkflowConfiguration \<Rightarrow> string list" where
  "configuration_issues v =
     configuration_type_issues v @
     (if \<not> workflowPayloadFits (json_of_configuration v) (lim_configBytes WORKFLOW_LIMITS)
      then [''Workflow configuration exceeds payload limit.''] else [])"

definition workflowConfigurationSchema :: "zod_formats \<Rightarrow> WorkflowConfiguration \<Rightarrow> bool" where
  "workflowConfigurationSchema z v \<longleftrightarrow> configuration_shape z v \<and> configuration_issues v = []"

section \<open>Authorization scopes\<close>

datatype MailPurpose = review_drafts | weekly_report | exception_mail

datatype WorkflowAuthorizationScope =
    UploadScope "WorkflowDataset list" "string list"
  | DownloadScope "WorkflowDataset list" "string list"
  | ReviewSyncScope "SourceChannel list" "string list"
  | ReviewPublishScope "SourceChannel list" "string list"
  | EmailScope MailPurpose "string list" "string list" string js_number

fun workflowAuthorizationScopeSchema :: "zod_formats \<Rightarrow> WorkflowAuthorizationScope \<Rightarrow> bool" where
  "workflowAuthorizationScopeSchema z (UploadScope ds stores) \<longleftrightarrow>
     1 \<le> length ds \<and> length ds \<le> 5 \<and> workflowStoresSchema stores"
| "workflowAuthorizationScopeSchema z (DownloadScope ds stores) \<longleftrightarrow>
     list_all (\<lambda>d. d \<noteq> ds_delivery_ledger) ds \<and> 1 \<le> length ds \<and> length ds \<le> 4 \<and>
     workflowStoresSchema stores"
| "workflowAuthorizationScopeSchema z (ReviewSyncScope chs stores) \<longleftrightarrow>
     list_all (\<lambda>c. c \<noteq> ch_erp) chs \<and> 1 \<le> length chs \<and> length chs \<le> 2 \<and> workflowStoresSchema stores"
| "workflowAuthorizationScopeSchema z (ReviewPublishScope chs stores) \<longleftrightarrow>
     list_all (\<lambda>c. c \<noteq> ch_erp) chs \<and> 1 \<le> length chs \<and> length chs \<le> 2 \<and> workflowStoresSchema stores"
| "workflowAuthorizationScopeSchema z (EmailScope p stores recipients sender version) \<longleftrightarrow>
     workflowStoresSchema stores \<and> workflowRecipientsSchema z recipients \<and> 0 < length recipients \<and>
     z_email z sender \<and> length sender \<le> lim_emailChars WORKFLOW_LIMITS \<and>
     workflowVersionSchema version"

section \<open>Action identities, intents and receipts\<close>

record ReviewIdentity =
  ri_source :: WorkflowSourceIdentity
  ri_feedbackId :: string
  ri_recipient :: string

record UploadIdentity =
  up_storeNames :: "string list"
  up_window :: WorkflowWindow
  up_dataset :: WorkflowDataset
  up_orderScope :: "string option"
  up_sourceHash :: string
  up_metadataHash :: string

record DownloadIdentity =
  dl_storeNames :: "string list"
  dl_window :: WorkflowWindow
  dl_dataset :: WorkflowDataset
  dl_manifestHash :: "string option"

record ReviewSyncIdentity =
  rs_storeNames :: "string list"
  rs_window :: WorkflowWindow
  rs_source :: WorkflowSourceIdentity
  rs_observedFactsHash :: string

record ReviewPublishIdentity =
  rp_storeName :: string
  rp_source :: WorkflowSourceIdentity
  rp_feedbackId :: string

record EmailIdentity =
  em_storeNames :: "string list"
  em_window :: WorkflowWindow
  em_purpose :: MailPurpose
  em_recipients :: "string list"
  em_sender :: string
  em_deliveryVersion :: js_number
  em_reviewIdentities :: "ReviewIdentity list option"

datatype WorkflowActionIdentity =
    UploadAction UploadIdentity
  | DownloadAction DownloadIdentity
  | ReviewSyncAction ReviewSyncIdentity
  | ReviewPublishAction ReviewPublishIdentity
  | EmailAction EmailIdentity

definition recipientKey :: "ReviewIdentity \<Rightarrow> string" where
  "recipientKey r = json_text (\<lambda>_. []) (JArr
     [JStr (workflowSourceIdentityKey (ri_source r)), JStr (ri_feedbackId r),
      JStr (js_toLowerCase (ri_recipient r))])"

text \<open>The refinement of the email identity: a draft notification names every review once per
  recipient.\<close>

definition email_review_check :: "EmailIdentity \<Rightarrow> bool" where
  "email_review_check v \<longleftrightarrow>
     (if em_purpose v = review_drafts
      then (case em_reviewIdentities v of
              None \<Rightarrow> False
            | Some rs \<Rightarrow>
                rs \<noteq> [] \<and>
                list_all (\<lambda>r. ri_recipient r \<in> set (em_recipients v)) rs \<and>
                length (js_uniq (map recipientKey rs)) = length rs \<and>
                length (js_uniq (map (\<lambda>r. reviewKey (ri_source r) (ri_feedbackId r)) rs)) *
                  length (em_recipients v) = length rs)
      else em_reviewIdentities v = None)"

fun workflowActionIdentitySchema :: "zod_formats \<Rightarrow> WorkflowActionIdentity \<Rightarrow> bool" where
  "workflowActionIdentitySchema z (UploadAction v) \<longleftrightarrow>
     workflowStoresSchema (up_storeNames v) \<and> workflowDateRangeSchema z (up_window v) \<and>
     opt_all (\<lambda>s. s = ''settled_only'') (up_orderScope v) \<and>
     workflowHashSchema (up_sourceHash v) \<and> workflowHashSchema (up_metadataHash v) \<and>
     (up_dataset v = ds_in_store_orders \<longleftrightarrow> up_orderScope v \<noteq> None)"
| "workflowActionIdentitySchema z (DownloadAction v) \<longleftrightarrow>
     workflowStoresSchema (dl_storeNames v) \<and> workflowDateRangeSchema z (dl_window v) \<and>
     dl_dataset v \<noteq> ds_delivery_ledger \<and> opt_all workflowHashSchema (dl_manifestHash v)"
| "workflowActionIdentitySchema z (ReviewSyncAction v) \<longleftrightarrow>
     workflowStoresSchema (rs_storeNames v) \<and> workflowDateRangeSchema z (rs_window v) \<and>
     workflowReviewSourceIdentitySchema (rs_source v) \<and> workflowHashSchema (rs_observedFactsHash v)"
| "workflowActionIdentitySchema z (ReviewPublishAction v) \<longleftrightarrow>
     workflowNameSchema (rp_storeName v) \<and> workflowReviewSourceIdentitySchema (rp_source v) \<and>
     workflowNameSchema (rp_feedbackId v)"
| "workflowActionIdentitySchema z (EmailAction v) \<longleftrightarrow>
     workflowStoresSchema (em_storeNames v) \<and> workflowDateRangeSchema z (em_window v) \<and>
     workflowRecipientsSchema z (em_recipients v) \<and> 0 < length (em_recipients v) \<and>
     z_email z (em_sender v) \<and> length (em_sender v) \<le> lim_emailChars WORKFLOW_LIMITS \<and>
     workflowVersionSchema (em_deliveryVersion v) \<and>
     opt_all (\<lambda>rs. list_all (\<lambda>r. workflowReviewSourceIdentitySchema (ri_source r) \<and>
         workflowNameSchema (ri_feedbackId r) \<and> z_email z (ri_recipient r) \<and>
         length (ri_recipient r) \<le> lim_emailChars WORKFLOW_LIMITS) rs \<and>
       length rs \<le> lim_summaryItems WORKFLOW_LIMITS) (em_reviewIdentities v) \<and>
     email_review_check v"

record WorkflowActionIntent =
  ai_actionId :: string
  ai_identity :: WorkflowActionIdentity
  ai_artifactHash :: "string option"
  ai_correlationMarker :: "string option"

fun is_external :: "WorkflowActionIdentity \<Rightarrow> bool" where
  "is_external (EmailAction _) = True"
| "is_external (ReviewPublishAction _) = True"
| "is_external _ = False"

definition workflowActionIntentSchema :: "zod_formats \<Rightarrow> WorkflowActionIntent \<Rightarrow> bool" where
  "workflowActionIntentSchema z v \<longleftrightarrow>
     workflowIdSchema (ai_actionId v) \<and> workflowActionIdentitySchema z (ai_identity v) \<and>
     opt_all workflowHashSchema (ai_artifactHash v) \<and> opt_all workflowIdSchema (ai_correlationMarker v) \<and>
     (\<not> is_external (ai_identity v) \<or>
      (ai_artifactHash v \<noteq> None \<and> ai_correlationMarker v \<noteq> None))"

section \<open>Keys determine what they name\<close>

lemma product_text_inj [simp]: "product_text p = product_text q \<longleftrightarrow> p = q"
  by (cases p; cases q) auto

lemma channel_text_inj [simp]: "channel_text p = channel_text q \<longleftrightarrow> p = q"
  by (cases p; cases q) auto

lemma js_quote_end_inj [simp]:
  "js_quote s @ xs = js_quote t \<longleftrightarrow> s = t \<and> xs = []"
  "js_quote s = js_quote t @ xs \<longleftrightarrow> s = t \<and> xs = []"
  using js_quote_append_inj [of s xs t "[]"] js_quote_append_inj [of s "[]" t xs] by auto

text \<open>What a source identity identifies: the store by its identifier, or by name without one.\<close>

definition source_identity :: "WorkflowSourceIdentity \<Rightarrow>
    SourceProduct \<times> SourceChannel \<times> string \<times> (string + string)" where
  "source_identity s = (si_product s, si_channel s, si_accountRef s,
     (case si_sourceStoreId s of None \<Rightarrow> Inl (si_sourceStoreName s) | Some i \<Rightarrow> Inr i))"

lemma sourceIdentityKey_inj:
  "workflowSourceIdentityKey a = workflowSourceIdentityKey b \<longleftrightarrow> source_identity a = source_identity b"
  by (auto simp: workflowSourceIdentityKey_def source_identity_def split: option.splits)

lemma account_key_inj [simp]: "account_key p r = account_key q t \<longleftrightarrow> p = q \<and> r = t"
  by (auto simp: account_key_def)

lemma reviewKey_inj:
  "reviewKey s f = reviewKey t g \<longleftrightarrow> source_identity s = source_identity t \<and> f = g"
  by (auto simp: reviewKey_def sourceIdentityKey_inj)

lemma recipientKey_inj:
  "recipientKey a = recipientKey b \<longleftrightarrow>
     source_identity (ri_source a) = source_identity (ri_source b) \<and>
     ri_feedbackId a = ri_feedbackId b \<and>
     js_toLowerCase (ri_recipient a) = js_toLowerCase (ri_recipient b)"
  by (auto simp: recipientKey_def sourceIdentityKey_inj)

lemma account_issues_Nil:
  "account_issues accounts as = [] \<longleftrightarrow>
     distinct (map (\<lambda>a. (sa_product a, sa_accountRef a)) as) \<and>
     (\<forall>a\<in>set as. account_key (sa_product a) (sa_accountRef a) \<notin> set accounts)"
  by (induction as arbitrary: accounts) (simp_all add: Let_def image_iff, metis)

lemma identity_issues_Nil:
  "identity_issues accounts seen ss = [] \<longleftrightarrow>
     distinct (map source_identity ss) \<and>
     (\<forall>s\<in>set ss. workflowSourceIdentityKey s \<notin> set seen \<and>
        account_key (si_product s) (si_accountRef s) \<in> set accounts)"
  by (induction ss arbitrary: seen) (simp_all add: Let_def sourceIdentityKey_inj image_iff, metis)

lemma integration_valid:
  assumes "enterpriseIntegrationSchema v"
  shows "distinct (map (\<lambda>a. (sa_product a, sa_accountRef a)) (in_sourceAccounts v))"
    and "distinct (map source_identity (integration_sources v))"
    and "s \<in> set (integration_sources v) \<Longrightarrow>
      \<exists>a\<in>set (in_sourceAccounts v). sa_product a = si_product s \<and> sa_accountRef a = si_accountRef s"
  using assms
  by (fastforce simp: enterpriseIntegrationSchema_def integration_issues_def account_issues_Nil
      identity_issues_Nil)+

section \<open>Draft notifications name every review once per recipient\<close>

definition review_of :: "ReviewIdentity \<Rightarrow>
    (SourceProduct \<times> SourceChannel \<times> string \<times> (string + string)) \<times> string" where
  "review_of r = (source_identity (ri_source r), ri_feedbackId r)"

lemma length_uniq_key:
  assumes "\<And>a b. key a = key b \<longleftrightarrow> f a = f b"
  shows "length (js_uniq (map key rs)) = card (f ` set rs)"
proof -
  have mem: "key a \<in> key ` A \<longleftrightarrow> f a \<in> f ` A" for a A
    using assms by (auto simp: image_iff)
  have "card (key ` set rs) = card (f ` set rs)"
    by (induction rs) (simp_all add: card_insert_if mem)
  then show ?thesis by (simp add: length_js_uniq)
qed

lemma review_drafts_cross_product:
  assumes schema: "workflowRecipientsSchema z (em_recipients v)" and check: "email_review_check v"
    and drafts: "em_purpose v = review_drafts" and rs: "em_reviewIdentities v = Some rs"
  shows "bij_betw (\<lambda>r. (review_of r, ri_recipient r)) (set rs)
      (review_of ` set rs \<times> set (em_recipients v))"
    and "distinct rs"
proof -
  let ?pair = "\<lambda>r. (review_of r, js_toLowerCase (ri_recipient r))"
  let ?R = "review_of ` set rs" and ?M = "set (em_recipients v)"
  from schema have low: "distinct (map js_toLowerCase (em_recipients v))"
    using length_js_uniq_eq_iff [of "map js_toLowerCase (em_recipients v)"]
    by (simp add: workflowRecipientsSchema_def)
  then have inj_low: "inj_on js_toLowerCase ?M" and distM: "distinct (em_recipients v)"
    by (auto simp: distinct_map)
  from check drafts rs have members: "ri_recipient r \<in> ?M" if "r \<in> set rs" for r
    using that by (auto simp: email_review_check_def list_all_iff)
  have "card (?pair ` set rs) = length rs"
    using check drafts rs length_uniq_key [of recipientKey ?pair rs]
    by (simp add: email_review_check_def recipientKey_inj review_of_def)
  moreover have "card ?R * length (em_recipients v) = length rs"
    using check drafts rs length_uniq_key [of "\<lambda>r. reviewKey (ri_source r) (ri_feedbackId r)" review_of rs]
    by (simp add: email_review_check_def reviewKey_inj review_of_def)
  moreover have "card (?pair ` set rs) \<le> card (set rs)" "card (set rs) \<le> length rs"
    by (auto intro: card_image_le card_length)
  ultimately have inj_pair: "inj_on ?pair (set rs)" and dist: "card (set rs) = length rs"
    and count: "card (set rs) = card ?R * card ?M"
    using distM by (auto simp: eq_card_imp_inj_on distinct_card)
  have inj: "inj_on (\<lambda>r. (review_of r, ri_recipient r)) (set rs)"
    using inj_pair by (auto simp: inj_on_def)
  have "(\<lambda>r. (review_of r, ri_recipient r)) ` set rs = ?R \<times> ?M"
  proof (rule card_subset_eq)
    show "(\<lambda>r. (review_of r, ri_recipient r)) ` set rs \<subseteq> ?R \<times> ?M"
      using members by auto
    show "card ((\<lambda>r. (review_of r, ri_recipient r)) ` set rs) = card (?R \<times> ?M)"
      using count by (simp add: card_image [OF inj])
  qed simp
  with inj show "bij_betw (\<lambda>r. (review_of r, ri_recipient r)) (set rs) (?R \<times> ?M)"
    by (simp add: bij_betw_def)
  from dist show "distinct rs" by (simp add: card_distinct)
qed

section \<open>Properties\<close>

text \<open>
  The key of a source identity names exactly one identity: two sources have the same key
  precisely when product, channel and account agree and the stores are identified alike, both
  by the same identifier or both, having none, by the same name.
\<close>
theorem workflowSourceIdentityKey_injective:
  "workflowSourceIdentityKey a = workflowSourceIdentityKey b \<longleftrightarrow> source_identity a = source_identity b"
  by (rule sourceIdentityKey_inj)

text \<open>
  In a valid integration no source identity occurs twice among mappings and exclusions, and
  each of them belongs to exactly one declared account.
\<close>
theorem integration_sources_unambiguous:
  assumes "enterpriseIntegrationSchema v"
  shows "distinct (map source_identity (integration_sources v)) \<and>
    (\<forall>s\<in>set (integration_sources v). \<exists>!a. a \<in> set (in_sourceAccounts v) \<and>
       sa_product a = si_product s \<and> sa_accountRef a = si_accountRef s)"
  using integration_valid [OF assms] by (auto simp: distinct_map inj_on_def) blast

text \<open>
  A valid draft notification lists every review it mentions exactly once for each of its
  recipients: the entries are in bijection with the pairs of a review and a recipient.
\<close>
theorem draft_notification_complete:
  assumes "workflowActionIdentitySchema z (EmailAction v)" and "em_purpose v = review_drafts"
  shows "\<exists>rs. em_reviewIdentities v = Some rs \<and> rs \<noteq> [] \<and> distinct rs \<and>
    bij_betw (\<lambda>r. (review_of r, ri_recipient r)) (set rs) (review_of ` set rs \<times> set (em_recipients v))"
proof -
  from assms obtain rs where rs: "em_reviewIdentities v = Some rs" "rs \<noteq> []"
    by (auto simp: email_review_check_def split: option.splits)
  from assms have "workflowRecipientsSchema z (em_recipients v)" "email_review_check v" by simp_all
  from review_drafts_cross_product [OF this assms(2) rs(1)] rs show ?thesis by blast
qed

section \<open>Witnesses\<close>

definition ex_formats :: zod_formats where
  "ex_formats = \<lparr>z_isoDate = (\<lambda>s. length s = 10), z_isoDatetime = (\<lambda>s. length s = 20),
     z_email = (\<lambda>s. CHR 0x40 \<in> set s)\<rparr>"

definition ex_source :: WorkflowSourceIdentity where
  "ex_source = \<lparr>si_product = meituan_reviews, si_channel = ch_meituan, si_accountRef = ''a'',
     si_sourceStoreId = Some ''s1'', si_sourceStoreName = ''n''\<rparr>"

definition ex_small_integration :: EnterpriseIntegrationConfiguration where
  "ex_small_integration =
     \<lparr>in_sourceAccounts = [\<lparr>sa_product = meituan_reviews, sa_accountRef = ''a'', sa_displayName = ''A'',
        sa_sourceEnterpriseName = ''E'', sa_sourceGroupName = None\<rparr>],
      in_storeMappings = [\<lparr>sm_source = ex_source, sm_storeName = ''north''\<rparr>],
      in_exclusions = []\<rparr>"

definition ex_draft_mail :: EmailIdentity where
  "ex_draft_mail =
     \<lparr>em_storeNames = [''north''], em_window = \<lparr>w_startDate = ''2026-01-01'', w_endDate = ''2026-01-07''\<rparr>,
      em_purpose = review_drafts, em_recipients = [''x@m'', ''y@m''], em_sender = ''s@m'',
      em_deliveryVersion = js_num 1, em_reviewIdentities = Some
        [\<lparr>ri_source = ex_source, ri_feedbackId = ''f1'', ri_recipient = ''x@m''\<rparr>,
         \<lparr>ri_source = ex_source, ri_feedbackId = ''f1'', ri_recipient = ''y@m''\<rparr>]\<rparr>"

lemmas scalar_eval = workflowNameSchema_def opt_all_def js_trim_def is_ws_def WORKFLOW_LIMITS_def
  workflowStoresSchema_def workflowSourceIdentitySchema_def workflowReviewSourceIdentitySchema_def
  js_toLowerCase_def js_lower_char_def

lemmas text_eval = workflowSourceIdentityKey_def account_key_def js_quote_def quote_char_def
  utf8_bytes_def num_text_def js_num_def int_text_def nat_text.simps workflowPayloadFits_def
  json_of_account_def json_of_source_def opt_field_def

lemmas integration_eval = enterpriseIntegrationSchema_def integration_issues_def
  integration_sources_def json_of_integration_def scalar_eval text_eval

lemma ex_small_integration_valid: "enterpriseIntegrationSchema ex_small_integration"
  by (simp add: ex_small_integration_def ex_source_def integration_eval)

theorem integration_sources_unambiguous_witness:
  "distinct (map source_identity (integration_sources ex_small_integration))"
  using integration_sources_unambiguous [OF ex_small_integration_valid] by simp

lemma ex_draft_mail_valid: "workflowActionIdentitySchema ex_formats (EmailAction ex_draft_mail)"
proof -
  have "email_review_check ex_draft_mail"
    by (simp add: email_review_check_def ex_draft_mail_def recipientKey_inj reviewKey_inj
        js_toLowerCase_def js_lower_char_def)
  then show ?thesis
    by (simp add: ex_draft_mail_def ex_source_def ex_formats_def scalar_eval
        workflowDateRangeSchema_def workflowRecipientsSchema_def workflowVersionSchema_def
        less_char_def less_eq_char_def)
qed

theorem draft_notification_complete_witness:
  "\<exists>rs. em_reviewIdentities ex_draft_mail = Some rs \<and> rs \<noteq> [] \<and> distinct rs"
  using draft_notification_complete [OF ex_draft_mail_valid] by (simp add: ex_draft_mail_def)

end
