(* ===== verification/Workflow_Live_Policy.thy ===== *)
theory Workflow_Live_Policy
  imports Workflow_Schemas "HOL-Library.Multiset"
begin

text \<open>
  The live policy of \<^verbatim>\<open>packages/domain/src/workflow-live-policy.ts\<close>: what a workflow run may
  still reach. A policy is computed from a configuration and the integration, and is narrowed
  by intersection whenever the configuration changes under a running workflow.

  The interface \<open>policy_restriction\<close> states what the callers (\<open>restrictRuns\<close> and
  \<open>requireBinding\<close> of the API) rely on: intersection is associative and commutative up to an
  equivalence the decision cannot see, and it only removes reach. The lemmas about sequences of
  restrictions are proved once in the locale and hold for the code by its interpretation.
\<close>

section \<open>Policies\<close>

record PolicySource =
  ps_key :: string
  ps_storeName :: string
  ps_binding :: string

record WorkflowLivePolicy =
  lp_stores :: "string list"
  lp_datasets :: "WorkflowDataset list"
  lp_channels :: "SourceChannel list"
  lp_publicationStores :: "string list"
  lp_senders :: "string list"
  lp_recipients :: "string list"
  lp_sources :: "PolicySource list"
  lp_ignored :: "string list"
  lp_reviewsBlocked :: bool

definition lower :: "string list \<Rightarrow> string list" where
  "lower values = map js_toLowerCase values"

definition intersect :: "'a list \<Rightarrow> 'a list \<Rightarrow> 'a list" where
  "intersect a b = filter (\<lambda>v. v \<in> set b) a"

datatype type_error = TypeError

text \<open>The source binding of one mapping. \<open>find(...)!\<close> is dereferenced at once, so a mapping
  without an account throws.\<close>

definition policy_source :: "EnterpriseIntegrationConfiguration \<Rightarrow> StoreMapping \<Rightarrow> type_error + PolicySource" where
  "policy_source integration m =
     (case find (\<lambda>a. sa_product a = si_product (sm_source m) \<and> sa_accountRef a = si_accountRef (sm_source m))
             (in_sourceAccounts integration) of
        None \<Rightarrow> Inl TypeError
      | Some account \<Rightarrow> Inr
          \<lparr>ps_key = workflowSourceIdentityKey (sm_source m),
           ps_storeName = sm_storeName m,
           ps_binding = json_text (\<lambda>_. []) (JArr
             [json_of_source (sm_source m), JStr (product_text (sa_product account)),
              JStr (sa_accountRef account), JStr (sa_sourceEnterpriseName account),
              (case sa_sourceGroupName account of None \<Rightarrow> JNull | Some g \<Rightarrow> JStr g)])\<rparr>)"

definition policy_mappings :: "WorkflowConfiguration \<Rightarrow> EnterpriseIntegrationConfiguration \<Rightarrow> StoreMapping list" where
  "policy_mappings config integration =
     (case config of
        WeeklyConfig _ \<Rightarrow> []
      | DailyConfig c \<Rightarrow>
          filter (\<lambda>m. si_product (sm_source m) = meituan_erp \<and> sm_storeName m \<in> set (dc_storeNames c))
            (in_storeMappings integration)
      | ReviewConfig c \<Rightarrow>
          filter (\<lambda>m. si_product (sm_source m) = meituan_reviews \<and> sm_storeName m \<in> set (rc_storeNames c) \<and>
                     si_channel (sm_source m) \<in> set (rc_channels c))
            (in_storeMappings integration))"

fun policy_mail :: "WorkflowConfiguration \<Rightarrow> WorkflowMail option" where
  "policy_mail (WeeklyConfig c) = Some (wc_delivery c)"
| "policy_mail (ReviewConfig c) = Some (rc_draftNotification c)"
| "policy_mail (DailyConfig c) = None"

definition workflowLivePolicy ::
  "WorkflowConfiguration \<Rightarrow> EnterpriseIntegrationConfiguration \<Rightarrow> type_error + WorkflowLivePolicy" where
  "workflowLivePolicy config integration =
     res_bind (res_mapM (policy_source integration) (policy_mappings config integration)) (\<lambda>sources. Inr
     \<lparr>lp_stores = config_storeNames config,
      lp_datasets = (case config of DailyConfig c \<Rightarrow> dc_datasets c
         | _ \<Rightarrow> [ds_business, ds_dishes, ds_in_store_orders, ds_takeaway_orders]),
      lp_channels = (case config of ReviewConfig c \<Rightarrow> rc_channels c | _ \<Rightarrow> []),
      lp_publicationStores = (case config of
           ReviewConfig c \<Rightarrow> (if rc_publicationEnabled c then rc_publicationStores c else [])
         | _ \<Rightarrow> []),
      lp_senders = (case policy_mail config of
           None \<Rightarrow> []
         | Some mail \<Rightarrow> (if mail_enabled mail
             then (case mail_allowedSender mail of None \<Rightarrow> [] | Some s \<Rightarrow> if s = [] then [] else lower [s])
             else [])),
      lp_recipients = (case policy_mail config of
           None \<Rightarrow> []
         | Some mail \<Rightarrow> (if mail_enabled mail then lower (mail_recipients mail) else [])),
      lp_sources = sources,
      lp_ignored = (case config of
           ReviewConfig c \<Rightarrow> map (\<lambda>r. reviewKey (ig_source r) (ig_feedbackId r)) (rc_ignoredReviewIdentities c)
         | _ \<Rightarrow> []),
      lp_reviewsBlocked = False\<rparr>)"

definition intersectWorkflowLivePolicy :: "WorkflowLivePolicy \<Rightarrow> WorkflowLivePolicy \<Rightarrow> WorkflowLivePolicy" where
  "intersectWorkflowLivePolicy a b =
     (let ignored = js_uniq (lp_ignored a @ lp_ignored b) in
      \<lparr>lp_stores = intersect (lp_stores a) (lp_stores b),
       lp_datasets = intersect (lp_datasets a) (lp_datasets b),
       lp_channels = intersect (lp_channels a) (lp_channels b),
       lp_publicationStores = intersect (lp_publicationStores a) (lp_publicationStores b),
       lp_senders = intersect (lp_senders a) (lp_senders b),
       lp_recipients = intersect (lp_recipients a) (lp_recipients b),
       lp_sources = filter (\<lambda>s. list_ex (\<lambda>t. ps_key t = ps_key s \<and> ps_storeName t = ps_storeName s \<and>
           ps_binding t = ps_binding s) (lp_sources b)) (lp_sources a),
       lp_ignored = take (lim_sourceIdentities WORKFLOW_LIMITS) ignored,
       lp_reviewsBlocked = (lp_reviewsBlocked a \<or> lp_reviewsBlocked b \<or>
           length ignored > lim_sourceIdentities WORKFLOW_LIMITS)\<rparr>)"

section \<open>The decision\<close>

fun action_stores :: "WorkflowActionIdentity \<Rightarrow> string list" where
  "action_stores (UploadAction v) = up_storeNames v"
| "action_stores (DownloadAction v) = dl_storeNames v"
| "action_stores (ReviewSyncAction v) = rs_storeNames v"
| "action_stores (ReviewPublishAction v) = [rp_storeName v]"
| "action_stores (EmailAction v) = em_storeNames v"

text \<open>\<open>!feedbackId\<close> also holds of the empty string.\<close>

definition sourceAllowed ::
  "WorkflowLivePolicy \<Rightarrow> string list \<Rightarrow> WorkflowSourceIdentity \<Rightarrow> string option \<Rightarrow> bool" where
  "sourceAllowed policy stores source feedbackId \<longleftrightarrow>
     \<not> lp_reviewsBlocked policy \<and>
     list_ex (\<lambda>channel. channel = si_channel source) (lp_channels policy) \<and>
     list_ex (\<lambda>m. ps_key m = workflowSourceIdentityKey source \<and> ps_storeName m \<in> set stores)
       (lp_sources policy) \<and>
     (case feedbackId of
        None \<Rightarrow> True
      | Some f \<Rightarrow> f = [] \<or> reviewKey source f \<notin> set (lp_ignored policy))"

fun dataset_check :: "WorkflowLivePolicy \<Rightarrow> WorkflowActionIdentity \<Rightarrow> bool" where
  "dataset_check policy (UploadAction v) \<longleftrightarrow> up_dataset v \<in> set (lp_datasets policy)"
| "dataset_check policy (DownloadAction v) \<longleftrightarrow> dl_dataset v \<in> set (lp_datasets policy)"
| "dataset_check policy _ \<longleftrightarrow> True"

fun identity_check :: "WorkflowLivePolicy \<Rightarrow> WorkflowActionIdentity \<Rightarrow> bool" where
  "identity_check policy (ReviewSyncAction v) \<longleftrightarrow>
     sourceAllowed policy (rs_storeNames v) (rs_source v) None"
| "identity_check policy (ReviewPublishAction v) \<longleftrightarrow>
     sourceAllowed policy [rp_storeName v] (rp_source v) (Some (rp_feedbackId v)) \<and>
     rp_storeName v \<in> set (lp_publicationStores policy)"
| "identity_check policy (EmailAction v) \<longleftrightarrow>
     (em_purpose v \<noteq> exception_mail \<longrightarrow>
        js_toLowerCase (em_sender v) \<in> set (lp_senders policy) \<and>
        list_all (\<lambda>r. r \<in> set (lp_recipients policy)) (lower (em_recipients v))) \<and>
     (case em_reviewIdentities v of
        None \<Rightarrow> True
      | Some rs \<Rightarrow> list_all (\<lambda>r. sourceAllowed policy (em_storeNames v) (ri_source r) (Some (ri_feedbackId r))) rs)"
| "identity_check policy _ \<longleftrightarrow> True"

definition workflowLivePolicyAllows ::
  "WorkflowLivePolicy \<Rightarrow> WorkflowActionIdentity \<Rightarrow> WorkflowType \<Rightarrow> bool" where
  "workflowLivePolicyAllows policy identity wtype =
     (let stores = action_stores identity in
      if list_ex (\<lambda>s. s \<notin> set (lp_stores policy)) stores then False
      else if \<not> dataset_check policy identity then False
      else if wtype = MeituanDailyIngestion \<and>
              list_ex (\<lambda>s. \<not> list_ex (\<lambda>m. ps_storeName m = s) (lp_sources policy)) stores then False
      else identity_check policy identity)"

section \<open>The interface of a restriction\<close>

locale policy_restriction =
  fixes allows :: "'p \<Rightarrow> 'i \<Rightarrow> bool"
    and meet :: "'p \<Rightarrow> 'p \<Rightarrow> 'p"
    and same :: "'p \<Rightarrow> 'p \<Rightarrow> bool"
  assumes same_refl: "same p p"
    and same_sym: "same p q \<Longrightarrow> same q p"
    and same_trans: "same p q \<Longrightarrow> same q r \<Longrightarrow> same p r"
    and same_allows: "same p q \<Longrightarrow> allows p i = allows q i"
    and meet_cong: "same p q \<Longrightarrow> same (meet p r) (meet q r)"
    and meet_right_comm: "same (meet (meet p q) r) (meet (meet p r) q)"
    and meet_narrows: "allows (meet p q) i \<Longrightarrow> allows p i \<and> allows q i"
begin

lemma foldl_narrows: "allows (foldl meet p ps) i \<Longrightarrow> allows p i \<and> (\<forall>q\<in>set ps. allows q i)"
proof (induction ps arbitrary: p)
  case (Cons x ps)
  from Cons.prems have "allows (foldl meet (meet p x) ps) i" by simp
  from Cons.IH [OF this] meet_narrows [of p x i] show ?case by simp
qed simp

lemma foldl_cong: "same p q \<Longrightarrow> same (foldl meet p ps) (foldl meet q ps)"
proof (induction ps arbitrary: p q)
  case (Cons x ps)
  show ?case using Cons.IH [OF meet_cong [OF Cons.prems]] by simp
qed simp

lemma foldl_move: "same (foldl meet (meet p x) ps) (meet (foldl meet p ps) x)"
proof (induction ps arbitrary: p)
  case (Cons y ps)
  have "same (foldl meet (meet (meet p x) y) ps) (foldl meet (meet (meet p y) x) ps)"
    by (rule foldl_cong) (rule meet_right_comm)
  with Cons [of "meet p y"] show ?case by (auto intro: same_trans)
qed (simp add: same_refl)

lemma foldl_mset: "mset ps = mset qs \<Longrightarrow> same (foldl meet p ps) (foldl meet p qs)"
proof (induction ps arbitrary: p qs)
  case (Cons x ps)
  then have "x \<in> set qs" by (metis list.set_intros(1) set_mset_mset)
  then obtain ys zs where qs: "qs = ys @ x # zs" by (meson split_list)
  with Cons.prems have "mset ps = mset (ys @ zs)" by simp
  then have "same (foldl meet (meet p x) ps) (foldl meet (meet p x) (ys @ zs))" by (rule Cons.IH)
  moreover have "same (foldl meet (meet p x) (ys @ zs)) (foldl meet p (ys @ x # zs))"
    using foldl_cong [OF foldl_move, of p x ys zs] by simp
  ultimately show ?case using qs by (auto intro: same_trans)
qed (simp add: same_refl)

lemma foldl_order_irrelevant:
  "mset ps = mset qs \<Longrightarrow> allows (foldl meet p ps) i = allows (foldl meet p qs) i"
  by (rule same_allows) (rule foldl_mset)

end

section \<open>Intersection of live policies satisfies it\<close>

lemma set_intersect [simp]: "set (intersect a b) = set a \<inter> set b"
  by (auto simp: intersect_def)

lemma filter_sources:
  "filter (\<lambda>s. list_ex (\<lambda>t. ps_key t = ps_key s \<and> ps_storeName t = ps_storeName s \<and>
      ps_binding t = ps_binding s) ts) (ss :: PolicySource list) = intersect ss ts"
proof -
  have eq: "ps_key t = ps_key s \<and> ps_storeName t = ps_storeName s \<and> ps_binding t = ps_binding s \<longleftrightarrow> t = s"
    for s t :: PolicySource
    by (auto intro: PolicySource.equality)
  show ?thesis
    unfolding intersect_def eq by (intro filter_cong refl) (simp add: list_ex_iff)
qed

text \<open>Equality up to the order and repetition of entries, and up to the ignored reviews of a
  policy that blocks all reviews anyway.\<close>

definition same_policy :: "WorkflowLivePolicy \<Rightarrow> WorkflowLivePolicy \<Rightarrow> bool" where
  "same_policy a b \<longleftrightarrow>
     set (lp_stores a) = set (lp_stores b) \<and> set (lp_datasets a) = set (lp_datasets b) \<and>
     set (lp_channels a) = set (lp_channels b) \<and>
     set (lp_publicationStores a) = set (lp_publicationStores b) \<and>
     set (lp_senders a) = set (lp_senders b) \<and> set (lp_recipients a) = set (lp_recipients b) \<and>
     set (lp_sources a) = set (lp_sources b) \<and> lp_reviewsBlocked a = lp_reviewsBlocked b \<and>
     (lp_reviewsBlocked a \<or> set (lp_ignored a) = set (lp_ignored b))"

lemma intersect_policy_simps:
  "lp_stores (intersectWorkflowLivePolicy a b) = intersect (lp_stores a) (lp_stores b)"
  "lp_datasets (intersectWorkflowLivePolicy a b) = intersect (lp_datasets a) (lp_datasets b)"
  "lp_channels (intersectWorkflowLivePolicy a b) = intersect (lp_channels a) (lp_channels b)"
  "lp_publicationStores (intersectWorkflowLivePolicy a b) =
     intersect (lp_publicationStores a) (lp_publicationStores b)"
  "lp_senders (intersectWorkflowLivePolicy a b) = intersect (lp_senders a) (lp_senders b)"
  "lp_recipients (intersectWorkflowLivePolicy a b) = intersect (lp_recipients a) (lp_recipients b)"
  "lp_sources (intersectWorkflowLivePolicy a b) = intersect (lp_sources a) (lp_sources b)"
  "lp_reviewsBlocked (intersectWorkflowLivePolicy a b) \<longleftrightarrow> lp_reviewsBlocked a \<or> lp_reviewsBlocked b \<or>
     card (set (lp_ignored a) \<union> set (lp_ignored b)) > 2000"
  "length (lp_ignored (intersectWorkflowLivePolicy a b)) \<le> 2000"
  by (simp_all add: intersectWorkflowLivePolicy_def Let_def WORKFLOW_LIMITS_def length_js_uniq
      filter_sources)

lemma intersect_ignored:
  "\<not> lp_reviewsBlocked (intersectWorkflowLivePolicy a b) \<Longrightarrow>
     set (lp_ignored (intersectWorkflowLivePolicy a b)) = set (lp_ignored a) \<union> set (lp_ignored b)"
  by (simp add: intersectWorkflowLivePolicy_def Let_def WORKFLOW_LIMITS_def)

lemma same_policy_allows:
  assumes "same_policy a b"
  shows "workflowLivePolicyAllows a i t = workflowLivePolicyAllows b i t"
proof -
  note eqs = assms [unfolded same_policy_def]
  have src: "sourceAllowed a stores s f = sourceAllowed b stores s f" for stores s f
    using eqs unfolding sourceAllowed_def list_ex_iff by (cases f) auto
  have "identity_check a i = identity_check b i"
    using eqs by (cases i) (simp_all add: src split: option.split)
  moreover have "dataset_check a i = dataset_check b i"
    using eqs by (cases i) simp_all
  ultimately show ?thesis
    using eqs by (simp add: workflowLivePolicyAllows_def list_ex_iff)
qed

lemma intersect_narrows_source:
  "sourceAllowed (intersectWorkflowLivePolicy a b) stores s f \<Longrightarrow>
     sourceAllowed a stores s f \<and> sourceAllowed b stores s f"
  by (cases "lp_reviewsBlocked (intersectWorkflowLivePolicy a b)")
    (auto simp: sourceAllowed_def intersect_ignored intersect_policy_simps list_ex_iff
      split: option.splits)

lemma intersect_narrows:
  assumes "workflowLivePolicyAllows (intersectWorkflowLivePolicy a b) i t"
  shows "workflowLivePolicyAllows a i t \<and> workflowLivePolicyAllows b i t"
proof -
  let ?m = "intersectWorkflowLivePolicy a b"
  have all: "set (action_stores i) \<subseteq> set (lp_stores ?m)" "dataset_check ?m i" "identity_check ?m i"
    "t = MeituanDailyIngestion \<Longrightarrow> s \<in> set (action_stores i) \<Longrightarrow> \<exists>m\<in>set (lp_sources ?m). ps_storeName m = s"
    for s
    using assms by (auto simp: workflowLivePolicyAllows_def Let_def list_ex_iff split: if_splits)
  have "dataset_check a i \<and> dataset_check b i"
    using all(2) by (cases i) (simp_all add: intersect_policy_simps)
  moreover have "identity_check a i \<and> identity_check b i"
    using all(3) by (cases i)
      (auto simp: intersect_policy_simps list_all_iff dest: intersect_narrows_source split: option.splits)
  moreover have "set (action_stores i) \<subseteq> set (lp_stores a) \<inter> set (lp_stores b)"
    using all(1) by (simp add: intersect_policy_simps)
  moreover have "\<exists>m\<in>set (lp_sources a) \<inter> set (lp_sources b). ps_storeName m = s"
    if "t = MeituanDailyIngestion" "s \<in> set (action_stores i)" for s
    using all(4) [OF that] by (simp add: intersect_policy_simps)
  ultimately show ?thesis
    by (auto simp: workflowLivePolicyAllows_def Let_def list_ex_iff subset_iff)
qed

lemma card_union_more: "card (set xs \<union> set ys) > n \<Longrightarrow> card (set xs \<union> set ys \<union> set zs) > n"
  by (rule less_le_trans) (auto intro: card_mono)

lemma blocked_meet3:
  "lp_reviewsBlocked (intersectWorkflowLivePolicy (intersectWorkflowLivePolicy p q) r) \<longleftrightarrow>
     lp_reviewsBlocked p \<or> lp_reviewsBlocked q \<or> lp_reviewsBlocked r \<or>
     card (set (lp_ignored p) \<union> set (lp_ignored q) \<union> set (lp_ignored r)) > 2000"
proof (cases "lp_reviewsBlocked (intersectWorkflowLivePolicy p q)")
  case True
  then show ?thesis
    using card_union_more [of 2000 "lp_ignored p" "lp_ignored q" "lp_ignored r"]
    by (auto simp: intersect_policy_simps)
next
  case False
  then show ?thesis
    by (subst intersect_policy_simps(8)) (auto simp: intersect_ignored intersect_policy_simps(8))
qed

lemma ignored_meet3:
  assumes "\<not> lp_reviewsBlocked (intersectWorkflowLivePolicy (intersectWorkflowLivePolicy p q) r)"
  shows "set (lp_ignored (intersectWorkflowLivePolicy (intersectWorkflowLivePolicy p q) r)) =
     set (lp_ignored p) \<union> set (lp_ignored q) \<union> set (lp_ignored r)"
proof -
  from assms have "\<not> lp_reviewsBlocked (intersectWorkflowLivePolicy p q)"
    by (auto simp: intersect_policy_simps(8) [of "intersectWorkflowLivePolicy p q"])
  with assms show ?thesis by (simp add: intersect_ignored)
qed

lemma same_policy_meet_cong:
  assumes "same_policy p q"
  shows "same_policy (intersectWorkflowLivePolicy p r) (intersectWorkflowLivePolicy q r)"
proof -
  note eqs = assms [unfolded same_policy_def]
  have blocked: "lp_reviewsBlocked (intersectWorkflowLivePolicy p r) =
      lp_reviewsBlocked (intersectWorkflowLivePolicy q r)"
    using eqs by (auto simp: intersect_policy_simps)
  then have "set (lp_ignored (intersectWorkflowLivePolicy p r)) =
      set (lp_ignored (intersectWorkflowLivePolicy q r))"
    if "\<not> lp_reviewsBlocked (intersectWorkflowLivePolicy p r)"
    using that eqs by (simp add: intersect_ignored) (auto simp: intersect_policy_simps)
  with eqs blocked show ?thesis
    unfolding same_policy_def by (auto simp: intersect_policy_simps(1-7))
qed

lemma same_policy_meet_right_comm:
  "same_policy (intersectWorkflowLivePolicy (intersectWorkflowLivePolicy p q) r)
     (intersectWorkflowLivePolicy (intersectWorkflowLivePolicy p r) q)"
  unfolding same_policy_def
  by (auto simp: intersect_policy_simps(1-7) blocked_meet3 ignored_meet3 Un_ac)

interpretation lp: policy_restriction
  "\<lambda>p i. workflowLivePolicyAllows p (fst i) (snd i)" intersectWorkflowLivePolicy same_policy
proof unfold_locales
  show "same_policy p p" for p by (simp add: same_policy_def)
  show "same_policy p q \<Longrightarrow> same_policy q p" for p q by (auto simp: same_policy_def)
  show "same_policy p q \<Longrightarrow> same_policy q r \<Longrightarrow> same_policy p r" for p q r
    by (auto simp: same_policy_def)
qed (fact same_policy_allows same_policy_meet_cong same_policy_meet_right_comm intersect_narrows)+

section \<open>Policies of valid configurations\<close>

lemma policy_source_ok:
  assumes "enterpriseIntegrationSchema integration" and "m \<in> set (in_storeMappings integration)"
  shows "is_ok (policy_source integration m)"
proof -
  from assms(2) have "sm_source m \<in> set (integration_sources integration)"
    by (simp add: integration_sources_def)
  from integration_valid(3) [OF assms(1) this] show ?thesis
    by (auto simp: policy_source_def find_None_iff split: option.split)
qed

lemma policy_mappings_subset:
  "set (policy_mappings config integration) \<subseteq> set (in_storeMappings integration)"
  by (auto simp: policy_mappings_def split: WorkflowConfiguration.split)

lemma policy_source_key:
  "policy_source integration m = Inr s \<Longrightarrow>
     ps_key s = workflowSourceIdentityKey (sm_source m) \<and> ps_storeName s = sm_storeName m"
  by (auto simp: policy_source_def split: option.splits)

lemma livePolicy_sources:
  assumes "workflowLivePolicy config integration = Inr p" and "s \<in> set (lp_sources p)"
  shows "\<exists>m\<in>set (policy_mappings config integration).
      ps_key s = workflowSourceIdentityKey (sm_source m) \<and> ps_storeName s = sm_storeName m"
  using assms by (fastforce simp: workflowLivePolicy_def res_bind_Inr dest!: res_mapM_set policy_source_key)

section \<open>Properties\<close>

text \<open>
  C12: intersecting live policies only removes reach: whatever the intersection allows, for any
  action and workflow type, both policies allow.
\<close>
theorem intersectWorkflowLivePolicy_narrows:
  assumes "workflowLivePolicyAllows (intersectWorkflowLivePolicy a b) i t"
  shows "workflowLivePolicyAllows a i t \<and> workflowLivePolicyAllows b i t"
  using assms by (rule intersect_narrows)

text \<open>
  A run narrowed by any sequence of configuration changes may do only what its original
  policy and each of the later policies allow.
\<close>
theorem restricted_run_within_every_policy:
  assumes "workflowLivePolicyAllows (foldl intersectWorkflowLivePolicy original changes) i t"
    and "p \<in> insert original (set changes)"
  shows "workflowLivePolicyAllows p i t"
  using lp.foldl_narrows [of original changes "(i, t)"] assms by auto

text \<open>
  The order in which restrictions reach a run does not matter: the decision is the same for
  every permutation of the policies intersected, the cap on ignored reviews included.
\<close>
theorem restriction_order_irrelevant:
  assumes "mset changes = mset changes'"
  shows "workflowLivePolicyAllows (foldl intersectWorkflowLivePolicy original changes) i t =
         workflowLivePolicyAllows (foldl intersectWorkflowLivePolicy original changes') i t"
  using lp.foldl_order_irrelevant [OF assms, of original "(i, t)"] by simp

text \<open>
  The cap on ignored reviews fails closed: an intersection stores at most 2000 ignored
  review keys, and if a key of either side is not among them then reviews are blocked
  altogether.
\<close>
theorem intersect_ignored_bounded:
  "length (lp_ignored (intersectWorkflowLivePolicy a b)) \<le> 2000 \<and>
   (lp_reviewsBlocked (intersectWorkflowLivePolicy a b) \<or>
    set (lp_ignored (intersectWorkflowLivePolicy a b)) = set (lp_ignored a) \<union> set (lp_ignored b))"
  using intersect_policy_simps(9) intersect_ignored by blast

text \<open>
  For a valid integration the policy is always computed: every mapping finds its source
  account, so the non-null assertion on the account never fails.
\<close>
theorem workflowLivePolicy_total:
  assumes "enterpriseIntegrationSchema integration"
  shows "\<exists>p. workflowLivePolicy config integration = Inr p"
proof -
  have "is_ok (res_mapM (policy_source integration) (policy_mappings config integration))"
    using policy_source_ok [OF assms] policy_mappings_subset by (intro res_mapM_ok) blast
  then show ?thesis by (auto simp: is_ok_iff workflowLivePolicy_def)
qed

text \<open>
  C28: under the policy of a valid review configuration a reply may be published only when
  publication is enabled, for a store that is both published and collected, through a channel
  of the configuration, to a source identity the integration maps to that very store, and not
  for a review the configuration ignores.
\<close>
theorem publication_needs_configuration:
  assumes config: "workflowConfigurationSchema z (ReviewConfig c)"
    and policy: "workflowLivePolicy (ReviewConfig c) integration = Inr p"
    and action: "workflowActionIdentitySchema z (ReviewPublishAction v)"
    and allowed: "workflowLivePolicyAllows p (ReviewPublishAction v) t"
  shows "rc_publicationEnabled c \<and> rp_storeName v \<in> set (rc_publicationStores c) \<and>
    rp_storeName v \<in> set (rc_storeNames c) \<and> si_channel (rp_source v) \<in> set (rc_channels c) \<and>
    (\<exists>m. m \<in> set (in_storeMappings integration) \<and> sm_storeName m = rp_storeName v \<and>
       source_identity (sm_source m) = source_identity (rp_source v)) \<and>
    \<not> (\<exists>r. r \<in> set (rc_ignoredReviewIdentities c) \<and>
       source_identity (ig_source r) = source_identity (rp_source v) \<and>
       ig_feedbackId r = rp_feedbackId v)"
proof -
  have fields: "lp_channels p = rc_channels c"
      "lp_publicationStores p = (if rc_publicationEnabled c then rc_publicationStores c else [])"
      "lp_ignored p = map (\<lambda>r. reviewKey (ig_source r) (ig_feedbackId r)) (rc_ignoredReviewIdentities c)"
    using policy by (auto simp: workflowLivePolicy_def res_bind_Inr)
  have checks: "sourceAllowed p [rp_storeName v] (rp_source v) (Some (rp_feedbackId v))"
      "rp_storeName v \<in> set (lp_publicationStores p)"
    using allowed by (auto simp: workflowLivePolicyAllows_def split: if_splits)
  have pub: "rc_publicationEnabled c" "rp_storeName v \<in> set (rc_publicationStores c)"
    using checks(2) by (auto simp: fields split: if_splits)
  moreover have "rp_storeName v \<in> set (rc_storeNames c)"
    using config pub(2)
    by (auto simp: workflowConfigurationSchema_def configuration_issues_def Let_def list_ex_iff
        split: if_splits)
  moreover obtain s where s: "s \<in> set (lp_sources p)" "ps_storeName s = rp_storeName v"
      "ps_key s = workflowSourceIdentityKey (rp_source v)"
    using checks(1) by (auto simp: sourceAllowed_def list_ex_iff)
  from livePolicy_sources [OF policy s(1)] s(2,3) policy_mappings_subset
  have "\<exists>m. m \<in> set (in_storeMappings integration) \<and> sm_storeName m = rp_storeName v \<and>
       source_identity (sm_source m) = source_identity (rp_source v)"
    by (metis sourceIdentityKey_inj subsetD)
  moreover have "rp_feedbackId v \<noteq> []"
    using action by (auto simp: workflowNameSchema_def)
  ultimately show ?thesis
    using checks(1) by (auto simp: sourceAllowed_def fields list_ex_iff image_iff) (metis reviewKey_inj)
qed

section \<open>Witnesses\<close>

definition ex_review_config :: ReviewConfiguration where
  "ex_review_config =
     \<lparr>rc_storeNames = [''north''], rc_ignoredReviewIdentities =
        [\<lparr>ig_source = ex_source, ig_feedbackId = ''f0'', ig_reason = ''r''\<rparr>],
      rc_channels = [ch_meituan], rc_publicationEnabled = True, rc_publicationStores = [''north''],
      rc_brandFacts = [], rc_tone = [],
      rc_draftNotification = \<lparr>mail_enabled = False, mail_recipients = [], mail_allowedSender = None\<rparr>\<rparr>"

definition ex_policy :: WorkflowLivePolicy where
  "ex_policy =
     \<lparr>lp_stores = [''north''], lp_datasets = [ds_business, ds_dishes, ds_in_store_orders, ds_takeaway_orders],
      lp_channels = [ch_meituan], lp_publicationStores = [''north''], lp_senders = [], lp_recipients = [],
      lp_sources = [case policy_source ex_small_integration \<lparr>sm_source = ex_source, sm_storeName = ''north''\<rparr> of
         Inr s \<Rightarrow> s | Inl _ \<Rightarrow> \<lparr>ps_key = [], ps_storeName = [], ps_binding = []\<rparr>],
      lp_ignored = [reviewKey ex_source ''f0''], lp_reviewsBlocked = False\<rparr>"

definition ex_publish :: "string \<Rightarrow> ReviewPublishIdentity" where
  "ex_publish f = \<lparr>rp_storeName = ''north'', rp_source = ex_source, rp_feedbackId = f\<rparr>"

lemma ex_config_valid: "workflowConfigurationSchema ex_formats (ReviewConfig ex_review_config)"
  by (simp add: workflowConfigurationSchema_def configuration_issues_def ex_review_config_def
      ex_source_def ex_formats_def scalar_eval text_eval workflowMailSchema_def
      workflowRecipientsSchema_def json_of_mail_def json_config_base_def)

lemma ex_policy_computed:
  "workflowLivePolicy (ReviewConfig ex_review_config) ex_small_integration = Inr ex_policy"
  by (simp add: workflowLivePolicy_def policy_mappings_def policy_source_def ex_policy_def
      ex_review_config_def ex_small_integration_def ex_source_def)

lemma ex_publish_allowed:
  "workflowLivePolicyAllows ex_policy (ReviewPublishAction (ex_publish ''f1'')) MeituanReviewOperations"
  by (simp add: workflowLivePolicyAllows_def sourceAllowed_def ex_policy_def ex_publish_def
      policy_source_def ex_small_integration_def ex_source_def reviewKey_inj)

lemma ex_publish_allowed_meet:
  "workflowLivePolicyAllows (intersectWorkflowLivePolicy ex_policy ex_policy)
     (ReviewPublishAction (ex_publish ''f1'')) MeituanReviewOperations"
proof -
  have "same_policy (intersectWorkflowLivePolicy ex_policy ex_policy) ex_policy"
    by (simp add: same_policy_def intersect_policy_simps intersect_ignored ex_policy_def)
  from same_policy_allows [OF this] ex_publish_allowed show ?thesis by simp
qed

theorem intersectWorkflowLivePolicy_narrows_witness:
  "workflowLivePolicyAllows ex_policy (ReviewPublishAction (ex_publish ''f1'')) MeituanReviewOperations"
  using intersectWorkflowLivePolicy_narrows [OF ex_publish_allowed_meet] by simp

theorem restricted_run_within_every_policy_witness:
  "workflowLivePolicyAllows ex_policy (ReviewPublishAction (ex_publish ''f1'')) MeituanReviewOperations"
  by (rule restricted_run_within_every_policy [of ex_policy "[ex_policy]"])
    (use ex_publish_allowed_meet in simp_all)

theorem restriction_order_irrelevant_witness:
  "workflowLivePolicyAllows (foldl intersectWorkflowLivePolicy ex_policy
      [ex_policy\<lparr>lp_stores := []\<rparr>, ex_policy]) (ReviewPublishAction (ex_publish ''f1'')) MeituanReviewOperations =
   workflowLivePolicyAllows (foldl intersectWorkflowLivePolicy ex_policy
      [ex_policy, ex_policy\<lparr>lp_stores := []\<rparr>]) (ReviewPublishAction (ex_publish ''f1'')) MeituanReviewOperations"
  by (rule restriction_order_irrelevant) simp

theorem workflowLivePolicy_total_witness:
  "\<exists>p. workflowLivePolicy (ReviewConfig ex_review_config) ex_small_integration = Inr p"
  by (rule workflowLivePolicy_total) (rule ex_small_integration_valid)

theorem publication_needs_configuration_witness:
  "rc_publicationEnabled ex_review_config \<and> ''north'' \<in> set (rc_publicationStores ex_review_config)"
proof -
  have "workflowActionIdentitySchema ex_formats (ReviewPublishAction (ex_publish ''f1''))"
    by (simp add: ex_publish_def ex_source_def scalar_eval)
  from publication_needs_configuration [OF ex_config_valid ex_policy_computed this ex_publish_allowed]
  show ?thesis by (simp add: ex_publish_def)
qed

end
