(* ===== verification/Structured_Query.thy ===== *)
theory Structured_Query
  imports Json_Text
begin

text \<open>
  The structured query compiler of \<^verbatim>\<open>packages/domain/src/structured-query.ts\<close>: normalization of the
  request body, validation against the dataset registry, signed cursors, and the translation
  to parameterised SQL. One definition per function of the source, in its order of checks; a
  thrown \<open>StructuredQueryValidationError\<close> is \<open>Inl (SQ code message)\<close> and any other
  exception \<open>Inl (Uncaught message)\<close>.

  The platform functions the compiler calls (SHA-256, HMAC, base64url, JSON parsing, date
  parsing, locale order, printing of fractions) are the fields of \<open>js_runtime\<close>.
\<close>

section \<open>The platform\<close>

record js_runtime =
  rt_num :: "rat \<Rightarrow> string"
  rt_sha256hex :: "string \<Rightarrow> string"
  rt_hmac_base64url :: "string \<Rightarrow> string \<Rightarrow> string"
  rt_toBase64url :: "string \<Rightarrow> string"
  rt_fromBase64url :: "string \<Rightarrow> string"
  rt_jsonParse :: "string \<Rightarrow> json option"
  rt_dateParses :: "string \<Rightarrow> bool"
  rt_localeLe :: "string \<Rightarrow> string \<Rightarrow> bool"

datatype Phase3ErrorCode =
    invalidQuery | invalidField | unsupportedOperator | unsupportedCapability | typeMismatch
  | invalidAggregation | limitExceeded | invalidCursor | cursorExpired
  | datasetRequiresPartitionExtract | ledgerDetailDisabled | datasetForbidden

datatype sq_error = SQ Phase3ErrorCode string | Uncaught string

section \<open>The dataset registry\<close>

datatype StructuredFieldType =
  ty_string | ty_date | ty_date_time | ty_time_range | ty_integer | ty_decimal | ty_percent | ty_boolean

record StructuredFieldCapabilities =
  cap_filter :: bool
  cap_sort :: bool
  cap_group :: bool
  cap_aggregate :: bool

datatype StructuredRowTableName =
  vip_rows | dish_catalog_rows | delivery_ledger_rows | supplier_catalog_rows

fun table_text :: "StructuredRowTableName \<Rightarrow> string" where
  "table_text vip_rows = ''vip_rows''"
| "table_text dish_catalog_rows = ''dish_catalog_rows''"
| "table_text delivery_ledger_rows = ''delivery_ledger_rows''"
| "table_text supplier_catalog_rows = ''supplier_catalog_rows''"

datatype StorageColumn = col_payload | col_source_document_id

record StructuredFieldStorageMapping =
  st_table :: StructuredRowTableName
  st_column :: StorageColumn
  st_jsonPath :: "string option"

datatype InputSource = from_file | from_upload_metadata | from_derived | from_dynamic_lookup

record StructuredFieldRegistryEntry =
  f_canonicalName :: string
  f_sourceColumn :: string
  f_aliases :: "string list"
  f_type :: StructuredFieldType
  f_nullable :: bool
  f_inputSource :: InputSource
  f_defaultReturn :: bool
  f_operators :: "string list"
  f_capabilities :: StructuredFieldCapabilities
  f_storage :: "StructuredFieldStorageMapping option"

datatype AccessMode = partition_extract | row_query | catalog_query

record StructuredDatasetRegistry =
  r_dataset :: string
  r_accessMode :: AccessMode
  r_rowTable :: "StructuredRowTableName option"
  r_fields :: "StructuredFieldRegistryEntry list"

definition STRUCTURED_DATASETS :: "string list" where
  "STRUCTURED_DATASETS =
    [''dishes'', ''business'', ''vip'', ''dish_catalog'', ''delivery_ledger'', ''supplier_catalog'',
     ''cost_cards'', ''in_store_orders'', ''takeaway_orders'']"

section \<open>Queries\<close>

record query_limits =
  ql_defaultLimit :: int
  ql_maxRows :: int
  ql_maxAggregateGroups :: int
  ql_maxBooleanDepth :: nat
  ql_maxConditions :: nat
  ql_maxInValues :: nat
  ql_maxSortFields :: nat
  ql_maxGroupByFields :: nat
  ql_maxAggregates :: nat
  ql_maxSelectedFields :: nat
  ql_cursorTtlSeconds :: int

definition STRUCTURED_QUERY_LIMITS :: query_limits where
  "STRUCTURED_QUERY_LIMITS =
    \<lparr>ql_defaultLimit = 50, ql_maxRows = 200, ql_maxAggregateGroups = 200, ql_maxBooleanDepth = 3,
     ql_maxConditions = 20, ql_maxInValues = 100, ql_maxSortFields = 2, ql_maxGroupByFields = 4,
     ql_maxAggregates = 12, ql_maxSelectedFields = 50, ql_cursorTtlSeconds = 900\<rparr>"

datatype StructuredQueryMode = Detail | Aggregate

text \<open>A condition keeps the value as it was parsed; validation restricts it later.\<close>

datatype FilterNode =
    Cond string string json
  | AndF "FilterNode list"
  | OrF "FilterNode list"
  | NotF FilterNode

datatype SortDirection = Asc | Desc

record SortSpec =
  so_field :: string
  so_direction :: SortDirection

datatype FieldAggregate = agg_countDistinct | agg_sum | agg_avg | agg_min | agg_max

fun field_aggregate_text :: "FieldAggregate \<Rightarrow> string" where
  "field_aggregate_text agg_countDistinct = ''countDistinct''"
| "field_aggregate_text agg_sum = ''sum''"
| "field_aggregate_text agg_avg = ''avg''"
| "field_aggregate_text agg_min = ''min''"
| "field_aggregate_text agg_max = ''max''"

text \<open>The operation, the fields and the alias (\<open>as\<close>).\<close>

datatype AggregateSpec =
    AggCount "string option" "string option"
  | AggField FieldAggregate string "string option"
  | AggWeighted string string "string option"

record NormalizedQuery =
  q_dataset :: string
  q_select :: "string list"
  q_filter :: "FilterNode option"
  q_sort :: "SortSpec list"
  q_limit :: js_number
  q_cursor :: "string option"
  q_groupBy :: "string list"
  q_aggregates :: "AggregateSpec list"

datatype sql_param = PStr string | PNum js_number

record SqlFragment =
  frag_sql :: string
  frag_params :: "sql_param list"

record BusinessAuthorizationSql =
  ba_version :: string
  ba_sql :: string
  ba_params :: "sql_param list"

text \<open>\<open>in_now\<close> is the clock in milliseconds, as \<open>Date.getTime\<close> gives it.\<close>

record CompileInput =
  in_orgId :: string
  in_employeeId :: "string option"
  in_clearance :: js_number
  in_cursorSecret :: string
  in_now :: int
  in_businessAuthorization :: "BusinessAuthorizationSql option"

record StructuredCompiledQuery =
  cq_dataset :: string
  cq_mode :: StructuredQueryMode
  cq_sql :: string
  cq_params :: "sql_param list"
  cq_selectedFields :: "string list"
  cq_dynamicSelectedFields :: "string list"
  cq_aggregateAliases :: "string list"
  cq_limit :: js_number
  cq_offset :: js_number
  cq_shapeHash :: string
  cq_scopeOrgId :: string
  cq_scopeEmployeeId :: "string option"
  cq_scopeClearance :: js_number

section \<open>Normalization\<close>

definition rejectUnknownKeys :: "json js_object \<Rightarrow> string list \<Rightarrow> sq_error + unit" where
  "rejectUnknownKeys object allowedKeys =
     res_forM (\<lambda>key. res_guard (key \<notin> set allowedKeys)
       (SQ invalidQuery ''Query contains unsupported keys.'')) (obj_keys object)"

definition requirePlainObject :: "json \<Rightarrow> string \<Rightarrow> sq_error + json js_object" where
  "requirePlainObject input message =
     (case input of JObj o' \<Rightarrow> Inr o' | _ \<Rightarrow> Inl (SQ invalidQuery message))"

fun json_strings :: "json list \<Rightarrow> string list option" where
  "json_strings [] = Some []"
| "json_strings (JStr s # xs) = map_option ((#) s) (json_strings xs)"
| "json_strings (_ # xs) = None"

definition normalizeStringArray :: "json option \<Rightarrow> string \<Rightarrow> nat \<Rightarrow> bool \<Rightarrow> sq_error + string list" where
  "normalizeStringArray input name maxLen required =
     (case input of
        None \<Rightarrow> if required then Inl (SQ invalidQuery (name @ '' is required.'')) else Inr []
      | Some v \<Rightarrow>
          (case (case v of JArr xs \<Rightarrow> json_strings xs | _ \<Rightarrow> None) of
             None \<Rightarrow> Inl (SQ invalidQuery (name @ '' must be a string array.''))
           | Some ss \<Rightarrow>
               if length ss > maxLen
               then Inl (SQ limitExceeded (name @ '' exceeds the allowed limit.''))
               else Inr (js_uniq (filter (\<lambda>s. s \<noteq> []) (map js_trim ss)))))"

text \<open>\<open>object[key] ?? fallback\<close>: absent and \<open>null\<close> give the fallback.\<close>

definition get_or :: "json js_object \<Rightarrow> string \<Rightarrow> json \<Rightarrow> json" where
  "get_or object key fallback =
     (case obj_get object key of None \<Rightarrow> fallback | Some JNull \<Rightarrow> fallback | Some v \<Rightarrow> v)"

definition normalizeSortItem :: "json \<Rightarrow> sq_error + SortSpec" where
  "normalizeSortItem item =
     res_bind (requirePlainObject item ''sort item must be an object.'') (\<lambda>object.
     res_bind (rejectUnknownKeys object [''field'', ''direction'']) (\<lambda>_.
     let direction = get_or object ''direction'' (JStr ''asc'') in
     case obj_get object ''field'' of
       Some (JStr field) \<Rightarrow>
         if direction = JStr ''asc'' then Inr \<lparr>so_field = field, so_direction = Asc\<rparr>
         else if direction = JStr ''desc'' then Inr \<lparr>so_field = field, so_direction = Desc\<rparr>
         else Inl (SQ invalidQuery ''sort item is invalid.'')
     | _ \<Rightarrow> Inl (SQ invalidQuery ''sort item is invalid.'')))"

definition normalizeSort :: "json option \<Rightarrow> sq_error + SortSpec list" where
  "normalizeSort input =
     (case input of
        None \<Rightarrow> Inr []
      | Some (JArr xs) \<Rightarrow>
          if length xs > ql_maxSortFields STRUCTURED_QUERY_LIMITS
          then Inl (SQ limitExceeded ''sort exceeds the allowed limit.'')
          else res_mapM normalizeSortItem xs
      | Some _ \<Rightarrow> Inl (SQ invalidQuery ''sort must be an array.''))"

definition normalizePage :: "json option \<Rightarrow> StructuredQueryMode \<Rightarrow> sq_error + (js_number \<times> string option)" where
  "normalizePage input mode =
     (case input of
        None \<Rightarrow> Inr (js_num (ql_defaultLimit STRUCTURED_QUERY_LIMITS), None)
      | Some v \<Rightarrow>
          res_bind (requirePlainObject v ''page must be an object.'') (\<lambda>object.
          res_bind (rejectUnknownKeys object [''limit'', ''cursor'']) (\<lambda>_.
          let limit = get_or object ''limit'' (JNum (js_num (ql_defaultLimit STRUCTURED_QUERY_LIMITS)));
              cursor = get_or object ''cursor'' JNull;
              maxLimit = (if mode = Aggregate then ql_maxAggregateGroups STRUCTURED_QUERY_LIMITS
                          else ql_maxRows STRUCTURED_QUERY_LIMITS)
          in case limit of
            JNum n \<Rightarrow>
              if \<not> js_isInteger n \<or> js_lt n (js_num 1) \<or> js_lt (js_num maxLimit) n
              then Inl (SQ limitExceeded ''Page limit exceeds the allowed limit.'')
              else (case cursor of
                      JNull \<Rightarrow> Inr (n, None)
                    | JStr c \<Rightarrow> Inr (n, Some c)
                    | _ \<Rightarrow> Inl (SQ invalidCursor ''Cursor is invalid.''))
          | _ \<Rightarrow> Inl (SQ limitExceeded ''Page limit exceeds the allowed limit.''))))"

text \<open>\<open>/^[a-z][a-z0-9_]{0,63}$/\<close> and \<open>/^[a-zA-Z][a-zA-Z0-9_]{0,63}$/\<close>.\<close>

definition isSafeAlias :: "string \<Rightarrow> bool" where
  "isSafeAlias v =
     (case v of
        [] \<Rightarrow> False
      | c # cs \<Rightarrow> is_lower c \<and> length cs \<le> 63 \<and>
          list_all (\<lambda>d. is_lower d \<or> is_digit d \<or> d = CHR ''_'') cs)"

definition safe_identifier :: "string \<Rightarrow> bool" where
  "safe_identifier v =
     (case v of
        [] \<Rightarrow> False
      | c # cs \<Rightarrow> (is_lower c \<or> is_upper c) \<and> length cs \<le> 63 \<and>
          list_all (\<lambda>d. is_lower d \<or> is_upper d \<or> is_digit d \<or> d = CHR ''_'') cs)"

definition quoteIdentifier :: "string \<Rightarrow> sq_error + string" where
  "quoteIdentifier identifier =
     (if safe_identifier identifier then Inr (CHR 0x60 # identifier @ [CHR 0x60])
      else Inl (SQ invalidQuery ''Identifier is not allowed.''))"

fun field_aggregate_of :: "string \<Rightarrow> FieldAggregate option" where
  "field_aggregate_of op =
     (if op = ''countDistinct'' then Some agg_countDistinct
      else if op = ''sum'' then Some agg_sum
      else if op = ''avg'' then Some agg_avg
      else if op = ''min'' then Some agg_min
      else if op = ''max'' then Some agg_max
      else None)"

definition AGGREGATE_OPERATORS :: "string list" where
  "AGGREGATE_OPERATORS =
     [''count'', ''countDistinct'', ''sum'', ''avg'', ''min'', ''max'', ''weightedAvg'']"

definition normalizeAggregate :: "json \<Rightarrow> sq_error + AggregateSpec" where
  "normalizeAggregate item =
     res_bind (requirePlainObject item ''aggregate item must be an object.'') (\<lambda>object.
     let field = obj_get object ''field''; weightField = obj_get object ''weightField'';
         alias = obj_get object ''as'' in
     case obj_get object ''op'' of
       Some (JStr op) \<Rightarrow>
         if op \<notin> set AGGREGATE_OPERATORS
         then Inl (SQ invalidAggregation ''Aggregate operator is invalid.'')
         else
           res_bind (case alias of
               None \<Rightarrow> Inr None
             | Some (JStr a) \<Rightarrow>
                 if isSafeAlias a then Inr (Some a)
                 else Inl (SQ invalidAggregation ''Aggregate alias is invalid.'')
             | Some _ \<Rightarrow> Inl (SQ invalidAggregation ''Aggregate alias is invalid.'')) (\<lambda>as'.
           if op = ''count'' then
             res_bind (rejectUnknownKeys object [''op'', ''field'', ''as'']) (\<lambda>_.
             case field of
               None \<Rightarrow> Inr (AggCount None as')
             | Some (JStr f) \<Rightarrow>
                 if f = [] then Inl (SQ invalidAggregation ''Aggregate field is invalid.'')
                 else Inr (AggCount (Some f) as')
             | Some _ \<Rightarrow> Inl (SQ invalidAggregation ''Aggregate field is invalid.''))
           else if op = ''weightedAvg'' then
             res_bind (rejectUnknownKeys object [''op'', ''field'', ''weightField'', ''as'']) (\<lambda>_.
             case (field, weightField) of
               (Some (JStr f), Some (JStr w)) \<Rightarrow> Inr (AggWeighted f w as')
             | _ \<Rightarrow> Inl (SQ invalidAggregation ''Weighted aggregate fields are required.''))
           else (case field_aggregate_of op of
               Some fop \<Rightarrow>
                 res_bind (rejectUnknownKeys object [''op'', ''field'', ''as'']) (\<lambda>_.
                 case field of
                   Some (JStr f) \<Rightarrow> Inr (AggField fop f as')
                 | _ \<Rightarrow> Inl (SQ invalidAggregation ''Aggregate field is required.''))
             | None \<Rightarrow> Inl (SQ invalidAggregation ''Aggregate operator is invalid.'')))
     | _ \<Rightarrow> Inl (SQ invalidAggregation ''Aggregate operator is invalid.''))"

definition normalizeAggregates :: "json option \<Rightarrow> sq_error + AggregateSpec list" where
  "normalizeAggregates input =
     (case input of
        None \<Rightarrow> Inr []
      | Some (JArr xs) \<Rightarrow>
          if length xs > ql_maxAggregates STRUCTURED_QUERY_LIMITS
          then Inl (SQ limitExceeded ''aggregates exceeds the allowed limit.'')
          else res_mapM normalizeAggregate xs
      | Some _ \<Rightarrow> Inl (SQ invalidAggregation ''aggregates must be an array.''))"

function normalizeFilter :: "json \<Rightarrow> nat \<Rightarrow> sq_error + (FilterNode \<times> nat)" where
  "normalizeFilter input depth =
     (if depth > ql_maxBooleanDepth STRUCTURED_QUERY_LIMITS
      then Inl (SQ limitExceeded ''Filter boolean depth exceeds the allowed limit.'')
      else res_bind (requirePlainObject input ''filter must be an object.'') (\<lambda>object.
        let keys = obj_keys object in
        if ''and'' \<in> set keys \<or> ''or'' \<in> set keys then
          (if length keys \<noteq> 1 then Inl (SQ invalidQuery ''Boolean filter is invalid.'')
           else let key = hd keys in
             case obj_get object key of
               Some (JArr (v # vs)) \<Rightarrow>
                 res_bind (res_mapM (\<lambda>val. normalizeFilter val (Suc depth)) (v # vs)) (\<lambda>children.
                 let count = sum_list (map snd children) in
                 if count > ql_maxConditions STRUCTURED_QUERY_LIMITS
                 then Inl (SQ limitExceeded ''Filter condition count exceeds the allowed limit.'')
                 else Inr (if key = ''and'' then AndF (map fst children) else OrF (map fst children),
                           count))
             | _ \<Rightarrow> Inl (SQ invalidQuery ''Boolean filter is empty.''))
        else if ''not'' \<in> set keys then
          (if length keys \<noteq> 1 then Inl (SQ invalidQuery ''Not filter is invalid.'')
           else case obj_get object ''not'' of
               None \<Rightarrow> Inl (SQ invalidQuery ''filter must be an object.'')
             | Some val \<Rightarrow>
                 res_bind (normalizeFilter val (Suc depth)) (\<lambda>child. Inr (NotF (fst child), snd child)))
        else if ''field'' \<notin> set keys \<or> ''op'' \<notin> set keys \<or> ''value'' \<notin> set keys
        then Inl (SQ invalidQuery ''Field condition is invalid.'')
        else if list_ex (\<lambda>key. key \<notin> set [''field'', ''op'', ''value'']) keys
        then Inl (SQ invalidQuery ''Field condition has unsupported keys.'')
        else case (obj_get object ''field'', obj_get object ''op'', obj_get object ''value'') of
               (Some (JStr field), Some (JStr op), Some val) \<Rightarrow> Inr (Cond field op val, 1)
             | _ \<Rightarrow> Inl (SQ invalidQuery ''Field condition is invalid.'')))"
  by pat_completeness auto
termination
  by (relation "measure (\<lambda>(_, depth). 4 - depth)") (auto simp: STRUCTURED_QUERY_LIMITS_def)

declare normalizeFilter.simps [simp del]

definition normalize_dataset :: "json option \<Rightarrow> sq_error + string" where
  "normalize_dataset input =
     (case input of
        Some (JStr d) \<Rightarrow>
          if d \<in> set STRUCTURED_DATASETS then Inr d else Inl (SQ invalidQuery ''Dataset is invalid.'')
      | _ \<Rightarrow> Inl (SQ invalidQuery ''Dataset is invalid.''))"

definition mode_of :: "AggregateSpec list \<Rightarrow> string list \<Rightarrow> StructuredQueryMode" where
  "mode_of aggregates groupBy = (if aggregates \<noteq> [] \<or> groupBy \<noteq> [] then Aggregate else Detail)"

definition effective_select :: "string list \<Rightarrow> StructuredQueryMode \<Rightarrow> StructuredDatasetRegistry \<Rightarrow> string list" where
  "effective_select select mode registry =
     (if select \<noteq> [] then select
      else if mode = Detail then map f_canonicalName (filter f_defaultReturn (r_fields registry))
      else [])"

definition normalize_filter_entry :: "json option \<Rightarrow> sq_error + FilterNode option" where
  "normalize_filter_entry input =
     (case input of
        None \<Rightarrow> Inr None
      | Some f \<Rightarrow> res_bind (normalizeFilter f 1) (\<lambda>r. Inr (Some (fst r))))"

definition normalizeQuery ::
  "(string \<Rightarrow> StructuredDatasetRegistry) \<Rightarrow> json \<Rightarrow> StructuredDatasetRegistry option \<Rightarrow> sq_error + NormalizedQuery" where
  "normalizeQuery registries input overrideRegistry =
     res_bind (requirePlainObject input ''Query body must be an object.'') (\<lambda>object.
     res_bind (rejectUnknownKeys object
        [''dataset'', ''select'', ''filter'', ''sort'', ''page'', ''groupBy'', ''aggregates'']) (\<lambda>_.
     res_bind (normalize_dataset (obj_get object ''dataset'')) (\<lambda>dataset.
     let registry = (case overrideRegistry of None \<Rightarrow> registries dataset | Some r \<Rightarrow> r) in
     res_bind (res_guard (r_accessMode registry = partition_extract)
        (SQ datasetRequiresPartitionExtract ''business, dishes, in_store_orders, and takeaway_orders are available through partition extracts, not row queries.'')) (\<lambda>_.
     res_bind (normalizeStringArray (obj_get object ''select'') ''select''
        (ql_maxSelectedFields STRUCTURED_QUERY_LIMITS) False) (\<lambda>select.
     res_bind (normalizeSort (obj_get object ''sort'')) (\<lambda>sort.
     res_bind (normalizeStringArray (obj_get object ''groupBy'') ''groupBy''
        (ql_maxGroupByFields STRUCTURED_QUERY_LIMITS) False) (\<lambda>groupBy.
     res_bind (normalizeAggregates (obj_get object ''aggregates'')) (\<lambda>aggregates.
     let mode = mode_of aggregates groupBy in
     res_bind (normalizePage (obj_get object ''page'') mode) (\<lambda>page.
     res_bind (normalize_filter_entry (obj_get object ''filter'')) (\<lambda>node.
     Inr \<lparr>q_dataset = dataset, q_select = effective_select select mode registry, q_filter = node,
          q_sort = sort, q_limit = fst page, q_cursor = snd page, q_groupBy = groupBy,
          q_aggregates = aggregates\<rparr>))))))))))"

definition query_mode :: "NormalizedQuery \<Rightarrow> StructuredQueryMode" where
  "query_mode query = mode_of (q_aggregates query) (q_groupBy query)"

lemma normalizeQuery_Inr:
  assumes "normalizeQuery registries input override = Inr query"
  shows "\<exists>object select registry.
     registry = (case override of None \<Rightarrow> registries (q_dataset query) | Some r \<Rightarrow> r) \<and>
     requirePlainObject input ''Query body must be an object.'' = Inr object \<and>
     normalize_dataset (obj_get object ''dataset'') = Inr (q_dataset query) \<and>
     r_accessMode registry \<noteq> partition_extract \<and>
     normalizeStringArray (obj_get object ''select'') ''select'' 50 False = Inr select \<and>
     q_select query = effective_select select (query_mode query) registry \<and>
     normalizeStringArray (obj_get object ''groupBy'') ''groupBy'' 4 False = Inr (q_groupBy query) \<and>
     normalizeSort (obj_get object ''sort'') = Inr (q_sort query) \<and>
     normalizeAggregates (obj_get object ''aggregates'') = Inr (q_aggregates query) \<and>
     normalizePage (obj_get object ''page'') (query_mode query) = Inr (q_limit query, q_cursor query) \<and>
     normalize_filter_entry (obj_get object ''filter'') = Inr (q_filter query)"
  using assms
  unfolding normalizeQuery_def res_bind_Inr Let_def STRUCTURED_QUERY_LIMITS_def query_mode_def
  by (cases override) auto

section \<open>Validation\<close>

type_synonym field_map = "string \<Rightarrow> StructuredFieldRegistryEntry option"

text \<open>\<open>new Map(registry.fields.map(...))\<close>: a later field of the same name replaces an earlier one.\<close>

definition registry_fields :: "StructuredFieldRegistryEntry list \<Rightarrow> field_map" where
  "registry_fields fs = map_of (rev (map (\<lambda>f. (f_canonicalName f, f)) fs))"

definition requireField :: "field_map \<Rightarrow> string \<Rightarrow> sq_error + StructuredFieldRegistryEntry" where
  "requireField fieldMap fieldName =
     (case fieldMap fieldName of
        None \<Rightarrow> Inl (SQ invalidField ''Field is not in the dataset registry.'')
      | Some f \<Rightarrow> Inr f)"

definition requireStorage :: "StructuredFieldRegistryEntry \<Rightarrow> sq_error + StructuredFieldStorageMapping" where
  "requireStorage field =
     (case f_storage field of
        None \<Rightarrow> Inl (Uncaught (''Field '' @ f_canonicalName field @ '' does not have row storage.''))
      | Some s \<Rightarrow> Inr s)"

text \<open>\<open>!storage.jsonPath\<close> holds of a missing and of an empty path.\<close>

definition requireJsonPath :: "StructuredFieldRegistryEntry \<Rightarrow> sq_error + string" where
  "requireJsonPath field =
     res_bind (requireStorage field) (\<lambda>storage.
     case st_jsonPath storage of
       Some p \<Rightarrow> if p = [] then Inl (SQ unsupportedCapability ''Field does not use JSON payload storage.'') else Inr p
     | None \<Rightarrow> Inl (SQ unsupportedCapability ''Field does not use JSON payload storage.''))"

definition is_numeric :: "StructuredFieldType \<Rightarrow> bool" where
  "is_numeric t \<longleftrightarrow> t \<in> {ty_integer, ty_decimal, ty_percent}"

fun aggregate_field :: "AggregateSpec \<Rightarrow> string option" where
  "aggregate_field (AggCount f _) = f"
| "aggregate_field (AggField _ f _) = Some f"
| "aggregate_field (AggWeighted f _ _) = Some f"

fun aggregate_as :: "AggregateSpec \<Rightarrow> string option" where
  "aggregate_as (AggCount _ a) = a"
| "aggregate_as (AggField _ _ a) = a"
| "aggregate_as (AggWeighted _ _ a) = a"

fun aggregate_op_text :: "AggregateSpec \<Rightarrow> string" where
  "aggregate_op_text (AggCount _ _) = ''count''"
| "aggregate_op_text (AggField op _ _) = field_aggregate_text op"
| "aggregate_op_text (AggWeighted _ _ _) = ''weightedAvg''"

text \<open>\<open>aggregate.field ? ... : "count"\<close> takes the second branch for an empty name.\<close>

definition aggregateAlias :: "AggregateSpec \<Rightarrow> string" where
  "aggregateAlias aggregate =
     (case aggregate_as aggregate of
        Some a \<Rightarrow> a
      | None \<Rightarrow>
          (case aggregate_field aggregate of
             None \<Rightarrow> ''count''
           | Some f \<Rightarrow> if f = [] then ''count'' else aggregate_op_text aggregate @ ''_'' @ f))"

definition validateSelectedFields :: "NormalizedQuery \<Rightarrow> field_map \<Rightarrow> StructuredQueryMode \<Rightarrow> sq_error + unit" where
  "validateSelectedFields query fieldMap mode =
     res_bind (res_guard (mode = Aggregate \<and> q_select query \<noteq> [])
        (SQ invalidQuery ''select cannot be used with aggregate queries.'')) (\<lambda>_.
     res_bind (res_forM (\<lambda>n. res_bind (requireField fieldMap n) (\<lambda>_. Inr ())) (q_select query)) (\<lambda>_.
     res_forM (\<lambda>n. res_bind (requireField fieldMap n) (\<lambda>field.
        res_guard (\<not> cap_group (f_capabilities field))
          (SQ unsupportedCapability ''Field does not support grouping.''))) (q_groupBy query)))"

definition validateWeightedAggregateField :: "StructuredFieldRegistryEntry \<Rightarrow> sq_error + unit" where
  "validateWeightedAggregateField field =
     res_bind (requireStorage field) (\<lambda>storage.
     res_guard (st_column storage \<noteq> col_payload \<or> \<not> cap_aggregate (f_capabilities field) \<or>
         \<not> is_numeric (f_type field))
       (SQ unsupportedCapability ''Field does not support weighted aggregation.''))"

fun validateAggregate :: "field_map \<Rightarrow> AggregateSpec \<Rightarrow> sq_error + unit" where
  "validateAggregate fieldMap (AggCount f _) =
     (case f of
        None \<Rightarrow> Inr ()
      | Some name \<Rightarrow>
          if name = [] then Inr ()
          else res_bind (requireField fieldMap name) (\<lambda>field.
            res_guard (\<not> cap_aggregate (f_capabilities field) \<and> \<not> cap_group (f_capabilities field))
              (SQ unsupportedCapability ''Field does not support counting.'')))"
| "validateAggregate fieldMap (AggField op name _) =
     res_bind (requireField fieldMap name) (\<lambda>field.
     if op = agg_countDistinct
     then res_guard (\<not> cap_group (f_capabilities field) \<and> \<not> cap_aggregate (f_capabilities field))
            (SQ unsupportedCapability ''Field does not support countDistinct.'')
     else res_guard (\<not> cap_aggregate (f_capabilities field))
            (SQ unsupportedCapability ''Field does not support aggregation.''))"
| "validateAggregate fieldMap (AggWeighted name weight _) =
     res_bind (requireField fieldMap name) (\<lambda>field.
     res_bind (validateWeightedAggregateField field) (\<lambda>_.
     res_bind (requireField fieldMap weight) (\<lambda>weightField.
     validateWeightedAggregateField weightField)))"

fun requireUniqueAggregateAliases :: "string list \<Rightarrow> AggregateSpec list \<Rightarrow> sq_error + unit" where
  "requireUniqueAggregateAliases seen [] = Inr ()"
| "requireUniqueAggregateAliases seen (a # as) =
     (if aggregateAlias a \<in> set seen
      then Inl (SQ invalidAggregation ''Aggregate aliases must be unique.'')
      else requireUniqueAggregateAliases (aggregateAlias a # seen) as)"

definition validateAggregates :: "NormalizedQuery \<Rightarrow> field_map \<Rightarrow> sq_error + unit" where
  "validateAggregates query fieldMap =
     res_bind (res_guard (q_groupBy query \<noteq> [] \<and> q_aggregates query = [])
        (SQ invalidAggregation ''Aggregate queries require at least one aggregate.'')) (\<lambda>_.
     res_bind (res_forM (validateAggregate fieldMap) (q_aggregates query)) (\<lambda>_.
     requireUniqueAggregateAliases (q_groupBy query) (q_aggregates query)))"

definition validateSort :: "NormalizedQuery \<Rightarrow> field_map \<Rightarrow> StructuredQueryMode \<Rightarrow> sq_error + unit" where
  "validateSort query fieldMap mode =
     (if mode = Aggregate then
        res_bind (requireUniqueAggregateAliases (q_groupBy query) (q_aggregates query)) (\<lambda>_.
        res_forM (\<lambda>item. res_guard
           (so_field item \<notin> set (q_groupBy query) \<and>
            so_field item \<notin> set (map aggregateAlias (q_aggregates query)))
           (SQ invalidField ''Aggregate sort field must be a group field or aggregate alias.''))
          (q_sort query))
      else
        res_forM (\<lambda>item. res_bind (requireField fieldMap (so_field item)) (\<lambda>field.
          res_guard (\<not> cap_sort (f_capabilities field))
            (SQ unsupportedCapability ''Field does not support sorting.''))) (q_sort query))"

definition validateScalarType :: "js_runtime \<Rightarrow> StructuredFieldType \<Rightarrow> json \<Rightarrow> sq_error + unit" where
  "validateScalarType rt t v =
     (case v of
        JNull \<Rightarrow> Inr ()
      | _ \<Rightarrow>
          if is_numeric t then
            (case v of
               JNum n \<Rightarrow> res_guard (\<not> js_isFinite n) (SQ typeMismatch ''Numeric value is required.'')
             | _ \<Rightarrow> Inl (SQ typeMismatch ''Numeric value is required.''))
          else
            (case v of
               JStr s \<Rightarrow>
                 if length s > 32767
                 then Inl (SQ limitExceeded ''String value exceeds the allowed limit.'')
                 else res_guard ((t = ty_date \<or> t = ty_date_time) \<and> \<not> rt_dateParses rt s)
                        (SQ typeMismatch ''Date value is invalid.'')
             | _ \<Rightarrow> Inl (SQ typeMismatch ''String value is required.'')))"

definition validateConditionValue ::
  "js_runtime \<Rightarrow> StructuredFieldRegistryEntry \<Rightarrow> string \<Rightarrow> json \<Rightarrow> sq_error + unit" where
  "validateConditionValue rt field op v =
     (if op = ''between'' then
        (case v of
           JArr [a, b] \<Rightarrow> res_forM (validateScalarType rt (f_type field)) [a, b]
         | _ \<Rightarrow> Inl (SQ typeMismatch ''between requires two values.''))
      else if op = ''in'' then
        (case v of
           JArr xs \<Rightarrow>
             if length xs > ql_maxInValues STRUCTURED_QUERY_LIMITS
             then Inl (SQ limitExceeded ''in value count exceeds the allowed limit.'')
             else res_forM (validateScalarType rt (f_type field)) xs
         | _ \<Rightarrow> Inl (SQ typeMismatch ''in requires an array.''))
      else (case v of
           JArr _ \<Rightarrow> Inl (SQ typeMismatch ''Operator requires one scalar value.'')
         | _ \<Rightarrow> validateScalarType rt (f_type field) v))"

fun validateFilter :: "js_runtime \<Rightarrow> field_map \<Rightarrow> FilterNode \<Rightarrow> sq_error + unit" where
  "validateFilter rt fieldMap (AndF nodes) = res_forM (validateFilter rt fieldMap) nodes"
| "validateFilter rt fieldMap (OrF nodes) = res_forM (validateFilter rt fieldMap) nodes"
| "validateFilter rt fieldMap (NotF node) = validateFilter rt fieldMap node"
| "validateFilter rt fieldMap (Cond name op v) =
     res_bind (requireField fieldMap name) (\<lambda>field.
     res_bind (res_guard (\<not> cap_filter (f_capabilities field))
        (SQ unsupportedCapability ''Field does not support filtering.'')) (\<lambda>_.
     res_bind (res_guard (op \<notin> set (f_operators field))
        (SQ unsupportedOperator ''Operator is not supported for this field.'')) (\<lambda>_.
     validateConditionValue rt field op v)))"

definition normalizeStructuredDirectoryQuery ::
  "(string \<Rightarrow> StructuredDatasetRegistry) \<Rightarrow> json \<Rightarrow> StructuredDatasetRegistry \<Rightarrow> sq_error + NormalizedQuery" where
  "normalizeStructuredDirectoryQuery registries input registry =
     res_bind (normalizeQuery registries input (Some registry)) (\<lambda>query.
     res_bind (res_guard (q_dataset query \<noteq> r_dataset registry \<or> q_groupBy query \<noteq> [] \<or> q_aggregates query \<noteq> [])
        (SQ unsupportedCapability ''This dataset supports directory detail queries only.'')) (\<lambda>_.
     let fieldMap = registry_fields (r_fields registry) in
     res_bind (validateSelectedFields query fieldMap Detail) (\<lambda>_.
     res_bind (validateSort query fieldMap Detail) (\<lambda>_. Inr query))))"

end
