(* ===== verification/Structured_Cursor.thy ===== *)
theory Structured_Cursor
  imports Structured_Query
begin

text \<open>
  The signed cursors and the query shape hash of \<^verbatim>\<open>packages/domain/src/structured-query.ts\<close>: the
  key-sorted JSON text, the hash of a query's shape and of its caller, and the creation and
  verification of cursors. A JavaScript value that is hashed or signed is a \<open>shape\<close>, which has
  \<open>undefined\<close> beside the JSON values.
\<close>

section \<open>Key-sorted JSON\<close>

datatype shape =
    SUndef
  | SNull
  | SBool bool
  | SNum js_number
  | SStr string
  | SArr "shape list"
  | SObj "(string \<times> shape) list"

fun shape_of_json :: "json \<Rightarrow> shape" where
  "shape_of_json JNull = SNull"
| "shape_of_json (JBool b) = SBool b"
| "shape_of_json (JNum n) = SNum n"
| "shape_of_json (JStr s) = SStr s"
| "shape_of_json (JArr xs) = SArr (map shape_of_json xs)"
| "shape_of_json (JObj kvs) = SObj (map (\<lambda>(k, v). (k, shape_of_json v)) kvs)"

text \<open>\<open>Array.prototype.sort\<close> is stable; \<open>le\<close> is \<open>left.localeCompare(right) <= 0\<close>.\<close>

fun insert_entry :: "(string \<Rightarrow> string \<Rightarrow> bool) \<Rightarrow> string \<times> 'a \<Rightarrow> (string \<times> 'a) list \<Rightarrow> (string \<times> 'a) list" where
  "insert_entry le e [] = [e]"
| "insert_entry le e (x # xs) = (if le (fst e) (fst x) then e # x # xs else x # insert_entry le e xs)"

definition sort_entries :: "(string \<Rightarrow> string \<Rightarrow> bool) \<Rightarrow> (string \<times> 'a) list \<Rightarrow> (string \<times> 'a) list" where
  "sort_entries le es = foldr (insert_entry le) es []"

text \<open>The template literal around \<open>JSON.stringify(undefined)\<close> prints \<open>undefined\<close>.\<close>

fun stableJson :: "js_runtime \<Rightarrow> shape \<Rightarrow> string" where
  "stableJson rt (SArr xs) = ''['' @ str_join '','' (map (stableJson rt) xs) @ '']''"
| "stableJson rt (SObj kvs) =
     ''{'' @ str_join '','' (map snd (sort_entries (rt_localeLe rt)
        (map (\<lambda>(k, v). (k, js_quote k @ '':'' @ stableJson rt v)) kvs))) @ ''}''"
| "stableJson rt SUndef = ''undefined''"
| "stableJson rt SNull = ''null''"
| "stableJson rt (SBool b) = (if b then ''true'' else ''false'')"
| "stableJson rt (SNum n) = num_text (rt_num rt) n"
| "stableJson rt (SStr s) = js_quote s"

section \<open>The shape of a query\<close>

fun filter_shape :: "FilterNode \<Rightarrow> shape" where
  "filter_shape (Cond field op v) =
     SObj [(''field'', SStr field), (''op'', SStr op), (''value'', shape_of_json v)]"
| "filter_shape (AndF nodes) = SObj [(''and'', SArr (map filter_shape nodes))]"
| "filter_shape (OrF nodes) = SObj [(''or'', SArr (map filter_shape nodes))]"
| "filter_shape (NotF node) = SObj [(''not'', filter_shape node)]"

definition optional_shape :: "string option \<Rightarrow> shape" where
  "optional_shape v = (case v of None \<Rightarrow> SUndef | Some s \<Rightarrow> SStr s)"

fun aggregate_shape :: "AggregateSpec \<Rightarrow> shape" where
  "aggregate_shape (AggCount f a) =
     SObj [(''op'', SStr ''count''), (''field'', optional_shape f), (''as'', optional_shape a)]"
| "aggregate_shape (AggField op f a) =
     SObj [(''op'', SStr (field_aggregate_text op)), (''field'', SStr f), (''as'', optional_shape a)]"
| "aggregate_shape (AggWeighted f w a) =
     SObj [(''op'', SStr ''weightedAvg''), (''field'', SStr f), (''weightField'', SStr w),
           (''as'', optional_shape a)]"

definition sort_shape :: "SortSpec \<Rightarrow> shape" where
  "sort_shape s =
     SObj [(''field'', SStr (so_field s)),
           (''direction'', SStr (if so_direction s = Asc then ''asc'' else ''desc''))]"

text \<open>\<open>{ ...query, page: { limit, cursor: null } }\<close>\<close>

definition query_shape :: "NormalizedQuery \<Rightarrow> shape" where
  "query_shape query =
     SObj [(''dataset'', SStr (q_dataset query)),
           (''select'', SArr (map SStr (q_select query))),
           (''filter'', case q_filter query of None \<Rightarrow> SNull | Some f \<Rightarrow> filter_shape f),
           (''sort'', SArr (map sort_shape (q_sort query))),
           (''page'', SObj [(''limit'', SNum (q_limit query)), (''cursor'', SNull)]),
           (''groupBy'', SArr (map SStr (q_groupBy query))),
           (''aggregates'', SArr (map aggregate_shape (q_aggregates query)))]"

definition caller_shape :: "CompileInput \<Rightarrow> NormalizedQuery \<Rightarrow> shape" where
  "caller_shape input query =
     SObj ([(''orgId'', SStr (in_orgId input)),
            (''employeeId'', case in_employeeId input of None \<Rightarrow> SNull | Some e \<Rightarrow> SStr e),
            (''clearance'', SNum (in_clearance input))] @
           (case in_businessAuthorization input of
              None \<Rightarrow> []
            | Some b \<Rightarrow> [(''authorizationVersion'', SStr (ba_version b))]) @
           [(''query'', query_shape query)])"

definition hashQueryShape :: "js_runtime \<Rightarrow> shape \<Rightarrow> string" where
  "hashQueryShape rt query = rt_sha256hex rt (stableJson rt query)"

section \<open>Cursors\<close>

definition unsigned_cursor :: "js_number \<Rightarrow> string \<Rightarrow> js_number \<Rightarrow> json js_object" where
  "unsigned_cursor offset shapeHash expiresAt =
     [(''offset'', JNum offset), (''shapeHash'', JStr shapeHash), (''expiresAt'', JNum expiresAt)]"

definition signCursorPayload :: "js_runtime \<Rightarrow> json js_object \<Rightarrow> string \<Rightarrow> string" where
  "signCursorPayload rt payload secret =
     rt_hmac_base64url rt secret (stableJson rt (shape_of_json (JObj payload)))"

text \<open>Byte-wise equality of the UTF-8 texts of two strings is equality of the strings.\<close>

definition safeEqual :: "string \<Rightarrow> string \<Rightarrow> bool" where
  "safeEqual left right \<longleftrightarrow> left = right"

definition now_seconds :: "int \<Rightarrow> int" where
  "now_seconds now = now div 1000"

definition createStructuredCursor :: "js_runtime \<Rightarrow> js_number \<Rightarrow> string \<Rightarrow> string \<Rightarrow> int \<Rightarrow> string" where
  "createStructuredCursor rt offset shapeHash secret now =
     (let expiresAt = js_num (now_seconds now + ql_cursorTtlSeconds STRUCTURED_QUERY_LIMITS);
          unsigned = unsigned_cursor offset shapeHash expiresAt;
          signature = signCursorPayload rt unsigned secret in
      rt_toBase64url rt (json_text (rt_num rt) (JObj (unsigned @ [(''signature'', JStr signature)]))))"

definition cursorChars :: nat where
  "cursorChars = 4096"

text \<open>
  Reading a property of \<open>null\<close> throws a \<open>TypeError\<close>; of a number, a string, a boolean or an
  array it gives \<open>undefined\<close>, as the property names of the payload are not theirs.
\<close>

definition cursor_fields :: "json \<Rightarrow> sq_error + json js_object" where
  "cursor_fields payload =
     (case payload of
        JNull \<Rightarrow> Inl (Uncaught ''Cannot read properties of null'')
      | JObj kvs \<Rightarrow> Inr kvs
      | _ \<Rightarrow> Inr [])"

text \<open>The properties as the type checks read them: a number, a string, or anything else.\<close>

fun as_num :: "json option \<Rightarrow> js_number option" where
  "as_num (Some (JNum n)) = Some n"
| "as_num _ = None"

fun as_str :: "json option \<Rightarrow> string option" where
  "as_str (Some (JStr s)) = Some s"
| "as_str _ = None"

lemma as_num_Some [simp]: "as_num v = Some n \<longleftrightarrow> v = Some (JNum n)"
  by (cases v rule: as_num.cases) auto

lemma as_str_Some [simp]: "as_str v = Some s \<longleftrightarrow> v = Some (JStr s)"
  by (cases v rule: as_str.cases) auto

definition verify_cursor_payload ::
  "js_runtime \<Rightarrow> json js_object \<Rightarrow> string \<Rightarrow> string \<Rightarrow> int \<Rightarrow> sq_error + js_number" where
  "verify_cursor_payload rt p expectedShapeHash secret now =
     (case (as_num (obj_get p ''offset''), as_str (obj_get p ''shapeHash''),
            as_num (obj_get p ''expiresAt''), as_str (obj_get p ''signature'')) of
        (Some offset, Some shapeHash, Some expiresAt, Some signature) \<Rightarrow>
          if \<not> js_isInteger offset \<or> js_lt offset (js_num 0)
          then Inl (SQ invalidCursor ''Cursor is invalid.'')
          else
            let expectedSignature =
              signCursorPayload rt (unsigned_cursor offset shapeHash expiresAt) secret in
            if \<not> safeEqual signature expectedSignature \<or> shapeHash \<noteq> expectedShapeHash
            then Inl (SQ invalidCursor ''Cursor does not match the query shape.'')
            else if js_lt expiresAt (js_num (now_seconds now))
            then Inl (SQ cursorExpired ''Cursor has expired.'')
            else Inr offset
      | _ \<Rightarrow> Inl (SQ invalidCursor ''Cursor is invalid.''))"

definition decodeStructuredCursor ::
  "js_runtime \<Rightarrow> string \<Rightarrow> string \<Rightarrow> string \<Rightarrow> int \<Rightarrow> sq_error + js_number" where
  "decodeStructuredCursor rt cursor expectedShapeHash secret now =
     (if length cursor > cursorChars then Inl (SQ invalidCursor ''Cursor is invalid.'')
      else case rt_jsonParse rt (rt_fromBase64url rt cursor) of
        None \<Rightarrow> Inl (SQ invalidCursor ''Cursor is invalid.'')
      | Some payload \<Rightarrow>
          res_bind (cursor_fields payload) (\<lambda>p. verify_cursor_payload rt p expectedShapeHash secret now))"

section \<open>What a cursor grants\<close>

text \<open>The documented behaviour of the platform on the texts the cursors use.\<close>

definition codec_ok :: "js_runtime \<Rightarrow> string \<Rightarrow> bool" where
  "codec_ok rt text \<longleftrightarrow>
     rt_fromBase64url rt (rt_toBase64url rt text) = text \<and> length (rt_toBase64url rt text) \<le> cursorChars"

definition cursor_payload :: "js_runtime \<Rightarrow> js_number \<Rightarrow> string \<Rightarrow> string \<Rightarrow> js_number \<Rightarrow> json js_object" where
  "cursor_payload rt offset shapeHash secret expiresAt =
     unsigned_cursor offset shapeHash expiresAt @
     [(''signature'', JStr (signCursorPayload rt (unsigned_cursor offset shapeHash expiresAt) secret))]"

lemma obj_get_cursor_payload [simp]:
  "obj_get (cursor_payload rt offset h secret e) ''offset'' = Some (JNum offset)"
  "obj_get (cursor_payload rt offset h secret e) ''shapeHash'' = Some (JStr h)"
  "obj_get (cursor_payload rt offset h secret e) ''expiresAt'' = Some (JNum e)"
  "obj_get (cursor_payload rt offset h secret e) ''signature'' =
     Some (JStr (signCursorPayload rt (unsigned_cursor offset h e) secret))"
  by (simp_all add: cursor_payload_def unsigned_cursor_def obj_get_def)

lemma createStructuredCursor_payload:
  "createStructuredCursor rt offset h secret now =
     rt_toBase64url rt (json_text (rt_num rt) (JObj (cursor_payload rt offset h secret
       (js_num (now_seconds now + 900)))))"
  by (simp add: createStructuredCursor_def cursor_payload_def Let_def STRUCTURED_QUERY_LIMITS_def)

text \<open>A cursor is accepted exactly when it carries this payload.\<close>

lemma verify_cursor_payload_Inr:
  "verify_cursor_payload rt p h secret now = Inr offset \<longleftrightarrow>
     (\<exists>e. obj_get p ''offset'' = Some (JNum offset) \<and> obj_get p ''shapeHash'' = Some (JStr h) \<and>
        obj_get p ''expiresAt'' = Some (JNum e) \<and>
        obj_get p ''signature'' = Some (JStr (signCursorPayload rt (unsigned_cursor offset h e) secret)) \<and>
        js_isInteger offset \<and> \<not> js_lt offset (js_num 0) \<and> \<not> js_lt e (js_num (now_seconds now)))"
  unfolding verify_cursor_payload_def safeEqual_def Let_def
  by (cases "as_num (obj_get p ''offset'')"; cases "as_str (obj_get p ''shapeHash'')";
      cases "as_num (obj_get p ''expiresAt'')"; cases "as_str (obj_get p ''signature'')") auto

lemma decodeStructuredCursor_Inr:
  "decodeStructuredCursor rt cursor h secret now = Inr offset \<longleftrightarrow>
     length cursor \<le> cursorChars \<and>
     (\<exists>p. rt_jsonParse rt (rt_fromBase64url rt cursor) = Some p \<and>
        (\<exists>o'. cursor_fields p = Inr o' \<and> verify_cursor_payload rt o' h secret now = Inr offset))"
  by (auto simp: decodeStructuredCursor_def res_bind_Inr split: option.splits)

lemma cursor_fields_obj:
  assumes "cursor_fields payload = Inr p" and "obj_get p k = Some v"
  shows "payload = JObj p"
  using assms by (cases payload) (auto simp: cursor_fields_def obj_get_def)

text \<open>
  C31: A cursor that was issued for a query shape is accepted for that shape, with its offset,
  from its creation until 900 seconds later, and is refused as expired after that. (The
  platform's base64url decoder and JSON parser are assumed to read back what was written.)\<close>
theorem cursor_round_trip:
  assumes parse: "rt_jsonParse rt (json_text (rt_num rt) (JObj (cursor_payload rt (js_num offset) h secret
              (js_num (now_seconds created + 900))))) =
            Some (JObj (cursor_payload rt (js_num offset) h secret (js_num (now_seconds created + 900))))"
    and codec: "codec_ok rt (json_text (rt_num rt) (JObj (cursor_payload rt (js_num offset) h secret
              (js_num (now_seconds created + 900)))))"
    and nonneg: "0 \<le> offset"
  shows "decodeStructuredCursor rt (createStructuredCursor rt (js_num offset) h secret created) h secret now =
           (if now_seconds now \<le> now_seconds created + 900 then Inr (js_num offset)
            else Inl (SQ cursorExpired ''Cursor has expired.''))"
  using assms
  by (simp add: createStructuredCursor_payload decodeStructuredCursor_def verify_cursor_payload_def
      codec_ok_def cursor_fields_def safeEqual_def not_less Let_def)

text \<open>
  C17: An accepted cursor is authentic: it carries the HMAC, under the server's secret, of
  exactly the offset it grants, the expected shape hash and an expiry that has not passed; and
  the offset is a nonnegative integer.\<close>
theorem decoded_cursor_authentic:
  assumes "decodeStructuredCursor rt cursor h secret now = Inr offset"
  shows "\<exists>i p e. offset = js_num i \<and> 0 \<le> i \<and>
           rt_jsonParse rt (rt_fromBase64url rt cursor) = Some (JObj p) \<and>
           obj_get p ''signature'' = Some (JStr (rt_hmac_base64url rt secret
              (stableJson rt (SObj [(''offset'', SNum offset), (''shapeHash'', SStr h), (''expiresAt'', SNum e)])))) \<and>
           \<not> js_lt e (js_num (now_seconds now))"
proof -
  from assms obtain payload p where p: "rt_jsonParse rt (rt_fromBase64url rt cursor) = Some payload"
    "cursor_fields payload = Inr p" "verify_cursor_payload rt p h secret now = Inr offset"
    by (auto simp: decodeStructuredCursor_Inr)
  then obtain e where e: "obj_get p ''offset'' = Some (JNum offset)"
    "obj_get p ''signature'' = Some (JStr (signCursorPayload rt (unsigned_cursor offset h e) secret))"
    "js_isInteger offset" "\<not> js_lt offset (js_num 0)" "\<not> js_lt e (js_num (now_seconds now))"
    by (auto simp: verify_cursor_payload_Inr)
  moreover from e(3,4) obtain i where "offset = js_num i" "0 \<le> i"
    by (auto simp: js_isInteger_cases)
  moreover have "payload = JObj p"
    using p(2) e(1) by (rule cursor_fields_obj)
  ultimately show ?thesis
    using p(1) by (auto simp: signCursorPayload_def unsigned_cursor_def)
qed

text \<open>
  A cursor whose decoded text is the JSON value \<open>null\<close> is not reported as an invalid cursor:
  reading the offset of the payload throws outside the \<open>try\<close> block, so a caller's malformed
  cursor surfaces as an uncaught \<open>TypeError\<close>.\<close>
theorem null_cursor_uncaught:
  assumes "rt_jsonParse rt (rt_fromBase64url rt cursor) = Some JNull" and "length cursor \<le> 4096"
  shows "decodeStructuredCursor rt cursor h secret now = Inl (Uncaught ''Cannot read properties of null'')"
  using assms by (simp add: decodeStructuredCursor_def cursorChars_def cursor_fields_def)

end
