(* ===== verification/Structured_Compile.thy ===== *)
theory Structured_Compile
  imports Structured_Cursor
begin

text \<open>
  The translation to parameterised SQL of \<^verbatim>\<open>packages/domain/src/structured-query.ts\<close>: projection, base
  table with the tenant and authorization clauses, filter, ordering and paging. The locale
  \<open>filter_compiler\<close> states what the translation of a filter tree owes to the translation of a
  single condition; the row query compiler is an interpretation of it here, the cost-card
  directory compiler another.
\<close>

named_theorems sql_count \<open>placeholder counts of the pieces of SQL text\<close>

section \<open>Pieces of SQL\<close>

text \<open>\<open>Array.filter\<close> with a callback that may throw.\<close>

fun res_filter :: "('a \<Rightarrow> 'e + bool) \<Rightarrow> 'a list \<Rightarrow> 'e + 'a list" where
  "res_filter f [] = Inr []"
| "res_filter f (x # xs) =
     res_bind (f x) (\<lambda>keep. res_bind (res_filter f xs) (\<lambda>ys. Inr (if keep then x # ys else ys)))"

definition jsonValueExpression :: string where
  "jsonValueExpression = ''JSON_UNQUOTE(JSON_EXTRACT(r.payload, ?))''"

definition typedFieldExpression :: "StructuredFieldRegistryEntry \<Rightarrow> string" where
  "typedFieldExpression field =
     (case f_type field of
        ty_boolean \<Rightarrow> ''JSON_EXTRACT(r.payload, ?)''
      | ty_integer \<Rightarrow> ''CAST('' @ jsonValueExpression @ '' AS DECIMAL(20, 6))''
      | ty_decimal \<Rightarrow> ''CAST('' @ jsonValueExpression @ '' AS DECIMAL(20, 6))''
      | ty_percent \<Rightarrow> ''CAST('' @ jsonValueExpression @ '' AS DECIMAL(20, 6))''
      | ty_date \<Rightarrow> ''STR_TO_DATE('' @ jsonValueExpression @ '', '' @ [CHR 0x27] @ ''%Y-%m-%d'' @ [CHR 0x27] @ '')''
      | ty_date_time \<Rightarrow>
          ''STR_TO_DATE('' @ jsonValueExpression @ '', '' @ [CHR 0x27] @ ''%Y-%m-%dT%H:%i:%s'' @ [CHR 0x27] @ '')''
      | ty_string \<Rightarrow> jsonValueExpression
      | ty_time_range \<Rightarrow> jsonValueExpression)"

definition joinFragments :: "SqlFragment list \<Rightarrow> string \<Rightarrow> SqlFragment" where
  "joinFragments fragments operator =
     \<lparr>frag_sql = str_join ('' '' @ operator @ '' '') (map (\<lambda>f. ''('' @ frag_sql f @ '')'') fragments),
      frag_params = concat (map frag_params fragments)\<rparr>"

text \<open>
  \<open>String(value)\<close>. The elements of an array are joined with commas, \<open>null\<close> ones being empty.
\<close>

fun js_String :: "(rat \<Rightarrow> string) \<Rightarrow> json \<Rightarrow> string" where
  "js_String nf JNull = ''null''"
| "js_String nf (JBool b) = (if b then ''true'' else ''false'')"
| "js_String nf (JNum n) =
     (case n of Fin q \<Rightarrow> num_text nf n | PosInf \<Rightarrow> ''Infinity'' | NegInf \<Rightarrow> ''-Infinity'' | NaN \<Rightarrow> ''NaN'')"
| "js_String nf (JStr s) = s"
| "js_String nf (JArr xs) =
     str_join '','' (map (\<lambda>x. if x = JNull then [] else js_String nf x) xs)"
| "js_String nf (JObj kvs) = ''[object Object]''"

text \<open>
  A validated value is never an object; the driver refuses one as a parameter.
\<close>

definition scalarParam :: "json \<Rightarrow> sq_error + sql_param" where
  "scalarParam v =
     (case v of
        JArr _ \<Rightarrow> Inl (SQ typeMismatch ''Scalar value is required.'')
      | JBool b \<Rightarrow> Inr (PNum (js_num (if b then 1 else 0)))
      | JNull \<Rightarrow> Inr (PStr ''null'')
      | JNum n \<Rightarrow> Inr (PNum n)
      | JStr s \<Rightarrow> Inr (PStr s)
      | JObj _ \<Rightarrow> Inl (Uncaught ''Parameter is not a scalar.''))"

section \<open>Filters\<close>

definition comparison_operator :: "string \<Rightarrow> string option" where
  "comparison_operator op =
     (if op = ''eq'' then Some ''='' else if op = ''gt'' then Some ''>''
      else if op = ''gte'' then Some ''>='' else if op = ''lt'' then Some ''<''
      else if op = ''lte'' then Some ''<='' else None)"

text \<open>
  The \<open>switch\<close> on the operator. Validation has already fixed the form of the value: two
  elements for \<open>between\<close>, an array for \<open>in\<close>; on another form the destructuring throws.
\<close>

definition compileCondition ::
  "js_runtime \<Rightarrow> field_map \<Rightarrow> string \<Rightarrow> string \<Rightarrow> json \<Rightarrow> sq_error + SqlFragment" where
  "compileCondition rt fieldMap name op v =
     res_bind (requireField fieldMap name) (\<lambda>field.
     let expression = typedFieldExpression field in
     if op = ''contains'' then
       res_bind (requireJsonPath field) (\<lambda>path.
       Inr \<lparr>frag_sql = expression @ '' LIKE ?'',
            frag_params = [PStr path, PStr (''%'' @ js_String (rt_num rt) v @ ''%'')]\<rparr>)
     else if op = ''starts_with'' then
       res_bind (requireJsonPath field) (\<lambda>path.
       Inr \<lparr>frag_sql = expression @ '' LIKE ?'',
            frag_params = [PStr path, PStr (js_String (rt_num rt) v @ ''%'')]\<rparr>)
     else if op = ''between'' then
       (case v of
          JArr (start # end' # _) \<Rightarrow>
            res_bind (requireJsonPath field) (\<lambda>path.
            res_bind (scalarParam start) (\<lambda>a.
            res_bind (scalarParam end') (\<lambda>b.
            Inr \<lparr>frag_sql = expression @ '' BETWEEN ? AND ?'', frag_params = [PStr path, a, b]\<rparr>)))
        | _ \<Rightarrow> Inl (Uncaught ''Value is not iterable.''))
     else if op = ''in'' then
       (case v of
          JArr values \<Rightarrow>
            res_bind (requireJsonPath field) (\<lambda>path.
            res_bind (res_mapM scalarParam values) (\<lambda>ps.
            Inr \<lparr>frag_sql = expression @ '' IN ('' @ str_join '', '' (map (\<lambda>_. ''?'') values) @ '')'',
                 frag_params = PStr path # ps\<rparr>))
        | _ \<Rightarrow> Inl (Uncaught ''Value has no map.''))
     else case comparison_operator op of
       Some symbol \<Rightarrow>
         res_bind (requireJsonPath field) (\<lambda>path.
         res_bind (scalarParam v) (\<lambda>p.
         Inr \<lparr>frag_sql = expression @ '' '' @ symbol @ '' ?'', frag_params = [PStr path, p]\<rparr>))
     | None \<Rightarrow> Inl (SQ unsupportedOperator ''Operator is not supported.''))"

fun compileFilter :: "js_runtime \<Rightarrow> field_map \<Rightarrow> FilterNode \<Rightarrow> sq_error + SqlFragment" where
  "compileFilter rt fieldMap (AndF nodes) =
     res_bind (res_mapM (compileFilter rt fieldMap) nodes) (\<lambda>fragments. Inr (joinFragments fragments ''AND''))"
| "compileFilter rt fieldMap (OrF nodes) =
     res_bind (res_mapM (compileFilter rt fieldMap) nodes) (\<lambda>fragments. Inr (joinFragments fragments ''OR''))"
| "compileFilter rt fieldMap (NotF node) =
     res_bind (compileFilter rt fieldMap node) (\<lambda>fragment.
     Inr \<lparr>frag_sql = ''NOT ('' @ frag_sql fragment @ '')'', frag_params = frag_params fragment\<rparr>)"
| "compileFilter rt fieldMap (Cond name op v) = compileCondition rt fieldMap name op v"

section \<open>Projection, scope and order\<close>

definition aggregateExpression :: "field_map \<Rightarrow> AggregateSpec \<Rightarrow> sq_error + SqlFragment" where
  "aggregateExpression fieldMap aggregate =
     res_bind (quoteIdentifier (aggregateAlias aggregate)) (\<lambda>alias.
     case aggregate of
       AggCount f _ \<Rightarrow>
         (case f of
            Some name \<Rightarrow>
              if name = [] then Inr \<lparr>frag_sql = ''COUNT(*) AS '' @ alias, frag_params = []\<rparr>
              else res_bind (requireField fieldMap name) (\<lambda>field.
                res_bind (requireJsonPath field) (\<lambda>path.
                Inr \<lparr>frag_sql = ''COUNT('' @ typedFieldExpression field @ '') AS '' @ alias,
                     frag_params = [PStr path]\<rparr>))
          | None \<Rightarrow> Inr \<lparr>frag_sql = ''COUNT(*) AS '' @ alias, frag_params = []\<rparr>)
     | AggField op name _ \<Rightarrow>
         res_bind (requireField fieldMap name) (\<lambda>field.
         res_bind (requireJsonPath field) (\<lambda>path.
         Inr \<lparr>frag_sql =
                (case op of
                   agg_countDistinct \<Rightarrow> ''COUNT(DISTINCT '' | agg_sum \<Rightarrow> ''SUM('' | agg_avg \<Rightarrow> ''AVG(''
                 | agg_min \<Rightarrow> ''MIN('' | agg_max \<Rightarrow> ''MAX('')
                @ typedFieldExpression field @ '') AS '' @ alias,
              frag_params = [PStr path]\<rparr>))
     | AggWeighted name weight _ \<Rightarrow>
         res_bind (requireField fieldMap name) (\<lambda>field.
         res_bind (requireField fieldMap weight) (\<lambda>weightField.
         let expression = typedFieldExpression field; weightExpression = typedFieldExpression weightField in
         res_bind (requireJsonPath field) (\<lambda>path.
         res_bind (requireJsonPath weightField) (\<lambda>wpath.
         Inr \<lparr>frag_sql = ''SUM('' @ expression @ '' * '' @ weightExpression @ '') / NULLIF(SUM('' @
                weightExpression @ ''), 0) AS '' @ alias,
              frag_params = [PStr path, PStr wpath, PStr wpath]\<rparr>)))))"

text \<open>One projected group field: the expression with its alias, and the JSON path it reads.\<close>

definition project_group :: "field_map \<Rightarrow> string \<Rightarrow> sq_error + SqlFragment" where
  "project_group fieldMap name =
     res_bind (requireField fieldMap name) (\<lambda>field.
     res_bind (quoteIdentifier (f_canonicalName field)) (\<lambda>alias.
     res_bind (requireJsonPath field) (\<lambda>path.
     Inr \<lparr>frag_sql = jsonValueExpression @ '' AS '' @ alias, frag_params = [PStr path]\<rparr>)))"

definition project_stored :: "field_map \<Rightarrow> string \<Rightarrow> sq_error + string" where
  "project_stored fieldMap name =
     res_bind (requireField fieldMap name) (\<lambda>field.
     res_bind (requireStorage field) (\<lambda>storage.
     res_bind (quoteIdentifier (f_canonicalName field)) (\<lambda>alias.
     Inr (if st_column storage = col_source_document_id then ''r.source_document_id AS '' @ alias
          else jsonValueExpression @ '' AS '' @ alias))))"

definition is_dynamic :: "field_map \<Rightarrow> string \<Rightarrow> sq_error + bool" where
  "is_dynamic fieldMap name =
     res_bind (requireField fieldMap name) (\<lambda>field. Inr (f_inputSource field = from_dynamic_lookup))"

definition payload_column :: "StructuredFieldRegistryEntry \<Rightarrow> sq_error + bool" where
  "payload_column field = res_bind (requireStorage field) (\<lambda>storage. Inr (st_column storage = col_payload))"

definition buildProjection :: "NormalizedQuery \<Rightarrow> field_map \<Rightarrow> StructuredQueryMode \<Rightarrow> sq_error + SqlFragment" where
  "buildProjection query fieldMap mode =
     (if mode = Aggregate then
        res_bind (res_mapM (project_group fieldMap) (q_groupBy query)) (\<lambda>groups.
        res_bind (res_mapM (aggregateExpression fieldMap) (q_aggregates query)) (\<lambda>aggregates.
        Inr \<lparr>frag_sql = str_join '', '' (map frag_sql (groups @ aggregates)),
             frag_params = concat (map frag_params (groups @ aggregates))\<rparr>))
      else
        res_bind (res_filter (\<lambda>n. res_bind (is_dynamic fieldMap n) (\<lambda>d. Inr (\<not> d))) (q_select query)) (\<lambda>storedFields.
        res_bind (res_mapM (project_stored fieldMap) storedFields) (\<lambda>parts.
        res_bind (res_mapM (requireField fieldMap) storedFields) (\<lambda>entries.
        res_bind (res_filter payload_column entries) (\<lambda>payloads.
        res_bind (res_mapM requireJsonPath payloads) (\<lambda>params.
        res_bind (res_filter (is_dynamic fieldMap) (q_select query)) (\<lambda>dynamic.
        if dynamic = [] then Inr \<lparr>frag_sql = str_join '', '' parts, frag_params = map PStr params\<rparr>
        else
          res_bind (quoteIdentifier ''structured_query_supplier_name'') (\<lambda>alias.
          res_bind (requireField fieldMap ''supplier_name'') (\<lambda>field.
          res_bind (requireJsonPath field) (\<lambda>path.
          Inr \<lparr>frag_sql = str_join '', '' (parts @ [jsonValueExpression @ '' AS '' @ alias]),
               frag_params = map PStr (params @ [path])\<rparr>))))))))))"

definition scope_clauses :: "string list" where
  "scope_clauses =
     [''JOIN import_batches ib ON ib.id = r.import_batch_id'',
      ''JOIN documents d ON d.id = r.source_document_id'',
      ''WHERE r.org_id = ?'', ''AND ib.org_id = ?'', ''AND d.org_id = ?'', ''AND ib.dataset = ?'',
      ''AND ib.status = ?'', ''AND ib.archived_at IS NULL'', ''AND d.document_kind = ?'',
      ''AND d.status = ?'', ''AND d.archived_at IS NULL'']"

definition scope_params :: "string \<Rightarrow> string \<Rightarrow> sql_param list" where
  "scope_params orgId dataset =
     [PStr orgId, PStr orgId, PStr orgId, PStr dataset, PStr ''applied'', PStr ''structured'', PStr ''active'']"

definition baseFromAndWhere :: "StructuredDatasetRegistry \<Rightarrow> CompileInput \<Rightarrow> SqlFragment" where
  "baseFromAndWhere registry input =
     (case in_businessAuthorization input of
        Some b \<Rightarrow>
          \<lparr>frag_sql = str_join '' '' (scope_clauses @ [''AND ('' @ ba_sql b @ '')'']),
           frag_params = scope_params (in_orgId input) (r_dataset registry) @ ba_params b\<rparr>
      | None \<Rightarrow>
          \<lparr>frag_sql = str_join '' '' (scope_clauses @ [''AND d.confidentiality_level <= ?'']),
           frag_params = scope_params (in_orgId input) (r_dataset registry) @ [PNum (in_clearance input)]\<rparr>)"

definition direction_text :: "SortDirection \<Rightarrow> string" where
  "direction_text d = (if d = Asc then ''ASC'' else ''DESC'')"

definition order_identifier :: "SortSpec \<Rightarrow> sq_error + string" where
  "order_identifier item =
     res_bind (quoteIdentifier (so_field item)) (\<lambda>i. Inr (i @ '' '' @ direction_text (so_direction item)))"

definition order_expression :: "field_map \<Rightarrow> SortSpec \<Rightarrow> sq_error + string" where
  "order_expression fieldMap item =
     res_bind (requireField fieldMap (so_field item)) (\<lambda>field.
     Inr (typedFieldExpression field @ '' '' @ direction_text (so_direction item)))"

definition buildOrderBy :: "NormalizedQuery \<Rightarrow> field_map \<Rightarrow> StructuredQueryMode \<Rightarrow> sq_error + SqlFragment" where
  "buildOrderBy query fieldMap mode =
     (if mode = Aggregate then
        let items = (if q_sort query \<noteq> [] then q_sort query
                     else map (\<lambda>f. \<lparr>so_field = f, so_direction = Asc\<rparr>) (q_groupBy query)) in
        if items = [] then Inr \<lparr>frag_sql = [], frag_params = []\<rparr>
        else
          res_bind (res_mapM order_identifier items) (\<lambda>parts.
          Inr \<lparr>frag_sql = '' ORDER BY '' @ str_join '', '' parts, frag_params = []\<rparr>)
      else
        res_bind (res_mapM (order_expression fieldMap) (q_sort query)) (\<lambda>parts.
        res_bind (res_mapM (\<lambda>item. res_bind (requireField fieldMap (so_field item)) requireJsonPath)
            (q_sort query)) (\<lambda>paths.
        Inr \<lparr>frag_sql = '' ORDER BY '' @ str_join '', '' (parts @ [''r.source_row_number ASC'', ''r.id ASC'']),
             frag_params = map PStr paths\<rparr>)))"

definition buildGroupBy :: "NormalizedQuery \<Rightarrow> field_map \<Rightarrow> sq_error + string" where
  "buildGroupBy query fieldMap =
     (if q_groupBy query = [] then Inr []
      else res_bind (res_mapM (\<lambda>n. res_bind (requireField fieldMap n) (\<lambda>field.
             quoteIdentifier (f_canonicalName field))) (q_groupBy query)) (\<lambda>parts.
           Inr ('' GROUP BY '' @ str_join '', '' parts)))"

definition cursor_offset :: "js_runtime \<Rightarrow> CompileInput \<Rightarrow> NormalizedQuery \<Rightarrow> string \<Rightarrow> sq_error + js_number" where
  "cursor_offset rt input query shapeHash =
     (case q_cursor query of
        Some c \<Rightarrow>
          if c = [] then Inr (js_num 0)
          else decodeStructuredCursor rt c shapeHash (in_cursorSecret input) (in_now input)
      | None \<Rightarrow> Inr (js_num 0))"

definition validateQuery :: "js_runtime \<Rightarrow> NormalizedQuery \<Rightarrow> field_map \<Rightarrow> StructuredQueryMode \<Rightarrow> sq_error + unit" where
  "validateQuery rt query fieldMap mode =
     res_bind (validateSelectedFields query fieldMap mode) (\<lambda>_.
     res_bind (validateAggregates query fieldMap) (\<lambda>_.
     res_bind (validateSort query fieldMap mode) (\<lambda>_.
     case q_filter query of None \<Rightarrow> Inr () | Some f \<Rightarrow> validateFilter rt fieldMap f)))"

text \<open>The pieces of the statement, before they are put together.\<close>

record sql_parts =
  sp_projection :: SqlFragment
  sp_from :: SqlFragment
  sp_filter :: "SqlFragment option"
  sp_groupBy :: string
  sp_order :: SqlFragment
  sp_offset :: js_number
  sp_shapeHash :: string
  sp_dynamic :: "string list"

definition sql_parts_of ::
  "js_runtime \<Rightarrow> CompileInput \<Rightarrow> NormalizedQuery \<Rightarrow> StructuredDatasetRegistry \<Rightarrow> field_map \<Rightarrow>
     StructuredQueryMode \<Rightarrow> sq_error + sql_parts" where
  "sql_parts_of rt input query registry fieldMap mode =
     (let shapeHash = hashQueryShape rt (caller_shape input query) in
     res_bind (cursor_offset rt input query shapeHash) (\<lambda>offset.
     res_bind (if mode = Detail then res_filter (is_dynamic fieldMap) (q_select query) else Inr []) (\<lambda>dynamic.
     res_bind (buildProjection query fieldMap mode) (\<lambda>projection.
     res_bind (case q_filter query of
         None \<Rightarrow> Inr None
       | Some f \<Rightarrow> res_bind (compileFilter rt fieldMap f) (\<lambda>fr. Inr (Some fr))) (\<lambda>filter'.
     res_bind (buildOrderBy query fieldMap mode) (\<lambda>order.
     res_bind (if mode = Aggregate then buildGroupBy query fieldMap else Inr []) (\<lambda>groupBy.
     Inr \<lparr>sp_projection = projection, sp_from = baseFromAndWhere registry input, sp_filter = filter',
          sp_groupBy = groupBy, sp_order = order, sp_offset = offset, sp_shapeHash = shapeHash,
          sp_dynamic = dynamic\<rparr>)))))))"

definition where_sql :: "sql_parts \<Rightarrow> string" where
  "where_sql p =
     (case sp_filter p of
        None \<Rightarrow> frag_sql (sp_from p)
      | Some f \<Rightarrow> frag_sql (sp_from p) @ '' AND ('' @ frag_sql f @ '')'')"

definition filter_params :: "sql_parts \<Rightarrow> sql_param list" where
  "filter_params p = (case sp_filter p of None \<Rightarrow> [] | Some f \<Rightarrow> frag_params f)"

definition assemble ::
  "CompileInput \<Rightarrow> NormalizedQuery \<Rightarrow> StructuredRowTableName \<Rightarrow> StructuredQueryMode \<Rightarrow> sql_parts \<Rightarrow> StructuredCompiledQuery" where
  "assemble input query table mode p =
     \<lparr>cq_dataset = q_dataset query, cq_mode = mode,
      cq_sql = ''SELECT '' @ frag_sql (sp_projection p) @ '' FROM '' @ table_text table @ '' r '' @
        where_sql p @ sp_groupBy p @ frag_sql (sp_order p) @ '' LIMIT ? OFFSET ?'',
      cq_params = frag_params (sp_projection p) @ frag_params (sp_from p) @ filter_params p @
        frag_params (sp_order p) @ [PNum (q_limit query), PNum (sp_offset p)],
      cq_selectedFields = (if mode = Detail then q_select query
        else q_groupBy query @ map aggregateAlias (q_aggregates query)),
      cq_dynamicSelectedFields = sp_dynamic p,
      cq_aggregateAliases = (if mode = Aggregate then map aggregateAlias (q_aggregates query) else []),
      cq_limit = q_limit query, cq_offset = sp_offset p, cq_shapeHash = sp_shapeHash p,
      cq_scopeOrgId = in_orgId input, cq_scopeEmployeeId = in_employeeId input,
      cq_scopeClearance = in_clearance input\<rparr>"

definition compileNormalizedQuery ::
  "js_runtime \<Rightarrow> CompileInput \<Rightarrow> NormalizedQuery \<Rightarrow> StructuredDatasetRegistry \<Rightarrow> sq_error + StructuredCompiledQuery" where
  "compileNormalizedQuery rt input query registry =
     (case r_rowTable registry of
        None \<Rightarrow> Inl (SQ datasetRequiresPartitionExtract
          ''Dataset is available through partition extracts, not row queries.'')
      | Some table \<Rightarrow>
          (let fieldMap = registry_fields (r_fields registry); mode = query_mode query in
           res_bind (validateQuery rt query fieldMap mode) (\<lambda>_.
           res_bind (sql_parts_of rt input query registry fieldMap mode) (\<lambda>p.
           Inr (assemble input query table mode p)))))"

end
