(* ===== verification/Structured_Safety.thy ===== *)
theory Structured_Safety
  imports Structured_Compile
begin

text \<open>
  What the compiled statement guarantees: as many parameters as placeholders, each at its
  place; filter text that cannot leave its parentheses and does not depend on the values
  filtered for; the tenant clauses bound to the caller's organization; bounded filters and
  pages; and that a validated query compiles.
\<close>

section \<open>Placeholders and parentheses\<close>

abbreviation qmarks :: "string \<Rightarrow> nat" where
  "qmarks s \<equiv> count_list s (CHR ''?'')"

definition balanced :: "SqlFragment \<Rightarrow> bool" where
  "balanced f \<longleftrightarrow> qmarks (frag_sql f) = length (frag_params f)"

text \<open>The nesting depth after a text that starts at depth \<open>n\<close>, if it never closes more than it opened.\<close>

fun paren_depth :: "nat \<Rightarrow> string \<Rightarrow> nat option" where
  "paren_depth n [] = Some n"
| "paren_depth n (c # cs) =
     (if c = CHR ''('' then paren_depth (Suc n) cs
      else if c = CHR '')'' then (case n of 0 \<Rightarrow> None | Suc m \<Rightarrow> paren_depth m cs)
      else paren_depth n cs)"

definition paren_ok :: "string \<Rightarrow> bool" where
  "paren_ok s \<longleftrightarrow> paren_depth 0 s = Some 0"

lemma paren_depth_append:
  "paren_depth n (s @ t) = (case paren_depth n s of None \<Rightarrow> None | Some m \<Rightarrow> paren_depth m t)"
  by (induction n s rule: paren_depth.induct) (auto split: nat.splits)

lemma paren_depth_add: "paren_depth n s = Some m \<Longrightarrow> paren_depth (n + k) s = Some (m + k)"
  by (induction n s rule: paren_depth.induct) (auto split: if_splits nat.splits)

lemma paren_ok_depth: "paren_ok s \<Longrightarrow> paren_depth n s = Some n"
  using paren_depth_add [of 0 s 0 n] by (simp add: paren_ok_def)

lemma paren_ok_Nil [simp]: "paren_ok []"
  by (simp add: paren_ok_def)

lemma paren_ok_append: "paren_ok s \<Longrightarrow> paren_ok t \<Longrightarrow> paren_ok (s @ t)"
  by (simp add: paren_ok_def paren_depth_append)

lemma paren_ok_wrap: "paren_ok s \<Longrightarrow> paren_ok (CHR ''('' # s @ '')'')"
  by (simp add: paren_ok_def paren_depth_append paren_ok_depth)

lemma paren_ok_join: "paren_ok sep \<Longrightarrow> (\<And>x. x \<in> set xs \<Longrightarrow> paren_ok x) \<Longrightarrow> paren_ok (str_join sep xs)"
  by (induction sep xs rule: str_join.induct) (auto intro!: paren_ok_append)

lemma str_join_map_qmarks:
  "qmarks (str_join sep (map f xs)) = sum_list (map (\<lambda>x. qmarks (f x)) xs) + qmarks sep * (length xs - 1)"
  by (simp add: str_join_count comp_def)

lemma sum_list_const: "sum_list (map (\<lambda>_. c :: nat) xs) = length xs * c"
  by (induction xs) auto

lemma safe_identifier_chars:
  assumes "safe_identifier i"
  shows "CHR ''?'' \<notin> set i" and "CHR ''('' \<notin> set i" and "CHR '')'' \<notin> set i"
  using assms
  by (auto simp: safe_identifier_def is_lower_def is_upper_def is_digit_def list_all_iff split: list.splits)

lemma count_list_0: "x \<notin> set xs \<Longrightarrow> count_list xs x = 0"
  by (simp add: count_list_0_iff)

lemma quoteIdentifier_qmarks [sql_count]: "quoteIdentifier i = Inr q \<Longrightarrow> qmarks q = 0"
  by (auto simp: quoteIdentifier_def count_list_0 safe_identifier_chars split: if_splits)

lemma jsonValue_qmarks [sql_count, simp]: "qmarks jsonValueExpression = 1"
  by (simp add: jsonValueExpression_def)

lemma typed_qmarks [sql_count, simp]: "qmarks (typedFieldExpression field) = 1"
  by (cases "f_type field") (simp_all add: typedFieldExpression_def)

lemma jsonValue_paren: "paren_ok jsonValueExpression"
  by (simp add: paren_ok_def jsonValueExpression_def)

lemma typed_paren: "paren_ok (typedFieldExpression field)"
  by (cases "f_type field")
     (simp_all add: typedFieldExpression_def paren_ok_def jsonValueExpression_def)

lemma joinFragments_balanced:
  assumes "\<And>f. f \<in> set fs \<Longrightarrow> balanced f" and "qmarks operator = 0"
  shows "balanced (joinFragments fs operator)"
proof -
  have "sum_list (map (\<lambda>f. qmarks (frag_sql f)) fs) = length (concat (map frag_params fs))"
    using assms(1) by (induction fs) (auto simp: balanced_def)
  then show ?thesis
    using assms(2) by (simp add: balanced_def joinFragments_def str_join_map_qmarks)
qed

lemma joinFragments_paren:
  assumes "\<And>f. f \<in> set fs \<Longrightarrow> paren_ok (frag_sql f)" and "paren_ok operator"
  shows "paren_ok (frag_sql (joinFragments fs operator))"
proof -
  have sep: "paren_ok ('' '' @ operator @ '' '')"
    using assms(2) by (intro paren_ok_append) (simp_all add: paren_ok_def)
  show ?thesis
    unfolding joinFragments_def
    by simp (intro paren_ok_join, use sep in simp, use assms(1) paren_ok_wrap in auto)
qed

section \<open>What a filter compiler owes to its condition compiler\<close>

text \<open>
  The text of a condition may depend on the form of its value (an array and its length, null or
  not), never on the value itself: \<open>value_form\<close> erases the values.
\<close>

fun value_form :: "json \<Rightarrow> json" where
  "value_form (JArr xs) = JArr (map (\<lambda>x. if x = JNull then JNull else JBool True) xs)"
| "value_form JNull = JNull"
| "value_form _ = JBool True"

fun filter_form :: "FilterNode \<Rightarrow> FilterNode" where
  "filter_form (Cond field op v) = Cond field op (value_form v)"
| "filter_form (AndF nodes) = AndF (map filter_form nodes)"
| "filter_form (OrF nodes) = OrF (map filter_form nodes)"
| "filter_form (NotF node) = NotF (filter_form node)"

locale filter_compiler =
  fixes compile :: "FilterNode \<Rightarrow> sq_error + SqlFragment"
    and condition :: "string \<Rightarrow> string \<Rightarrow> json \<Rightarrow> sq_error + SqlFragment"
  assumes leaf: "compile (Cond field op v) = condition field op v"
    and and_node: "compile (AndF nodes) = Inr fr \<Longrightarrow>
          \<exists>fs. res_mapM compile nodes = Inr fs \<and> fr = joinFragments fs ''AND''"
    and or_node: "compile (OrF nodes) = Inr fr \<Longrightarrow>
          \<exists>fs. res_mapM compile nodes = Inr fs \<and> fr = joinFragments fs ''OR''"
    and not_node: "compile (NotF node) = Inr fr \<Longrightarrow>
          \<exists>f. compile node = Inr f \<and>
            fr = \<lparr>frag_sql = ''NOT ('' @ frag_sql f @ '')'', frag_params = frag_params f\<rparr>"
    and leaf_balanced: "condition field op v = Inr fr \<Longrightarrow> balanced fr"
    and leaf_paren: "condition field op v = Inr fr \<Longrightarrow> paren_ok (frag_sql fr)"
    and leaf_form: "condition field op v = Inr fr \<Longrightarrow> condition field op w = Inr gr \<Longrightarrow>
          value_form v = value_form w \<Longrightarrow> frag_sql fr = frag_sql gr"
begin

text \<open>A property of fragments that conditions have and that joining and negating keep, all trees have.\<close>

lemma tree_property:
  assumes cond: "\<And>field op v fr. condition field op v = Inr fr \<Longrightarrow> P fr"
    and join: "\<And>fs operator. (\<And>f. f \<in> set fs \<Longrightarrow> P f) \<Longrightarrow> operator \<in> {''AND'', ''OR''} \<Longrightarrow>
          P (joinFragments fs operator)"
    and neg: "\<And>f. P f \<Longrightarrow> P \<lparr>frag_sql = ''NOT ('' @ frag_sql f @ '')'', frag_params = frag_params f\<rparr>"
  shows "compile node = Inr fr \<Longrightarrow> P fr"
proof (induction node arbitrary: fr)
  case (Cond field op v)
  then show ?case using leaf cond by simp
next
  case (AndF nodes)
  then obtain fs where fs: "res_mapM compile nodes = Inr fs" "fr = joinFragments fs ''AND''"
    using and_node by blast
  have "P f" if "f \<in> set fs" for f
    using res_mapM_set [OF fs(1) that] AndF.IH by blast
  then show ?case unfolding fs(2) by (rule join) simp_all
next
  case (OrF nodes)
  then obtain fs where fs: "res_mapM compile nodes = Inr fs" "fr = joinFragments fs ''OR''"
    using or_node by blast
  have "P f" if "f \<in> set fs" for f
    using res_mapM_set [OF fs(1) that] OrF.IH by blast
  then show ?case unfolding fs(2) by (rule join) simp_all
next
  case (NotF node)
  then show ?case using not_node neg by blast
qed

lemma tree_balanced: "compile node = Inr fr \<Longrightarrow> balanced fr"
proof (rule tree_property [where P = balanced])
  fix fs :: "SqlFragment list" and operator :: string
  assume "\<And>f. f \<in> set fs \<Longrightarrow> balanced f" and "operator \<in> {''AND'', ''OR''}"
  then show "balanced (joinFragments fs operator)"
    by (intro joinFragments_balanced) auto
qed (auto simp: balanced_def dest: leaf_balanced)

lemma tree_paren: "compile node = Inr fr \<Longrightarrow> paren_ok (frag_sql fr)"
proof (rule tree_property [where P = "\<lambda>f. paren_ok (frag_sql f)"])
  fix fs :: "SqlFragment list" and operator :: string
  assume "\<And>f. f \<in> set fs \<Longrightarrow> paren_ok (frag_sql f)" and "operator \<in> {''AND'', ''OR''}"
  then show "paren_ok (frag_sql (joinFragments fs operator))"
    by (intro joinFragments_paren) (auto simp: paren_ok_def)
next
  fix f :: SqlFragment assume "paren_ok (frag_sql f)"
  then have "paren_ok (''NOT '' @ (CHR ''('' # frag_sql f @ '')''))"
    by (intro paren_ok_append paren_ok_wrap) (simp_all add: paren_ok_def)
  then show "paren_ok (frag_sql \<lparr>frag_sql = ''NOT ('' @ frag_sql f @ '')'', frag_params = frag_params f\<rparr>)"
    by simp
qed (auto dest: leaf_paren)

text \<open>Two filters that differ in their values only give the same text.\<close>

lemma children_text:
  assumes IH: "\<And>n m fr gr. n \<in> set ns \<Longrightarrow> compile n = Inr fr \<Longrightarrow> compile m = Inr gr \<Longrightarrow>
      filter_form n = filter_form m \<Longrightarrow> frag_sql fr = frag_sql gr"
    and "res_mapM compile ns = Inr fs" and "res_mapM compile ms = Inr gs"
    and "map filter_form ns = map filter_form ms"
  shows "frag_sql (joinFragments fs operator) = frag_sql (joinFragments gs operator)"
proof -
  have fs: "list_all2 (\<lambda>x y. compile x = Inr y) ns fs" and gs: "list_all2 (\<lambda>x y. compile x = Inr y) ms gs"
    using assms(2,3) by (simp_all add: res_mapM_Inr)
  have "map frag_sql fs = map frag_sql gs"
  proof (rule nth_equalityI)
    show len: "length (map frag_sql fs) = length (map frag_sql gs)"
      using fs gs map_eq_imp_length_eq [OF assms(4)] by (simp add: list_all2_lengthD [symmetric])
    fix i assume "i < length (map frag_sql fs)"
    then have i: "i < length ns" "i < length ms" "i < length fs" "i < length gs"
      using fs gs len by (simp_all add: list_all2_lengthD)
    have "filter_form (ns ! i) = filter_form (ms ! i)"
      using assms(4) i by (metis nth_map)
    then show "map frag_sql fs ! i = map frag_sql gs ! i"
      using IH [of "ns ! i" "fs ! i" "ms ! i" "gs ! i"] i list_all2_nthD [OF fs i(1)] list_all2_nthD [OF gs i(2)]
      by simp
  qed
  from arg_cong [OF this, of "map (\<lambda>s. ''('' @ s @ '')'')"] show ?thesis
    by (simp add: joinFragments_def comp_def)
qed

lemma tree_text:
  "compile n = Inr fr \<Longrightarrow> compile m = Inr gr \<Longrightarrow> filter_form n = filter_form m \<Longrightarrow> frag_sql fr = frag_sql gr"
proof (induction n arbitrary: m fr gr)
  case (Cond field op v)
  then show ?case by (cases m) (auto simp: leaf dest: leaf_form)
next
  case (AndF ns)
  then obtain ms where m: "m = AndF ms" "map filter_form ns = map filter_form ms" by (cases m) auto
  obtain fs gs where "res_mapM compile ns = Inr fs" "fr = joinFragments fs ''AND''"
    "res_mapM compile ms = Inr gs" "gr = joinFragments gs ''AND''"
    using and_node AndF.prems(1,2) m(1) by blast
  then show ?case using children_text [of ns, OF AndF.IH _ _ m(2)] by simp
next
  case (OrF ns)
  then obtain ms where m: "m = OrF ms" "map filter_form ns = map filter_form ms" by (cases m) auto
  obtain fs gs where "res_mapM compile ns = Inr fs" "fr = joinFragments fs ''OR''"
    "res_mapM compile ms = Inr gs" "gr = joinFragments gs ''OR''"
    using or_node OrF.prems(1,2) m(1) by blast
  then show ?case using children_text [of ns, OF OrF.IH _ _ m(2)] by simp
next
  case (NotF n)
  then obtain k where m: "m = NotF k" "filter_form n = filter_form k" by (cases m) auto
  obtain f g where fg: "compile n = Inr f" "compile k = Inr g"
    "fr = \<lparr>frag_sql = ''NOT ('' @ frag_sql f @ '')'', frag_params = frag_params f\<rparr>"
    "gr = \<lparr>frag_sql = ''NOT ('' @ frag_sql g @ '')'', frag_params = frag_params g\<rparr>"
    using not_node NotF.prems(1,2) m(1) by blast
  show ?case using NotF.IH [OF fg(1,2) m(2)] fg(3,4) by simp
qed

end

section \<open>The row query compiler is one\<close>

text \<open>The text after the field expression: it depends on the operator and the form of the value.\<close>

fun value_list :: "json \<Rightarrow> json list" where
  "value_list (JArr vs) = vs"
| "value_list _ = []"

definition condition_tail :: "string \<Rightarrow> nat \<Rightarrow> string" where
  "condition_tail op n =
     (if op = ''contains'' \<or> op = ''starts_with'' then '' LIKE ?''
      else if op = ''between'' then '' BETWEEN ? AND ?''
      else if op = ''in'' then '' IN ('' @ str_join '', '' (replicate n ''?'') @ '')''
      else '' '' @ the (comparison_operator op) @ '' ?'')"

lemma qmarks_placeholders: "qmarks (str_join '', '' (replicate n ''?'')) = n"
  by (simp add: str_join_count sum_list_replicate)

lemma comparison_operator_text:
  "comparison_operator op = Some t \<Longrightarrow> qmarks t = 0 \<and> paren_ok t"
  by (auto simp: comparison_operator_def paren_ok_def split: if_splits)

lemma in_tail_paren: "paren_ok ('' IN ('' @ str_join '', '' (replicate n ''?'') @ '')'')"
proof -
  have "paren_ok (str_join '', '' (replicate n ''?''))"
    by (rule paren_ok_join) (auto simp: paren_ok_def)
  then have "paren_ok ('' IN '' @ (CHR ''('' # str_join '', '' (replicate n ''?'') @ '')''))"
    by (intro paren_ok_append paren_ok_wrap) (simp_all add: paren_ok_def)
  then show ?thesis by simp
qed

lemma compileCondition_in_Inr:
  assumes "compileCondition rt fm name ''in'' v = Inr fr"
  shows "\<exists>field vs path ps. requireField fm name = Inr field \<and> v = JArr vs \<and> length ps = length vs \<and>
     fr = \<lparr>frag_sql = typedFieldExpression field @ '' IN ('' @ str_join '', '' (replicate (length vs) ''?'') @ '')'',
           frag_params = PStr path # ps\<rparr>"
proof (cases v)
  case (JArr vs)
  then show ?thesis
    using assms
    by (auto simp: compileCondition_def res_bind_Inr map_replicate_const dest: res_mapM_length)
qed (use assms in \<open>auto simp: compileCondition_def res_bind_Inr\<close>)

lemma compileCondition_between_Inr:
  assumes "compileCondition rt fm name ''between'' v = Inr fr"
  shows "\<exists>field path a b. requireField fm name = Inr field \<and>
     fr = \<lparr>frag_sql = typedFieldExpression field @ '' BETWEEN ? AND ?'', frag_params = [PStr path, a, b]\<rparr>"
proof (cases v)
  case (JArr vs)
  then show ?thesis
    using assms by (cases vs rule: remdups_adj.cases) (auto simp: compileCondition_def res_bind_Inr)
qed (use assms in \<open>auto simp: compileCondition_def res_bind_Inr\<close>)

lemma compileCondition_Inr:
  assumes "compileCondition rt fm name op v = Inr fr"
  shows "\<exists>field. requireField fm name = Inr field \<and>
     frag_sql fr = typedFieldExpression field @ condition_tail op (length (value_list v)) \<and>
     length (frag_params fr) = Suc (qmarks (condition_tail op (length (value_list v)))) \<and>
     paren_ok (condition_tail op (length (value_list v)))"
proof -
  consider "op = ''contains'' \<or> op = ''starts_with''" | "op = ''between''" | "op = ''in''"
    | "op \<notin> {''contains'', ''starts_with'', ''between'', ''in''}" by blast
  then show ?thesis
  proof cases
    case 1
    then show ?thesis
      using assms by (elim disjE) (auto simp: compileCondition_def res_bind_Inr condition_tail_def paren_ok_def)
  next
    case 2
    then show ?thesis
      using compileCondition_between_Inr assms by (fastforce simp: condition_tail_def paren_ok_def)
  next
    case 3
    then show ?thesis
      using compileCondition_in_Inr [of rt fm name v fr] assms in_tail_paren
      by (auto simp: condition_tail_def qmarks_placeholders)
  next
    case 4
    then obtain t where t: "comparison_operator op = Some t"
      using assms by (cases "comparison_operator op") (auto simp: compileCondition_def res_bind_Inr)
    have "paren_ok ('' '' @ t @ '' ?'')"
      using comparison_operator_text [OF t] by (intro paren_ok_append) (simp_all add: paren_ok_def)
    with 4 t comparison_operator_text [OF t] show ?thesis
      using assms by (auto simp: compileCondition_def res_bind_Inr condition_tail_def)
  qed
qed

lemma value_form_length: "value_form v = value_form w \<Longrightarrow> length (value_list v) = length (value_list w)"
  by (cases v; cases w) (auto dest: map_eq_imp_length_eq)

interpretation row_filter: filter_compiler "compileFilter rt fm" "compileCondition rt fm" for rt fm
proof
  fix field op v fr
  assume fr: "compileCondition rt fm field op v = Inr fr"
  then show "balanced fr" "paren_ok (frag_sql fr)"
    using compileCondition_Inr by (fastforce simp: balanced_def paren_ok_append typed_paren)+
  fix w gr
  assume gr: "compileCondition rt fm field op w = Inr gr" and form: "value_form v = value_form w"
  show "frag_sql fr = frag_sql gr"
    using compileCondition_Inr [OF fr] compileCondition_Inr [OF gr] value_form_length [OF form] by auto
qed (auto simp: res_bind_Inr)

section \<open>Every piece has as many placeholders as parameters\<close>

lemma balanced_list:
  "(\<And>f. f \<in> set fs \<Longrightarrow> balanced f) \<Longrightarrow>
     qmarks (str_join '', '' (map frag_sql fs)) = length (concat (map frag_params fs))"
  unfolding str_join_map_qmarks by (induction fs) (auto simp: balanced_def)

lemma aggregateExpression_balanced:
  "aggregateExpression fm a = Inr fr \<Longrightarrow> balanced fr"
  by (cases a)
     (auto simp: aggregateExpression_def res_bind_Inr Let_def balanced_def
       split: option.splits if_splits FieldAggregate.splits dest!: quoteIdentifier_qmarks)

lemma project_group_balanced: "project_group fm n = Inr fr \<Longrightarrow> balanced fr"
  by (auto simp: project_group_def res_bind_Inr balanced_def dest!: quoteIdentifier_qmarks)

lemma stored_parts_qmarks:
  assumes "res_mapM (project_stored fm) ns = Inr parts" and "res_mapM (requireField fm) ns = Inr entries"
    and "res_filter payload_column entries = Inr payloads"
  shows "sum_list (map qmarks parts) = length payloads"
  using assms
proof (induction ns arbitrary: parts entries payloads)
  case (Cons n ns)
  from Cons.prems obtain part parts' entry entries' keep payloads' where
    tl: "res_mapM (project_stored fm) ns = Inr parts'" "res_mapM (requireField fm) ns = Inr entries'"
      "res_filter payload_column entries' = Inr payloads'"
    and hd: "project_stored fm n = Inr part" "requireField fm n = Inr entry" "payload_column entry = Inr keep"
    and eqs: "parts = part # parts'" "payloads = (if keep then entry # payloads' else payloads')"
    by (auto simp: res_bind_Inr)
  have "qmarks part = (if keep then 1 else 0)"
    using hd
    by (auto simp: project_stored_def payload_column_def res_bind_Inr split: StorageColumn.splits
        dest!: quoteIdentifier_qmarks) (metis StorageColumn.exhaust)
  with Cons.IH [OF tl] eqs show ?case by auto
qed auto

lemma str_join_comma_qmarks: "qmarks (str_join '', '' xs) = sum_list (map qmarks xs)"
  by (simp add: str_join_count)

lemma buildProjection_balanced:
  assumes "buildProjection query fm mode = Inr fr"
  shows "balanced fr"
proof (cases "mode = Aggregate")
  case True
  with assms obtain gs as where g: "res_mapM (project_group fm) (q_groupBy query) = Inr gs"
    and a: "res_mapM (aggregateExpression fm) (q_aggregates query) = Inr as"
    and fr: "fr = \<lparr>frag_sql = str_join '', '' (map frag_sql (gs @ as)),
                   frag_params = concat (map frag_params (gs @ as))\<rparr>"
    by (auto simp: buildProjection_def res_bind_Inr)
  have "balanced f" if "f \<in> set (gs @ as)" for f
    using that res_mapM_set [OF g] res_mapM_set [OF a] project_group_balanced aggregateExpression_balanced
    by auto blast+
  from balanced_list [of "gs @ as", OF this] show ?thesis by (simp add: fr balanced_def)
next
  case False
  with assms show ?thesis
    by (auto simp: buildProjection_def res_bind_Inr balanced_def str_join_comma_qmarks stored_parts_qmarks
        dest: res_mapM_length dest!: quoteIdentifier_qmarks split: if_splits)
qed

lemma qmarks_scope: "qmarks (str_join '' '' scope_clauses) = 7"
  by (simp add: scope_clauses_def)

lemma str_join_snoc: "xs \<noteq> [] \<Longrightarrow> str_join sep (xs @ [x]) = str_join sep xs @ sep @ x"
  by (induction sep xs rule: str_join.induct) auto

text \<open>The statement fixes the scope first; what follows is the authorization or clearance clause.\<close>

lemma baseFromAndWhere_sql:
  "frag_sql (baseFromAndWhere registry input) = str_join '' '' scope_clauses @
     (case in_businessAuthorization input of
        Some b \<Rightarrow> '' AND ('' @ ba_sql b @ '')'' | None \<Rightarrow> '' AND d.confidentiality_level <= ?'')"
  by (simp add: baseFromAndWhere_def str_join_snoc scope_clauses_def split: option.split)

lemma baseFromAndWhere_balanced:
  assumes "\<And>b. in_businessAuthorization input = Some b \<Longrightarrow> qmarks (ba_sql b) = length (ba_params b)"
  shows "balanced (baseFromAndWhere registry input)"
proof -
  have "qmarks (frag_sql (baseFromAndWhere registry input)) =
      7 + (case in_businessAuthorization input of Some b \<Rightarrow> length (ba_params b) | None \<Rightarrow> 1)"
    using assms by (simp add: baseFromAndWhere_sql qmarks_scope split: option.split)
  then show ?thesis
    by (simp add: balanced_def baseFromAndWhere_def scope_params_def split: option.splits)
qed

lemma order_identifiers_qmarks:
  "res_mapM order_identifier items = Inr ps \<Longrightarrow> sum_list (map qmarks ps) = 0"
  by (induction items arbitrary: ps)
     (auto simp: res_bind_Inr order_identifier_def direction_text_def dest!: quoteIdentifier_qmarks)

lemma order_expressions_qmarks:
  "res_mapM (order_expression fm) items = Inr ps \<Longrightarrow> sum_list (map qmarks ps) = length items"
  by (induction items arbitrary: ps) (auto simp: res_bind_Inr order_expression_def direction_text_def)

lemma buildOrderBy_balanced:
  assumes "buildOrderBy query fm mode = Inr fr"
  shows "balanced fr"
proof (cases "mode = Aggregate")
  case True
  with assms show ?thesis
    by (auto simp: buildOrderBy_def res_bind_Inr balanced_def str_join_comma_qmarks Let_def split: if_splits
        dest!: order_identifiers_qmarks)
next
  case False
  with assms show ?thesis
    by (auto simp: buildOrderBy_def res_bind_Inr balanced_def str_join_comma_qmarks order_expressions_qmarks
        res_mapM_length)
qed

lemma buildGroupBy_qmarks:
  assumes "buildGroupBy query fm = Inr g"
  shows "qmarks g = 0"
proof (cases "q_groupBy query = []")
  case False
  with assms obtain ps where ps: "res_mapM (\<lambda>n. res_bind (requireField fm n) (\<lambda>field.
      quoteIdentifier (f_canonicalName field))) (q_groupBy query) = Inr ps"
    and g: "g = '' GROUP BY '' @ str_join '', '' ps"
    by (auto simp: buildGroupBy_def res_bind_Inr)
  have "qmarks p = 0" if "p \<in> set ps" for p
    using res_mapM_set [OF ps that] by (auto simp: res_bind_Inr dest: quoteIdentifier_qmarks)
  then show ?thesis by (simp add: g str_join_comma_qmarks sum_list_eq_0_iff)
qed (use assms in \<open>simp add: buildGroupBy_def\<close>)

section \<open>The compiled statement\<close>

lemma compileNormalizedQuery_Inr:
  assumes "compileNormalizedQuery rt input query registry = Inr cq"
  shows "\<exists>table p. r_rowTable registry = Some table \<and>
     validateQuery rt query (registry_fields (r_fields registry)) (query_mode query) = Inr () \<and>
     sql_parts_of rt input query registry (registry_fields (r_fields registry)) (query_mode query) = Inr p \<and>
     cq = assemble input query table (query_mode query) p"
  using assms by (auto simp: compileNormalizedQuery_def Let_def res_bind_Inr split: option.splits)

lemma sql_parts_of_Inr:
  assumes "sql_parts_of rt input query registry fm mode = Inr p"
  shows "buildProjection query fm mode = Inr (sp_projection p)" (is ?proj)
    and "sp_from p = baseFromAndWhere registry input" (is ?from)
    and "sp_filter p = None \<and> q_filter query = None \<or>
       (\<exists>f fr. q_filter query = Some f \<and> compileFilter rt fm f = Inr fr \<and> sp_filter p = Some fr)" (is ?filt)
    and "buildOrderBy query fm mode = Inr (sp_order p)" (is ?order)
    and "qmarks (sp_groupBy p) = 0" (is ?group)
    and "cursor_offset rt input query (sp_shapeHash p) = Inr (sp_offset p)" (is ?off)
proof -
  show ?proj ?from ?order ?off ?filt
    using assms by (auto simp: sql_parts_of_def res_bind_Inr Let_def split: option.splits)
  show ?group
    using assms by (auto simp: sql_parts_of_def res_bind_Inr Let_def buildGroupBy_qmarks split: if_splits)
qed

lemma sql_parts_filter_balanced:
  assumes "sql_parts_of rt input query registry fm mode = Inr p" and "sp_filter p = Some fr"
  shows "balanced fr" and "paren_ok (frag_sql fr)"
  using sql_parts_of_Inr(3) [OF assms(1)] assms(2) row_filter.tree_balanced row_filter.tree_paren by auto

text \<open>
  C29: A compiled query has exactly one parameter per placeholder of its SQL text, provided the
  caller's authorization clause has.\<close>
theorem compiled_query_parameters_match:
  assumes "compileNormalizedQuery rt input query registry = Inr cq"
    and "\<And>b. in_businessAuthorization input = Some b \<Longrightarrow> qmarks (ba_sql b) = length (ba_params b)"
  shows "qmarks (cq_sql cq) = length (cq_params cq)"
proof -
  obtain table p where p: "sql_parts_of rt input query registry (registry_fields (r_fields registry))
      (query_mode query) = Inr p" and cq: "cq = assemble input query table (query_mode query) p"
    using compileNormalizedQuery_Inr [OF assms(1)] by blast
  have "balanced (sp_projection p)" "balanced (sp_from p)" "balanced (sp_order p)" "qmarks (sp_groupBy p) = 0"
    using sql_parts_of_Inr [OF p] buildProjection_balanced buildOrderBy_balanced baseFromAndWhere_balanced [OF assms(2)]
    by auto
  moreover have "qmarks (where_sql p) = qmarks (frag_sql (sp_from p)) + length (filter_params p)"
    using sql_parts_filter_balanced(1) [OF p]
    by (auto simp: where_sql_def filter_params_def balanced_def split: option.split)
  ultimately show ?thesis
    by (cases table) (simp_all add: cq assemble_def balanced_def)
qed

lemma assemble_texts:
  assumes "cq = assemble input query table mode p" and "sp_from p = baseFromAndWhere registry input"
  shows "cq_sql cq = ''SELECT '' @ frag_sql (sp_projection p) @ '' FROM '' @ table_text table @ '' r '' @
       str_join '' '' scope_clauses @
       (case in_businessAuthorization input of
          Some b \<Rightarrow> '' AND ('' @ ba_sql b @ '')'' | None \<Rightarrow> '' AND d.confidentiality_level <= ?'') @
       (case map_option frag_sql (sp_filter p) of Some f \<Rightarrow> '' AND ('' @ f @ '')'' | None \<Rightarrow> []) @
       sp_groupBy p @ frag_sql (sp_order p) @ '' LIMIT ? OFFSET ?''"
    and "cq_params cq = frag_params (sp_projection p) @ scope_params (in_orgId input) (r_dataset registry) @
       (case in_businessAuthorization input of
          Some b \<Rightarrow> ba_params b | None \<Rightarrow> [PNum (in_clearance input)]) @
       filter_params p @ frag_params (sp_order p) @ [PNum (q_limit query), PNum (sp_offset p)]"
  unfolding assms(1) assemble_def where_sql_def
  by (simp_all add: assms(2) baseFromAndWhere_sql split: option.split)
     (simp add: baseFromAndWhere_def split: option.split)


text \<open>
  C16: The SQL text of a compiled row query does not depend on the values it filters for: two
  queries of one caller that differ only in filter values of the same form (and in the cursor)
  compile to the same text, so a value can never be read as SQL.\<close>
theorem compiled_sql_independent_of_values:
  assumes "compileNormalizedQuery rt input query registry = Inr cq"
    and "compileNormalizedQuery rt input (query\<lparr>q_filter := filter', q_cursor := cursor'\<rparr>) registry = Inr cq'"
    and "map_option filter_form filter' = map_option filter_form (q_filter query)"
  shows "cq_sql cq' = cq_sql cq"
proof -
  let ?q = "query\<lparr>q_filter := filter', q_cursor := cursor'\<rparr>"
  let ?fm = "registry_fields (r_fields registry)"
  obtain table p where p: "sql_parts_of rt input query registry ?fm (query_mode query) = Inr p"
    and cq: "cq = assemble input query table (query_mode query) p" and table: "r_rowTable registry = Some table"
    using compileNormalizedQuery_Inr [OF assms(1)] by blast
  have mode: "query_mode ?q = query_mode query"
    by (simp add: query_mode_def)
  obtain p' where p': "sql_parts_of rt input ?q registry ?fm (query_mode query) = Inr p'"
    and cq': "cq' = assemble input ?q table (query_mode query) p'"
    using compileNormalizedQuery_Inr [OF assms(2)] table unfolding mode by auto
  have "sp_projection p' = sp_projection p" "sp_from p' = sp_from p" "sp_order p' = sp_order p"
    using sql_parts_of_Inr(1,2,4) [OF p] sql_parts_of_Inr(1,2,4) [OF p']
    by (simp_all add: buildProjection_def buildOrderBy_def cong: if_cong)
  moreover have "sp_groupBy p' = sp_groupBy p"
    using p p' by (auto simp: sql_parts_of_def res_bind_Inr Let_def buildGroupBy_def split: if_splits)
  moreover have "map_option frag_sql (sp_filter p') = map_option frag_sql (sp_filter p)"
  proof (cases "q_filter query")
    case None
    with assms(3) sql_parts_of_Inr(3) [OF p] sql_parts_of_Inr(3) [OF p'] show ?thesis by auto
  next
    case (Some f)
    with assms(3) obtain f' where f': "filter' = Some f'" "filter_form f' = filter_form f" by auto
    obtain fr where fr: "compileFilter rt ?fm f = Inr fr" "sp_filter p = Some fr"
      using sql_parts_of_Inr(3) [OF p] Some by auto
    obtain fr' where fr': "compileFilter rt ?fm f' = Inr fr'" "sp_filter p' = Some fr'"
      using sql_parts_of_Inr(3) [OF p'] f'(1) by auto
    show ?thesis
      using row_filter.tree_text [OF fr'(1) fr(1) f'(2)] fr(2) fr'(2) by simp
  qed
  ultimately show ?thesis
    by (cases "sp_filter p"; cases "sp_filter p'") (simp_all add: cq cq' assemble_def where_sql_def)
qed

section \<open>Bounds\<close>

fun filter_depth :: "FilterNode \<Rightarrow> nat" where
  "filter_depth (Cond _ _ _) = 1"
| "filter_depth (AndF nodes) = Suc (Max (set (0 # map filter_depth nodes)))"
| "filter_depth (OrF nodes) = Suc (Max (set (0 # map filter_depth nodes)))"
| "filter_depth (NotF node) = Suc (filter_depth node)"

fun condition_count :: "FilterNode \<Rightarrow> nat" where
  "condition_count (Cond _ _ _) = 1"
| "condition_count (AndF nodes) = sum_list (map condition_count nodes)"
| "condition_count (OrF nodes) = sum_list (map condition_count nodes)"
| "condition_count (NotF node) = condition_count node"

fun no_empty_group :: "FilterNode \<Rightarrow> bool" where
  "no_empty_group (Cond _ _ _) = True"
| "no_empty_group (AndF nodes) = (nodes \<noteq> [] \<and> list_all no_empty_group nodes)"
| "no_empty_group (OrF nodes) = (nodes \<noteq> [] \<and> list_all no_empty_group nodes)"
| "no_empty_group (NotF node) = no_empty_group node"

lemma normalizeFilter_bounds:
  "normalizeFilter input depth = Inr (node, n) \<Longrightarrow>
     depth + filter_depth node \<le> 4 \<and> condition_count node = n \<and> n \<le> 20 \<and> no_empty_group node"
proof (induction input depth arbitrary: node n rule: normalizeFilter.induct)
  case (1 input depth)
  from 1(3) obtain object where depth: "\<not> depth > ql_maxBooleanDepth STRUCTURED_QUERY_LIMITS"
    and object: "requirePlainObject input ''filter must be an object.'' = Inr object"
    by (subst (asm) normalizeFilter.simps) (auto simp: res_bind_Inr split: if_splits)
  then have depth3: "depth \<le> 3" by (simp add: STRUCTURED_QUERY_LIMITS_def)
  let ?keys = "obj_keys object"
  show ?case
  proof (cases "''and'' \<in> set ?keys \<or> ''or'' \<in> set ?keys")
    case True
    from 1(3) depth object True obtain vs children where
      len: "length ?keys = 1" and vs: "obj_get object (hd ?keys) = Some (JArr vs)" "vs \<noteq> []"
      and ch: "res_mapM (\<lambda>v. normalizeFilter v (Suc depth)) vs = Inr children"
      and n: "n = sum_list (map snd children)" "n \<le> 20"
      and node: "node = AndF (map fst children) \<or> node = OrF (map fst children)"
      by (subst (asm) normalizeFilter.simps)
         (auto simp: Let_def res_bind_Inr STRUCTURED_QUERY_LIMITS_def split: option.splits json.splits list.splits if_splits)
    have each: "Suc depth + filter_depth (fst c) \<le> 4 \<and> condition_count (fst c) = snd c \<and> no_empty_group (fst c)"
      if c: "c \<in> set children" for c
    proof -
      obtain v where v: "v \<in> set vs" "normalizeFilter v (Suc depth) = Inr (fst c, snd c)"
        using res_mapM_set [OF ch c] by auto
      obtain w ws where ws: "vs = w # ws" using vs(2) by (cases vs) auto
      have "\<not> length ?keys \<noteq> 1" using len by simp
      from 1(1) [OF depth refl True this refl vs(1) refl ws _ v(2)] v(1) ws show ?thesis
        by blast
    qed
    have "sum_list (map condition_count (map fst children)) = n"
      unfolding n(1) map_map using each by (intro arg_cong [where f = sum_list] map_cong) auto
    moreover have "Max (set (0 # map filter_depth (map fst children))) \<le> 3 - depth"
    proof (rule Max.boundedI)
      fix d assume "d \<in> set (0 # map filter_depth (map fst children))"
      then show "d \<le> 3 - depth" using each by force
    qed simp_all
    then have "Suc depth + Max (set (0 # map filter_depth (map fst children))) \<le> 4"
      using depth3 by linarith
    moreover have "map fst children \<noteq> []" "list_all no_empty_group (map fst children)"
      using ch vs(2) each by (auto simp: list_all_iff dest: res_mapM_length)
    ultimately show ?thesis
      using n(2) node by (elim disjE) simp_all
  next
    case False
    show ?thesis
    proof (cases "''not'' \<in> set ?keys")
      case True
      with 1(3) depth object False obtain v child where
        len: "length ?keys = 1" and v: "obj_get object ''not'' = Some v"
        and child: "normalizeFilter v (Suc depth) = Inr (child, n)" and node: "node = NotF child"
        by (subst (asm) normalizeFilter.simps)
           (auto simp: Let_def res_bind_Inr split: option.splits if_splits)
      have "Suc depth + filter_depth child \<le> 4 \<and> condition_count child = n \<and> n \<le> 20 \<and> no_empty_group child"
        using 1(2) [OF depth refl False True _ v child] len by auto
      with node show ?thesis by auto
    next
      case no_not: False
      with 1(3) depth object False obtain f op v where "node = Cond f op v" "n = 1"
        by (subst (asm) normalizeFilter.simps)
           (auto simp: Let_def res_bind_Inr split: option.splits json.splits if_splits)
      with depth3 show ?thesis by simp
    qed
  qed
qed

text \<open>
  C32: A filter that normalization accepts is at most three levels deep, has between one and
  twenty conditions and no empty group.\<close>
theorem normalized_filter_bounded:
  assumes "normalizeQuery registries body override = Inr query" and "q_filter query = Some node"
  shows "filter_depth node \<le> 3 \<and> 1 \<le> condition_count node \<and> condition_count node \<le> 20 \<and> no_empty_group node"
proof -
  from normalizeQuery_Inr [OF assms(1)] assms(2) obtain v n where "normalizeFilter v 1 = Inr (node, n)"
    by (auto simp: normalize_filter_entry_def res_bind_Inr split: option.splits)
  from normalizeFilter_bounds [OF this]
  have b: "filter_depth node \<le> 3" "condition_count node \<le> 20" "no_empty_group node" by auto
  have "no_empty_group m \<Longrightarrow> 1 \<le> condition_count m" for m
    by (induction m) (auto simp: neq_Nil_conv trans_le_add1)
  with b show ?thesis by blast
qed

lemma normalizePage_bounds:
  assumes "normalizePage input mode = Inr (limit, cursor)"
  shows "\<exists>i. limit = js_num i \<and> 1 \<le> i \<and> i \<le> 200"
proof (cases input)
  case (Some v)
  with assms obtain object where "requirePlainObject v ''page must be an object.'' = Inr object"
    by (auto simp: normalizePage_def res_bind_Inr)
  with assms Some have "js_isInteger limit \<and> \<not> js_lt limit (js_num 1) \<and> \<not> js_lt (js_num 200) limit"
    unfolding normalizePage_def
    by (cases "get_or object ''limit'' (JNum (js_num 50))"; cases "get_or object ''cursor'' JNull")
       (auto simp: res_bind_Inr Let_def STRUCTURED_QUERY_LIMITS_def split: if_split_asm)
  then show ?thesis by (auto simp: js_isInteger_cases not_less)
qed (use assms in \<open>auto simp: normalizePage_def STRUCTURED_QUERY_LIMITS_def\<close>)

lemma normalizeStringArray_bounds:
  assumes "normalizeStringArray v name n r = Inr ss"
  shows "length ss \<le> n \<and> distinct ss"
proof (cases v)
  case (Some j)
  with assms obtain us where "ss = js_uniq (filter (\<lambda>s. s \<noteq> []) (map js_trim us))" "length us \<le> n"
    by (auto simp: normalizeStringArray_def split: option.split_asm if_split_asm)
  then show ?thesis
    using length_js_uniq_le [of "filter (\<lambda>s. s \<noteq> []) (map js_trim us)"]
      length_filter_le [of "\<lambda>s. s \<noteq> []" "map js_trim us"] by (simp del: length_filter_map)
qed (use assms in \<open>auto simp: normalizeStringArray_def split: if_splits\<close>)

lemma normalized_query_bounded_groups:
  "normalizeQuery registries body override = Inr query \<Longrightarrow> distinct (q_groupBy query)"
  using normalizeQuery_Inr normalizeStringArray_bounds by blast

text \<open>
  Every normalized query asks for a page of 1 to 200 rows, at most 50 selected fields (unless
  they are the dataset's default fields), at most 4 group fields, 12 aggregates and 2 sort fields;
  selected and group fields have no duplicates.\<close>
theorem normalized_query_bounded:
  assumes "normalizeQuery registries body override = Inr query"
  shows "(\<exists>i. q_limit query = js_num i \<and> 1 \<le> i \<and> i \<le> 200) \<and>
     length (q_groupBy query) \<le> 4 \<and> distinct (q_groupBy query) \<and>
     length (q_aggregates query) \<le> 12 \<and> length (q_sort query) \<le> 2 \<and>
     (length (q_select query) \<le> 50 \<and> distinct (q_select query) \<or>
      q_select query = map f_canonicalName (filter f_defaultReturn (r_fields
        (case override of None \<Rightarrow> registries (q_dataset query) | Some r \<Rightarrow> r))))"
proof -
  from normalizeQuery_Inr [OF assms] obtain object select where
      sel: "normalizeStringArray (obj_get object ''select'') ''select'' 50 False = Inr select"
        "q_select query = effective_select select (query_mode query)
           (case override of None \<Rightarrow> registries (q_dataset query) | Some r \<Rightarrow> r)"
    and gb: "normalizeStringArray (obj_get object ''groupBy'') ''groupBy'' 4 False = Inr (q_groupBy query)"
    and srt: "normalizeSort (obj_get object ''sort'') = Inr (q_sort query)"
    and agg: "normalizeAggregates (obj_get object ''aggregates'') = Inr (q_aggregates query)"
    and pg: "normalizePage (obj_get object ''page'') (query_mode query) = Inr (q_limit query, q_cursor query)"
    by blast
  have "length (q_sort query) \<le> 2"
    using srt by (auto simp: normalizeSort_def STRUCTURED_QUERY_LIMITS_def split: option.split_asm json.split_asm if_split_asm
        dest!: res_mapM_length)
  moreover have "length (q_aggregates query) \<le> 12"
    using agg by (auto simp: normalizeAggregates_def STRUCTURED_QUERY_LIMITS_def split: option.split_asm json.split_asm if_split_asm
        dest!: res_mapM_length)
  ultimately show ?thesis
    using sel(2) normalizeStringArray_bounds [OF sel(1)] normalizePage_bounds [OF pg]
      normalizeStringArray_bounds [OF gb]
    by (auto simp: effective_select_def split: if_splits)
qed

section \<open>A validated query compiles\<close>

text \<open>What the registry promises of a field of a row dataset.\<close>

definition known_operators :: "string list" where
  "known_operators = [''eq'', ''contains'', ''starts_with'', ''between'', ''in'', ''gt'', ''gte'', ''lt'', ''lte'']"

definition payload_field :: "StructuredFieldRegistryEntry \<Rightarrow> bool" where
  "payload_field f =
     (case f_storage f of
        Some st \<Rightarrow> st_column st = col_payload \<and> (case st_jsonPath st of Some p \<Rightarrow> p \<noteq> [] | None \<Rightarrow> False)
      | None \<Rightarrow> False)"

definition document_id_field :: "StructuredFieldRegistryEntry \<Rightarrow> bool" where
  "document_id_field f =
     (case f_storage f of Some st \<Rightarrow> st_column st = col_source_document_id | None \<Rightarrow> False)"

definition field_wf :: "StructuredFieldRegistryEntry \<Rightarrow> bool" where
  "field_wf f \<longleftrightarrow>
     safe_identifier (f_canonicalName f) \<and> (payload_field f \<or> document_id_field f) \<and>
     (cap_filter (f_capabilities f) \<or> cap_sort (f_capabilities f) \<longrightarrow> payload_field f) \<and>
     set (f_operators f) \<subseteq> set known_operators"

definition registry_wf :: "StructuredFieldRegistryEntry list \<Rightarrow> bool" where
  "registry_wf fs \<longleftrightarrow>
     list_all field_wf fs \<and>
     (list_ex (\<lambda>f. f_inputSource f = from_dynamic_lookup) fs \<longrightarrow>
        ''supplier_name'' \<in> set (map f_canonicalName fs)) \<and>
     list_all (\<lambda>f. f_canonicalName f = ''supplier_name'' \<longrightarrow> payload_field f) fs"

lemma registry_fields_Some:
  assumes "registry_fields fs n = Some f"
  shows "f \<in> set fs" and "f_canonicalName f = n"
  using map_of_SomeD [OF assms [unfolded registry_fields_def]] by auto

lemma registry_fields_dom: "n \<in> set (map f_canonicalName fs) \<Longrightarrow> \<exists>f. registry_fields fs n = Some f"
  by (auto simp: registry_fields_def map_of_eq_None_iff image_iff simp flip: not_None_eq)

lemma payload_field_path: "payload_field f \<Longrightarrow> is_ok (requireJsonPath f)"
  by (auto simp: payload_field_def requireJsonPath_def requireStorage_def split: option.splits)

lemma requireField_Inr: "requireField fm n = Inr f \<longleftrightarrow> fm n = Some f"
  by (auto simp: requireField_def split: option.split)

lemma scalar_param_ok:
  assumes "validateScalarType rt t v = Inr ()"
  shows "is_ok (scalarParam v)"
  using assms by (cases v) (auto simp: validateScalarType_def scalarParam_def split: if_splits)

lemma compileCondition_ok:
  assumes wf: "registry_wf fs" and valid: "validateFilter rt (registry_fields fs) (Cond name op v) = Inr ()"
  shows "is_ok (compileCondition rt (registry_fields fs) name op v)"
proof -
  from valid obtain f where f: "registry_fields fs name = Some f" "cap_filter (f_capabilities f)"
    "op \<in> set (f_operators f)" and val: "validateConditionValue rt f op v = Inr ()"
    by (auto simp: res_bind_Inr requireField_Inr)
  have "field_wf f"
    using wf registry_fields_Some(1) [OF f(1)] by (simp add: registry_wf_def list_all_iff)
  then have "is_ok (requireJsonPath f)" and op: "op \<in> set known_operators"
    using f payload_field_path by (auto simp: field_wf_def)
  then obtain path where path: "requireJsonPath f = Inr path" by (auto simp: is_ok_iff)
  note [simp] = requireField_def f(1) path compileCondition_def is_ok_bind
  consider "op = ''contains'' \<or> op = ''starts_with''" | "op = ''between''" | "op = ''in''"
    | "op \<notin> {''contains'', ''starts_with'', ''between'', ''in''}" by blast
  then show ?thesis
  proof cases
    case 1
    then show ?thesis by auto
  next
    case 2
    then have "op = ''between''" by simp
    note between = val [unfolded validateConditionValue_def this if_P [OF refl]]
    then obtain a b where v: "v = JArr [a, b]"
      by (cases v rule: value_list.cases)
         (auto split: list.split_asm)
    with between obtain pa pb where "scalarParam a = Inr pa" "scalarParam b = Inr pb"
      using scalar_param_ok by (auto simp: is_ok_iff res_bind_Inr) metis
    then show ?thesis
      using 2 v by simp
  next
    case 3
    with val obtain vs where vs: "v = JArr vs" "\<forall>x\<in>set vs. validateScalarType rt (f_type f) x = Inr ()"
      by (auto simp: validateConditionValue_def split: json.split_asm if_split_asm)
    have "is_ok (res_mapM scalarParam vs)"
      by (rule res_mapM_ok) (use vs(2) scalar_param_ok in blast)
    then show ?thesis
      using 3 vs(1) by (auto simp: is_ok_iff)
  next
    case 4
    then have "validateScalarType rt (f_type f) v = Inr ()"
      using val by (cases v) (simp_all add: validateConditionValue_def)
    from scalar_param_ok [OF this] obtain p where "scalarParam v = Inr p"
      by (auto simp: is_ok_iff)
    moreover obtain t where "comparison_operator op = Some t"
      using op 4 by (cases "comparison_operator op")
        (simp_all add: known_operators_def comparison_operator_def split: if_splits)
    ultimately show ?thesis using 4 by simp
  qed
qed

lemma validated_filter_compiles:
  assumes "registry_wf fs" and "validateFilter rt (registry_fields fs) node = Inr ()"
  shows "is_ok (compileFilter rt (registry_fields fs) node)"
  using assms(2)
proof (induction node)
  case (Cond name op v)
  then show ?case using compileCondition_ok [OF assms(1)] by simp
next
  case (AndF nodes)
  then have "is_ok (res_mapM (compileFilter rt (registry_fields fs)) nodes)"
    by (intro res_mapM_ok) auto
  then show ?case by (auto simp: is_ok_iff)
next
  case (OrF nodes)
  then have "is_ok (res_mapM (compileFilter rt (registry_fields fs)) nodes)"
    by (intro res_mapM_ok) auto
  then show ?case by (auto simp: is_ok_iff)
next
  case (NotF node)
  then show ?case by (auto simp: is_ok_iff)
qed

lemma res_filter_ok:
  assumes "\<And>x. x \<in> set xs \<Longrightarrow> is_ok (f x)"
  shows "\<exists>ys. res_filter f xs = Inr ys \<and> set ys \<subseteq> set xs"
  using assms
proof (induction xs)
  case (Cons x xs)
  obtain ys where "res_filter f xs = Inr ys" "set ys \<subseteq> set xs"
    using Cons.IH Cons.prems by auto
  moreover obtain b where "f x = Inr b"
    using Cons.prems [of x] by (auto simp: is_ok_iff)
  ultimately show ?case by auto
qed simp

lemma res_filter_mem:
  "res_filter f xs = Inr ys \<Longrightarrow> y \<in> set ys \<Longrightarrow> y \<in> set xs \<and> f y = Inr True"
  by (induction xs arbitrary: ys) (auto simp: res_bind_Inr split: if_splits)

lemma registry_wf_field:
  assumes "registry_wf fs" and "registry_fields fs n = Some f"
  shows "field_wf f" and "\<exists>q. quoteIdentifier n = Inr q"
proof -
  show "field_wf f"
    using assms registry_fields_Some(1) [OF assms(2)] by (simp add: registry_wf_def list_all_iff)
  then show "\<exists>q. quoteIdentifier n = Inr q"
    using registry_fields_Some(2) [OF assms(2)] by (simp add: field_wf_def quoteIdentifier_def)
qed

lemma project_stored_ok:
  assumes "registry_wf fs" and "registry_fields fs n = Some f"
  shows "is_ok (project_stored (registry_fields fs) n)"
  using registry_wf_field [OF assms] assms(2) registry_fields_Some(2) [OF assms(2)]
  by (auto simp: project_stored_def is_ok_bind requireField_def requireStorage_def field_wf_def
      payload_field_def document_id_field_def split: option.split_asm)

lemma payload_column_ok: "field_wf f \<Longrightarrow> is_ok (payload_column f)"
  by (auto simp: payload_column_def is_ok_bind requireStorage_def field_wf_def payload_field_def
      document_id_field_def split: option.split_asm)

lemma payload_column_path: "field_wf f \<Longrightarrow> payload_column f = Inr True \<Longrightarrow> is_ok (requireJsonPath f)"
  by (auto simp: payload_column_def requireStorage_def field_wf_def document_id_field_def
      intro!: payload_field_path split: option.split_asm)

lemma supplier_name_ok:
  assumes "registry_wf fs" and "registry_fields fs n = Some f" and "f_inputSource f = from_dynamic_lookup"
  shows "\<exists>g path. registry_fields fs ''supplier_name'' = Some g \<and> requireJsonPath g = Inr path"
proof -
  have "list_ex (\<lambda>f. f_inputSource f = from_dynamic_lookup) fs"
    using registry_fields_Some(1) [OF assms(2)] assms(3) by (auto simp: list_ex_iff)
  with assms(1) obtain g where g: "registry_fields fs ''supplier_name'' = Some g"
    using registry_fields_dom by (auto simp: registry_wf_def)
  moreover have "payload_field g"
    using assms(1) registry_fields_Some [OF g] by (auto simp: registry_wf_def list_all_iff)
  ultimately show ?thesis
    using payload_field_path by (auto simp: is_ok_iff)
qed

lemma buildProjection_detail_ok:
  assumes wf: "registry_wf fs" and sel: "\<And>n. n \<in> set (q_select query) \<Longrightarrow> \<exists>f. registry_fields fs n = Some f"
  shows "is_ok (buildProjection query (registry_fields fs) Detail)"
proof -
  let ?fm = "registry_fields fs"
  have dyn: "is_ok (is_dynamic ?fm n)" if "n \<in> set (q_select query)" for n
    using sel [OF that] by (auto simp: is_dynamic_def is_ok_bind requireField_def)
  then have "is_ok (res_bind (is_dynamic ?fm n) (\<lambda>d. Inr (\<not> d)))" if "n \<in> set (q_select query)" for n
    using dyn [OF that] by (auto simp: is_ok_iff)
  then obtain stored where
    stored: "res_filter (\<lambda>n. res_bind (is_dynamic ?fm n) (\<lambda>d. Inr (\<not> d))) (q_select query) = Inr stored"
      "set stored \<subseteq> set (q_select query)"
    using res_filter_ok [of "q_select query" "\<lambda>n. res_bind (is_dynamic ?fm n) (\<lambda>d. Inr (\<not> d))"] by blast
  have "is_ok (res_mapM (project_stored ?fm) stored)"
    using stored(2) sel project_stored_ok [OF wf] by (intro res_mapM_ok) blast
  moreover have "is_ok (res_mapM (requireField ?fm) stored)"
    using stored(2) sel by (intro res_mapM_ok) (fastforce simp: requireField_def)
  ultimately obtain parts entries where parts: "res_mapM (project_stored ?fm) stored = Inr parts"
    and entries: "res_mapM (requireField ?fm) stored = Inr entries"
    by (auto simp: is_ok_iff)
  have entry_wf: "field_wf e" if "e \<in> set entries" for e
    using res_mapM_set [OF entries that] registry_wf_field(1) [OF wf] by (auto simp: requireField_Inr)
  from res_filter_ok [of entries payload_column] payload_column_ok entry_wf obtain payloads where
    payloads: "res_filter payload_column entries = Inr payloads" by blast
  have "is_ok (res_mapM requireJsonPath payloads)"
    using res_filter_mem [OF payloads] entry_wf payload_column_path by (intro res_mapM_ok) blast
  then obtain params where params: "res_mapM requireJsonPath payloads = Inr params" by (auto simp: is_ok_iff)
  obtain dynamic where dynamic: "res_filter (is_dynamic ?fm) (q_select query) = Inr dynamic"
    using res_filter_ok [of "q_select query" "is_dynamic ?fm"] dyn by blast
  show ?thesis
  proof (cases "dynamic = []")
    case True
    then show ?thesis
      by (simp add: buildProjection_def stored parts entries payloads params dynamic)
  next
    case False
    then obtain n where "is_dynamic ?fm n = Inr True"
      using res_filter_mem [OF dynamic] by (cases dynamic) auto
    then obtain g path where "?fm ''supplier_name'' = Some g" "requireJsonPath g = Inr path"
      using supplier_name_ok [OF wf] by (auto simp: is_dynamic_def res_bind_Inr requireField_Inr) blast
    moreover have "\<exists>q. quoteIdentifier ''structured_query_supplier_name'' = Inr q"
      by (simp add: quoteIdentifier_def safe_identifier_def is_lower_def is_upper_def is_digit_def)
    ultimately show ?thesis
      using False
      by (auto simp: buildProjection_def stored parts entries payloads params dynamic requireField_def)
  qed
qed

lemma buildOrderBy_detail_ok:
  assumes wf: "registry_wf fs" and valid: "validateSort query (registry_fields fs) Detail = Inr ()"
  shows "is_ok (buildOrderBy query (registry_fields fs) Detail)"
proof -
  let ?fm = "registry_fields fs"
  have item: "\<exists>f path. ?fm (so_field item) = Some f \<and> requireJsonPath f = Inr path"
    if item: "item \<in> set (q_sort query)" for item
  proof -
    obtain f where f: "?fm (so_field item) = Some f" "cap_sort (f_capabilities f)"
      using valid item by (auto simp: validateSort_def res_bind_Inr requireField_Inr)
    then have "is_ok (requireJsonPath f)"
      using registry_wf_field(1) [OF wf f(1)] payload_field_path by (simp add: field_wf_def)
    with f(1) show ?thesis by (auto simp: is_ok_iff)
  qed
  have "is_ok (res_mapM (order_expression ?fm) (q_sort query))"
    using item by (intro res_mapM_ok) (fastforce simp: order_expression_def requireField_def)
  moreover have "is_ok (res_mapM (\<lambda>item. res_bind (requireField ?fm (so_field item)) requireJsonPath) (q_sort query))"
    using item by (intro res_mapM_ok) (fastforce simp: requireField_def)
  ultimately show ?thesis
    by (auto simp: buildOrderBy_def is_ok_iff)
qed

text \<open>
  C30: On a well-formed registry with a row table, a detail query that passes the four validation
  steps compiles, unless its cursor is refused: nothing in the translation itself can fail
  any more.\<close>
theorem validated_detail_query_compiles:
  assumes "registry_wf (r_fields registry)" and "r_rowTable registry = Some table"
    and "query_mode query = Detail"
    and "validateQuery rt query (registry_fields (r_fields registry)) Detail = Inr ()"
    and "is_ok (cursor_offset rt input query (hashQueryShape rt (caller_shape input query)))"
  shows "is_ok (compileNormalizedQuery rt input query registry)"
proof -
  let ?fm = "registry_fields (r_fields registry)"
  from assms(4) have sel: "\<And>n. n \<in> set (q_select query) \<Longrightarrow> \<exists>f. ?fm n = Some f"
    and srt: "validateSort query ?fm Detail = Inr ()"
    and filt: "\<And>f. q_filter query = Some f \<Longrightarrow> validateFilter rt ?fm f = Inr ()"
    by (auto simp: validateQuery_def validateSelectedFields_def res_bind_Inr requireField_Inr)
  obtain offset projection order where
    "cursor_offset rt input query (hashQueryShape rt (caller_shape input query)) = Inr offset"
    "buildProjection query ?fm Detail = Inr projection" "buildOrderBy query ?fm Detail = Inr order"
    using assms(5) buildProjection_detail_ok [of _ query, OF assms(1) sel] buildOrderBy_detail_ok [OF assms(1) srt]
    by (auto simp: is_ok_iff)
  moreover obtain dynamic where "res_filter (is_dynamic ?fm) (q_select query) = Inr dynamic"
    using res_filter_ok [of "q_select query" "is_dynamic ?fm"] sel
    by (fastforce simp: is_dynamic_def is_ok_bind requireField_def)
  moreover obtain fr where "(case q_filter query of
         None \<Rightarrow> Inr None
       | Some f \<Rightarrow> res_bind (compileFilter rt ?fm f) (\<lambda>fr. Inr (Some fr))) = Inr fr"
  proof (cases "q_filter query")
    case (Some f)
    with validated_filter_compiles [OF assms(1) filt [OF Some]] show ?thesis
      using that by (auto simp: is_ok_iff)
  qed (use that in simp)
  ultimately show ?thesis
    using assms(2-4) by (simp add: compileNormalizedQuery_def sql_parts_of_def)
qed

text \<open>
  In a compiled aggregate query the output columns are pairwise distinct: no group field and
  no aggregate alias is used twice, so no column of the result hides another.\<close>
theorem aggregate_columns_distinct:
  assumes "normalizeQuery registries body override = Inr query"
    and "compileNormalizedQuery rt input query registry = Inr cq" and "cq_mode cq = Aggregate"
  shows "distinct (cq_selectedFields cq)"
proof -
  have uniq: "requireUniqueAggregateAliases seen as = Inr () \<Longrightarrow>
      distinct (map aggregateAlias as) \<and> set (map aggregateAlias as) \<inter> set seen = {}" for seen as
    by (induction seen as rule: requireUniqueAggregateAliases.induct) (auto split: if_splits)
  obtain table p where valid: "validateQuery rt query (registry_fields (r_fields registry)) (query_mode query) = Inr ()"
    and cq: "cq = assemble input query table (query_mode query) p"
    using compileNormalizedQuery_Inr [OF assms(2)] by blast
  have "requireUniqueAggregateAliases (q_groupBy query) (q_aggregates query) = Inr ()"
    using valid by (simp add: validateQuery_def validateAggregates_def res_bind_Inr)
  from uniq [OF this] show ?thesis
    using normalized_query_bounded_groups [OF assms(1)] assms(3) by (auto simp: cq assemble_def)
qed

end
