(* ===== verification/Structured_Registry.thy ===== *)
theory Structured_Registry
  imports Structured_Safety
begin

text \<open>
  The dataset registries of \<^verbatim>\<open>packages/domain/src/structured-registry.ts\<close>: the construction of their
  fields, and the resolution of the header row of an uploaded sheet against them; and the
  identity texts of \<^verbatim>\<open>packages/domain/src/structured-partitions.ts\<close>.

  The column tables themselves (Chinese column titles with their English names) and the
  classification of a title by substrings are data: a column arrives here as \<open>column_info\<close> with
  its canonical name, type and measure flag already looked up.
\<close>

section \<open>Identity texts\<close>

text \<open>\<open>replace(/\s+/g, " ")\<close>\<close>

function collapse_ws :: "string \<Rightarrow> string" where
  "collapse_ws [] = []"
| "collapse_ws (c # cs) =
     (if is_ws c then CHR '' '' # collapse_ws (dropWhile is_ws cs) else c # collapse_ws cs)"
  by pat_completeness auto
termination
  by (relation "measure length") (auto simp: le_imp_less_Suc length_dropWhile_le)

definition normalizeHeader :: "string \<Rightarrow> string" where
  "normalizeHeader header = collapse_ws (js_trim header)"

text \<open>Normalization form NFC leaves the code units below 256 unchanged.\<close>

definition normalizeIdentityText :: "string \<Rightarrow> string" where
  "normalizeIdentityText v = collapse_ws (js_trim v)"

definition asciiLowercase :: "string \<Rightarrow> string" where
  "asciiLowercase v = map (\<lambda>c. if is_upper c then char_of ((of_char c :: nat) + 32) else c) v"

datatype partition_error = storeIdentityMissing string

definition normalizeEnterpriseIdentity :: "string \<Rightarrow> partition_error + (string \<times> string)" where
  "normalizeEnterpriseIdentity v =
     (let enterpriseName = normalizeIdentityText v in
      if enterpriseName = [] then Inl (storeIdentityMissing ''Enterprise name is required.'')
      else Inr (asciiLowercase enterpriseName, enterpriseName))"

record PartitionStoreIdentity =
  ps_storeKey :: string
  ps_merchantId :: "string option"
  ps_storeName :: string

definition partitionStoreIdentity :: "string option \<Rightarrow> string option \<Rightarrow> partition_error + PartitionStoreIdentity" where
  "partitionStoreIdentity merchant store =
     (let merchantId = normalizeIdentityText (case merchant of None \<Rightarrow> [] | Some m \<Rightarrow> m);
          storeName = normalizeIdentityText (case store of None \<Rightarrow> [] | Some s \<Rightarrow> s) in
      if merchantId = [] \<and> storeName = []
      then Inl (storeIdentityMissing ''Merchant ID or store name is required.'')
      else Inr \<lparr>ps_storeKey = (if merchantId \<noteq> [] then ''merchant:'' @ merchantId
                               else ''name:'' @ asciiLowercase storeName),
                ps_merchantId = (if merchantId = [] then None else Some merchantId),
                ps_storeName = storeName\<rparr>)"

definition isOrderPartitionDataset :: "string \<Rightarrow> bool" where
  "isOrderPartitionDataset v \<longleftrightarrow> v = ''in_store_orders'' \<or> v = ''takeaway_orders''"

definition isPartitionDataset :: "string \<Rightarrow> bool" where
  "isPartitionDataset v \<longleftrightarrow> v \<in> set [''business'', ''dishes'', ''in_store_orders'', ''takeaway_orders'']"

section \<open>The fields of a registry\<close>

definition operatorsForType :: "StructuredFieldType \<Rightarrow> string list" where
  "operatorsForType t =
     (if t = ty_date \<or> t = ty_date_time then [''eq'', ''between'', ''gte'', ''lte'', ''in'']
      else if is_numeric t then [''eq'', ''between'', ''gt'', ''gte'', ''lt'', ''lte'', ''in'']
      else [''eq'', ''contains'', ''starts_with'', ''in''])"

definition payload_storage :: "StructuredRowTableName option \<Rightarrow> string \<Rightarrow> StructuredFieldStorageMapping option" where
  "payload_storage rowTable canonicalName =
     map_option (\<lambda>t. \<lparr>st_table = t, st_column = col_payload, st_jsonPath = Some (''$.'' @ canonicalName)\<rparr>) rowTable"

definition createSourceDocumentIdField :: "StructuredRowTableName \<Rightarrow> StructuredFieldRegistryEntry" where
  "createSourceDocumentIdField rowTable =
     \<lparr>f_canonicalName = ''source_document_id'', f_sourceColumn = ''source_document_id'',
      f_aliases = [''source_document_id''], f_type = ty_string, f_nullable = False,
      f_inputSource = from_derived, f_defaultReturn = False, f_operators = operatorsForType ty_string,
      f_capabilities = \<lparr>cap_filter = False, cap_sort = False, cap_group = False, cap_aggregate = False\<rparr>,
      f_storage = Some \<lparr>st_table = rowTable, st_column = col_source_document_id, st_jsonPath = None\<rparr>\<rparr>"

definition createDeliveryLedgerField ::
  "string \<Rightarrow> string \<Rightarrow> StructuredFieldType \<Rightarrow> bool \<Rightarrow> InputSource \<Rightarrow> string list \<Rightarrow> StructuredFieldRegistryEntry" where
  "createDeliveryLedgerField canonicalName sourceColumn t nullable inputSource aliases =
     (let isDynamic = inputSource = from_dynamic_lookup;
          isSourceDocumentId = canonicalName = ''source_document_id'' in
      \<lparr>f_canonicalName = canonicalName, f_sourceColumn = sourceColumn,
       f_aliases = js_uniq (sourceColumn # aliases), f_type = t, f_nullable = nullable,
       f_inputSource = inputSource, f_defaultReturn = (\<not> isSourceDocumentId),
       f_operators = (if isDynamic then [] else operatorsForType t),
       f_capabilities =
         (if isDynamic \<or> isSourceDocumentId
          then \<lparr>cap_filter = False, cap_sort = False, cap_group = False, cap_aggregate = False\<rparr>
          else \<lparr>cap_filter = True, cap_sort = True, cap_group = (t = ty_string \<or> t = ty_date),
                cap_aggregate = (t = ty_decimal)\<rparr>),
       f_storage =
         (if isSourceDocumentId
          then Some \<lparr>st_table = delivery_ledger_rows, st_column = col_source_document_id, st_jsonPath = None\<rparr>
          else payload_storage (Some delivery_ledger_rows) canonicalName)\<rparr>)"

record column_info =
  ci_canonicalName :: string
  ci_sourceColumn :: string
  ci_aliases :: "string list"
  ci_type :: StructuredFieldType
  ci_nullable :: bool
  ci_isMeasure :: bool

definition metadata_field :: "StructuredRowTableName option \<Rightarrow> column_info \<Rightarrow> StructuredFieldRegistryEntry" where
  "metadata_field rowTable c =
     \<lparr>f_canonicalName = ci_canonicalName c, f_sourceColumn = ci_sourceColumn c,
      f_aliases = [ci_sourceColumn c], f_type = ci_type c, f_nullable = ci_nullable c,
      f_inputSource = from_upload_metadata, f_defaultReturn = True,
      f_operators = operatorsForType (ci_type c),
      f_capabilities = \<lparr>cap_filter = True, cap_sort = True, cap_group = True, cap_aggregate = False\<rparr>,
      f_storage = payload_storage rowTable (ci_canonicalName c)\<rparr>"

definition source_field ::
  "string \<Rightarrow> StructuredRowTableName option \<Rightarrow> nat \<Rightarrow> column_info \<Rightarrow> StructuredFieldRegistryEntry" where
  "source_field dataset rowTable index c =
     \<lparr>f_canonicalName = ci_canonicalName c, f_sourceColumn = ci_sourceColumn c,
      f_aliases = ci_aliases c, f_type = ci_type c, f_nullable = ci_nullable c, f_inputSource = from_file,
      f_defaultReturn = (dataset = ''dish_catalog'' \<or> index < 20 \<or>
        ci_canonicalName c \<in> set [''business_date'', ''matched_product_name'']),
      f_operators = operatorsForType (ci_type c),
      f_capabilities = \<lparr>cap_filter = True, cap_sort = (ci_type c \<noteq> ty_string \<or> index < 25),
        cap_group = (\<not> ci_isMeasure c), cap_aggregate = ci_isMeasure c\<rparr>,
      f_storage = payload_storage rowTable (ci_canonicalName c)\<rparr>"

definition createRegistry ::
  "string \<Rightarrow> AccessMode \<Rightarrow> StructuredRowTableName option \<Rightarrow> column_info list \<Rightarrow> column_info list \<Rightarrow> StructuredDatasetRegistry" where
  "createRegistry dataset accessMode rowTable metadataFields sourceColumns =
     \<lparr>r_dataset = dataset, r_accessMode = accessMode, r_rowTable = rowTable,
      r_fields =
        (case rowTable of Some t \<Rightarrow> [createSourceDocumentIdField t] | None \<Rightarrow> []) @
        map (metadata_field rowTable) metadataFields @
        map (\<lambda>(i, c). source_field dataset rowTable i c) (enumerate 0 sourceColumns)\<rparr>"

section \<open>Header resolution\<close>

datatype HeaderLookupValue = FieldMatch StructuredFieldRegistryEntry | Ambiguous "string list"

datatype HeaderValidationError =
    UNKNOWN_COLUMN string
  | MISSING_REQUIRED_COLUMN string
  | AMBIGUOUS_COLUMN string "string list"
  | DUPLICATE_COLUMN string

type_synonym header_lookup = "string \<Rightarrow> HeaderLookupValue option"

definition register_alias :: "StructuredFieldRegistryEntry \<Rightarrow> header_lookup \<Rightarrow> string \<Rightarrow> header_lookup" where
  "register_alias field lookup rawAlias =
     (let alias = normalizeHeader rawAlias in
      case lookup alias of
        None \<Rightarrow> lookup(alias \<mapsto> FieldMatch field)
      | Some existing \<Rightarrow>
          let canonicalNames = (case existing of
                Ambiguous names \<Rightarrow> names
              | FieldMatch f \<Rightarrow> [f_canonicalName f, f_canonicalName field]) in
          lookup(alias \<mapsto> Ambiguous (sort (js_uniq canonicalNames))))"

definition field_aliases :: "StructuredFieldRegistryEntry \<Rightarrow> string list" where
  "field_aliases field = js_uniq (f_sourceColumn field # f_aliases field)"

definition buildStructuredHeaderLookup :: "StructuredFieldRegistryEntry list \<Rightarrow> header_lookup" where
  "buildStructuredHeaderLookup fs =
     foldl (\<lambda>lookup field. foldl (register_alias field) lookup (field_aliases field)) (\<lambda>_. None) fs"

record resolve_state =
  rs_errors :: "HeaderValidationError list"
  rs_seenHeaders :: "string list"
  rs_seenNames :: "string list"
  rs_fields :: "(string \<times> nat) list"

definition resolve_header :: "header_lookup \<Rightarrow> resolve_state \<Rightarrow> nat \<Rightarrow> string \<Rightarrow> resolve_state" where
  "resolve_header lookup s index rawHeader =
     (let header = normalizeHeader rawHeader in
      if header = [] then s
      else if header \<in> set (rs_seenHeaders s)
      then s\<lparr>rs_errors := rs_errors s @ [DUPLICATE_COLUMN header]\<rparr>
      else
        let s' = s\<lparr>rs_seenHeaders := header # rs_seenHeaders s\<rparr> in
        case lookup header of
          None \<Rightarrow> s'\<lparr>rs_errors := rs_errors s' @ [UNKNOWN_COLUMN header]\<rparr>
        | Some (Ambiguous names) \<Rightarrow> s'\<lparr>rs_errors := rs_errors s' @ [AMBIGUOUS_COLUMN header names]\<rparr>
        | Some (FieldMatch field) \<Rightarrow>
            if f_canonicalName field \<in> set (rs_seenNames s')
            then s'\<lparr>rs_errors := rs_errors s' @ [DUPLICATE_COLUMN header]\<rparr>
            else s'\<lparr>rs_seenNames := f_canonicalName field # rs_seenNames s',
                    rs_fields := rs_fields s' @ [(f_canonicalName field, index)]\<rparr>)"

fun resolve_loop :: "header_lookup \<Rightarrow> resolve_state \<Rightarrow> nat \<Rightarrow> string list \<Rightarrow> resolve_state" where
  "resolve_loop lookup s index [] = s"
| "resolve_loop lookup s index (h # hs) = resolve_loop lookup (resolve_header lookup s index h) (Suc index) hs"

definition shape_errors :: "string \<Rightarrow> nat \<Rightarrow> string list \<Rightarrow> HeaderValidationError list" where
  "shape_errors dataset fileFieldCount headers =
     (let blank = list_ex (\<lambda>h. normalizeHeader h = []) headers in
      (if dataset = ''dish_catalog'' \<and> (length headers \<noteq> fileFieldCount \<or> blank) then [UNKNOWN_COLUMN []] else []) @
      (if (dataset = ''supplier_catalog'' \<or> dataset = ''cost_cards'' \<or> isOrderPartitionDataset dataset) \<and> blank
       then [UNKNOWN_COLUMN []] else []))"

definition missing_errors ::
  "string \<Rightarrow> StructuredFieldRegistryEntry list \<Rightarrow> string list \<Rightarrow> HeaderValidationError list" where
  "missing_errors dataset fileFields seenNames =
     map (\<lambda>f. MISSING_REQUIRED_COLUMN (f_sourceColumn f))
       (filter (\<lambda>f. \<not> (dataset = ''supplier_catalog'' \<and> f_nullable f) \<and> f_canonicalName f \<notin> set seenNames) fileFields)"

definition file_fields :: "StructuredDatasetRegistry \<Rightarrow> StructuredFieldRegistryEntry list" where
  "file_fields registry = filter (\<lambda>f. f_inputSource f = from_file) (r_fields registry)"

definition resolveStructuredHeaders ::
  "(string \<Rightarrow> StructuredDatasetRegistry) \<Rightarrow> string \<Rightarrow> string list \<Rightarrow> HeaderValidationError list + (string \<times> nat) list" where
  "resolveStructuredHeaders registries dataset headers =
     (let fileFields = file_fields (registries dataset);
          lookup = buildStructuredHeaderLookup fileFields;
          s = resolve_loop lookup
            \<lparr>rs_errors = shape_errors dataset (length fileFields) headers, rs_seenHeaders = [],
             rs_seenNames = [], rs_fields = []\<rparr> 0 headers;
          errors = rs_errors s @ missing_errors dataset fileFields (rs_seenNames s) in
      if errors \<noteq> [] then Inl errors else Inr (rs_fields s))"

definition validateStructuredHeaders ::
  "(string \<Rightarrow> StructuredDatasetRegistry) \<Rightarrow> string \<Rightarrow> string list \<Rightarrow> HeaderValidationError list + string list" where
  "validateStructuredHeaders registries dataset headers =
     (case resolveStructuredHeaders registries dataset headers of
        Inl errors \<Rightarrow> Inl errors
      | Inr fs \<Rightarrow> Inr (map fst fs))"

section \<open>Registries are well formed\<close>

lemma operatorsForType_known: "set (operatorsForType t) \<subseteq> set known_operators"
  by (cases t) (simp_all add: operatorsForType_def known_operators_def is_numeric_def)

lemma payload_storage_field:
  "f_storage f = payload_storage (Some t) n \<Longrightarrow> payload_field f"
  by (simp add: payload_field_def payload_storage_def)

lemma payload_entries:
  "payload_field (metadata_field (Some t) c)" "payload_field (source_field dataset (Some t) i c)"
  by (rule payload_storage_field, simp add: metadata_field_def source_field_def)+

lemma entry_sources:
  "f_inputSource (metadata_field t c) = from_upload_metadata" "f_inputSource (source_field dataset t i c) = from_file"
  by (simp_all add: metadata_field_def source_field_def)

lemma registry_entries_wf:
  shows "field_wf (createSourceDocumentIdField t)"
    and "safe_identifier (ci_canonicalName c) \<Longrightarrow> field_wf (metadata_field (Some t) c)"
    and "safe_identifier (ci_canonicalName c) \<Longrightarrow> field_wf (source_field dataset (Some t) i c)"
proof -
  show "field_wf (createSourceDocumentIdField t)"
    using operatorsForType_known [of ty_string]
    by (simp add: field_wf_def createSourceDocumentIdField_def document_id_field_def safe_identifier_def
        is_lower_def is_upper_def is_digit_def)
  assume "safe_identifier (ci_canonicalName c)"
  then show "field_wf (metadata_field (Some t) c)" "field_wf (source_field dataset (Some t) i c)"
    using payload_entries operatorsForType_known [of "ci_type c"]
    by (simp_all add: field_wf_def metadata_field_def source_field_def)
qed


section \<open>Header resolution is sound and complete\<close>

definition alias_pairs :: "StructuredFieldRegistryEntry list \<Rightarrow> (StructuredFieldRegistryEntry \<times> string) list" where
  "alias_pairs fs = concat (map (\<lambda>f. map (Pair f) (field_aliases f)) fs)"

lemma buildStructuredHeaderLookup_pairs:
  "buildStructuredHeaderLookup fs = foldl (\<lambda>l (f, a). register_alias f l a) (\<lambda>_. None) (alias_pairs fs)"
proof -
  have inner: "foldl (\<lambda>l (f, a). register_alias f l a) l (map (Pair f) as) = foldl (register_alias f) l as" for f l as
    by (induction as arbitrary: l) auto
  have "foldl (\<lambda>l (f, a). register_alias f l a) l (alias_pairs fs) =
      foldl (\<lambda>l f. foldl (register_alias f) l (field_aliases f)) l fs" for l
    by (induction fs arbitrary: l) (auto simp: alias_pairs_def inner)
  then show ?thesis by (simp add: buildStructuredHeaderLookup_def)
qed

text \<open>What the lookup holds of an alias: the fields that claim it, in the order of the registry.\<close>

fun claim_value :: "(StructuredFieldRegistryEntry \<times> string) list \<Rightarrow> HeaderLookupValue option" where
  "claim_value [] = None"
| "claim_value [(f, _)] = Some (FieldMatch f)"
| "claim_value ((f, _) # (g, _) # _) =
     Some (Ambiguous (sort (js_uniq [f_canonicalName f, f_canonicalName g])))"

lemma sort_uniq_idem: "sort (js_uniq (sort (js_uniq xs))) = sort (js_uniq (xs :: string list))"
  by (simp add: js_uniq_distinct sort_key_id_if_sorted)

lemma claim_value_snoc:
  "register_alias f (\<lambda>a. claim_value (filter (\<lambda>(g, x). normalizeHeader x = a) ps)) raw =
     (\<lambda>a. claim_value (filter (\<lambda>(g, x). normalizeHeader x = a) (ps @ [(f, raw)])))"
proof
  fix a
  let ?c = "filter (\<lambda>(g, x). normalizeHeader x = normalizeHeader raw) ps"
  show "register_alias f (\<lambda>a. claim_value (filter (\<lambda>(g, x). normalizeHeader x = a) ps)) raw a =
      claim_value (filter (\<lambda>(g, x). normalizeHeader x = a) (ps @ [(f, raw)]))"
  proof (cases "a = normalizeHeader raw")
    case True
    then show ?thesis
      by (cases ?c rule: claim_value.cases)
         (simp_all add: register_alias_def Let_def sort_uniq_idem del: js_uniq.simps)
  qed (auto simp: register_alias_def Let_def split: option.split)
qed

text \<open>
  The header lookup, as a function of the registry: a title that no field claims is unknown,
  one that exactly one field claims once belongs to that field, and any other is ambiguous
  between the first two claimants. (A third claimant is not named, and a field whose
  own titles become equal after white space is normalized is ambiguous with itself.)\<close>
theorem header_lookup_spec:
  "buildStructuredHeaderLookup fs a = claim_value (filter (\<lambda>(f, x). normalizeHeader x = a) (alias_pairs fs))"
proof -
  have "foldl (\<lambda>l (f, a). register_alias f l a) (\<lambda>_. None) ps =
      (\<lambda>a. claim_value (filter (\<lambda>(f, x). normalizeHeader x = a) ps))" for ps
  proof (induction ps rule: rev_induct)
    case (snoc p ps)
    obtain f raw where "p = (f, raw)" by (cases p)
    with snoc claim_value_snoc [of f ps raw] show ?case by simp
  qed simp
  then show ?thesis by (simp add: buildStructuredHeaderLookup_pairs)
qed

lemma claim_value_field:
  assumes "claim_value ps = Some (FieldMatch f)"
  shows "\<exists>x. ps = [(f, x)]"
  using assms by (cases ps rule: claim_value.cases) auto

definition resolved :: "header_lookup \<Rightarrow> string list \<Rightarrow> resolve_state \<Rightarrow> bool" where
  "resolved lookup hs s \<longleftrightarrow>
     set (rs_seenNames s) = fst ` set (rs_fields s) \<and>
     distinct (map fst (rs_fields s)) \<and> distinct (map snd (rs_fields s)) \<and>
     (\<forall>(n, i)\<in>set (rs_fields s). i < length hs \<and>
        (\<exists>f. lookup (normalizeHeader (hs ! i)) = Some (FieldMatch f) \<and> f_canonicalName f = n)) \<and>
     (\<forall>i<length hs. normalizeHeader (hs ! i) \<noteq> [] \<longrightarrow> i \<in> snd ` set (rs_fields s))"

lemma resolve_header_errors: "rs_errors (resolve_header lookup s i h) = [] \<Longrightarrow> rs_errors s = []"
  by (auto simp: resolve_header_def Let_def split: option.splits HeaderLookupValue.splits if_splits)

lemma resolve_loop_errors: "rs_errors (resolve_loop lookup s i hs) = [] \<Longrightarrow> rs_errors s = []"
  by (induction lookup s i hs rule: resolve_loop.induct) (auto dest: resolve_header_errors)

lemma resolve_header_step:
  assumes "resolved lookup hs s" and "rs_errors (resolve_header lookup s (length hs) h) = []"
  shows "resolved lookup (hs @ [h]) (resolve_header lookup s (length hs) h)"
proof -
  let ?h = "normalizeHeader h"
  have old: "i < length hs \<Longrightarrow> (hs @ [h]) ! i = hs ! i" for i by (simp add: nth_append)
  show ?thesis
  proof (cases "?h = []")
    case True
    then show ?thesis
      using assms(1) old
      by (fastforce simp: resolve_header_def resolved_def less_Suc_eq nth_append)
  next
    case False
    with assms(2) obtain f where f: "?h \<notin> set (rs_seenHeaders s)" "lookup ?h = Some (FieldMatch f)"
      "f_canonicalName f \<notin> set (rs_seenNames s)"
      by (auto simp: resolve_header_def Let_def split: option.splits HeaderLookupValue.splits if_splits)
    with False have eqs: "resolve_header lookup s (length hs) h =
        s\<lparr>rs_seenHeaders := ?h # rs_seenHeaders s, rs_seenNames := f_canonicalName f # rs_seenNames s,
          rs_fields := rs_fields s @ [(f_canonicalName f, length hs)]\<rparr>"
      by (simp add: resolve_header_def Let_def)
    have new: "length hs \<notin> snd ` set (rs_fields s)"
      using assms(1) by (auto simp: resolved_def)
    have names: "f_canonicalName f \<notin> fst ` set (rs_fields s)"
      using assms(1) f(3) by (simp add: resolved_def)
    show ?thesis
      unfolding eqs resolved_def
      using assms(1) new names f(2) by (auto simp: resolved_def nth_append less_Suc_eq)
  qed
qed

lemma resolve_loop_resolved:
  "resolved lookup done s \<Longrightarrow> rs_errors (resolve_loop lookup s (length done) hs) = [] \<Longrightarrow>
     resolved lookup (done @ hs) (resolve_loop lookup s (length done) hs)"
proof (induction hs arbitrary: "done" s)
  case (Cons h hs)
  have "rs_errors (resolve_header lookup s (length done) h) = []"
    using Cons.prems(2) by (auto dest: resolve_loop_errors)
  from resolve_header_step [OF Cons.prems(1) this]
  show ?case
    using Cons.IH [of "done @ [h]"] Cons.prems(2) by simp
qed simp

text \<open>
  When the header row of a sheet resolves, it does so exactly: each field gets at most one
  column and each column at most one field, every title that is not blank is resolved, the
  field of a column is the only one of the registry that claims its title, and every
  required field of the dataset has a column.\<close>
theorem resolved_headers_exact:
  assumes "resolveStructuredHeaders registries dataset headers = Inr cols"
  shows "distinct (map fst cols) \<and> distinct (map snd cols) \<and>
     (\<forall>(n, i)\<in>set cols. i < length headers \<and>
        (\<exists>f x. f_canonicalName f = n \<and>
           filter (\<lambda>(g, y). normalizeHeader y = normalizeHeader (headers ! i))
             (alias_pairs (file_fields (registries dataset))) = [(f, x)])) \<and>
     (\<forall>i<length headers. normalizeHeader (headers ! i) \<noteq> [] \<longrightarrow> i \<in> snd ` set cols) \<and>
     (\<forall>f\<in>set (file_fields (registries dataset)).
        dataset = ''supplier_catalog'' \<and> f_nullable f \<or> f_canonicalName f \<in> fst ` set cols)"
proof -
  let ?fs = "file_fields (registries dataset)"
  let ?lookup = "buildStructuredHeaderLookup ?fs"
  let ?s0 = "\<lparr>rs_errors = shape_errors dataset (length ?fs) headers, rs_seenHeaders = [],
             rs_seenNames = [], rs_fields = []\<rparr>"
  define s where "s = resolve_loop ?lookup ?s0 0 headers"
  from assms have e: "rs_errors s = []" "missing_errors dataset ?fs (rs_seenNames s) = []"
    and cols: "cols = rs_fields s"
    by (auto simp: resolveStructuredHeaders_def Let_def s_def split: if_splits)
  have "resolved ?lookup [] ?s0" by (simp add: resolved_def)
  from resolve_loop_resolved [OF this, of headers] e(1)
  have r: "resolved ?lookup headers s" by (simp add: s_def)
  have claimed: "\<exists>x. filter (\<lambda>(g, y). normalizeHeader y = h) (alias_pairs ?fs) = [(f, x)]"
    if "?lookup h = Some (FieldMatch f)" for h f
    using that unfolding header_lookup_spec by (rule claim_value_field)
  have "\<forall>(n, i)\<in>set cols. i < length headers \<and>
        (\<exists>f x. f_canonicalName f = n \<and>
           filter (\<lambda>(g, y). normalizeHeader y = normalizeHeader (headers ! i)) (alias_pairs ?fs) = [(f, x)])"
  proof clarify
    fix n i assume "(n, i) \<in> set cols"
    with r obtain f where "i < length headers" "f_canonicalName f = n"
      "?lookup (normalizeHeader (headers ! i)) = Some (FieldMatch f)"
      by (auto simp: resolved_def cols)
    with claimed show "i < length headers \<and> (\<exists>f x. f_canonicalName f = n \<and>
        filter (\<lambda>(g, y). normalizeHeader y = normalizeHeader (headers ! i)) (alias_pairs ?fs) = [(f, x)])"
      by blast
  qed
  moreover have "\<forall>f\<in>set ?fs. dataset = ''supplier_catalog'' \<and> f_nullable f \<or> f_canonicalName f \<in> fst ` set cols"
    using e(2) r by (auto simp: missing_errors_def filter_empty_conv resolved_def cols)
  ultimately show ?thesis
    using r by (simp add: resolved_def cols)
qed

end
