(* ===== verification/Cost_Card_Query.thy ===== *)
theory Cost_Card_Query
  imports Structured_Registry
begin

text \<open>
  The cost-card directory: the compiler of \<^verbatim>\<open>packages/domain/src/cost-card-query.ts\<close>, the exact decimal
  texts and the directory registry of \<^verbatim>\<open>packages/domain/src/cost-cards.ts\<close>, and the two entry points
  \<open>compileStructuredQuery\<close> and \<open>compilePublicStructuredQuery\<close> that choose between it and the row
  query compiler.
\<close>

section \<open>Exact decimals\<close>

definition strip_leading_zeros :: "string \<Rightarrow> string" where
  "strip_leading_zeros ds =
     (let rest = dropWhile (\<lambda>c. c = CHR ''0'') ds in
      if rest = [] then (if ds = [] then [] else ''0'') else rest)"

definition strip_trailing_zeros :: "string \<Rightarrow> string" where
  "strip_trailing_zeros ds = rev (dropWhile (\<lambda>c. c = CHR ''0'') (rev ds))"

text \<open>The groups of \<open>/^([+-]?)(?:(\d+)(?:\.(\d*))?|\.(\d+))(%?)$/\<close>: sign, integer, fraction, percent.\<close>

record decimal_match =
  dm_negative :: bool
  dm_integer :: string
  dm_fraction :: string
  dm_percent :: bool

definition decimal_tail :: "string \<Rightarrow> bool option" where
  "decimal_tail t = (if t = [] then Some False else if t = ''%'' then Some True else None)"

definition decimal_body :: "string \<Rightarrow> (string \<times> string \<times> bool) option" where
  "decimal_body body =
     (let ds = takeWhile is_digit body; rest = dropWhile is_digit body in
      case rest of
        c # cs \<Rightarrow>
          if c = CHR ''.'' then
            (let fs = takeWhile is_digit cs; t = dropWhile is_digit cs in
             if ds = [] \<and> fs = [] then None
             else map_option (\<lambda>p. (if ds = [] then ''0'' else ds, fs, p)) (decimal_tail t))
          else if ds = [] then None
          else map_option (\<lambda>p. (ds, [], p)) (decimal_tail rest)
      | [] \<Rightarrow> if ds = [] then None else Some (ds, [], False))"

definition decimal_parse :: "string \<Rightarrow> decimal_match option" where
  "decimal_parse text =
     (let negative = (text \<noteq> [] \<and> hd text = CHR ''-'');
          signed = (text \<noteq> [] \<and> (hd text = CHR ''-'' \<or> hd text = CHR ''+'')) in
      map_option (\<lambda>(i, f, p). \<lparr>dm_negative = negative, dm_integer = i, dm_fraction = f, dm_percent = p\<rparr>)
        (decimal_body (if signed then tl text else text)))"

definition padStart3 :: "string \<Rightarrow> string" where
  "padStart3 s = replicate (3 - length s) (CHR ''0'') @ s"

definition normalizeCostCardDecimal :: "string \<Rightarrow> bool \<Rightarrow> string + string" where
  "normalizeCostCardDecimal v percent =
     (case decimal_parse (js_trim v) of
        None \<Rightarrow> Inl ''Expected an exact decimal value.''
      | Some m \<Rightarrow>
          if dm_percent m \<and> \<not> percent then Inl ''Expected an exact decimal value.''
          else
            let integer0 = strip_leading_zeros (dm_integer m);
                digits = padStart3 integer0;
                fraction1 = (if dm_percent m then drop (length digits - 2) digits @ dm_fraction m else dm_fraction m);
                integer1 = (if dm_percent m then take (length digits - 2) digits else integer0);
                integer = strip_leading_zeros integer1;
                fraction = strip_trailing_zeros fraction1 in
            if length fraction > 6 \<or> length integer > (if percent then 6 else 14)
            then Inl (''Decimal precision exceeds DECIMAL('' @ (if percent then ''12'' else ''20'') @ '',6).'')
            else
              let zero = (integer = ''0'' \<and> fraction = []) in
              Inr ((if dm_negative m \<and> \<not> zero then ''-'' else []) @ integer @
                   (if fraction \<noteq> [] then CHR ''.'' # fraction else [])))"

section \<open>The directory registry\<close>

definition directory_columns :: "(string \<times> StructuredFieldType \<times> bool) list" where
  "directory_columns =
     [(''spu_id'', ty_string, False), (''sku_id'', ty_string, False), (''dish_name'', ty_string, False),
      (''base_category_name'', ty_string, True), (''sale_price'', ty_decimal, True),
      (''specification_name'', ty_string, True), (''has_cost_card'', ty_boolean, False),
      (''source_dish_deleted'', ty_boolean, False),
      (''cost_card_id'', ty_string, False), (''enterprise_name'', ty_string, False),
      (''source_namespace'', ty_string, False), (''revision'', ty_string, False),
      (''source_document_id'', ty_string, False), (''import_batch_id'', ty_string, False),
      (''item_row_count'', ty_integer, False), (''recipe_count'', ty_integer, False),
      (''byte_size'', ty_integer, False), (''csv_schema_version'', ty_integer, False)]"

definition directory_operators :: "string \<Rightarrow> StructuredFieldType \<Rightarrow> string list" where
  "directory_operators name t =
     (if t = ty_string then
        [''eq'', ''in''] @
        (if name \<in> set [''dish_name'', ''specification_name'', ''base_category_name'']
         then [''contains'', ''starts_with''] else [])
      else if t = ty_boolean then [''eq'', ''in'']
      else [''eq'', ''in'', ''gt'', ''gte'', ''lt'', ''lte''])"

text \<open>\<open>titles\<close> gives the Chinese column titles of the sheet; no query reads them.\<close>

definition directory_field :: "(string \<Rightarrow> string) \<Rightarrow> string \<times> StructuredFieldType \<times> bool \<Rightarrow> StructuredFieldRegistryEntry" where
  "directory_field titles c =
     (case c of (name, t, nullable) \<Rightarrow>
       \<lparr>f_canonicalName = name, f_sourceColumn = titles name, f_aliases = [], f_type = t, f_nullable = nullable,
        f_inputSource = from_file, f_defaultReturn = True, f_operators = directory_operators name t,
        f_capabilities = \<lparr>cap_filter = True, cap_sort = True, cap_group = False, cap_aggregate = False\<rparr>,
        f_storage = None\<rparr>)"

definition COST_CARD_DIRECTORY_REGISTRY :: "(string \<Rightarrow> string) \<Rightarrow> StructuredDatasetRegistry" where
  "COST_CARD_DIRECTORY_REGISTRY titles =
     \<lparr>r_dataset = ''cost_cards'', r_accessMode = catalog_query, r_rowTable = None,
      r_fields = map (directory_field titles) directory_columns\<rparr>"

definition directory_types :: "string \<Rightarrow> (StructuredFieldType \<times> bool) option" where
  "directory_types = map_of directory_columns"

section \<open>Conditions\<close>

definition invalid :: "string \<Rightarrow> sq_error + 'a" where
  "invalid message = Inl (SQ invalidQuery message)"

definition column :: "string \<Rightarrow> sq_error + string" where
  "column field =
     (if directory_types field = None then invalid ''Field is not in the cost-card directory registry.''
      else Inr (''c.'' @ (if field = ''cost_card_id'' then ''id'' else field)))"

text \<open>\<open>replaceAll\<close> with a one-character pattern.\<close>

definition replaceAll :: "char \<Rightarrow> string \<Rightarrow> string \<Rightarrow> string" where
  "replaceAll c by s = concat (map (\<lambda>d. if d = c then by else [d]) s)"

definition literalLike :: "string \<Rightarrow> string" where
  "literalLike text =
     replaceAll (CHR ''_'') ''!_'' (replaceAll (CHR ''%'') ''!%'' (replaceAll (CHR ''!'') ''!!'' text))"

definition maxLengths :: "string \<Rightarrow> nat option" where
  "maxLengths = map_of
     [(''spu_id'', 64), (''sku_id'', 64), (''dish_name'', 512), (''specification_name'', 255),
      (''base_category_name'', 255), (''enterprise_name'', 255), (''source_namespace'', 128),
      (''cost_card_id'', 32), (''source_document_id'', 32), (''import_batch_id'', 32), (''revision'', 20)]"

definition js_isSafeInteger :: "js_number \<Rightarrow> bool" where
  "js_isSafeInteger n \<longleftrightarrow> js_isInteger n \<and> \<not> js_lt (js_num 9007199254740991) n \<and> \<not> js_lt n (js_num (-9007199254740991))"

text \<open>\<open>None\<close> is SQL's null.\<close>

definition scalar :: "string \<Rightarrow> StructuredFieldType \<Rightarrow> json \<Rightarrow> sq_error + sql_param option" where
  "scalar fieldName t v =
     (case v of
        JNull \<Rightarrow> Inr None
      | _ \<Rightarrow>
          if t = ty_decimal then
            (case v of
               JStr s \<Rightarrow>
                 (case normalizeCostCardDecimal s False of
                    Inr d \<Rightarrow> Inr (Some (PStr d))
                  | Inl _ \<Rightarrow> invalid ''Cost-card decimal filter is invalid.'')
             | _ \<Rightarrow> invalid ''Cost-card decimal filters require exact decimal strings.'')
          else if t = ty_integer then
            (case v of
               JNum n \<Rightarrow> if js_isSafeInteger n then Inr (Some (PNum n))
                         else invalid ''Directory count filters require safe integers.''
             | _ \<Rightarrow> invalid ''Directory count filters require safe integers.'')
          else if t = ty_boolean then
            (case v of
               JBool b \<Rightarrow> Inr (Some (PNum (js_num (if b then 1 else 0))))
             | _ \<Rightarrow> invalid ''Directory boolean filters require booleans.'')
          else
            (case v of
               JStr s \<Rightarrow>
                 if length s > (case maxLengths fieldName of Some n \<Rightarrow> n | None \<Rightarrow> 512)
                 then invalid ''Directory text filter is invalid.'' else Inr (Some (PStr s))
             | _ \<Rightarrow> invalid ''Directory text filter is invalid.''))"

definition binary_text :: "string \<Rightarrow> string" where
  "binary_text e = ''CAST('' @ e @ '' AS BINARY)''"

definition placeholder_of :: "StructuredFieldType \<Rightarrow> string" where
  "placeholder_of t =
     (if t = ty_string then ''CAST(? AS BINARY)''
      else if t = ty_decimal then ''CAST(? AS DECIMAL(20,6))'' else ''?'')"

definition in_condition ::
  "string \<Rightarrow> StructuredFieldType \<Rightarrow> string \<Rightarrow> string \<Rightarrow> json \<Rightarrow> sq_error + SqlFragment" where
  "in_condition fieldName t target targetExpression v =
     (case v of
        JArr xs \<Rightarrow>
          if length xs > ql_maxInValues STRUCTURED_QUERY_LIMITS
          then invalid ''Directory in filter requires a bounded array.''
          else res_bind (res_mapM (scalar fieldName t) xs) (\<lambda>values.
            let nonNull = List.map_filter id values;
                parts = (if nonNull \<noteq> []
                         then [targetExpression @ '' IN ('' @
                                 str_join '', '' (map (\<lambda>_. placeholder_of t) nonNull) @ '')''] else []) @
                        (if None \<in> set values then [target @ '' IS NULL''] else []) in
            Inr \<lparr>frag_sql = (if parts \<noteq> [] then ''('' @ str_join '' OR '' parts @ '')'' else ''0 = 1''),
                 frag_params = nonNull\<rparr>)
      | _ \<Rightarrow> invalid ''Directory in filter requires a bounded array.'')"

definition search_condition ::
  "string \<Rightarrow> StructuredFieldType \<Rightarrow> string \<Rightarrow> string \<Rightarrow> json \<Rightarrow> sq_error + SqlFragment" where
  "search_condition fieldName t targetExpression op v =
     res_bind (scalar fieldName t v) (\<lambda>text.
     case text of
       Some (PStr s) \<Rightarrow>
         Inr \<lparr>frag_sql = targetExpression @ '' LIKE CAST(? AS BINARY) ESCAPE '' @ [CHR 0x27, CHR ''!'', CHR 0x27],
              frag_params = [PStr ((if op = ''contains'' then ''%'' else []) @ literalLike s @ ''%'')]\<rparr>
     | _ \<Rightarrow> invalid ''Name search requires a string.'')"

definition comparison_condition ::
  "string \<Rightarrow> StructuredFieldType \<Rightarrow> string \<Rightarrow> string \<Rightarrow> string \<Rightarrow> json \<Rightarrow> sq_error + SqlFragment" where
  "comparison_condition fieldName t target targetExpression op v =
     res_bind (scalar fieldName t v) (\<lambda>parsed.
     case parsed of
       None \<Rightarrow>
         if op \<noteq> ''eq'' then invalid ''Null values support equality only.''
         else Inr \<lparr>frag_sql = target @ '' IS NULL'', frag_params = []\<rparr>
     | Some p \<Rightarrow>
         (case comparison_operator op of
            None \<Rightarrow> invalid ''Directory operator is invalid.''
          | Some operator \<Rightarrow>
              Inr \<lparr>frag_sql = targetExpression @ '' '' @ operator @ '' '' @ placeholder_of t,
                   frag_params = [p]\<rparr>))"

definition condition :: "string \<Rightarrow> string \<Rightarrow> json \<Rightarrow> sq_error + SqlFragment" where
  "condition fieldName op v =
     res_bind (column fieldName) (\<lambda>target.
     case directory_types fieldName of
       None \<Rightarrow> invalid ''Field is not in the cost-card directory registry.''
     | Some (t, _) \<Rightarrow>
         if op \<notin> set (directory_operators fieldName t)
         then invalid ''Operator is not supported by the directory field.''
         else
           let targetExpression = (if t = ty_string then binary_text target else target) in
           if op = ''contains'' \<or> op = ''starts_with'' then search_condition fieldName t targetExpression op v
           else if op = ''in'' then in_condition fieldName t target targetExpression v
           else comparison_condition fieldName t target targetExpression op v)"

fun cost_filter :: "FilterNode \<Rightarrow> sq_error + SqlFragment" where
  "cost_filter (NotF node) =
     res_bind (cost_filter node) (\<lambda>inner.
     Inr \<lparr>frag_sql = ''NOT ('' @ frag_sql inner @ '')'', frag_params = frag_params inner\<rparr>)"
| "cost_filter (AndF nodes) =
     res_bind (res_mapM cost_filter nodes) (\<lambda>children.
     Inr \<lparr>frag_sql = str_join '' AND '' (map (\<lambda>child. ''('' @ frag_sql child @ '')'') children),
          frag_params = concat (map frag_params children)\<rparr>)"
| "cost_filter (OrF nodes) =
     res_bind (res_mapM cost_filter nodes) (\<lambda>children.
     Inr \<lparr>frag_sql = str_join '' OR '' (map (\<lambda>child. ''('' @ frag_sql child @ '')'') children),
          frag_params = concat (map frag_params children)\<rparr>)"
| "cost_filter (Cond field op v) = condition field op v"

definition cost_filter_opt :: "FilterNode option \<Rightarrow> sq_error + SqlFragment" where
  "cost_filter_opt node =
     (case node of None \<Rightarrow> Inr \<lparr>frag_sql = ''1 = 1'', frag_params = []\<rparr> | Some n \<Rightarrow> cost_filter n)"

section \<open>Directory queries\<close>

text \<open>\<open>JSON.stringify\<close>: undefined entries of an object are left out, of an array print \<open>null\<close>.\<close>

fun js_stringify :: "(rat \<Rightarrow> string) \<Rightarrow> shape \<Rightarrow> string" where
  "js_stringify nf SUndef = ''null''"
| "js_stringify nf SNull = ''null''"
| "js_stringify nf (SBool b) = (if b then ''true'' else ''false'')"
| "js_stringify nf (SNum n) = num_text nf n"
| "js_stringify nf (SStr s) = js_quote s"
| "js_stringify nf (SArr xs) = ''['' @ str_join '','' (map (js_stringify nf) xs) @ '']''"
| "js_stringify nf (SObj kvs) =
     ''{'' @ str_join '','' (concat (map (\<lambda>(k, v). if v = SUndef then [] else [js_quote k @ '':'' @ js_stringify nf v]) kvs)) @ ''}''"

fun param_shape :: "sql_param \<Rightarrow> shape" where
  "param_shape (PStr s) = SStr s"
| "param_shape (PNum n) = SNum n"

definition cost_card_shape :: "CompileInput \<Rightarrow> BusinessAuthorizationSql \<Rightarrow> NormalizedQuery \<Rightarrow> shape" where
  "cost_card_shape input b query =
     SObj [(''orgId'', SStr (in_orgId input)),
           (''employeeId'', optional_shape (in_employeeId input)),
           (''clearance'', SNum (in_clearance input)),
           (''authorization'', SObj [(''version'', SStr (ba_version b)), (''sql'', SStr (ba_sql b)),
              (''params'', SArr (map param_shape (ba_params b)))]),
           (''query'', query_shape query)]"

definition cost_card_column :: "string \<Rightarrow> sq_error + string" where
  "cost_card_column name =
     res_bind (column name) (\<lambda>c.
     Inr ((if name = ''sale_price'' \<or> name = ''revision'' then ''CAST('' @ c @ '' AS CHAR)'' else c) @
          '' AS '' @ [CHR 0x60] @ name @ [CHR 0x60]))"

definition cost_card_sort :: "SortSpec \<Rightarrow> sq_error + string" where
  "cost_card_sort item = res_bind (column (so_field item)) (\<lambda>c. Inr (c @ '' '' @ direction_text (so_direction item)))"

definition cost_card_order :: "NormalizedQuery \<Rightarrow> string list \<Rightarrow> string list" where
  "cost_card_order query sorts =
     (if list_ex (\<lambda>item. so_field item = ''cost_card_id'') (q_sort query) then sorts
      else sorts @ [''c.id ASC''])"

definition cost_card_compiled ::
  "CompileInput \<Rightarrow> BusinessAuthorizationSql \<Rightarrow> NormalizedQuery \<Rightarrow> SqlFragment \<Rightarrow> string list \<Rightarrow> string list \<Rightarrow>
     js_number \<Rightarrow> string \<Rightarrow> StructuredCompiledQuery" where
  "cost_card_compiled input b query filt projection order offset shapeHash =
     \<lparr>cq_dataset = ''cost_cards'', cq_mode = Detail,
      cq_sql = ''SELECT '' @ str_join '', '' projection @
        '' FROM cost_cards c WHERE CAST(c.org_id AS BINARY) = CAST(? AS BINARY) AND c.archived_at IS NULL AND ('' @
        ba_sql b @ '') AND ('' @ frag_sql filt @ '') ORDER BY '' @ str_join '', '' order @ '' LIMIT ? OFFSET ?'',
      cq_params = PStr (in_orgId input) # ba_params b @ frag_params filt @ [PNum (q_limit query), PNum offset],
      cq_selectedFields = q_select query, cq_dynamicSelectedFields = [], cq_aggregateAliases = [],
      cq_limit = q_limit query, cq_offset = offset, cq_shapeHash = shapeHash,
      cq_scopeOrgId = in_orgId input, cq_scopeEmployeeId = in_employeeId input,
      cq_scopeClearance = in_clearance input\<rparr>"

definition compileCostCardQuery ::
  "js_runtime \<Rightarrow> (string \<Rightarrow> string) \<Rightarrow> (string \<Rightarrow> StructuredDatasetRegistry) \<Rightarrow> CompileInput \<Rightarrow> json \<Rightarrow>
     sq_error + StructuredCompiledQuery" where
  "compileCostCardQuery rt titles registries input body =
     (case in_businessAuthorization input of
        None \<Rightarrow> Inl (SQ datasetForbidden ''Current cost-card authorization is required.'')
      | Some b \<Rightarrow>
          res_bind (normalizeStructuredDirectoryQuery registries body (COST_CARD_DIRECTORY_REGISTRY titles)) (\<lambda>query.
          res_bind (cost_filter_opt (q_filter query)) (\<lambda>where'.
          let shapeHash = rt_sha256hex rt (js_stringify (rt_num rt) (cost_card_shape input b query)) in
          res_bind (cursor_offset rt input query shapeHash) (\<lambda>offset.
          res_bind (res_mapM cost_card_column (q_select query)) (\<lambda>projection.
          res_bind (res_mapM cost_card_sort (q_sort query)) (\<lambda>sorts.
          Inr (cost_card_compiled input b query where' projection (cost_card_order query sorts) offset shapeHash)))))))"

section \<open>Selections\<close>

text \<open>A parsed selection, in the order of the entries of the request.\<close>

datatype selection_value = SelText string | SelList "string list"

definition selectionFields :: "string \<Rightarrow> nat option" where
  "selectionFields = map_of
     [(''enterpriseName'', 255), (''dishName'', 512), (''dishNameContains'', 512),
      (''specificationName'', 255), (''baseCategoryName'', 255)]"

definition selectionArrays :: "string \<Rightarrow> nat option" where
  "selectionArrays = map_of [(''costCardIds'', 32), (''spuIds'', 64), (''skuIds'', 64)]"

definition parse_selection_entry :: "string \<times> json \<Rightarrow> sq_error + (string \<times> selection_value)" where
  "parse_selection_entry kv =
     (case kv of (key, v) \<Rightarrow>
       (case selectionFields key of
          Some n \<Rightarrow>
            (case v of
               JStr s \<Rightarrow> if js_trim s = [] \<or> length s > n then invalid ''Cost-card selection text is invalid.''
                         else Inr (key, SelText s)
             | _ \<Rightarrow> invalid ''Cost-card selection text is invalid.'')
        | None \<Rightarrow>
            (case selectionArrays key of
               Some n \<Rightarrow>
                 (case (case v of JArr xs \<Rightarrow> json_strings xs | _ \<Rightarrow> None) of
                    Some ss \<Rightarrow>
                      if ss = [] \<or> length ss > ql_maxInValues STRUCTURED_QUERY_LIMITS \<or>
                         list_ex (\<lambda>s. js_trim s = [] \<or> length s > n) ss
                      then invalid ''Cost-card selection requires a nonempty bounded string array.''
                      else Inr (key, SelList (js_uniq ss))
                  | None \<Rightarrow> invalid ''Cost-card selection requires a nonempty bounded string array.'')
             | None \<Rightarrow> invalid ''Cost-card selection contains unsupported fields.'')))"

definition parseCostCardSelection :: "json \<Rightarrow> sq_error + selection_value js_object" where
  "parseCostCardSelection input =
     (case input of
        JObj kvs \<Rightarrow> res_mapM parse_selection_entry kvs
      | _ \<Rightarrow> invalid ''Cost-card selection must be an object.'')"

definition selection_text ::
  "selection_value js_object \<Rightarrow> string \<Rightarrow> (string \<Rightarrow> sq_error + SqlFragment) \<Rightarrow> sq_error + SqlFragment list" where
  "selection_text selection key compile =
     (case obj_get selection key of
        Some (SelText s) \<Rightarrow> res_bind (compile s) (\<lambda>f. Inr [f])
      | _ \<Rightarrow> Inr [])"

definition selection_list :: "selection_value js_object \<Rightarrow> string \<Rightarrow> string \<Rightarrow> sq_error + SqlFragment list" where
  "selection_list selection key field =
     (case obj_get selection key of
        Some (SelList ss) \<Rightarrow> res_bind (condition field ''in'' (JArr (map JStr ss))) (\<lambda>f. Inr [f])
      | _ \<Rightarrow> Inr [])"

definition enterprise_condition :: "string \<Rightarrow> sq_error + SqlFragment" where
  "enterprise_condition name =
     (case normalizeEnterpriseIdentity name of
        Inl (storeIdentityMissing message) \<Rightarrow> Inl (Uncaught message)
      | Inr (key, _) \<Rightarrow>
          Inr \<lparr>frag_sql = ''CAST(c.enterprise_key AS BINARY) = CAST(? AS BINARY)'', frag_params = [PStr key]\<rparr>)"

definition selection_fragment :: "SqlFragment list \<Rightarrow> SqlFragment" where
  "selection_fragment fragments =
     (let sql = str_join '' AND '' (map (\<lambda>f. ''('' @ frag_sql f @ '')'') fragments) in
      \<lparr>frag_sql = (if sql = [] then ''1 = 1'' else sql), frag_params = concat (map frag_params fragments)\<rparr>)"

definition compileCostCardSelection :: "json \<Rightarrow> sq_error + SqlFragment" where
  "compileCostCardSelection input =
     res_bind (parseCostCardSelection input) (\<lambda>selection.
     res_bind (selection_text selection ''enterpriseName'' enterprise_condition) (\<lambda>f1.
     res_bind (selection_list selection ''costCardIds'' ''cost_card_id'') (\<lambda>f2.
     res_bind (selection_list selection ''spuIds'' ''spu_id'') (\<lambda>f3.
     res_bind (selection_list selection ''skuIds'' ''sku_id'') (\<lambda>f4.
     res_bind (selection_text selection ''dishName'' (\<lambda>s. condition ''dish_name'' ''eq'' (JStr s))) (\<lambda>f5.
     res_bind (selection_text selection ''dishNameContains'' (\<lambda>s. condition ''dish_name'' ''contains'' (JStr s))) (\<lambda>f6.
     res_bind (selection_text selection ''specificationName'' (\<lambda>s. condition ''specification_name'' ''eq'' (JStr s))) (\<lambda>f7.
     res_bind (selection_text selection ''baseCategoryName'' (\<lambda>s. condition ''base_category_name'' ''eq'' (JStr s))) (\<lambda>f8.
     Inr (selection_fragment (f1 @ f2 @ f3 @ f4 @ f5 @ f6 @ f7 @ f8)))))))))))"

section \<open>The entry points\<close>

definition body_dataset :: "json \<Rightarrow> json option" where
  "body_dataset body = (case body of JObj kvs \<Rightarrow> obj_get kvs ''dataset'' | _ \<Rightarrow> None)"

definition compileStructuredQuery ::
  "js_runtime \<Rightarrow> (string \<Rightarrow> string) \<Rightarrow> (string \<Rightarrow> StructuredDatasetRegistry) \<Rightarrow> CompileInput \<Rightarrow> json \<Rightarrow>
     sq_error + StructuredCompiledQuery" where
  "compileStructuredQuery rt titles registries input body =
     (if body_dataset body = Some (JStr ''cost_cards'') then compileCostCardQuery rt titles registries input body
      else
        res_bind (normalizeQuery registries body None) (\<lambda>query.
        compileNormalizedQuery rt input query (registries (q_dataset query))))"

definition getPublicStructuredRegistry ::
  "(string \<Rightarrow> string) \<Rightarrow> (string \<Rightarrow> StructuredDatasetRegistry) \<Rightarrow> string \<Rightarrow> StructuredDatasetRegistry" where
  "getPublicStructuredRegistry titles registries dataset =
     (let registry = registries dataset in
      if dataset = ''cost_cards'' then registry\<lparr>r_fields := r_fields (COST_CARD_DIRECTORY_REGISTRY titles)\<rparr>
      else if dataset = ''delivery_ledger'' then registry\<lparr>r_rowTable := None, r_fields := []\<rparr>
      else registry)"

definition compilePublicStructuredQuery ::
  "js_runtime \<Rightarrow> (string \<Rightarrow> string) \<Rightarrow> (string \<Rightarrow> StructuredDatasetRegistry) \<Rightarrow> CompileInput \<Rightarrow> json \<Rightarrow>
     sq_error + StructuredCompiledQuery" where
  "compilePublicStructuredQuery rt titles registries input body =
     (if body_dataset body = Some (JStr ''cost_cards'') then compileCostCardQuery rt titles registries input body
      else
        res_bind (normalizeQuery registries body None) (\<lambda>query.
        if q_dataset query = ''delivery_ledger''
        then Inl (SQ ledgerDetailDisabled ''Ledger reads are disabled. Use the archived PDF APIs for ledger documents.'')
        else compileNormalizedQuery rt input query (getPublicStructuredRegistry titles registries (q_dataset query))))"

end
