(* ===== verification/Cost_Card_Safety.thy ===== *)
theory Cost_Card_Safety
  imports Cost_Card_Query
begin

text \<open>
  Properties of the cost-card directory: its filter compiler meets the contract of
  \<open>filter_compiler\<close>, a name search matches its text literally, decimals keep their value and have
  one text, the statement is confined to the organization, and the public entry point never
  serves a closed dataset.
\<close>

section \<open>The text of a condition\<close>

lemma directory_types_dom: "directory_types f = Some x \<Longrightarrow> f \<in> set (map fst directory_columns)"
  unfolding directory_types_def by (drule map_of_SomeD) force

lemma directory_names_plain:
  "\<forall>f\<in>set (map fst directory_columns). qmarks f = 0 \<and> paren_ok f"
  unfolding directory_columns_def by (simp add: paren_ok_def)

lemma column_Inr:
  assumes "column f = Inr c"
  shows "qmarks c = 0" and "paren_ok c"
proof -
  from assms obtain x where "directory_types f = Some x"
    and c: "c = ''c.'' @ (if f = ''cost_card_id'' then ''id'' else f)"
    by (auto simp: column_def invalid_def split: if_splits)
  then have f: "qmarks f = 0" "paren_ok f"
    using directory_types_dom directory_names_plain by blast+
  then show "qmarks c = 0" by (simp add: c)
  have "paren_ok ''id''" "paren_ok ''c.''" by (simp_all add: paren_ok_def)
  with f(2) show "paren_ok c" unfolding c by (intro paren_ok_append) auto
qed

lemma scalar_null: "scalar f t v = Inr p \<Longrightarrow> p = None \<longleftrightarrow> v = JNull"
  by (cases v) (auto simp: scalar_def invalid_def split: if_splits sum.splits)

lemma scalars_null:
  "res_mapM (scalar f t) xs = Inr vs \<Longrightarrow> map (\<lambda>p. p = None) vs = map (\<lambda>x. x = JNull) xs"
  by (induction xs arbitrary: vs) (auto simp: res_bind_Inr dest: scalar_null)

lemma length_map_filter_id: "length (List.map_filter id vs) = count_list (map (\<lambda>p. p = None) vs) False"
  by (induction vs) (auto simp: List.map_filter_simps split: option.split)

definition in_text :: "StructuredFieldType \<Rightarrow> string \<Rightarrow> string \<Rightarrow> bool list \<Rightarrow> string" where
  "in_text t target te nulls =
     (let n = count_list nulls False;
          parts = (if n \<noteq> 0 then [te @ '' IN ('' @ str_join '', '' (replicate n (placeholder_of t)) @ '')''] else []) @
                  (if True \<in> set nulls then [target @ '' IS NULL''] else []) in
      if parts \<noteq> [] then ''('' @ str_join '' OR '' parts @ '')'' else ''0 = 1'')"

lemma in_condition_Inr:
  assumes "in_condition f t target te v = Inr fr"
  shows "\<exists>xs. v = JArr xs \<and> frag_sql fr = in_text t target te (map (\<lambda>x. x = JNull) xs) \<and>
     length (frag_params fr) = count_list (map (\<lambda>x. x = JNull) xs) False"
proof -
  from assms obtain xs vs where v: "v = JArr xs" and vs: "res_mapM (scalar f t) xs = Inr vs"
    and fr: "fr = \<lparr>frag_sql =
        (let parts = (if List.map_filter id vs \<noteq> []
             then [te @ '' IN ('' @ str_join '', '' (map (\<lambda>_. placeholder_of t) (List.map_filter id vs)) @ '')''] else []) @
           (if None \<in> set vs then [target @ '' IS NULL''] else []) in
         if parts \<noteq> [] then ''('' @ str_join '' OR '' parts @ '')'' else ''0 = 1''),
        frag_params = List.map_filter id vs\<rparr>"
    by (cases v) (auto simp: in_condition_def invalid_def res_bind_Inr Let_def split: if_split_asm)
  have nulls: "map (\<lambda>x. x = JNull) xs = map (\<lambda>p. p = None) vs"
    using scalars_null [OF vs] by simp
  have len: "length (List.map_filter id vs) = count_list (map (\<lambda>x. x = JNull) xs) False"
    unfolding nulls by (rule length_map_filter_id)
  have "None \<in> set vs \<longleftrightarrow> True \<in> set (map (\<lambda>x. x = JNull) xs)"
    unfolding nulls by force
  moreover have "List.map_filter id vs \<noteq> [] \<longleftrightarrow> count_list (map (\<lambda>x. x = JNull) xs) False \<noteq> 0"
    unfolding len [symmetric] length_0_conv by (rule refl)
  moreover have "map (\<lambda>_. placeholder_of t) (List.map_filter id vs) =
      replicate (count_list (map (\<lambda>x. x = JNull) xs) False) (placeholder_of t)"
    unfolding len [symmetric] by (rule map_replicate_const)
  ultimately have "frag_sql fr = in_text t target te (map (\<lambda>x. x = JNull) xs)"
    unfolding fr in_text_def SqlFragment.select_convs Let_def by (simp only:)
  with v len fr show ?thesis by simp
qed

lemma placeholder_of_text: "qmarks (placeholder_of t) = 1" "paren_ok (placeholder_of t)"
  by (simp_all add: placeholder_of_def paren_ok_def)

lemma target_text:
  assumes "qmarks c = 0" and "paren_ok c"
  shows "qmarks (if t = ty_string then binary_text c else c) = 0"
    and "paren_ok (if t = ty_string then binary_text c else c)"
proof -
  show "qmarks (if t = ty_string then binary_text c else c) = 0"
    using assms(1) by (simp add: binary_text_def)
  have "paren_ok '' AS BINARY''" by (simp add: paren_ok_def)
  with assms(2) have "paren_ok (''CAST'' @ (CHR ''('' # (c @ '' AS BINARY'') @ '')''))"
    by (intro paren_ok_append paren_ok_wrap) (simp_all add: paren_ok_def)
  with assms(2) show "paren_ok (if t = ty_string then binary_text c else c)"
    by (simp add: binary_text_def)
qed

lemma in_text_ok:
  assumes "qmarks target = 0" "paren_ok target" "qmarks te = 0" "paren_ok te"
  shows "qmarks (in_text t target te nulls) = count_list nulls False" and "paren_ok (in_text t target te nulls)"
proof -
  let ?n = "count_list nulls False"
  let ?list = "str_join '', '' (replicate ?n (placeholder_of t))"
  have list: "qmarks ?list = ?n" "paren_ok ?list"
    by (simp add: str_join_count sum_list_replicate placeholder_of_text)
       (rule paren_ok_join, auto simp: paren_ok_def placeholder_of_text(2) [unfolded paren_ok_def])
  have wrapped: "paren_ok (te @ '' IN '' @ (CHR ''('' # ?list @ '')''))"
    using assms list(2) by (intro paren_ok_append paren_ok_wrap) (simp_all add: paren_ok_def)
  have null: "paren_ok (target @ '' IS NULL'')"
    using assms by (intro paren_ok_append) (simp_all add: paren_ok_def)
  show "qmarks (in_text t target te nulls) = ?n"
    using assms list(1) by (auto simp: in_text_def Let_def)
  let ?parts = "(if ?n \<noteq> 0 then [te @ '' IN ('' @ ?list @ '')''] else []) @
                (if True \<in> set nulls then [target @ '' IS NULL''] else [])"
  have "paren_ok (CHR ''('' # str_join '' OR '' ?parts @ '')'')"
    using wrapped null by (intro paren_ok_wrap paren_ok_join) (auto simp: paren_ok_def split: if_splits)
  then show "paren_ok (in_text t target te nulls)"
    by (simp add: in_text_def Let_def paren_ok_def)
qed

text \<open>The text of a condition as a function of the field, the operator and the form of the value.\<close>

definition condition_text :: "StructuredFieldType \<Rightarrow> string \<Rightarrow> string \<Rightarrow> json \<Rightarrow> string" where
  "condition_text t target op v =
     (let te = (if t = ty_string then binary_text target else target) in
      if op = ''contains'' \<or> op = ''starts_with''
      then te @ '' LIKE CAST(? AS BINARY) ESCAPE '' @ [CHR 0x27, CHR ''!'', CHR 0x27]
      else if op = ''in'' then in_text t target te (map (\<lambda>x. x = JNull) (value_list v))
      else if v = JNull then target @ '' IS NULL''
      else te @ '' '' @ the (comparison_operator op) @ '' '' @ placeholder_of t)"

lemma search_condition_Inr:
  assumes "search_condition f t te op v = Inr fr"
  shows "\<exists>s. scalar f t v = Inr (Some (PStr s)) \<and>
     fr = \<lparr>frag_sql = te @ '' LIKE CAST(? AS BINARY) ESCAPE '' @ [CHR 0x27, CHR ''!'', CHR 0x27],
           frag_params = [PStr ((if op = ''contains'' then ''%'' else []) @ literalLike s @ ''%'')]\<rparr>"
proof -
  from assms obtain r where r: "scalar f t v = Inr r"
    by (auto simp: search_condition_def res_bind_Inr)
  show ?thesis
  proof (cases r)
    case (Some q)
    then show ?thesis
      using assms r by (cases q) (auto simp: search_condition_def invalid_def)
  qed (use assms r in \<open>simp add: search_condition_def invalid_def\<close>)
qed

lemma comparison_condition_Inr:
  assumes "comparison_condition f t target te op v = Inr fr"
  shows "if v = JNull then fr = \<lparr>frag_sql = target @ '' IS NULL'', frag_params = []\<rparr>
     else \<exists>s q. comparison_operator op = Some s \<and>
       fr = \<lparr>frag_sql = te @ '' '' @ s @ '' '' @ placeholder_of t, frag_params = [q]\<rparr>"
proof -
  from assms obtain p where p: "scalar f t v = Inr p"
    by (auto simp: comparison_condition_def res_bind_Inr)
  show ?thesis
  proof (cases p)
    case None
    then show ?thesis
      using assms p scalar_null [OF p] by (simp add: comparison_condition_def invalid_def split: if_split_asm)
  next
    case (Some q)
    then show ?thesis
      using assms p scalar_null [OF p]
      by (cases "comparison_operator op") (auto simp: comparison_condition_def invalid_def)
  qed
qed

lemma condition_split:
  assumes "condition f op v = Inr fr"
  shows "\<exists>target t nl te. column f = Inr target \<and> directory_types f = Some (t, nl) \<and>
     te = (if t = ty_string then binary_text target else target) \<and>
     op \<in> set (directory_operators f t) \<and>
     (if op = ''contains'' \<or> op = ''starts_with'' then search_condition f t te op v
      else if op = ''in'' then in_condition f t target te v
      else comparison_condition f t target te op v) = Inr fr"
proof -
  from assms obtain target where target: "column f = Inr target"
    by (auto simp: condition_def res_bind_Inr)
  obtain x where x: "directory_types f = Some x"
    using assms target by (cases "directory_types f") (auto simp: condition_def invalid_def)
  obtain t nl where "x = (t, nl)" by (cases x)
  with assms target x have "op \<in> set (directory_operators f t)"
    by (auto simp: condition_def invalid_def split: if_split_asm)
  with assms target x \<open>x = (t, nl)\<close> show ?thesis
    by (intro exI [of _ target] exI [of _ t] exI [of _ nl] exI) (simp add: condition_def Let_def)
qed

lemma condition_Inr:
  assumes "condition f op v = Inr fr"
  shows "\<exists>target t. column f = Inr target \<and> directory_types f = Some t \<and>
     frag_sql fr = condition_text (fst t) target op v \<and>
     length (frag_params fr) = qmarks (condition_text (fst t) target op v) \<and>
     paren_ok (condition_text (fst t) target op v)"
proof -
  from condition_split [OF assms] obtain target t nl te where target: "column f = Inr target"
    and t: "directory_types f = Some (t, nl)" and te_eq: "te = (if t = ty_string then binary_text target else target)"
    and body: "(if op = ''contains'' \<or> op = ''starts_with'' then search_condition f t te op v
      else if op = ''in'' then in_condition f t target te v
      else comparison_condition f t target te op v) = Inr fr" by blast
  note plain = column_Inr [OF target]
  have te: "qmarks te = 0" "paren_ok te"
    unfolding te_eq using target_text [OF plain] by auto
  consider "op = ''contains'' \<or> op = ''starts_with''" | "op = ''in''"
    | "op \<notin> {''contains'', ''starts_with'', ''in''}" by blast
  then have "frag_sql fr = condition_text t target op v \<and>
     length (frag_params fr) = qmarks (condition_text t target op v) \<and> paren_ok (condition_text t target op v)"
  proof cases
    case 1
    have "paren_ok ('' LIKE CAST(? AS BINARY) ESCAPE '' @ [CHR 0x27, CHR ''!'', CHR 0x27])"
      by (simp add: paren_ok_def)
    with 1 body te search_condition_Inr [of f t te op v fr] show ?thesis
      by (auto simp: condition_text_def te_eq [symmetric] Let_def intro: paren_ok_append)
  next
    case 2
    with body in_condition_Inr [of f t target te v fr] in_text_ok [OF plain te] show ?thesis
      by (auto simp: condition_text_def te_eq [symmetric] Let_def)
  next
    case 3
    then have cmp: "comparison_condition f t target te op v = Inr fr" using body by simp
    show ?thesis
    proof (cases "v = JNull")
      case True
      have "paren_ok (target @ '' IS NULL'')"
        using plain by (intro paren_ok_append) (simp_all add: paren_ok_def)
      then show ?thesis
        using comparison_condition_Inr [OF cmp] 3 True plain by (simp add: condition_text_def)
    next
      case False
      then obtain s q where s: "comparison_operator op = Some s"
        and fr: "fr = \<lparr>frag_sql = te @ '' '' @ s @ '' '' @ placeholder_of t, frag_params = [q]\<rparr>"
        using comparison_condition_Inr [OF cmp] by auto
      have "paren_ok (te @ '' '' @ s @ '' '' @ placeholder_of t)"
        using te comparison_operator_text [OF s] placeholder_of_text
        by (intro paren_ok_append) (simp_all add: paren_ok_def)
      then show ?thesis
        using 3 False fr s te comparison_operator_text [OF s] placeholder_of_text
        by (simp add: condition_text_def Let_def te_eq [symmetric])
    qed
  qed
  with target t show ?thesis by simp
qed

lemma value_form_nulls:
  assumes "value_form v = value_form w"
  shows "v = JNull \<longleftrightarrow> w = JNull" and "map (\<lambda>x. x = JNull) (value_list v) = map (\<lambda>x. x = JNull) (value_list w)"
proof -
  show "v = JNull \<longleftrightarrow> w = JNull" using assms by (cases v; cases w) auto
  have erase: "map (\<lambda>x. x = JNull) (value_list u) = map (\<lambda>x. x = JNull) (value_list (value_form u))" for u
    by (cases u) auto
  show "map (\<lambda>x. x = JNull) (value_list v) = map (\<lambda>x. x = JNull) (value_list w)"
    unfolding erase [of v] erase [of w] assms by (rule refl)
qed

interpretation card_filter: filter_compiler cost_filter condition
proof
  fix field op v fr
  assume fr: "condition field op v = Inr fr"
  then show "balanced fr" "paren_ok (frag_sql fr)"
    using condition_Inr [OF fr] by (auto simp: balanced_def)
  fix w gr
  assume gr: "condition field op w = Inr gr" and form: "value_form v = value_form w"
  show "frag_sql fr = frag_sql gr"
    using condition_Inr [OF fr] condition_Inr [OF gr] value_form_nulls [OF form]
    by (auto simp: condition_text_def)
qed (auto simp: res_bind_Inr joinFragments_def)

section \<open>Name searches are literal\<close>

text \<open>SQL's \<open>LIKE pattern ESCAPE '!'\<close> on binary strings.\<close>

fun sql_like :: "string \<Rightarrow> string \<Rightarrow> bool" where
  "sql_like [] s = (s = [])"
| "sql_like (p # ps) s =
     (if p = CHR ''!'' \<and> ps \<noteq> [] then s \<noteq> [] \<and> hd s = hd ps \<and> sql_like (tl ps) (tl s)
      else if p = CHR ''%'' then list_ex (\<lambda>k. sql_like ps (drop k s)) [0..<Suc (length s)]
      else if p = CHR ''_'' then s \<noteq> [] \<and> sql_like ps (tl s)
      else s \<noteq> [] \<and> hd s = p \<and> sql_like ps (tl s))"

definition like_escape :: "char \<Rightarrow> string" where
  "like_escape c = (if c \<in> {CHR ''!'', CHR ''%'', CHR ''_''} then [CHR ''!'', c] else [c])"

lemma literalLike_escape: "literalLike s = concat (map like_escape s)"
  by (induction s) (auto simp: literalLike_def replaceAll_def like_escape_def)

lemma sql_like_literal:
  "sql_like (literalLike t @ p) s \<longleftrightarrow> (\<exists>r. s = t @ r \<and> sql_like p r)"
proof (induction t arbitrary: s)
  case Nil
  show ?case by (simp add: literalLike_escape)
next
  case (Cons c t)
  have "sql_like (literalLike (c # t) @ p) s \<longleftrightarrow> s \<noteq> [] \<and> hd s = c \<and> sql_like (literalLike t @ p) (tl s)"
    by (simp add: literalLike_escape like_escape_def)
  also have "\<dots> \<longleftrightarrow> (\<exists>r. s = (c # t) @ r \<and> sql_like p r)"
    unfolding Cons.IH by (cases s) auto
  finally show ?case .
qed

lemma sql_like_percent: "sql_like (CHR ''%'' # p) s \<longleftrightarrow> (\<exists>u r. s = u @ r \<and> sql_like p r)"
proof
  assume "sql_like (CHR ''%'' # p) s"
  then obtain k where "sql_like p (drop k s)"
    unfolding sql_like.simps list_ex_iff by (auto simp del: upt_Suc)
  then show "\<exists>u r. s = u @ r \<and> sql_like p r"
    by (intro exI [of _ "take k s"] exI [of _ "drop k s"]) simp
next
  assume "\<exists>u r. s = u @ r \<and> sql_like p r"
  then obtain u r where "s = u @ r" "sql_like p r" by blast
  then have "length u \<in> set [0..<Suc (length s)] \<and> sql_like p (drop (length u) s)" by simp
  then show "sql_like (CHR ''%'' # p) s"
    unfolding sql_like.simps list_ex_iff by auto
qed

lemma sql_like_any: "sql_like ''%'' s"
  unfolding sql_like_percent by auto

text \<open>
  A directory name search finds exactly the names that contain (or start with) the text the
  caller gave, whatever \<open>%\<close>, \<open>_\<close> or \<open>!\<close> the text has: the one parameter it sends is a \<open>LIKE\<close>
  pattern that matches those names and no others.\<close>
theorem name_search_literal:
  assumes "condition field op (JStr t) = Inr fr" and "op = ''contains'' \<or> op = ''starts_with''"
  shows "\<exists>p. frag_params fr = [PStr p] \<and>
     (\<forall>s. sql_like p s \<longleftrightarrow> (if op = ''contains'' then \<exists>u r. s = u @ t @ r else \<exists>r. s = t @ r))"
proof -
  from condition_split [OF assms(1)] assms(2) obtain ty te where
    search: "search_condition field ty te op (JStr t) = Inr fr" and "op \<in> set (directory_operators field ty)"
    by auto
  with assms(2) have ty: "ty = ty_string"
    by (auto simp: directory_operators_def split: if_splits)
  from search_condition_Inr [OF search] obtain s where s: "scalar field ty (JStr t) = Inr (Some (PStr s))"
    and fr: "frag_params fr = [PStr ((if op = ''contains'' then ''%'' else []) @ literalLike s @ ''%'')]"
    by auto
  have "s = t"
    using s ty by (simp add: scalar_def invalid_def split: if_splits)
  moreover have "sql_like (''%'' @ literalLike t @ ''%'') x \<longleftrightarrow> (\<exists>u r. x = u @ t @ r)" for x
    using sql_like_percent [of "literalLike t @ ''%''" x] sql_like_literal [of t "''%''"] sql_like_any by auto
  moreover have "sql_like (literalLike t @ ''%'') x \<longleftrightarrow> (\<exists>r. x = t @ r)" for x
    using sql_like_literal [of t "''%''" x] sql_like_any by auto
  ultimately show ?thesis
    unfolding fr by (auto simp del: sql_like.simps)
qed

section \<open>Directory statements\<close>

lemma cost_card_columns_plain:
  "res_mapM cost_card_column ns = Inr ps \<Longrightarrow> sum_list (map qmarks ps) = 0"
proof (induction ns arbitrary: ps)
  case (Cons n ns)
  from Cons.prems obtain q qs where q: "cost_card_column n = Inr q"
    and qs: "res_mapM cost_card_column ns = Inr qs" and ps: "ps = q # qs"
    by (auto simp: res_bind_Inr)
  from q obtain c where c: "column n = Inr c"
    and q_eq: "q = (if n = ''sale_price'' \<or> n = ''revision'' then ''CAST('' @ c @ '' AS CHAR)'' else c) @
          '' AS '' @ [CHR 0x60] @ n @ [CHR 0x60]"
    by (auto simp: res_bind_Inr cost_card_column_def)
  have "qmarks n = 0"
    using c directory_types_dom directory_names_plain by (fastforce simp: column_def invalid_def split: if_splits)
  then show ?case
    using Cons.IH [OF qs] column_Inr(1) [OF c] by (simp add: ps q_eq)
qed simp

lemma cost_card_sorts_plain:
  "res_mapM cost_card_sort items = Inr ps \<Longrightarrow> sum_list (map qmarks ps) = 0"
  by (induction items arbitrary: ps)
     (auto simp: res_bind_Inr cost_card_sort_def direction_text_def column_Inr(1))

lemma cost_filter_opt_Inr:
  assumes "cost_filter_opt node = Inr fr"
  shows "balanced fr" and "paren_ok (frag_sql fr)"
  using assms card_filter.tree_balanced card_filter.tree_paren
  by (auto simp: cost_filter_opt_def balanced_def paren_ok_def split: option.split_asm)

text \<open>
  C34: A compiled cost-card query needs a current authorization and is confined to it: its first
  placeholder compares the card's organization with the caller's, the authorization clause
  and the filter follow as conjuncts, the filter in parentheses it cannot leave, and there
  is one parameter per placeholder.\<close>
theorem cost_card_query_scoped:
  assumes "compileCostCardQuery rt titles registries input body = Inr cq"
  shows "\<exists>b projection filt fps rest ps. in_businessAuthorization input = Some b \<and>
     cq_sql cq = ''SELECT '' @ projection @
       '' FROM cost_cards c WHERE CAST(c.org_id AS BINARY) = CAST(? AS BINARY) AND c.archived_at IS NULL AND ('' @
       ba_sql b @ '') AND ('' @ filt @ '') ORDER BY '' @ rest \<and>
     cq_params cq = PStr (in_orgId input) # ba_params b @ fps @ ps \<and>
     qmarks projection = 0 \<and> qmarks filt = length fps \<and> paren_ok filt \<and> qmarks rest = length ps"
proof -
  from assms obtain b where b: "in_businessAuthorization input = Some b"
    by (auto simp: compileCostCardQuery_def split: option.split_asm)
  with assms obtain query fr offset projection sorts h where
    fr: "cost_filter_opt (q_filter query) = Inr fr"
    and projection: "res_mapM cost_card_column (q_select query) = Inr projection"
    and sorts: "res_mapM cost_card_sort (q_sort query) = Inr sorts"
    and cq: "cq = cost_card_compiled input b query fr projection (cost_card_order query sorts) offset h"
    unfolding compileCostCardQuery_def by (auto simp: res_bind_Inr Let_def)
  have "qmarks (str_join '', '' (cost_card_order query sorts)) = 0"
    using cost_card_sorts_plain [OF sorts] by (simp add: str_join_comma_qmarks cost_card_order_def)
  moreover have "qmarks (str_join '', '' projection) = 0"
    using cost_card_columns_plain [OF projection] by (simp add: str_join_comma_qmarks)
  ultimately show ?thesis
    using b cost_filter_opt_Inr [OF fr]
    by (intro exI [of _ b] exI [of _ "str_join '', '' projection"] exI [of _ "frag_sql fr"]
        exI [of _ "frag_params fr"]
        exI [of _ "str_join '', '' (cost_card_order query sorts) @ '' LIMIT ? OFFSET ?''"]
        exI [of _ "[PNum (q_limit query), PNum offset]"])
       (simp add: cq cost_card_compiled_def balanced_def)
qed

section \<open>Selections\<close>

lemma enterprise_condition_balanced: "enterprise_condition s = Inr f \<Longrightarrow> balanced f"
  by (auto simp: enterprise_condition_def balanced_def split: sum.split_asm partition_error.split_asm)

lemma selection_balanced:
  "(\<And>s f. compile s = Inr f \<Longrightarrow> balanced f) \<Longrightarrow> selection_text sel key compile = Inr fs \<Longrightarrow> f \<in> set fs \<Longrightarrow> balanced f"
  "selection_list sel key field = Inr fs \<Longrightarrow> f \<in> set fs \<Longrightarrow> balanced f"
  by (auto simp: selection_text_def selection_list_def res_bind_Inr
      split: option.split_asm selection_value.split_asm dest: card_filter.leaf_balanced)

text \<open>
  A compiled cost-card selection has one parameter per placeholder, and its text is never
  empty: a request without entries selects everything with \<open>1 = 1\<close>.\<close>

lemma cost_card_selection_balanced:
  assumes "compileCostCardSelection request = Inr fr"
  shows "qmarks (frag_sql fr) = length (frag_params fr) \<and> frag_sql fr \<noteq> [] \<and>
     (request = JObj [] \<longrightarrow> fr = \<lparr>frag_sql = ''1 = 1'', frag_params = []\<rparr>)"
proof -
  from assms obtain sel f1 f2 f3 f4 f5 f6 f7 f8 where sel: "parseCostCardSelection request = Inr sel"
    and f1: "selection_text sel ''enterpriseName'' enterprise_condition = Inr f1"
    and f2: "selection_list sel ''costCardIds'' ''cost_card_id'' = Inr f2"
    and f3: "selection_list sel ''spuIds'' ''spu_id'' = Inr f3"
    and f4: "selection_list sel ''skuIds'' ''sku_id'' = Inr f4"
    and f5: "selection_text sel ''dishName'' (\<lambda>s. condition ''dish_name'' ''eq'' (JStr s)) = Inr f5"
    and f6: "selection_text sel ''dishNameContains'' (\<lambda>s. condition ''dish_name'' ''contains'' (JStr s)) = Inr f6"
    and f7: "selection_text sel ''specificationName'' (\<lambda>s. condition ''specification_name'' ''eq'' (JStr s)) = Inr f7"
    and f8: "selection_text sel ''baseCategoryName'' (\<lambda>s. condition ''base_category_name'' ''eq'' (JStr s)) = Inr f8"
    and fr: "fr = selection_fragment (f1 @ f2 @ f3 @ f4 @ f5 @ f6 @ f7 @ f8)"
    unfolding compileCostCardSelection_def by (auto simp: res_bind_Inr)
  let ?fs = "f1 @ f2 @ f3 @ f4 @ f5 @ f6 @ f7 @ f8"
  have "balanced f" if "f \<in> set ?fs" for f
    using that selection_balanced(1) [OF enterprise_condition_balanced f1] selection_balanced(2) [OF f2]
      selection_balanced(2) [OF f3] selection_balanced(2) [OF f4]
      selection_balanced(1) [OF card_filter.leaf_balanced f5] selection_balanced(1) [OF card_filter.leaf_balanced f6]
      selection_balanced(1) [OF card_filter.leaf_balanced f7] selection_balanced(1) [OF card_filter.leaf_balanced f8]
    by auto
  then have "balanced (joinFragments ?fs ''AND'')"
    by (rule joinFragments_balanced) simp_all
  then have join: "qmarks (str_join '' AND '' (map (\<lambda>f. ''('' @ frag_sql f @ '')'') ?fs)) =
      length (concat (map frag_params ?fs))"
    by (simp add: balanced_def joinFragments_def)
  have "request = JObj [] \<Longrightarrow> ?fs = []"
    using sel f1 f2 f3 f4 f5 f6 f7 f8
    by (auto simp: parseCostCardSelection_def selection_text_def selection_list_def obj_get_def)
  then show ?thesis
    unfolding fr selection_fragment_def Let_def using join by (cases "?fs = []") auto
qed

section \<open>Closed datasets\<close>

text \<open>
  C35: The public entry point serves no closed dataset: it never returns a query on the delivery
  ledger, one on cost cards only under a current authorization, and any other only on a
  dataset with a row table that is not served by partition extracts.\<close>
theorem public_query_open_datasets_only:
  assumes "compilePublicStructuredQuery rt titles registries input body = Inr cq"
  shows "cq_dataset cq \<noteq> ''delivery_ledger'' \<and>
     (if cq_dataset cq = ''cost_cards'' then in_businessAuthorization input \<noteq> None
      else r_accessMode (registries (cq_dataset cq)) \<noteq> partition_extract \<and>
           r_rowTable (registries (cq_dataset cq)) \<noteq> None)"
proof (cases "body_dataset body = Some (JStr ''cost_cards'')")
  case True
  with assms have "compileCostCardQuery rt titles registries input body = Inr cq"
    by (simp add: compilePublicStructuredQuery_def)
  moreover from this have "cq_dataset cq = ''cost_cards''"
    by (auto simp: compileCostCardQuery_def cost_card_compiled_def res_bind_Inr Let_def split: option.split_asm)
  ultimately show ?thesis
    by (auto simp: compileCostCardQuery_def split: option.split_asm)
next
  case False
  with assms obtain query where query: "normalizeQuery registries body None = Inr query"
    and ledger: "q_dataset query \<noteq> ''delivery_ledger''"
    and cq: "compileNormalizedQuery rt input query (getPublicStructuredRegistry titles registries (q_dataset query)) = Inr cq"
    by (auto simp: compilePublicStructuredQuery_def res_bind_Inr split: if_split_asm)
  from normalizeQuery_Inr [OF query] obtain object where
    object: "requirePlainObject body ''Query body must be an object.'' = Inr object"
    and dataset: "normalize_dataset (obj_get object ''dataset'') = Inr (q_dataset query)"
    and mode: "r_accessMode (registries (q_dataset query)) \<noteq> partition_extract" by auto
  have "body_dataset body = Some (JStr (q_dataset query))"
    using object dataset
    by (auto simp: requirePlainObject_def body_dataset_def normalize_dataset_def
        split: json.split_asm option.split_asm if_split_asm)
  with False have "q_dataset query \<noteq> ''cost_cards''" by auto
  moreover obtain table where "r_rowTable (getPublicStructuredRegistry titles registries (q_dataset query)) = Some table"
    and "cq_dataset cq = q_dataset query"
    using compileNormalizedQuery_Inr [OF cq] by (auto simp: assemble_def)
  ultimately show ?thesis
    using ledger mode by (simp add: getPublicStructuredRegistry_def)
qed

end
