(* ===== verification/Cost_Card_Decimal.thy ===== *)
theory Cost_Card_Decimal
  imports Cost_Card_Query
begin

text \<open>
  The exact decimal texts of the cost cards: the value a decimal text denotes, that normalization
  keeps it, and that it has one text, so that comparing texts is comparing values.
\<close>

section \<open>Digit strings\<close>

definition digit :: "char \<Rightarrow> nat" where
  "digit c = of_char c - 48"

fun digits_value :: "nat \<Rightarrow> string \<Rightarrow> nat" where
  "digits_value n [] = n"
| "digits_value n (c # cs) = digits_value (10 * n + digit c) cs"

lemma digit_less: "is_digit c \<Longrightarrow> digit c < 10"
  by (auto simp: is_digit_def digit_def)

lemma digit_inj: "is_digit c \<Longrightarrow> is_digit d \<Longrightarrow> digit c = digit d \<Longrightarrow> c = d"
proof -
  assume "is_digit c" "is_digit d" "digit c = digit d"
  then have "(of_char c :: nat) = of_char d"
    unfolding is_digit_def digit_def by linarith
  then show "c = d" by simp
qed

lemma digit_zero: "is_digit c \<Longrightarrow> digit c = 0 \<longleftrightarrow> c = CHR ''0''"
  using digit_inj [of c "CHR ''0''"] by (auto simp: digit_def is_digit_def)

lemma digits_value_append: "digits_value n (xs @ ys) = digits_value (digits_value n xs) ys"
  by (induction xs arbitrary: n) auto

lemma digits_value_shift: "digits_value n xs = n * 10 ^ length xs + digits_value 0 xs"
proof (induction xs arbitrary: n)
  case (Cons c cs)
  show ?case
    using Cons.IH [of "10 * n + digit c"] Cons.IH [of "digit c"] by (simp add: algebra_simps)
qed simp

lemma digits_value_less: "list_all is_digit xs \<Longrightarrow> digits_value 0 xs < 10 ^ length xs"
proof (induction xs rule: rev_induct)
  case (snoc x xs)
  then have "digits_value 0 xs < 10 ^ length xs" "digit x < 10" by (auto simp: digit_less)
  then show ?case by (simp add: digits_value_append)
qed simp

lemma digits_value_inj:
  "list_all is_digit xs \<Longrightarrow> list_all is_digit ys \<Longrightarrow> length xs = length ys \<Longrightarrow>
     digits_value 0 xs = digits_value 0 ys \<Longrightarrow> xs = ys"
proof (induction xs arbitrary: ys rule: rev_induct)
  case (snoc x xs)
  from snoc.prems(3) obtain zs z where ys: "ys = zs @ [z]" by (cases ys rule: rev_exhaust) auto
  have "10 * digits_value 0 xs + digit x = 10 * digits_value 0 zs + digit z"
    using snoc.prems(4) by (simp add: ys digits_value_append)
  moreover have "digit x < 10" "digit z < 10"
    using snoc.prems(1,2) by (simp_all add: ys digit_less)
  ultimately have "digits_value 0 xs = digits_value 0 zs" "digit x = digit z" by presburger+
  with snoc digit_inj show ?case by (simp add: ys)
qed simp

text \<open>No leading zero: the first digit of an integer of more than one digit is not zero.\<close>

definition no_lead :: "string \<Rightarrow> bool" where
  "no_lead xs \<longleftrightarrow> xs \<noteq> [] \<and> (length xs > 1 \<longrightarrow> hd xs \<noteq> CHR ''0'')"

lemma no_lead_lower:
  assumes "list_all is_digit xs" "no_lead xs" "length xs > 1"
  shows "10 ^ (length xs - 1) \<le> digits_value 0 xs"
proof -
  from assms obtain c cs where xs: "xs = c # cs" "is_digit c" "c \<noteq> CHR ''0''"
    by (cases xs) (auto simp: no_lead_def)
  then have "1 \<le> digit c" using digit_zero by (metis One_nat_def Suc_leI not_gr_zero)
  then have "10 ^ length cs \<le> digit c * 10 ^ length cs" by simp
  also have "\<dots> \<le> digits_value (digit c) cs" by (subst digits_value_shift) simp
  finally show ?thesis by (simp add: xs)
qed

lemma no_lead_inj:
  assumes "list_all is_digit xs" "list_all is_digit ys" "no_lead xs" "no_lead ys"
    and "digits_value 0 xs = digits_value 0 ys"
  shows "xs = ys"
proof -
  have le: "length us \<le> length vs" if "list_all is_digit us" "list_all is_digit vs" "no_lead us" "no_lead vs"
      "digits_value 0 us = digits_value 0 vs" for us vs
  proof (rule ccontr)
    assume gt: "\<not> length us \<le> length vs"
    moreover have "vs \<noteq> []" using that(4) by (simp add: no_lead_def)
    ultimately have len: "length us > 1" "length vs \<le> length us - 1" by (cases vs; simp)+
    have "digits_value 0 vs < 10 ^ length vs" using that(2) by (rule digits_value_less)
    also have "\<dots> \<le> 10 ^ (length us - 1)" using len(2) by (simp add: power_increasing)
    also have "\<dots> \<le> digits_value 0 us" using no_lead_lower [OF that(1,3) len(1)] .
    finally show False using that(5) by simp
  qed
  have "length xs = length ys"
    using le [of xs ys] le [of ys xs] assms by simp
  with assms show ?thesis by (auto intro: digits_value_inj)
qed

section \<open>Normal forms\<close>

lemma strip_leading_zeros_value: "digits_value 0 (strip_leading_zeros ds) = digits_value 0 ds"
proof -
  have "digits_value 0 (dropWhile (\<lambda>c. c = CHR ''0'') xs) = digits_value 0 xs" for xs
    by (induction xs) (auto simp: digit_def)
  note drop = this
  show ?thesis
  proof (cases "dropWhile (\<lambda>c. c = CHR ''0'') ds = []")
    case True
    have "digits_value 0 ds = 0"
      using drop [of ds, symmetric] unfolding True digits_value.simps .
    with True show ?thesis by (simp add: strip_leading_zeros_def digit_def)
  next
    case False
    show ?thesis
      unfolding strip_leading_zeros_def Let_def if_not_P [OF False] by (rule drop)
  qed
qed

lemma strip_leading_zeros_digits:
  assumes "list_all is_digit ds"
  shows "list_all is_digit (strip_leading_zeros ds)" and "ds \<noteq> [] \<Longrightarrow> no_lead (strip_leading_zeros ds)"
proof -
  have "is_digit (CHR ''0'')" by (simp add: is_digit_def)
  then show "list_all is_digit (strip_leading_zeros ds)"
    using assms by (auto simp: strip_leading_zeros_def Let_def list_all_iff dest: set_dropWhileD)
  assume "ds \<noteq> []"
  then show "no_lead (strip_leading_zeros ds)"
    using hd_dropWhile [of "\<lambda>c. c = CHR ''0''" ds]
    by (auto simp: strip_leading_zeros_def Let_def no_lead_def)
qed

lemma strip_leading_zeros_idem:
  "list_all is_digit ds \<Longrightarrow> ds \<noteq> [] \<Longrightarrow> strip_leading_zeros (strip_leading_zeros ds) = strip_leading_zeros ds"
  using strip_leading_zeros_digits [of ds] strip_leading_zeros_digits [of "strip_leading_zeros ds"]
  by (intro no_lead_inj) (auto simp: strip_leading_zeros_value no_lead_def)

definition no_trail :: "string \<Rightarrow> bool" where
  "no_trail xs \<longleftrightarrow> (xs \<noteq> [] \<longrightarrow> last xs \<noteq> CHR ''0'')"

lemma strip_trailing_zeros_split:
  "\<exists>k. ds = strip_trailing_zeros ds @ replicate k (CHR ''0'')"
proof -
  let ?z = "takeWhile (\<lambda>c. c = CHR ''0'') (rev ds)"
  have "?z = replicate (length ?z) (CHR ''0'')"
    by (rule replicate_eqI) (auto dest: set_takeWhileD)
  then have z: "rev ?z = replicate (length ?z) (CHR ''0'')"
    using rev_replicate [of "length ?z" "CHR ''0''"] by simp
  have "rev ds = ?z @ dropWhile (\<lambda>c. c = CHR ''0'') (rev ds)" by simp
  then have "ds = strip_trailing_zeros ds @ rev ?z"
    unfolding strip_trailing_zeros_def by (metis rev_append rev_rev_ident)
  with z show ?thesis by auto
qed

lemma no_trail_strip: "no_trail (strip_trailing_zeros ds)"
proof -
  have "dropWhile (\<lambda>c. c = CHR ''0'') (rev ds) \<noteq> [] \<Longrightarrow>
      hd (dropWhile (\<lambda>c. c = CHR ''0'') (rev ds)) \<noteq> CHR ''0''"
    using hd_dropWhile [of "\<lambda>c. c = CHR ''0''" "rev ds"] by simp
  then show ?thesis by (auto simp: no_trail_def strip_trailing_zeros_def last_rev)
qed

lemma digits_value_zeros: "digits_value n (replicate k (CHR ''0'')) = n * 10 ^ k"
  by (induction k arbitrary: n) (auto simp: digit_def)

text \<open>The value of an unsigned decimal with the given integer and fraction digits.\<close>

definition fixed_value :: "string \<Rightarrow> string \<Rightarrow> rat" where
  "fixed_value i f = of_nat (digits_value 0 (i @ f)) / 10 ^ length f"

lemma fixed_value_strip: "fixed_value (strip_leading_zeros i) (strip_trailing_zeros f) = fixed_value i f"
proof -
  obtain k where k: "f = strip_trailing_zeros f @ replicate k (CHR ''0'')"
    using strip_trailing_zeros_split by blast
  let ?f = "strip_trailing_zeros f"
  have "digits_value 0 (i @ f) = digits_value 0 (i @ ?f) * 10 ^ k"
    by (subst k) (simp add: digits_value_append digits_value_zeros)
  moreover have "length f = length ?f + k" by (subst k) simp
  ultimately have "fixed_value i f = of_nat (digits_value 0 (i @ ?f)) / 10 ^ length ?f"
    by (simp add: fixed_value_def power_add)
  then show ?thesis
    by (simp add: fixed_value_def digits_value_append strip_leading_zeros_value)
qed

lemma fixed_value_nonneg: "0 \<le> fixed_value i f"
  by (simp add: fixed_value_def)

lemma fixed_value_fraction_le:
  assumes "list_all is_digit g" "no_trail g" "fixed_value i f = fixed_value j g"
  shows "length g \<le> length f"
proof (rule ccontr)
  assume gt: "\<not> length g \<le> length f"
  then obtain d where d: "length g = length f + Suc d" by (metis add_Suc_right less_natE not_le)
  from gt obtain h x where g: "g = h @ [x]" by (cases g rule: rev_exhaust) auto
  have x: "is_digit x" "x \<noteq> CHR ''0''"
    using assms(1,2) by (auto simp: g no_trail_def)
  have "(of_nat (digits_value 0 (i @ f)) :: rat) * 10 ^ Suc d = of_nat (digits_value 0 (j @ g))"
    using assms(3) unfolding fixed_value_def d by (simp add: field_simps power_add)
  then have "digits_value 0 (i @ f) * 10 ^ Suc d = digits_value 0 (j @ g)"
    by (metis (no_types, lifting) of_nat_eq_iff of_nat_mult of_nat_numeral of_nat_power)
  also have "\<dots> = 10 * digits_value 0 (j @ h) + digit x"
    by (simp add: g digits_value_append flip: append_assoc)
  finally have "10 dvd 10 * digits_value 0 (j @ h) + digit x"
    by (metis dvd_mult dvd_triv_left power_Suc)
  then have "10 dvd digit x" by presburger
  with x digit_less [OF x(1)] digit_zero [OF x(1)] show False by (auto dest: nat_dvd_not_less)
qed

lemma fixed_value_inj:
  assumes "list_all is_digit i" "list_all is_digit f" "no_lead i" "no_trail f"
    and "list_all is_digit j" "list_all is_digit g" "no_lead j" "no_trail g"
    and eq: "fixed_value i f = fixed_value j g"
  shows "i = j \<and> f = g"
proof -
  have len: "length f = length g"
    using fixed_value_fraction_le [OF assms(6,8) eq] fixed_value_fraction_le [OF assms(2,4) eq [symmetric]] by simp
  then have "digits_value 0 (i @ f) = digits_value 0 (j @ g)"
    using eq by (simp add: fixed_value_def)
  then have sum: "digits_value 0 i * 10 ^ length f + digits_value 0 f =
      digits_value 0 j * 10 ^ length f + digits_value 0 g"
    by (simp add: digits_value_append digits_value_shift [of "digits_value 0 i" f]
        digits_value_shift [of "digits_value 0 j" g] len)
  have less: "digits_value 0 f < 10 ^ length f" "digits_value 0 g < 10 ^ length f"
    using digits_value_less [OF assms(2)] digits_value_less [OF assms(6)] len by simp_all
  have "digits_value 0 f = digits_value 0 g"
    using arg_cong [OF sum, of "\<lambda>n. n mod 10 ^ length f"] less by simp
  with sum have "digits_value 0 i = digits_value 0 j" by simp
  with assms(1,3,5,7) have "i = j" by (intro no_lead_inj)
  moreover have "f = g"
    using digits_value_inj [OF assms(2,6) len] \<open>digits_value 0 f = digits_value 0 g\<close> .
  ultimately show ?thesis by blast
qed

section \<open>Normalization\<close>

definition match_value :: "decimal_match \<Rightarrow> rat" where
  "match_value m =
     (if dm_negative m then - 1 else 1) * fixed_value (dm_integer m) (dm_fraction m) /
     (if dm_percent m then 100 else 1)"

text \<open>The number a decimal text denotes.\<close>

definition decimal_value :: "string \<Rightarrow> rat option" where
  "decimal_value v = map_option match_value (decimal_parse (js_trim v))"

lemma decimal_body_digits:
  assumes "decimal_body body = Some (i, f, p)"
  shows "list_all is_digit i" and "i \<noteq> []" and "list_all is_digit f"
proof -
  have zero: "is_digit (CHR ''0'')" by (simp add: is_digit_def)
  have tw: "list_all is_digit (takeWhile is_digit xs)" for xs
    by (auto simp: list_all_iff dest: set_takeWhileD)
  show "list_all is_digit i" "i \<noteq> []" "list_all is_digit f"
    using assms zero tw
    by (auto simp: decimal_body_def Let_def split: list.split_asm if_split_asm)
qed

lemma decimal_parse_digits:
  assumes "decimal_parse t = Some m"
  shows "list_all is_digit (dm_integer m)" and "dm_integer m \<noteq> []" and "list_all is_digit (dm_fraction m)"
  using assms decimal_body_digits by (auto simp: decimal_parse_def Let_def split: if_split_asm)

definition decimal_text :: "bool \<Rightarrow> string \<Rightarrow> string \<Rightarrow> string" where
  "decimal_text neg i f =
     (if neg \<and> \<not> (i = ''0'' \<and> f = []) then ''-'' else []) @ i @ (if f \<noteq> [] then CHR ''.'' # f else [])"

lemma normalize_plain:
  assumes "normalizeCostCardDecimal v False = Inr d"
  shows "\<exists>m. decimal_parse (js_trim v) = Some m \<and> \<not> dm_percent m \<and>
     d = decimal_text (dm_negative m) (strip_leading_zeros (dm_integer m)) (strip_trailing_zeros (dm_fraction m))"
proof -
  from assms obtain m where m: "decimal_parse (js_trim v) = Some m" "\<not> dm_percent m"
    by (auto simp: normalizeCostCardDecimal_def split: option.split_asm if_split_asm)
  have "strip_leading_zeros (strip_leading_zeros (dm_integer m)) = strip_leading_zeros (dm_integer m)"
    using decimal_parse_digits [OF m(1)] by (intro strip_leading_zeros_idem)
  with assms m show ?thesis
    by (auto simp: normalizeCostCardDecimal_def Let_def decimal_text_def split: if_split_asm)
qed

lemma decimal_text_inj:
  assumes i: "list_all is_digit i" "i \<noteq> []" and j: "list_all is_digit j" "j \<noteq> []"
    and eq: "decimal_text a i f = decimal_text b j g"
  shows "i = j \<and> f = g \<and> (a \<and> \<not> (i = ''0'' \<and> f = []) \<longleftrightarrow> b \<and> \<not> (j = ''0'' \<and> g = []))"
proof -
  have no: "CHR ''-'' \<noteq> hd us" "CHR ''.'' \<notin> set us" if "list_all is_digit us" "us \<noteq> []" for us
    using that by (cases us; auto simp: is_digit_def list_all_iff)+
  have strip: "(dropWhile (\<lambda>c. c = CHR ''-'') (decimal_text n us fs) = us @ (if fs \<noteq> [] then CHR ''.'' # fs else [])) \<and>
      (hd (decimal_text n us fs) = CHR ''-'' \<longleftrightarrow> n \<and> \<not> (us = ''0'' \<and> fs = []))"
    if us: "list_all is_digit us" "us \<noteq> []" for n us fs
    using no(1) [OF us] us(2) by (cases us) (auto simp: decimal_text_def)
  have body: "i @ (if f \<noteq> [] then CHR ''.'' # f else []) = j @ (if g \<noteq> [] then CHR ''.'' # g else [])"
    using strip [OF i, of a f] strip [OF j, of b g] eq by metis
  have point: "takeWhile (\<lambda>c. c \<noteq> CHR ''.'') (us @ (if fs \<noteq> [] then CHR ''.'' # fs else [])) = us"
    if "CHR ''.'' \<notin> set us" for us fs :: string
    using that by (induction us) auto
  have "i = j"
    using arg_cong [OF body, of "takeWhile (\<lambda>c. c \<noteq> CHR ''.'')"]
    unfolding point [OF no(2) [OF i]] point [OF no(2) [OF j]] .
  with body have split: "i = j \<and> f = g" by (auto split: if_split_asm)
  with strip [OF i, of a f] strip [OF j, of b g] eq show ?thesis by metis
qed

lemma fixed_value_zero:
  assumes "list_all is_digit i" "no_lead i" "list_all is_digit f" "no_trail f"
  shows "fixed_value i f = 0 \<longleftrightarrow> i = ''0'' \<and> f = []"
proof
  assume "fixed_value i f = 0"
  then have "fixed_value i f = fixed_value ''0'' []" by (simp add: fixed_value_def digit_def)
  then show "i = ''0'' \<and> f = []"
    by (rule fixed_value_inj [rotated 8]) (use assms in \<open>auto simp: no_lead_def no_trail_def is_digit_def\<close>)
qed (simp add: fixed_value_def digit_def)

text \<open>
  C33: Normalization of cost-card decimals is exact: two accepted texts are normalized to the same
  text exactly when they denote the same number, so an equality filter on the stored text is
  an equality of amounts.\<close>
theorem normalized_decimals_equal_iff:
  assumes v: "normalizeCostCardDecimal v False = Inr d" and w: "normalizeCostCardDecimal w False = Inr e"
  shows "d = e \<longleftrightarrow> decimal_value v = decimal_value w"
proof -
  obtain m where m: "decimal_parse (js_trim v) = Some m" "\<not> dm_percent m"
    and d: "d = decimal_text (dm_negative m) (strip_leading_zeros (dm_integer m)) (strip_trailing_zeros (dm_fraction m))"
    using normalize_plain [OF v] by blast
  obtain n where n: "decimal_parse (js_trim w) = Some n" "\<not> dm_percent n"
    and e: "e = decimal_text (dm_negative n) (strip_leading_zeros (dm_integer n)) (strip_trailing_zeros (dm_fraction n))"
    using normalize_plain [OF w] by blast
  define i f where "i = strip_leading_zeros (dm_integer m)" and "f = strip_trailing_zeros (dm_fraction m)"
  define j g where "j = strip_leading_zeros (dm_integer n)" and "g = strip_trailing_zeros (dm_fraction n)"
  have sub: "set (strip_trailing_zeros xs) \<subseteq> set xs" for xs
    by (auto simp: strip_trailing_zeros_def dest: set_dropWhileD)
  have i: "list_all is_digit i" "no_lead i" "list_all is_digit f" "no_trail f"
    using decimal_parse_digits [OF m(1)] strip_leading_zeros_digits [of "dm_integer m"] sub [of "dm_fraction m"]
    by (auto simp: i_def f_def no_trail_strip list_all_iff)
  have j: "list_all is_digit j" "no_lead j" "list_all is_digit g" "no_trail g"
    using decimal_parse_digits [OF n(1)] strip_leading_zeros_digits [of "dm_integer n"] sub [of "dm_fraction n"]
    by (auto simp: j_def g_def no_trail_strip list_all_iff)
  have ne: "i \<noteq> []" "j \<noteq> []" using i(2) j(2) by (simp_all add: no_lead_def)
  have val: "decimal_value v = Some ((if dm_negative m then - 1 else 1) * fixed_value i f)"
    "decimal_value w = Some ((if dm_negative n then - 1 else 1) * fixed_value j g)"
    using m n by (simp_all add: decimal_value_def match_value_def i_def f_def j_def g_def fixed_value_strip)
  note zero = fixed_value_zero [OF i] fixed_value_zero [OF j]
  show ?thesis
  proof
    assume "d = e"
    from decimal_text_inj [OF i(1) ne(1) j(1) ne(2) this [unfolded d e, folded i_def f_def j_def g_def]]
    show "decimal_value v = decimal_value w"
      using zero by (auto simp: val)
  next
    assume "decimal_value v = decimal_value w"
    then have signed: "(if dm_negative m then - 1 else 1) * fixed_value i f = (if dm_negative n then - 1 else 1) * fixed_value j g"
      by (simp add: val)
    then have abs: "fixed_value i f = fixed_value j g"
      using fixed_value_nonneg [of i f] fixed_value_nonneg [of j g] by (auto split: if_split_asm)
    then have "i = j" "f = g"
      using fixed_value_inj [OF i(1,3) i(2,4) j(1,3) j(2,4)] by auto
    moreover have "dm_negative m = dm_negative n \<or> i = ''0'' \<and> f = []"
      using signed abs zero(1) by (auto split: if_split_asm)
    ultimately show "d = e"
      unfolding d e by (auto simp: decimal_text_def simp flip: i_def f_def j_def g_def)
  qed
qed

text \<open>
  \<open>+007.50\<close> and \<open>7.5\<close> are the same amount and get the same text.\<close>
theorem normalized_decimals_equal_iff_witness:
  "normalizeCostCardDecimal ''+007.50'' False = Inr ''7.5'' \<and> normalizeCostCardDecimal '' 7.5'' False = Inr ''7.5'' \<and>
   decimal_value ''+007.50'' = decimal_value '' 7.5''"
proof -
  have "normalizeCostCardDecimal ''+007.50'' False = Inr ''7.5''"
    and "normalizeCostCardDecimal '' 7.5'' False = Inr ''7.5''"
    by (simp_all add: normalizeCostCardDecimal_def js_trim_def is_ws_def decimal_parse_def decimal_body_def is_digit_def
        decimal_tail_def strip_leading_zeros_def strip_trailing_zeros_def Let_def)
  with normalized_decimals_equal_iff [of "''+007.50''" "''7.5''" "'' 7.5''" "''7.5''"] show ?thesis by simp
qed

end
