(* ===== verification/Query_Examples.thy ===== *)
theory Query_Examples
  imports Cost_Card_Safety Cost_Card_Decimal
begin

text \<open>
  A small dataset, a caller and a request, on which the hypotheses of the query compiler's
  properties hold: a supplier directory with a text and a measure column.
\<close>

definition demo_rt :: js_runtime where
  "demo_rt =
     \<lparr>rt_num = (\<lambda>_. ''0.5''), rt_sha256hex = (\<lambda>_. ''hash''), rt_hmac_base64url = (\<lambda>k t. k @ ''mac''),
      rt_toBase64url = (\<lambda>t. t), rt_fromBase64url = (\<lambda>t. t),
      rt_jsonParse = (\<lambda>t. if t = ''null'' then Some JNull
        else Some (JObj [(''offset'', JNum (js_num 50)), (''shapeHash'', JStr ''h''),
               (''expiresAt'', JNum (js_num 901)), (''signature'', JStr ''kmac'')])),
      rt_dateParses = (\<lambda>_. True), rt_localeLe = (\<le>)\<rparr>"

definition demo_columns :: "column_info list" where
  "demo_columns =
     [\<lparr>ci_canonicalName = ''supplier_name'', ci_sourceColumn = ''Supplier'', ci_aliases = [''Supplier''],
       ci_type = ty_string, ci_nullable = False, ci_isMeasure = False\<rparr>,
      \<lparr>ci_canonicalName = ''tax_rate'', ci_sourceColumn = ''Tax'', ci_aliases = [''Tax'', ''Rate''],
       ci_type = ty_decimal, ci_nullable = True, ci_isMeasure = True\<rparr>]"

definition demo_registry :: StructuredDatasetRegistry where
  "demo_registry = createRegistry ''supplier_catalog'' row_query (Some supplier_catalog_rows) [] demo_columns"

definition demo_input :: CompileInput where
  "demo_input = \<lparr>in_orgId = ''o1'', in_employeeId = None, in_clearance = js_num 3, in_cursorSecret = ''k'',
     in_now = 0, in_businessAuthorization = None\<rparr>"

definition demo_filter :: "string \<Rightarrow> FilterNode" where
  "demo_filter s = AndF [Cond ''supplier_name'' ''contains'' (JStr s),
     Cond ''tax_rate'' ''in'' (JArr [JNum (js_num 1), JNull])]"

definition demo_query :: NormalizedQuery where
  "demo_query = \<lparr>q_dataset = ''supplier_catalog'', q_select = [''supplier_name''],
     q_filter = Some (demo_filter ''A''), q_sort = [\<lparr>so_field = ''tax_rate'', so_direction = Desc\<rparr>],
     q_limit = js_num 10, q_cursor = None, q_groupBy = [], q_aggregates = []\<rparr>"

lemmas registry_eval = demo_registry_def createRegistry_def demo_columns_def createSourceDocumentIdField_def
  source_field_def payload_storage_def operatorsForType_def is_numeric_def registry_fields_def

lemma demo_fields:
  "registry_fields (r_fields demo_registry) ''supplier_name'' =
     Some (source_field ''supplier_catalog'' (Some supplier_catalog_rows) 0 (demo_columns ! 0))"
  "registry_fields (r_fields demo_registry) ''tax_rate'' =
     Some (source_field ''supplier_catalog'' (Some supplier_catalog_rows) 1 (demo_columns ! 1))"
  by (simp_all add: registry_eval)

lemmas field_eval = source_field_def payload_storage_def operatorsForType_def is_numeric_def demo_columns_def

lemmas compile_eval = validateQuery_def validateSelectedFields_def
  validateAggregates_def validateSort_def requireField_def demo_fields validateConditionValue_def
  validateScalarType_def sql_parts_of_def cursor_offset_def buildProjection_def is_dynamic_def project_stored_def
  requireStorage_def payload_column_def requireJsonPath_def compileCondition_def scalarParam_def
  buildOrderBy_def order_expression_def quoteIdentifier_def safe_identifier_def is_lower_def is_upper_def is_digit_def
  comparison_operator_def STRUCTURED_QUERY_LIMITS_def

lemma demo_table: "r_rowTable demo_registry = Some supplier_catalog_rows"
  by (simp add: demo_registry_def createRegistry_def)

lemma demo_valid:
  "validateQuery demo_rt (demo_query\<lparr>q_filter := Some (demo_filter s)\<rparr>)
     (registry_fields (r_fields demo_registry)) Detail = Inr ()" if "length s < 100"
  using that
  by (simp add: demo_query_def demo_filter_def compile_eval field_eval js_num_def)

lemma demo_compiles:
  "is_ok (compileNormalizedQuery demo_rt demo_input
     (demo_query\<lparr>q_filter := Some (demo_filter s)\<rparr>) demo_registry)" if "length s < 100"
  using that demo_valid [OF that]
  by (simp add: compileNormalizedQuery_def demo_query_def demo_filter_def query_mode_def mode_of_def demo_table
      sql_parts_of_def cursor_offset_def buildProjection_def is_dynamic_def project_stored_def requireField_def demo_fields
      requireStorage_def payload_column_def requireJsonPath_def compileCondition_def scalarParam_def buildOrderBy_def
      order_expression_def quoteIdentifier_def safe_identifier_def is_lower_def is_upper_def is_digit_def field_eval Let_def)

definition demo_cq :: "string \<Rightarrow> StructuredCompiledQuery" where
  "demo_cq s = projr (compileNormalizedQuery demo_rt demo_input
     (demo_query\<lparr>q_filter := Some (demo_filter s)\<rparr>) demo_registry)"

lemma demo_cq: "compileNormalizedQuery demo_rt demo_input
     (demo_query\<lparr>q_filter := Some (demo_filter s)\<rparr>) demo_registry = Inr (demo_cq s)" if "length s < 100"
  using demo_compiles [OF that] unfolding demo_cq_def is_ok_iff by auto

lemma demo_query_filter: "demo_query\<lparr>q_filter := Some (demo_filter ''A'')\<rparr> = demo_query"
  by (simp add: demo_query_def)

lemma demo_query_compiled: "compileNormalizedQuery demo_rt demo_input demo_query demo_registry = Inr (demo_cq ''A'')"
  using demo_cq [of "''A''"] by (simp add: demo_query_filter)

theorem compiled_query_parameters_match_witness:
  "qmarks (cq_sql (demo_cq ''A'')) = length (cq_params (demo_cq ''A''))"
  by (rule compiled_query_parameters_match [OF demo_query_compiled]) (simp add: demo_input_def)


theorem compiled_sql_independent_of_values_witness:
  "cq_sql (demo_cq ''A%' OR 1=1'') = cq_sql (demo_cq ''A'')"
proof -
  have q: "demo_query\<lparr>q_filter := Some (demo_filter s), q_cursor := None\<rparr> = demo_query\<lparr>q_filter := Some (demo_filter s)\<rparr>" for s
    by (simp add: demo_query_def)
  have form: "map_option filter_form (Some (demo_filter ''A%' OR 1=1'')) = map_option filter_form (q_filter demo_query)"
    by (simp add: demo_filter_def demo_query_def)
  show ?thesis
    by (rule compiled_sql_independent_of_values [OF demo_query_compiled _ form, where cursor' = None])
       (unfold q, rule demo_cq, simp)
qed

section \<open>Requests\<close>

definition demo_body :: json where
  "demo_body = JObj [(''dataset'', JStr ''supplier_catalog''),
     (''filter'', JObj [(''field'', JStr ''supplier_name''), (''op'', JStr ''eq''), (''value'', JStr ''A'')]),
     (''groupBy'', JArr [JStr ''supplier_name'']),
     (''aggregates'', JArr [JObj [(''op'', JStr ''sum''), (''field'', JStr ''tax_rate'')], JObj [(''op'', JStr ''count'')]])]"

definition demo_registries :: "string \<Rightarrow> StructuredDatasetRegistry" where
  "demo_registries = (\<lambda>_. demo_registry)"

definition demo_aggregate_query :: NormalizedQuery where
  "demo_aggregate_query = \<lparr>q_dataset = ''supplier_catalog'', q_select = [],
     q_filter = Some (Cond ''supplier_name'' ''eq'' (JStr ''A'')), q_sort = [], q_limit = js_num 50, q_cursor = None,
     q_groupBy = [''supplier_name''], q_aggregates = [AggField agg_sum ''tax_rate'' None, AggCount None None]\<rparr>"

lemmas request_eval = normalizeQuery_def requirePlainObject_def rejectUnknownKeys_def normalize_dataset_def
  STRUCTURED_DATASETS_def normalizeStringArray_def normalizeSort_def normalizeAggregates_def normalizeAggregate_def
  AGGREGATE_OPERATORS_def mode_of_def normalizePage_def normalize_filter_entry_def effective_select_def
  obj_get_def obj_keys_def js_trim_def is_ws_def STRUCTURED_QUERY_LIMITS_def

lemma demo_normalized: "normalizeQuery demo_registries demo_body None = Inr demo_aggregate_query"
  by (simp add: request_eval demo_body_def demo_registries_def demo_aggregate_query_def normalizeFilter.simps Let_def)
     (simp add: demo_registry_def createRegistry_def)

theorem normalized_filter_bounded_witness:
  "filter_depth (Cond ''supplier_name'' ''eq'' (JStr ''A'')) \<le> 3 \<and>
   normalizeQuery demo_registries demo_body None = Inr demo_aggregate_query"
  using normalized_filter_bounded [OF demo_normalized] demo_normalized by (simp add: demo_aggregate_query_def)

theorem normalized_query_bounded_witness:
  "normalizeQuery demo_registries demo_body None = Inr demo_aggregate_query \<and>
   (\<exists>i. q_limit demo_aggregate_query = js_num i \<and> 1 \<le> i \<and> i \<le> 200) \<and> distinct (q_groupBy demo_aggregate_query)"
  using normalized_query_bounded [OF demo_normalized] demo_normalized by blast

lemma demo_aggregate_compiles:
  "\<exists>cq. compileNormalizedQuery demo_rt demo_input demo_aggregate_query demo_registry = Inr cq \<and> cq_mode cq = Aggregate"
  by (simp add: compileNormalizedQuery_def demo_aggregate_query_def query_mode_def mode_of_def demo_table validateQuery_def
      validateSelectedFields_def validateAggregates_def validateSort_def requireField_def demo_fields validateConditionValue_def
      validateScalarType_def sql_parts_of_def cursor_offset_def buildProjection_def project_group_def aggregateExpression_def
      aggregateAlias_def requireJsonPath_def requireStorage_def compileCondition_def scalarParam_def comparison_operator_def
      buildOrderBy_def order_identifier_def buildGroupBy_def quoteIdentifier_def safe_identifier_def is_lower_def is_upper_def
      is_digit_def field_eval Let_def assemble_def)

theorem aggregate_columns_distinct_witness:
  "\<exists>cq. compileNormalizedQuery demo_rt demo_input demo_aggregate_query demo_registry = Inr cq \<and>
     distinct (cq_selectedFields cq)"
  using demo_aggregate_compiles aggregate_columns_distinct [OF demo_normalized] by blast

section \<open>Registries and headers\<close>

lemma demo_columns_safe: "list_all (\<lambda>c. safe_identifier (ci_canonicalName c)) ([] @ demo_columns)"
  by (simp add: demo_columns_def safe_identifier_def is_lower_def is_upper_def is_digit_def)


theorem validated_detail_query_compiles_witness:
  "is_ok (compileNormalizedQuery demo_rt demo_input demo_query demo_registry)"
proof (rule validated_detail_query_compiles)
  show "registry_wf (r_fields demo_registry)"
    by (simp add: registry_wf_def field_wf_def payload_field_def document_id_field_def known_operators_def registry_eval
        safe_identifier_def is_lower_def is_upper_def is_digit_def)
  show "r_rowTable demo_registry = Some supplier_catalog_rows" by (rule demo_table)
  show "query_mode demo_query = Detail" by (simp add: query_mode_def mode_of_def demo_query_def)
  show "validateQuery demo_rt demo_query (registry_fields (r_fields demo_registry)) Detail = Inr ()"
    using demo_valid [of "''A''"] by (simp add: demo_query_filter)
  show "is_ok (cursor_offset demo_rt demo_input demo_query (hashQueryShape demo_rt (caller_shape demo_input demo_query)))"
    by (simp add: cursor_offset_def demo_query_def)
qed

lemma demo_headers:
  "resolveStructuredHeaders demo_registries ''supplier_catalog'' [''Rate'', '' Supplier''] =
     Inr [(''tax_rate'', 0), (''supplier_name'', 1)]"
  by (simp add: resolveStructuredHeaders_def demo_registries_def file_fields_def registry_eval
      buildStructuredHeaderLookup_def field_aliases_def register_alias_def normalizeHeader_def js_trim_def is_ws_def
      shape_errors_def isOrderPartitionDataset_def resolve_header_def missing_errors_def Let_def)

theorem resolved_headers_exact_witness:
  "resolveStructuredHeaders demo_registries ''supplier_catalog'' [''Rate'', '' Supplier''] =
     Inr [(''tax_rate'', 0), (''supplier_name'', 1)] \<and>
   distinct (map snd [(''tax_rate'', 0 :: nat), (''supplier_name'', 1)])"
  using demo_headers resolved_headers_exact [OF demo_headers] by blast

section \<open>Cursors\<close>

lemma demo_payload:
  "cursor_payload demo_rt (js_num 50) ''h'' ''k'' (js_num 901) =
     [(''offset'', JNum (js_num 50)), (''shapeHash'', JStr ''h''), (''expiresAt'', JNum (js_num 901)),
      (''signature'', JStr ''kmac'')]"
  by (simp add: cursor_payload_def unsigned_cursor_def signCursorPayload_def demo_rt_def)

lemma demo_payload_text:
  "json_text (rt_num demo_rt) (JObj (cursor_payload demo_rt (js_num 50) ''h'' ''k'' (js_num 901))) =
     concat [''{'', js_quote ''offset'', '':50,'', js_quote ''shapeHash'', '':'', js_quote ''h'', '','',
       js_quote ''expiresAt'', '':901,'', js_quote ''signature'', '':'', js_quote ''kmac'', ''}'']"
  unfolding demo_payload
  by (simp add: num_text_def js_num_def int_text_def nat_text.simps char_of_def bit_0 bit_simps)

theorem cursor_round_trip_witness:
  "decodeStructuredCursor demo_rt (createStructuredCursor demo_rt (js_num 50) ''h'' ''k'' 1000) ''h'' ''k'' 901000 =
     Inr (js_num 50) \<and>
   decodeStructuredCursor demo_rt (createStructuredCursor demo_rt (js_num 50) ''h'' ''k'' 1000) ''h'' ''k'' 902000 =
     Inl (SQ cursorExpired ''Cursor has expired.'')"
proof -
  have now: "now_seconds 1000 + 900 = 901" by (simp add: now_seconds_def)
  let ?text = "json_text (rt_num demo_rt) (JObj (cursor_payload demo_rt (js_num 50) ''h'' ''k'' (js_num 901)))"
  have parse: "rt_jsonParse demo_rt ?text = Some (JObj (cursor_payload demo_rt (js_num 50) ''h'' ''k'' (js_num 901)))"
    unfolding demo_payload_text by (simp add: demo_rt_def demo_payload [unfolded demo_rt_def])
  have codec: "codec_ok demo_rt ?text"
    unfolding demo_payload_text codec_ok_def cursorChars_def by (simp add: demo_rt_def js_quote_def quote_char_def)
  note trip = cursor_round_trip [of demo_rt 50 "''h''" "''k''" 1000, unfolded now, OF parse codec]
  show ?thesis
    using trip [of 901000] trip [of 902000] by (simp add: now_seconds_def)
qed

lemma demo_decoded: "decodeStructuredCursor demo_rt ''c'' ''h'' ''k'' 0 = Inr (js_num 50)"
  by (simp add: decodeStructuredCursor_def demo_rt_def cursorChars_def cursor_fields_def verify_cursor_payload_def
      obj_get_def safeEqual_def signCursorPayload_def now_seconds_def)

theorem decoded_cursor_authentic_witness:
  "\<exists>i p. js_num 50 = js_num i \<and> 0 \<le> i \<and> rt_jsonParse demo_rt (rt_fromBase64url demo_rt ''c'') = Some (JObj p)"
  using decoded_cursor_authentic [OF demo_decoded] by blast

theorem null_cursor_uncaught_witness:
  "decodeStructuredCursor demo_rt ''null'' ''h'' ''k'' 0 = Inl (Uncaught ''Cannot read properties of null'')"
  by (rule null_cursor_uncaught) (simp_all add: demo_rt_def)

section \<open>Cost cards\<close>

definition demo_card_input :: CompileInput where
  "demo_card_input = demo_input\<lparr>in_businessAuthorization :=
     Some \<lparr>ba_version = ''v1'', ba_sql = ''c.enterprise_key = ?'', ba_params = [PStr ''e1'']\<rparr>\<rparr>"

definition demo_card_body :: json where
  "demo_card_body = JObj [(''dataset'', JStr ''cost_cards''), (''select'', JArr [JStr ''dish_name'']),
     (''filter'', JObj [(''field'', JStr ''dish_name''), (''op'', JStr ''starts_with''), (''value'', JStr ''50%'')])]"

lemma demo_search: "is_ok (condition ''dish_name'' ''starts_with'' (JStr ''50%''))"
  by (simp add: condition_def column_def directory_types_def directory_columns_def directory_operators_def
      search_condition_def scalar_def maxLengths_def Let_def)

theorem name_search_literal_witness:
  "\<exists>p fr. condition ''dish_name'' ''starts_with'' (JStr ''50%'') = Inr fr \<and> frag_params fr = [PStr p] \<and>
     sql_like p ''50% off'' \<and> \<not> sql_like p ''50x''"
proof -
  obtain fr where fr: "condition ''dish_name'' ''starts_with'' (JStr ''50%'') = Inr fr"
    using demo_search unfolding is_ok_iff by blast
  obtain p where p: "frag_params fr = [PStr p]" "\<And>s. sql_like p s \<longleftrightarrow> (\<exists>r. s = ''50%'' @ r)"
    using name_search_literal [OF fr] by auto
  have "sql_like p ''50% off''" "\<not> sql_like p ''50x''"
    unfolding p(2) by simp_all
  with fr p(1) show ?thesis by blast
qed

lemma demo_card_compiles:
  "\<exists>cq. compileCostCardQuery demo_rt (\<lambda>_. []) demo_registries demo_card_input demo_card_body = Inr cq \<and>
     cq_dataset cq = ''cost_cards''"
proof -
  obtain fr where fr: "condition ''dish_name'' ''starts_with'' (JStr ''50%'') = Inr fr"
    using demo_search unfolding is_ok_iff by blast
  have fields: "registry_fields (map (directory_field (\<lambda>_. [])) directory_columns) ''dish_name'' =
      Some (directory_field (\<lambda>_. []) (''dish_name'', ty_string, False))"
    by (simp add: registry_fields_def directory_columns_def directory_field_def)
  have norm: "normalizeStructuredDirectoryQuery demo_registries demo_card_body (COST_CARD_DIRECTORY_REGISTRY (\<lambda>_. [])) =
      Inr \<lparr>q_dataset = ''cost_cards'', q_select = [''dish_name''],
        q_filter = Some (Cond ''dish_name'' ''starts_with'' (JStr ''50%'')), q_sort = [], q_limit = js_num 50,
        q_cursor = None, q_groupBy = [], q_aggregates = []\<rparr>"
    by (simp add: normalizeStructuredDirectoryQuery_def request_eval demo_card_body_def COST_CARD_DIRECTORY_REGISTRY_def
        normalizeFilter.simps validateSelectedFields_def validateSort_def requireField_def fields Let_def)
  have col: "column ''dish_name'' = Inr ''c.dish_name''"
    by (simp add: column_def directory_types_def directory_columns_def)
  show ?thesis
    by (simp add: compileCostCardQuery_def demo_card_input_def norm cost_filter_opt_def fr cursor_offset_def
        cost_card_column_def col Let_def cost_card_compiled_def)
qed

theorem cost_card_query_scoped_witness:
  "\<exists>cq ps. compileCostCardQuery demo_rt (\<lambda>_. []) demo_registries demo_card_input demo_card_body = Inr cq \<and>
     cq_params cq = PStr ''o1'' # PStr ''e1'' # ps"
proof -
  obtain cq where cq: "compileCostCardQuery demo_rt (\<lambda>_. []) demo_registries demo_card_input demo_card_body = Inr cq"
    using demo_card_compiles by blast
  obtain b fps ps where "in_businessAuthorization demo_card_input = Some b"
    "cq_params cq = PStr (in_orgId demo_card_input) # ba_params b @ fps @ ps"
    using cost_card_query_scoped [OF cq] by blast
  with cq show ?thesis by (auto simp: demo_card_input_def demo_input_def)
qed

theorem public_query_open_datasets_only_witness:
  "\<exists>cq. compilePublicStructuredQuery demo_rt (\<lambda>_. []) demo_registries demo_card_input demo_card_body = Inr cq \<and>
     cq_dataset cq \<noteq> ''delivery_ledger'' \<and> in_businessAuthorization demo_card_input \<noteq> None"
proof -
  obtain cq where "compileCostCardQuery demo_rt (\<lambda>_. []) demo_registries demo_card_input demo_card_body = Inr cq"
    and ds: "cq_dataset cq = ''cost_cards''"
    using demo_card_compiles by blast
  then have cq: "compilePublicStructuredQuery demo_rt (\<lambda>_. []) demo_registries demo_card_input demo_card_body = Inr cq"
    by (simp add: compilePublicStructuredQuery_def body_dataset_def demo_card_body_def obj_get_def)
  from public_query_open_datasets_only [OF cq] ds cq show ?thesis by auto
qed

end
