(* ===== verification/Auth_Primitives.thy ===== *)
theory Auth_Primitives
  imports Workflow_Schemas
begin

text \<open>
  \<^verbatim>\<open>apps/api/src/auth/primitives.ts\<close>: lifetimes, secrets, password rules and the progressive
  cooldown.

  \<^item> Strings have code units below 256. On that range Unicode normalization form C is
    the identity and every code unit is a code point, so \<open>nfc\<close> returns its argument and
    \<open>Array.from\<close> counts the characters.
  \<^item> \<open>randomBytes\<close> is an argument: the list of bytes it returned.
  \<^item> SHA-256 and Argon2id are third-party code. They are the fields of \<open>auth_platform\<close>:
    \<open>ap_sha256hex\<close> for \<open>createHash("sha256")\<close>, \<open>ap_argon2_hash\<close> for one call of
    \<open>argon2.hash\<close>, and \<open>ap_argon2_verify\<close> for \<open>argon2.verify\<close>, with \<open>None\<close> where it throws.
\<close>

section \<open>Lifetimes\<close>

record lifetimes =
  accessToken :: int
  deviceAuthorization :: int
  passwordSetupSession :: int
  passwordSetupGrant :: int
  durableSession :: int
  securityEventRetention :: int

definition AUTH_LIFETIMES_MS :: lifetimes where
  "AUTH_LIFETIMES_MS =
     \<lparr>accessToken = 10 * 60000,
      deviceAuthorization = 10 * 60000,
      passwordSetupSession = 10 * 60000,
      passwordSetupGrant = 24 * 60 * 60000,
      durableSession = 30 * 24 * 60 * 60000,
      securityEventRetention = 90 * 24 * 60 * 60000\<rparr>"

section \<open>Third-party cryptography\<close>

record auth_platform =
  ap_sha256hex :: "string \<Rightarrow> string"
  ap_argon2_hash :: "string \<Rightarrow> string"
  ap_argon2_verify :: "string \<Rightarrow> string \<Rightarrow> bool option"

section \<open>Secrets\<close>

definition DEVICE_USER_CODE_ALPHABET :: string where
  "DEVICE_USER_CODE_ALPHABET = ''ABCDEFGHJKLMNPQRSTUVWXYZ23456789''"

definition generateDeviceUserCode :: "nat list \<Rightarrow> string" where
  "generateDeviceUserCode bytes =
     map (\<lambda>byte. DEVICE_USER_CODE_ALPHABET ! (byte mod length DEVICE_USER_CODE_ALPHABET)) bytes"

definition base64url_alphabet :: string where
  "base64url_alphabet =
     ''ABCDEFGHIJKLMNOPQRSTUVWXYZabcdefghijklmnopqrstuvwxyz0123456789-_''"

definition base64url_digit :: "nat \<Rightarrow> char" where
  "base64url_digit n = base64url_alphabet ! (n mod 64)"

text \<open>\<open>Buffer.toString("base64url")\<close>: three bytes are four digits, with no padding.\<close>

fun base64url :: "nat list \<Rightarrow> string" where
  "base64url [] = []"
| "base64url [a] = [base64url_digit (a div 4), base64url_digit (a mod 4 * 16)]"
| "base64url [a, b] =
     [base64url_digit (a div 4), base64url_digit (a mod 4 * 16 + b div 16),
      base64url_digit (b mod 16 * 4)]"
| "base64url (a # b # c # bytes) =
     base64url_digit (a div 4) # base64url_digit (a mod 4 * 16 + b div 16)
     # base64url_digit (b mod 16 * 4 + c div 64) # base64url_digit c # base64url bytes"

definition generateOpaqueSecret :: "string \<Rightarrow> nat list \<Rightarrow> string" where
  "generateOpaqueSecret prefix bytes = prefix @ base64url bytes"

definition hashOpaqueSecret :: "auth_platform \<Rightarrow> string \<Rightarrow> string" where
  "hashOpaqueSecret ap secret = ap_sha256hex ap secret"

section \<open>Emails and passwords\<close>

definition nfc :: "string \<Rightarrow> string" where
  "nfc s = s"

definition normalizeLoginEmail :: "string \<Rightarrow> string" where
  "normalizeLoginEmail email = js_toLowerCase (nfc (js_trim email))"

definition COMMON_PASSWORDS :: "string list" where
  "COMMON_PASSWORDS =
     [''12345678'', ''11111111'', ''abc12345'', ''iloveyou'', ''letmein123'', ''password'',
      ''password1'', ''password123'', ''qwerty123'', ''welcome1'', ''smedc'', ''SMEDC'',
      ''smedatacenter'']"

datatype PasswordValidation = PasswordValid | PasswordLength | CommonPassword

definition validatePassword :: "string \<Rightarrow> PasswordValidation" where
  "validatePassword password =
     (let normalized = nfc password;
          codePointCount = length normalized in
      if codePointCount < 8 \<or> codePointCount > 128 then PasswordLength
      else if js_toLowerCase normalized \<in> set COMMON_PASSWORDS then CommonPassword
      else PasswordValid)"

definition hashPassword :: "auth_platform \<Rightarrow> string \<Rightarrow> string" where
  "hashPassword ap password = ap_argon2_hash ap (nfc password)"

definition verifyPassword :: "auth_platform \<Rightarrow> string \<Rightarrow> string \<Rightarrow> bool" where
  "verifyPassword ap password encodedHash =
     (case ap_argon2_verify ap encodedHash (nfc password) of
        Some ok \<Rightarrow> ok
      | None \<Rightarrow> False)"

section \<open>Cooldown\<close>

record cooldown =
  cd_failedAttemptCount :: int
  cd_cooldownLevel :: int
  cd_cooldownMs :: "int option"

definition cooldown_minutes :: "int \<Rightarrow> int" where
  "cooldown_minutes index =
     (if 0 \<le> index \<and> index < 5 then [5, 10, 20, 40, 60] ! nat index else 60)"

definition cooldownAfterFailure :: "int \<Rightarrow> int \<Rightarrow> cooldown" where
  "cooldownAfterFailure failedAttemptCount cooldownLevel =
     (let nextFailedAttemptCount = failedAttemptCount + 1 in
      if nextFailedAttemptCount < 5 then
        \<lparr>cd_failedAttemptCount = nextFailedAttemptCount, cd_cooldownLevel = cooldownLevel,
         cd_cooldownMs = None\<rparr>
      else
        let nextCooldownLevel = min (cooldownLevel + 1) 5;
            minutes = cooldown_minutes (nextCooldownLevel - 1) in
        \<lparr>cd_failedAttemptCount = nextFailedAttemptCount, cd_cooldownLevel = nextCooldownLevel,
         cd_cooldownMs = Some (minutes * 60000)\<rparr>)"

section \<open>Format of secrets\<close>

definition secret_char :: "char \<Rightarrow> bool" where
  "secret_char c \<longleftrightarrow> is_upper c \<or> is_lower c \<or> is_digit c \<or> c = CHR ''_'' \<or> c = CHR ''-''"

lemma base64url_alphabet_chars: "list_all secret_char base64url_alphabet"
  by (simp add: base64url_alphabet_def secret_char_def is_upper_def is_lower_def is_digit_def)

lemma base64url_digit_char [simp]: "secret_char (base64url_digit n)"
proof -
  have "length base64url_alphabet = 64"
    by (simp add: base64url_alphabet_def)
  then have "base64url_digit n \<in> set base64url_alphabet"
    by (simp add: base64url_digit_def)
  then show ?thesis
    using base64url_alphabet_chars by (simp add: list_all_iff)
qed

lemma base64url_chars: "list_all secret_char (base64url bytes)"
  by (induction bytes rule: base64url.induct) simp_all

lemma base64url_length: "length (base64url bytes) = (4 * length bytes + 2) div 3"
  by (induction bytes rule: base64url.induct) simp_all

text \<open>
  A device user code is unbiased: the alphabet has 32 characters and a byte 256 values, so
  every character of the alphabet is chosen by eight byte values.
\<close>

lemma user_code_alphabet: "length DEVICE_USER_CODE_ALPHABET = 32" "distinct DEVICE_USER_CODE_ALPHABET"
  by (simp_all add: DEVICE_USER_CODE_ALPHABET_def)

lemma user_code_unbiased:
  assumes "i < 32"
  shows "card {byte. byte < 256 \<and> generateDeviceUserCode [byte] = [DEVICE_USER_CODE_ALPHABET ! i]} = 8"
proof -
  have "{byte. byte < 256 \<and> generateDeviceUserCode [byte] = [DEVICE_USER_CODE_ALPHABET ! i]}
        = {byte. byte < 256 \<and> byte mod 32 = i}"
    using assms user_code_alphabet
    by (auto simp: generateDeviceUserCode_def nth_eq_iff_index_eq)
  also have "\<dots> = (\<lambda>k. 32 * k + i) ` {..<8}"
  proof (intro set_eqI iffI)
    fix byte :: nat
    assume "byte \<in> {byte. byte < 256 \<and> byte mod 32 = i}"
    then show "byte \<in> (\<lambda>k. 32 * k + i) ` {..<8}"
      by (intro image_eqI [of _ _ "byte div 32"]) auto
  qed (use assms in auto)
  finally show ?thesis
    by (simp add: card_image inj_on_def)
qed

end
