(* ===== verification/Business_Authorization.thy ===== *)
theory Business_Authorization
  imports Smedc_Prelude
begin

text \<open>
  The business authorization decision of \<^verbatim>\<open>packages/domain/src/business-authorization.ts\<close>, with
  the two older gates of \<^verbatim>\<open>permissions.ts\<close> and \<^verbatim>\<open>file-upload.ts\<close>. The snapshot, the grants
  and the read requirement are records with the source's fields; \<open>canReadResource\<close> keeps
  the source's order of checks and its denial reasons. \<open>readable\<close> is the declarative
  contract the decision implements.
\<close>

section \<open>Data\<close>

datatype BusinessOwnership = OwnGroup | OwnStore

definition FIXED_BUSINESS_CATEGORY_OWNERSHIP :: "BusinessOwnership js_object" where
  "FIXED_BUSINESS_CATEGORY_OWNERSHIP =
    [(''business'', OwnStore),
     (''dishes'', OwnStore),
     (''in_store_orders'', OwnStore),
     (''takeaway_orders'', OwnStore),
     (''vip'', OwnGroup),
     (''dish_catalog'', OwnGroup),
     (''supplier_catalog'', OwnGroup),
     (''cost_cards'', OwnGroup),
     (''store_reviews'', OwnStore),
     (''delivery_ledger'', OwnStore),
     (''quarantine_certificate'', OwnStore),
     (''ledger_pdf'', OwnStore)]"

definition FIXED_BUSINESS_CATEGORY_KEYS :: "string list" where
  "FIXED_BUSINESS_CATEGORY_KEYS = obj_keys FIXED_BUSINESS_CATEGORY_OWNERSHIP"

datatype BusinessSelection = SelAll | SelFixed "string list"

record BusinessScopeItem =
  sc_enterpriseKey :: string
  sc_ownership :: BusinessOwnership
  sc_storeName :: "string option"
  sc_dimensions :: "string js_object"

datatype CategoryKind = KindFixed | KindEvidence

record BusinessCategoryRule =
  cat_id :: string
  cat_key :: "string option"
  cat_kind :: CategoryKind
  cat_confidentialityLevel :: "js_number option"
  cat_ownerships :: "BusinessOwnership list"
  cat_requiredDimensionIds :: "string list"

record BusinessGrant =
  gr_id :: string
  gr_orgId :: string
  gr_enterpriseKey :: string
  gr_categoryIds :: "string list"
  gr_ownership :: BusinessOwnership
  gr_stores :: "BusinessSelection option"
  gr_dimensions :: "BusinessSelection js_object"

record ResourceReadRequirement =
  req_orgId :: string
  req_categoryId :: string
  req_valid :: bool
  req_fileConfidentialityLevel :: "js_number option"
  req_scopes :: "BusinessScopeItem list"

datatype EmployeeRole = RoleAdmin | RoleEmployee
datatype AuthorizationMode = ModeLegacy | ModePreparing | ModeEnabled | ModeSuspended

record AuthorizationSnapshot =
  sn_orgId :: string
  sn_employeeId :: string
  sn_role :: EmployeeRole
  sn_disabled :: bool
  sn_clearance :: js_number
  sn_mode :: AuthorizationMode
  sn_authorizationVersion :: string
  sn_categories :: "BusinessCategoryRule list"
  sn_grants :: "BusinessGrant list"

datatype AccessDenialReason =
    account_disabled
  | organization_mismatch
  | authorization_not_enabled
  | resource_invalid
  | attributes_not_ready
  | clearance_insufficient
  | grant_missing

datatype AccessDecision = Allowed | Denied AccessDenialReason

section \<open>Validation\<close>

definition isBusinessClearance :: "js_number \<Rightarrow> bool" where
  "isBusinessClearance v \<longleftrightarrow>
     js_isInteger v \<and> \<not> js_lt v (js_num 0) \<and> \<not> js_lt (js_num 3) v"

definition validSelection :: "BusinessSelection option \<Rightarrow> bool" where
  "validSelection selection =
     (case selection of
        None \<Rightarrow> False
      | Some SelAll \<Rightarrow> True
      | Some (SelFixed vs) \<Rightarrow> vs \<noteq> [] \<and> list_all (\<lambda>v. js_trim v \<noteq> []) vs)"

definition validateBusinessGrant :: "BusinessGrant \<Rightarrow> BusinessCategoryRule list \<Rightarrow> string list" where
  "validateBusinessGrant g categories =
     (if gr_orgId g = [] \<or> gr_enterpriseKey g = [] \<or> gr_categoryIds g = []
      then [''grant_identity_required''] else []) @
     (if (if gr_ownership g = OwnStore then \<not> validSelection (gr_stores g)
          else gr_stores g \<noteq> None)
      then [''invalid_store_selection''] else []) @
     concat (map (\<lambda>i.
       case find (\<lambda>c. cat_id c = i) categories of
         None \<Rightarrow> [''category_ownership_mismatch'']
       | Some rule \<Rightarrow>
           if gr_ownership g \<notin> set (cat_ownerships rule) then [''category_ownership_mismatch'']
           else if length (obj_keys (gr_dimensions g)) \<noteq> length (cat_requiredDimensionIds rule)
                   \<or> list_ex (\<lambda>d. \<not> validSelection (obj_get (gr_dimensions g) d))
                        (cat_requiredDimensionIds rule)
           then [''dimension_selection_mismatch''] else [])
       (gr_categoryIds g))"

definition validateBusinessScope :: "BusinessScopeItem \<Rightarrow> BusinessCategoryRule \<Rightarrow> bool" where
  "validateBusinessScope scope category \<longleftrightarrow>
     sc_enterpriseKey scope \<noteq> [] \<and>
     sc_ownership scope \<in> set (cat_ownerships category) \<and>
     (if sc_ownership scope = OwnStore
      then (case sc_storeName scope of None \<Rightarrow> False | Some n \<Rightarrow> js_trim n \<noteq> [])
      else sc_storeName scope = None) \<and>
     length (obj_keys (sc_dimensions scope)) = length (cat_requiredDimensionIds category) \<and>
     list_all (\<lambda>d. case obj_get (sc_dimensions scope) d of None \<Rightarrow> False | Some v \<Rightarrow> v \<noteq> [])
       (cat_requiredDimensionIds category)"

section \<open>The decision\<close>

definition selected :: "BusinessSelection option \<Rightarrow> string \<Rightarrow> bool" where
  "selected selection v =
     (case selection of
        None \<Rightarrow> False
      | Some SelAll \<Rightarrow> True
      | Some (SelFixed vs) \<Rightarrow> v \<in> set vs)"

text \<open>The predicate of the inner \<open>grants.some(...)\<close>. The non-null assertions
  \<open>scope.storeName!\<close> and \<open>scope.dimensions[id]!\<close> pass \<open>undefined\<close> on where the value is
  absent, which no fixed selection contains.\<close>

definition selected_opt :: "BusinessSelection option \<Rightarrow> string option \<Rightarrow> bool" where
  "selected_opt selection v =
     (case v of
        Some s \<Rightarrow> selected selection s
      | None \<Rightarrow> selection = Some SelAll)"

definition grantCovers :: "BusinessGrant \<Rightarrow> BusinessCategoryRule \<Rightarrow> BusinessScopeItem \<Rightarrow> bool" where
  "grantCovers g category scope \<longleftrightarrow>
     gr_enterpriseKey g = sc_enterpriseKey scope \<and>
     cat_id category \<in> set (gr_categoryIds g) \<and>
     gr_ownership g = sc_ownership scope \<and>
     (sc_ownership scope = OwnGroup \<or> selected_opt (gr_stores g) (sc_storeName scope)) \<and>
     list_all (\<lambda>d. selected_opt (obj_get (gr_dimensions g) d) (obj_get (sc_dimensions scope) d))
       (cat_requiredDimensionIds category)"

definition canReadResource :: "AuthorizationSnapshot \<Rightarrow> ResourceReadRequirement \<Rightarrow> AccessDecision" where
  "canReadResource snapshot requirement =
     (if sn_disabled snapshot then Denied account_disabled
      else if sn_orgId snapshot \<noteq> req_orgId requirement then Denied organization_mismatch
      else if sn_mode snapshot \<noteq> ModeEnabled then Denied authorization_not_enabled
      else if \<not> req_valid requirement then Denied resource_invalid
      else case find (\<lambda>rule. cat_id rule = req_categoryId requirement) (sn_categories snapshot) of
        None \<Rightarrow> Denied attributes_not_ready
      | Some category \<Rightarrow>
          if req_scopes requirement = [] \<or>
             list_ex (\<lambda>scope. \<not> validateBusinessScope scope category) (req_scopes requirement)
          then Denied attributes_not_ready
          else case (if cat_kind category = KindEvidence
                     then req_fileConfidentialityLevel requirement
                     else cat_confidentialityLevel category) of
            None \<Rightarrow> Denied attributes_not_ready
          | Some level \<Rightarrow>
              if \<not> isBusinessClearance level \<or> \<not> isBusinessClearance (sn_clearance snapshot)
              then Denied attributes_not_ready
              else if js_lt (sn_clearance snapshot) level then Denied clearance_insufficient
              else
                let grants = filter (\<lambda>g. gr_orgId g = sn_orgId snapshot \<and>
                                        validateBusinessGrant g (sn_categories snapshot) = [])
                               (sn_grants snapshot)
                in if list_all (\<lambda>scope. list_ex (\<lambda>g. grantCovers g category scope) grants)
                        (req_scopes requirement)
                   then Allowed else Denied grant_missing)"

section \<open>Older gates\<close>

record EmployeePermissionSubject =
  sub_disabled :: bool
  sub_clearance :: js_number

definition js_ge :: "js_number \<Rightarrow> js_number \<Rightarrow> bool" where
  "js_ge a b \<longleftrightarrow> js_lt b a \<or> (a = b \<and> a \<noteq> NaN)"

definition canEmployeeAccessDocument :: "EmployeePermissionSubject \<Rightarrow> js_number \<Rightarrow> bool" where
  "canEmployeeAccessDocument employee confidentialityLevel =
     (if sub_disabled employee then False
      else js_ge (sub_clearance employee) confidentialityLevel)"

definition canEmployeeUploadFiles :: "EmployeeRole \<Rightarrow> bool \<Rightarrow> bool" where
  "canEmployeeUploadFiles role is_disabled \<longleftrightarrow> \<not> is_disabled \<and> role = RoleAdmin"

section \<open>The contract\<close>

text \<open>A grant of the snapshot that counts: it belongs to the organization and is valid.\<close>

definition effective_grants :: "AuthorizationSnapshot \<Rightarrow> BusinessGrant set" where
  "effective_grants s =
     {g \<in> set (sn_grants s). gr_orgId g = sn_orgId s \<and> validateBusinessGrant g (sn_categories s) = []}"

definition required_level :: "BusinessCategoryRule \<Rightarrow> ResourceReadRequirement \<Rightarrow> js_number option" where
  "required_level category r =
     (if cat_kind category = KindEvidence then req_fileConfidentialityLevel r
      else cat_confidentialityLevel category)"

definition readable :: "AuthorizationSnapshot \<Rightarrow> ResourceReadRequirement \<Rightarrow> bool" where
  "readable s r \<longleftrightarrow>
     \<not> sn_disabled s \<and> sn_orgId s = req_orgId r \<and> sn_mode s = ModeEnabled \<and> req_valid r \<and>
     (\<exists>category level clearance.
        find (\<lambda>rule. cat_id rule = req_categoryId r) (sn_categories s) = Some category \<and>
        required_level category r = Some (js_num level) \<and> sn_clearance s = js_num clearance \<and>
        0 \<le> level \<and> level \<le> clearance \<and> clearance \<le> 3 \<and>
        req_scopes r \<noteq> [] \<and>
        (\<forall>scope\<in>set (req_scopes r).
           validateBusinessScope scope category \<and>
           (\<exists>g\<in>effective_grants s. grantCovers g category scope)))"

lemma isBusinessClearance_iff:
  "isBusinessClearance v \<longleftrightarrow> (\<exists>i. v = js_num i \<and> 0 \<le> i \<and> i \<le> 3)"
  by (auto simp: isBusinessClearance_def js_isInteger_cases not_less)

lemma clearance_check:
  "isBusinessClearance l \<and> isBusinessClearance c \<and> \<not> js_lt c l \<longleftrightarrow>
     (\<exists>i j. l = js_num i \<and> c = js_num j \<and> 0 \<le> i \<and> i \<le> j \<and> j \<le> 3)"
  by (auto simp: isBusinessClearance_iff not_less)

lemma list_ex_effective:
  "list_ex P (filter (\<lambda>g. gr_orgId g = sn_orgId s \<and> validateBusinessGrant g (sn_categories s) = [])
      (sn_grants s)) \<longleftrightarrow> (\<exists>g\<in>effective_grants s. P g)"
  by (auto simp: effective_grants_def list_ex_iff)

text \<open>The checks of the decision as one conjunction.\<close>

lemma canReadResource_Allowed_checks:
  "canReadResource s r = Allowed \<longleftrightarrow>
     \<not> sn_disabled s \<and> sn_orgId s = req_orgId r \<and> sn_mode s = ModeEnabled \<and> req_valid r \<and>
     (\<exists>category level.
        find (\<lambda>rule. cat_id rule = req_categoryId r) (sn_categories s) = Some category \<and>
        required_level category r = Some level \<and>
        (isBusinessClearance level \<and> isBusinessClearance (sn_clearance s) \<and>
         \<not> js_lt (sn_clearance s) level) \<and>
        req_scopes r \<noteq> [] \<and>
        (\<forall>scope\<in>set (req_scopes r).
           validateBusinessScope scope category \<and>
           (\<exists>g\<in>effective_grants s. grantCovers g category scope)))"
  unfolding canReadResource_def required_level_def [symmetric] Let_def list_ex_effective list_all_iff
  by (auto simp: list_ex_iff split: option.split)

lemma canReadResource_Allowed_readable:
  "canReadResource s r = Allowed \<longleftrightarrow> readable s r"
  unfolding canReadResource_Allowed_checks clearance_check readable_def by blast

lemmas readable_intro_elim = canReadResource_Allowed_readable readable_def

text \<open>Enlarging the set of effective grants, with everything else equal, keeps a resource
  readable.\<close>

lemma readable_mono:
  assumes "readable s r"
    and "sn_disabled s' = sn_disabled s" and "sn_orgId s' = sn_orgId s" and "sn_mode s' = sn_mode s"
    and "sn_categories s' = sn_categories s" and "sn_clearance s' = sn_clearance s"
    and "effective_grants s \<subseteq> effective_grants s'"
  shows "readable s' r"
  using assms unfolding readable_def by (metis subsetD)

lemma effective_grants_filter:
  "effective_grants (s\<lparr>sn_grants := filter (\<lambda>g. gr_orgId g = sn_orgId s \<and>
      validateBusinessGrant g (sn_categories s) = []) (sn_grants s)\<rparr>) = effective_grants s"
  by (auto simp: effective_grants_def)

lemma find_cat_id:
  "find (\<lambda>rule. cat_id rule = i) cs = Some category \<Longrightarrow> category \<in> set cs \<and> cat_id category = i"
  by (auto simp: find_Some_iff)

section \<open>Properties\<close>

text \<open>
  C3: the decision implements its contract: access is allowed exactly when the account is
  enabled, the organizations agree, authorization is enabled, the resource is valid, the
  category is known, the clearance is an integer between the required level and 3, and every
  scope of a nonempty list is well formed and covered by a valid grant of the organization.
\<close>
theorem canReadResource_refines_readable:
  "canReadResource s r = Allowed \<longleftrightarrow> readable s r"
  by (rule canReadResource_Allowed_readable)

text \<open>
  C25: an allowed read of a store scope is backed by a grant of the reader's own organization
  for that enterprise and category that selects the store (by name or by selecting all
  stores), and that selects the value of every dimension the category requires.
\<close>
theorem allowed_store_scope_has_grant:
  assumes "canReadResource s r = Allowed"
    and "scope \<in> set (req_scopes r)" and "sc_ownership scope = OwnStore"
  shows "\<exists>g category store. g \<in> set (sn_grants s) \<and> gr_orgId g = req_orgId r \<and>
      category \<in> set (sn_categories s) \<and> cat_id category = req_categoryId r \<and>
      gr_enterpriseKey g = sc_enterpriseKey scope \<and> req_categoryId r \<in> set (gr_categoryIds g) \<and>
      sc_storeName scope = Some store \<and> selected (gr_stores g) store \<and>
      list_all (\<lambda>d. \<exists>v. obj_get (sc_dimensions scope) d = Some v \<and>
          selected (obj_get (gr_dimensions g) d) v) (cat_requiredDimensionIds category)"
proof -
  from assms(1) obtain category where cat:
      "find (\<lambda>rule. cat_id rule = req_categoryId r) (sn_categories s) = Some category"
    and org: "sn_orgId s = req_orgId r"
    and each: "\<forall>scope\<in>set (req_scopes r). validateBusinessScope scope category \<and>
           (\<exists>g\<in>effective_grants s. grantCovers g category scope)"
    unfolding canReadResource_Allowed_checks by blast
  from each assms(2) obtain g where g: "g \<in> effective_grants s" "grantCovers g category scope"
    and v: "validateBusinessScope scope category"
    by blast
  from v assms(3) obtain store where store: "sc_storeName scope = Some store"
    by (auto simp: validateBusinessScope_def split: option.splits)
  have dims: "list_all (\<lambda>d. \<exists>v. obj_get (sc_dimensions scope) d = Some v \<and>
          selected (obj_get (gr_dimensions g) d) v) (cat_requiredDimensionIds category)"
    using v g(2) by (fastforce simp: validateBusinessScope_def grantCovers_def selected_opt_def
        list_all_iff split: option.splits)
  from find_cat_id [OF cat] g org store assms(3) dims show ?thesis
    by (auto simp: effective_grants_def grantCovers_def selected_opt_def intro!: exI [of _ g]
        exI [of _ category])
qed

text \<open>
  Permissions are additive: giving the employee more grants, in any order, never turns an
  allowed read into a denied one.
\<close>
theorem canReadResource_grants_mono:
  assumes "canReadResource s r = Allowed" and "set (sn_grants s) \<subseteq> set gs"
  shows "canReadResource (s\<lparr>sn_grants := gs\<rparr>) r = Allowed"
  using assms unfolding canReadResource_Allowed_readable
  by (elim readable_mono) (auto simp: effective_grants_def)

text \<open>
  C26: grants of other organizations and grants that fail validation are inert: removing all
  of them leaves the whole decision, its denial reason included, as it is.
\<close>
theorem canReadResource_ignores_foreign_grants:
  "canReadResource (s\<lparr>sn_grants := filter (\<lambda>g. gr_orgId g = sn_orgId s \<and>
      validateBusinessGrant g (sn_categories s) = []) (sn_grants s)\<rparr>) r = canReadResource s r"
  unfolding canReadResource_def by (auto simp: Let_def split: option.split)

text \<open>
  A resource with several scopes is readable exactly when each scope alone is: no scope of
  a resource is read on the strength of another.
\<close>
theorem canReadResource_scopes_conjunctive:
  assumes "req_scopes r \<noteq> []"
  shows "canReadResource s r = Allowed \<longleftrightarrow>
    (\<forall>scope\<in>set (req_scopes r). canReadResource s (r\<lparr>req_scopes := [scope]\<rparr>) = Allowed)"
proof -
  have level: "required_level c (r\<lparr>req_scopes := x\<rparr>) = required_level c r" for c x
    by (simp add: required_level_def)
  show ?thesis
  proof (cases "find (\<lambda>rule. cat_id rule = req_categoryId r) (sn_categories s)")
    case None
    with assms show ?thesis
      unfolding canReadResource_Allowed_checks by (cases "req_scopes r") auto
  next
    case (Some category)
    with assms show ?thesis
      unfolding canReadResource_Allowed_checks level
      by (cases "req_scopes r"; cases "required_level category r") auto
  qed
qed

text \<open>
  Raising a clearance within the scale 0 to 3 keeps every resource readable that was.
\<close>
theorem canReadResource_clearance_mono:
  assumes "canReadResource s r = Allowed" and "sn_clearance s = js_num c" and "c \<le> c'" and "c' \<le> 3"
  shows "canReadResource (s\<lparr>sn_clearance := js_num c'\<rparr>) r = Allowed"
  using assms unfolding canReadResource_Allowed_readable readable_def
  by (force simp: effective_grants_def)

text \<open>
  C27: the reason \<open>grant_missing\<close> is given exactly when every earlier check passes and some
  scope is covered by no effective grant, so it never hides a clearance or attribute failure.
\<close>
theorem canReadResource_grant_missing_iff:
  "canReadResource s r = Denied grant_missing \<longleftrightarrow>
     \<not> sn_disabled s \<and> sn_orgId s = req_orgId r \<and> sn_mode s = ModeEnabled \<and> req_valid r \<and>
     (\<exists>category level clearance.
        find (\<lambda>rule. cat_id rule = req_categoryId r) (sn_categories s) = Some category \<and>
        required_level category r = Some (js_num level) \<and> sn_clearance s = js_num clearance \<and>
        0 \<le> level \<and> level \<le> clearance \<and> clearance \<le> 3 \<and> req_scopes r \<noteq> [] \<and>
        list_all (\<lambda>scope. validateBusinessScope scope category) (req_scopes r) \<and>
        list_ex (\<lambda>scope. \<not> (\<exists>g. g \<in> effective_grants s \<and> grantCovers g category scope)) (req_scopes r))"
proof -
  have "canReadResource s r = Denied grant_missing \<longleftrightarrow>
     \<not> sn_disabled s \<and> sn_orgId s = req_orgId r \<and> sn_mode s = ModeEnabled \<and> req_valid r \<and>
     (\<exists>category level.
        find (\<lambda>rule. cat_id rule = req_categoryId r) (sn_categories s) = Some category \<and>
        required_level category r = Some level \<and>
        (isBusinessClearance level \<and> isBusinessClearance (sn_clearance s) \<and>
         \<not> js_lt (sn_clearance s) level) \<and> req_scopes r \<noteq> [] \<and>
        list_all (\<lambda>scope. validateBusinessScope scope category) (req_scopes r) \<and>
        list_ex (\<lambda>scope. \<not> (\<exists>g\<in>effective_grants s. grantCovers g category scope)) (req_scopes r))"
    unfolding canReadResource_def required_level_def [symmetric] Let_def list_ex_effective
    by (auto simp: list_ex_iff list_all_iff split: option.split)
  then show ?thesis unfolding clearance_check Bex_def by blast
qed

section \<open>Witnesses\<close>

text \<open>A snapshot of one employee with clearance 2 and one grant on two stores.\<close>

definition ex_category :: BusinessCategoryRule where
  "ex_category = \<lparr>cat_id = ''c1'', cat_key = Some ''business'', cat_kind = KindFixed,
     cat_confidentialityLevel = Some (js_num 1), cat_ownerships = [OwnStore],
     cat_requiredDimensionIds = []\<rparr>"

definition ex_grant :: BusinessGrant where
  "ex_grant = \<lparr>gr_id = ''g1'', gr_orgId = ''org'', gr_enterpriseKey = ''ent'',
     gr_categoryIds = [''c1''], gr_ownership = OwnStore,
     gr_stores = Some (SelFixed [''north'', ''south'']), gr_dimensions = []\<rparr>"

definition ex_scope :: "string \<Rightarrow> BusinessScopeItem" where
  "ex_scope store = \<lparr>sc_enterpriseKey = ''ent'', sc_ownership = OwnStore,
     sc_storeName = Some store, sc_dimensions = []\<rparr>"

definition ex_snapshot :: AuthorizationSnapshot where
  "ex_snapshot = \<lparr>sn_orgId = ''org'', sn_employeeId = ''e1'', sn_role = RoleEmployee,
     sn_disabled = False, sn_clearance = js_num 2, sn_mode = ModeEnabled,
     sn_authorizationVersion = ''1'', sn_categories = [ex_category], sn_grants = [ex_grant]\<rparr>"

definition ex_requirement :: ResourceReadRequirement where
  "ex_requirement = \<lparr>req_orgId = ''org'', req_categoryId = ''c1'', req_valid = True,
     req_fileConfidentialityLevel = None, req_scopes = [ex_scope ''north'', ex_scope ''south'']\<rparr>"

lemmas ex_authorization = ex_category_def ex_grant_def ex_scope_def ex_snapshot_def
  ex_requirement_def canReadResource_def validateBusinessScope_def validateBusinessGrant_def
  isBusinessClearance_def grantCovers_def selected_opt_def selected_def validSelection_def
  obj_keys_def obj_get_def js_trim_def is_ws_def

lemma ex_allowed: "canReadResource ex_snapshot ex_requirement = Allowed"
  by (simp add: ex_authorization)

theorem allowed_store_scope_has_grant_witness:
  "\<exists>g store. g \<in> set (sn_grants ex_snapshot) \<and> sc_storeName (ex_scope ''south'') = Some store \<and>
     selected (gr_stores g) store"
  using allowed_store_scope_has_grant [OF ex_allowed, of "ex_scope ''south''"]
  by (auto simp: ex_requirement_def ex_scope_def)

theorem canReadResource_grants_mono_witness:
  "canReadResource (ex_snapshot\<lparr>sn_grants := [ex_grant\<lparr>gr_orgId := ''other''\<rparr>, ex_grant]\<rparr>)
     ex_requirement = Allowed"
  by (rule canReadResource_grants_mono [OF ex_allowed]) (simp add: ex_snapshot_def)

theorem canReadResource_scopes_conjunctive_witness:
  "canReadResource ex_snapshot (ex_requirement\<lparr>req_scopes := [ex_scope ''south'']\<rparr>) = Allowed"
  using canReadResource_scopes_conjunctive [of ex_requirement ex_snapshot] ex_allowed
  by (simp add: ex_requirement_def)

theorem canReadResource_clearance_mono_witness:
  "canReadResource (ex_snapshot\<lparr>sn_clearance := js_num 3\<rparr>) ex_requirement = Allowed"
  by (rule canReadResource_clearance_mono [OF ex_allowed, of 2 3]) (simp_all add: ex_snapshot_def)

end
