(* ===== verification/Row_Store.thy ===== *)
theory Row_Store
  imports Smedc_Prelude
begin

text \<open>
  What the database client promises of a table: a table is the list of its rows in
  insertion order, \<open>findUnique\<close> is \<open>find\<close>, \<open>updateMany\<close> rewrites the rows that satisfy the
  \<open>where\<close> clause and reports how many there were, \<open>create\<close> appends a row. Every change of a
  row goes through one of these, so an invariant of a table is kept when the rewritten
  rows keep it. \<open>stable\<close> is the interface of a transition system with a predicate that
  every step keeps.
\<close>

named_theorems row_simps \<open>rules that look through updates of a table\<close>

section \<open>Updates of a table\<close>

definition update_where :: "('r \<Rightarrow> bool) \<Rightarrow> ('r \<Rightarrow> 'r) \<Rightarrow> 'r list \<Rightarrow> 'r list" where
  "update_where wher data rows = map (\<lambda>r. if wher r then data r else r) rows"

definition count_where :: "('r \<Rightarrow> bool) \<Rightarrow> 'r list \<Rightarrow> nat" where
  "count_where wher rows = length (filter wher rows)"

definition delete_where :: "('r \<Rightarrow> bool) \<Rightarrow> 'r list \<Rightarrow> 'r list" where
  "delete_where wher rows = filter (\<lambda>r. \<not> wher r) rows"

lemma set_update_where [row_simps]:
  "set (update_where w d rows) = (\<lambda>r. if w r then d r else r) ` set rows"
  by (simp add: update_where_def)

lemma mem_update_where:
  "r \<in> set (update_where w d rows) \<longleftrightarrow>
     (\<exists>r0\<in>set rows. r = (if w r0 then d r0 else r0))"
  by (auto simp: update_where_def)

lemma update_where_keeps: "r \<in> set rows \<Longrightarrow> \<not> w r \<Longrightarrow> r \<in> set (update_where w d rows)"
  unfolding mem_update_where by (rule bexI [of _ r]) simp_all

lemma update_where_none:
  assumes "\<And>r. r \<in> set rows \<Longrightarrow> p r \<Longrightarrow> w r" "\<And>r. w r \<Longrightarrow> \<not> p (d r)"
  shows "\<not> (\<exists>r\<in>set (update_where w d rows). p r)"
proof clarify
  fix r
  assume "r \<in> set (update_where w d rows)" "p r"
  then obtain r0 where "r0 \<in> set rows" "p (if w r0 then d r0 else r0)"
    unfolding mem_update_where by blast
  then show False
    using assms by (cases "w r0") simp_all
qed

lemma set_delete_where [row_simps]:
  "set (delete_where w rows) = {r \<in> set rows. \<not> w r}"
  by (auto simp: delete_where_def)

lemma map_update_where [simp]:
  assumes "\<And>r. w r \<Longrightarrow> f (d r) = f r"
  shows "map f (update_where w d rows) = map f rows"
  using assms by (simp add: update_where_def)

lemma length_update_where [simp]: "length (update_where w d rows) = length rows"
  by (simp add: update_where_def)

lemma count_where_0: "count_where w rows = 0 \<longleftrightarrow> (\<forall>r\<in>set rows. \<not> w r)"
  by (simp add: count_where_def filter_empty_conv)

lemma count_where_update:
  assumes "\<And>r. w r \<Longrightarrow> \<not> w (d r)"
  shows "count_where w (update_where w d rows) = 0"
  unfolding count_where_0 using assms by (metis mem_update_where)

lemma count_where_unique:
  assumes "distinct (map key rows)" "r \<in> set rows" "w r"
    and "\<And>r'. r' \<in> set rows \<Longrightarrow> w r' \<Longrightarrow> key r' = key r"
  shows "count_where w rows = 1"
proof -
  have inj: "inj_on key (set rows)" and dist: "distinct rows"
    using assms(1) by (simp_all add: distinct_map)
  have "set (filter w rows) = {r}"
  proof
    show "set (filter w rows) \<subseteq> {r}"
      using assms(2,4) inj by (auto simp: inj_on_def)
    show "{r} \<subseteq> set (filter w rows)"
      using assms(2,3) by simp
  qed
  moreover have "distinct (filter w rows)"
    using dist by simp
  ultimately show ?thesis
    unfolding count_where_def by (metis distinct_card is_singletonI is_singleton_altdef)
qed

lemma find_SomeD: "find p rows = Some r \<Longrightarrow> r \<in> set rows \<and> p r"
  by (auto simp: find_Some_iff)

lemma find_unique:
  assumes "distinct (map key rows)" "r \<in> set rows"
  shows "find (\<lambda>x. key x = key r) rows = Some r"
  using assms by (induction rows) (auto simp: image_iff)

lemma find_update_where:
  assumes "\<And>r. w r \<Longrightarrow> p (d r) = p r"
  shows "find p (update_where w d rows) = map_option (\<lambda>r. if w r then d r else r) (find p rows)"
  using assms by (induction rows) (auto simp: update_where_def)

lemma distinct_map_delete: "distinct (map f rows) \<Longrightarrow> distinct (map f (delete_where w rows))"
  by (simp add: delete_where_def distinct_map_filter)

section \<open>Tables whose rows are never recycled\<close>

text \<open>
  \<open>grows key kept n n' rows rows'\<close>: every row of \<open>rows'\<close> is new, with an id from \<open>n\<close> up to and
  not including \<open>n'\<close>, or is a later state of the row of \<open>rows\<close> with the same id, in the sense
  of \<open>kept\<close>; and distinct ids below the counter stay so.
\<close>

definition well_keyed :: "('r \<Rightarrow> nat) \<Rightarrow> nat \<Rightarrow> 'r list \<Rightarrow> bool" where
  "well_keyed key n rows \<longleftrightarrow> (\<forall>r\<in>set rows. key r < n) \<and> distinct (map key rows)"

definition grows ::
  "('r \<Rightarrow> nat) \<Rightarrow> ('r \<Rightarrow> 'r \<Rightarrow> bool) \<Rightarrow> nat \<Rightarrow> nat \<Rightarrow> 'r list \<Rightarrow> 'r list \<Rightarrow> bool" where
  "grows key kept n n' rows rows' \<longleftrightarrow>
     (\<forall>r'\<in>set rows'. (n \<le> key r' \<and> key r' < n') \<or> (\<exists>r\<in>set rows. key r = key r' \<and> kept r r')) \<and>
     (well_keyed key n rows \<longrightarrow> well_keyed key n' rows')"

lemma growsD:
  assumes "grows key kept n n' rows rows'" "r' \<in> set rows'" "key r' < n"
  obtains r where "r \<in> set rows" "key r = key r'" "kept r r'"
  using assms by (fastforce simp: grows_def)

lemma grows_keyed: "grows key kept n n' rows rows' \<Longrightarrow> well_keyed key n rows \<Longrightarrow> well_keyed key n' rows'"
  by (simp add: grows_def)

lemma well_keyed_unique:
  "well_keyed key n rows \<Longrightarrow> r \<in> set rows \<Longrightarrow> r' \<in> set rows \<Longrightarrow> key r = key r' \<Longrightarrow> r = r'"
  by (auto simp: well_keyed_def distinct_map dest: inj_onD)

lemma grows_refl: "reflp kept \<Longrightarrow> n \<le> n' \<Longrightarrow> grows key kept n n' rows rows"
  by (fastforce simp: grows_def reflp_def well_keyed_def)

lemma grows_trans:
  assumes "transp kept" "n \<le> n'" "n' \<le> n''" "grows key kept n n' a b" "grows key kept n' n'' b c"
  shows "grows key kept n n'' a c"
proof -
  have "(n \<le> key r \<and> key r < n'') \<or> (\<exists>r0\<in>set a. key r0 = key r \<and> kept r0 r)" if r: "r \<in> set c" for r
  proof -
    consider "n' \<le> key r" "key r < n''" | r1 where "r1 \<in> set b" "key r1 = key r" "kept r1 r"
      using assms(5) r by (auto simp: grows_def)
    then show ?thesis
    proof cases
      case (2 r1)
      then have "(n \<le> key r \<and> key r < n') \<or> (\<exists>r0\<in>set a. key r0 = key r \<and> kept r0 r1)"
        using assms(4) by (auto simp: grows_def)
      with 2(3) assms(1,3) show ?thesis by (metis order_less_le_trans transpD)
    qed (use assms(2) in simp)
  qed
  with assms(4,5) show ?thesis
    by (simp add: grows_def)
qed

lemma grows_update:
  assumes "reflp kept" "n \<le> n'" "\<And>r. w r \<Longrightarrow> key (d r) = key r" "\<And>r. w r \<Longrightarrow> kept r (d r)"
  shows "grows key kept n n' rows (update_where w d rows)"
proof -
  have "\<exists>r\<in>set rows. key r = key r' \<and> kept r r'" if "r' \<in> set (update_where w d rows)" for r'
    using that assms(1,3,4) unfolding reflp_def by (metis mem_update_where)
  moreover have "well_keyed key n' (update_where w d rows)" if "well_keyed key n rows"
    using that assms(2,3) by (fastforce simp: well_keyed_def row_simps)
  ultimately show ?thesis
    by (auto simp: grows_def)
qed

lemma grows_append:
  assumes "reflp kept" "n \<le> key r" "key r < n'" "n \<le> n'"
  shows "grows key kept n n' rows (rows @ [r])"
  using assms by (fastforce simp: grows_def reflp_def well_keyed_def)

lemma grows_delete:
  assumes "reflp kept" "n \<le> n'"
  shows "grows key kept n n' rows (delete_where w rows)"
  using assms by (fastforce simp: grows_def row_simps reflp_def well_keyed_def distinct_map_delete)

lemma claim_closes_row:
  assumes "well_keyed key n rows" "count_where w rows = 1" "\<And>r. w r \<Longrightarrow> key r = i"
    "\<And>r. w r \<Longrightarrow> key (d r) = i \<and> p (d r)" "r \<in> set (update_where w d rows)" "key r = i"
  shows "p r" "i < n"
proof -
  obtain r0 where r0: "r0 \<in> set rows" "w r0"
    using assms(2) count_where_0 [of w rows] by auto
  then show "i < n"
    using assms(1,3) by (auto simp: well_keyed_def)
  obtain r1 where r1: "r1 \<in> set rows" "r = (if w r1 then d r1 else r1)"
    using assms(5) by (auto simp: mem_update_where)
  have "key r1 = i"
    using r1(2) assms(3,6) by (auto split: if_split_asm)
  with r0 r1(1) assms(1,3) have "r1 = r0"
    by (metis well_keyed_unique)
  with r0(2) r1(2) assms(4) show "p r"
    by simp
qed

lemma claimed_row_exists:
  assumes "count_where w rows = 1" "well_keyed key n rows" "\<And>r. w r \<Longrightarrow> key r = i"
  shows "i < n"
  using assms count_where_0 [of w rows] by (auto simp: well_keyed_def)

section \<open>Facts that every step keeps\<close>

locale stable =
  fixes step :: "'s \<Rightarrow> 's \<Rightarrow> bool"
    and closed :: "'s \<Rightarrow> bool"
  assumes step_keeps: "step s t \<Longrightarrow> closed s \<Longrightarrow> closed t"
begin

lemma reach_keeps: "step\<^sup>*\<^sup>* s t \<Longrightarrow> closed s \<Longrightarrow> closed t"
  by (induction rule: rtranclp_induct) (auto intro: step_keeps)

end

text \<open>A claim that succeeds closes its row, and a closed row refuses every claim.\<close>

locale single_use = stable step closed
  for step :: "'s \<Rightarrow> 's \<Rightarrow> bool" and closed :: "'s \<Rightarrow> bool" +
  fixes claims :: "'s \<Rightarrow> 's \<Rightarrow> bool"
  assumes claim_closes: "claims s t \<Longrightarrow> closed t"
    and closed_refuses: "closed s \<Longrightarrow> \<not> claims s t"
begin

lemma claimed_once: "claims s t \<Longrightarrow> step\<^sup>*\<^sup>* t u \<Longrightarrow> \<not> claims u v"
  using claim_closes reach_keeps closed_refuses by blast

end

end
