(* ===== verification/Auth_Repository.thy ===== *)
theory Auth_Repository
  imports Auth_Primitives Business_Authorization Row_Store
begin

text \<open>
  The authentication tables and the operations of
  \<^verbatim>\<open>apps/api/src/auth/prisma-auth-repository.ts\<close>, one definition per method.

  \<^item> \<open>auth_db\<close> is the database: one list of rows per table, in the columns of
    \<^verbatim>\<open>packages/db/prisma/schema.prisma\<close> that the code reads or writes. A row id (a generated
    cuid) is a natural number taken from the counter \<open>db_next\<close>; a time is an \<open>int\<close> number of
    milliseconds.
  \<^item> An operation returns \<open>auth_error + 'a \<times> auth_db\<close>: an error rolls the transaction back, so
    only a successful result carries a new database. Unique indexes are checked by the
    \<open>create_...\<close> definitions. The foreign keys of a created row are ids of rows that the same
    transaction has read.
  \<^item> Where an operation reads a row and then claims it with a guarded \<open>updateMany\<close>, the part
    after the read is a definition of its own (\<open>rotate_with\<close>, \<open>redeem_with\<close>,
    \<open>exchange_with\<close>, \<open>consume_with\<close>). It takes the row as read, which another transaction may
    have changed since.
\<close>

section \<open>Rows\<close>

type_synonym row_id = nat

datatype auth_error =
    NotFound
  | UniqueViolation
  | ForeignKeyViolation
  | MissingRelation
  | Thrown string

datatype SetupPurpose = InitialSetup | PasswordReset
datatype SessionStatus = SessionActive | SessionRevoked | SessionExpired
datatype CredentialStatus = CredActive | CredConsumed | CredRevoked
datatype DeviceStatus = DevicePending | DeviceCompleted | DeviceExpired | DeviceRevoked

fun purpose_name :: "SetupPurpose \<Rightarrow> string" where
  "purpose_name InitialSetup = ''initial_setup''"
| "purpose_name PasswordReset = ''password_reset''"

record employee_row =
  em_id :: row_id
  em_orgId :: string
  em_email :: string
  em_displayName :: string
  em_role :: EmployeeRole
  em_clearance :: int
  em_disabled :: bool

record identity_row =
  li_id :: row_id
  li_orgId :: string
  li_employeeId :: row_id
  li_normalizedEmail :: string
  li_passwordHash :: "string option"
  li_disabled :: bool
  li_failedAttemptCount :: int
  li_cooldownLevel :: int
  li_cooldownUntil :: "time_ms option"

record grant_row =
  sg_id :: row_id
  sg_identityId :: row_id
  sg_purpose :: SetupPurpose
  sg_tokenHash :: string
  sg_expiresAt :: time_ms
  sg_usedAt :: "time_ms option"
  sg_revokedAt :: "time_ms option"
  sg_createdAt :: time_ms

record setup_row =
  ss_id :: row_id
  ss_identityId :: row_id
  ss_grantId :: row_id
  ss_sessionHash :: string
  ss_expiresAt :: time_ms
  ss_consumedAt :: "time_ms option"
  ss_revokedAt :: "time_ms option"
  ss_createdAt :: time_ms

record device_row =
  da_id :: row_id
  da_clientId :: string
  da_deviceCodeHash :: string
  da_userCodeHash :: string
  da_status :: DeviceStatus
  da_instanceName :: string
  da_instanceHostname :: string
  da_identityId :: "row_id option"
  da_employeeId :: "row_id option"
  da_orgId :: "string option"
  da_expiresAt :: time_ms
  da_completedAt :: "time_ms option"
  da_redeemedAt :: "time_ms option"
  da_revokedAt :: "time_ms option"
  da_createdAt :: time_ms

record session_row =
  as_id :: row_id
  as_identityId :: row_id
  as_employeeId :: row_id
  as_orgId :: string
  as_status :: SessionStatus
  as_absoluteExpiresAt :: time_ms
  as_revokedAt :: "time_ms option"
  as_revocationReason :: "string option"
  as_createdAt :: time_ms

record credential_row =
  dc_id :: row_id
  dc_sessionId :: row_id
  dc_credentialHash :: string
  dc_generation :: nat
  dc_status :: CredentialStatus
  dc_consumedAt :: "time_ms option"
  dc_revokedAt :: "time_ms option"
  dc_createdAt :: time_ms

record token_row =
  at_id :: row_id
  at_sessionId :: row_id
  at_identityId :: row_id
  at_employeeId :: row_id
  at_orgId :: string
  at_tokenHash :: string
  at_expiresAt :: time_ms
  at_revokedAt :: "time_ms option"
  at_lastUsedAt :: "time_ms option"
  at_createdAt :: time_ms

record browser_row =
  bs_id :: row_id
  bs_identityId :: row_id
  bs_employeeId :: row_id
  bs_orgId :: string
  bs_secretHash :: string
  bs_credentialFingerprint :: string
  bs_expiresAt :: time_ms
  bs_revokedAt :: "time_ms option"
  bs_createdAt :: time_ms

section \<open>Security events\<close>

datatype AuthSecurityEventType =
    account_onboarded
  | setup_grant_issued
  | setup_grant_consumed
  | password_setup_completed
  | password_login_succeeded
  | password_login_failed
  | password_cooldown_entered
  | device_authorization_issued
  | device_authorization_completed
  | device_authorization_expired
  | device_authorization_revoked
  | session_created
  | session_revoked
  | session_expired
  | credential_replay_detected
  | renewal_failed
  | security_policy_rejected
  | logout_event

datatype EventOutcome = Succeeded | Failed | Denied

record AuthRequestAudit =
  au_requestId :: string
  au_sourceIp :: string
  au_launcherVersion :: "string option"

record SecurityEvent =
  ev_type :: AuthSecurityEventType
  ev_outcome :: EventOutcome
  ev_reason :: "string option"
  ev_requestId :: "string option"
  ev_sourceIp :: "string option"
  ev_launcherVersion :: "string option"
  ev_orgId :: "string option"
  ev_identityId :: "row_id option"
  ev_employeeId :: "row_id option"
  ev_sessionId :: "row_id option"
  ev_createdAt :: time_ms

record auth_db =
  db_next :: row_id
  db_organizations :: "(string \<times> string) list"
  db_employees :: "employee_row list"
  db_identities :: "identity_row list"
  db_grants :: "grant_row list"
  db_setups :: "setup_row list"
  db_devices :: "device_row list"
  db_sessions :: "session_row list"
  db_credentials :: "credential_row list"
  db_tokens :: "token_row list"
  db_browsers :: "browser_row list"
  db_events :: "SecurityEvent list"
  db_audit_actors :: "row_id option list"
  db_document_uploaders :: "row_id list"
  db_employee_references :: "row_id list"

type_synonym 'a tx = "auth_error + 'a \<times> auth_db"

definition base_event :: "AuthSecurityEventType \<Rightarrow> EventOutcome \<Rightarrow> time_ms \<Rightarrow> SecurityEvent" where
  "base_event t out now =
     \<lparr>ev_type = t, ev_outcome = out, ev_reason = None, ev_requestId = None, ev_sourceIp = None,
      ev_launcherVersion = None, ev_orgId = None, ev_identityId = None, ev_employeeId = None,
      ev_sessionId = None, ev_createdAt = now\<rparr>"

definition eventAudit :: "AuthRequestAudit option \<Rightarrow> SecurityEvent \<Rightarrow> SecurityEvent" where
  "eventAudit audit e =
     (case audit of
        Some a \<Rightarrow> e\<lparr>ev_requestId := Some (au_requestId a), ev_sourceIp := Some (au_sourceIp a),
                   ev_launcherVersion := au_launcherVersion a\<rparr>
      | None \<Rightarrow> e)"

definition event_of ::
  "string option \<Rightarrow> string \<Rightarrow> row_id \<Rightarrow> row_id \<Rightarrow> SecurityEvent \<Rightarrow> SecurityEvent" where
  "event_of reason org identity employee e =
     e\<lparr>ev_reason := reason, ev_orgId := Some org, ev_identityId := Some identity,
       ev_employeeId := Some employee\<rparr>"

definition writeSecurityEvent :: "SecurityEvent \<Rightarrow> auth_db \<Rightarrow> auth_db" where
  "writeSecurityEvent e db = db\<lparr>db_events := db_events db @ [e]\<rparr>"

definition session_event ::
  "AuthSecurityEventType \<Rightarrow> EventOutcome \<Rightarrow> string option \<Rightarrow> session_row \<Rightarrow> AuthRequestAudit option
     \<Rightarrow> time_ms \<Rightarrow> SecurityEvent" where
  "session_event t out reason s audit now =
     eventAudit audit
       ((event_of reason (as_orgId s) (as_identityId s) (as_employeeId s) (base_event t out now))
          \<lparr>ev_sessionId := Some (as_id s)\<rparr>)"

definition pruneSecurityEvents :: "time_ms \<Rightarrow> auth_db \<Rightarrow> nat \<times> auth_db" where
  "pruneSecurityEvents before db =
     (count_where (\<lambda>e. ev_createdAt e < before) (db_events db),
      db\<lparr>db_events := delete_where (\<lambda>e. ev_createdAt e < before) (db_events db)\<rparr>)"

section \<open>Reads\<close>

definition identity_by_id :: "row_id \<Rightarrow> auth_db \<Rightarrow> identity_row option" where
  "identity_by_id i db = find (\<lambda>r. li_id r = i) (db_identities db)"

definition employee_by_id :: "row_id \<Rightarrow> auth_db \<Rightarrow> employee_row option" where
  "employee_by_id i db = find (\<lambda>r. em_id r = i) (db_employees db)"

definition session_by_id :: "row_id \<Rightarrow> auth_db \<Rightarrow> session_row option" where
  "session_by_id i db = find (\<lambda>r. as_id r = i) (db_sessions db)"

record LoginIdentityRecord =
  lr_id :: row_id
  lr_orgId :: string
  lr_employeeId :: row_id
  lr_passwordHash :: "string option"
  lr_disabled :: bool
  lr_employeeDisabled :: bool
  lr_failedAttemptCount :: int
  lr_cooldownLevel :: int
  lr_cooldownUntil :: "time_ms option"

definition findLoginIdentityByEmail ::
  "string \<Rightarrow> auth_db \<Rightarrow> auth_error + LoginIdentityRecord option" where
  "findLoginIdentityByEmail normalizedEmail db =
     (case find (\<lambda>r. li_normalizedEmail r = normalizedEmail) (db_identities db) of
        None \<Rightarrow> Inr None
      | Some i \<Rightarrow>
          res_bind (or_else MissingRelation (employee_by_id (li_employeeId i) db)) (\<lambda>e.
          Inr (Some
            \<lparr>lr_id = li_id i, lr_orgId = li_orgId i, lr_employeeId = li_employeeId i,
             lr_passwordHash = li_passwordHash i, lr_disabled = li_disabled i,
             lr_employeeDisabled = em_disabled e,
             lr_failedAttemptCount = li_failedAttemptCount i,
             lr_cooldownLevel = li_cooldownLevel i, lr_cooldownUntil = li_cooldownUntil i\<rparr>)))"

section \<open>Login failures\<close>

text \<open>
  The raw \<open>UPDATE\<close> assigns its columns from left to right, and an assignment sees the
  columns assigned before it.
\<close>

definition set_cooldown_until :: "time_ms \<Rightarrow> identity_row \<Rightarrow> identity_row" where
  "set_cooldown_until now r =
     r\<lparr>li_cooldownUntil :=
         (if li_failedAttemptCount r + 1 < 5 then None
          else Some (now +
            (let level = min (li_cooldownLevel r + 1) 5 in
             (if level = 1 then 5 else if level = 2 then 10 else if level = 3 then 20
              else if level = 4 then 40 else 60)) * 60000))\<rparr>"

definition set_cooldown_level :: "identity_row \<Rightarrow> identity_row" where
  "set_cooldown_level r =
     r\<lparr>li_cooldownLevel :=
         (if 5 \<le> li_failedAttemptCount r + 1 then min (li_cooldownLevel r + 1) 5
          else li_cooldownLevel r)\<rparr>"

definition set_failed_attempts :: "identity_row \<Rightarrow> identity_row" where
  "set_failed_attempts r = r\<lparr>li_failedAttemptCount := li_failedAttemptCount r + 1\<rparr>"

definition login_failure_update :: "row_id \<Rightarrow> time_ms \<Rightarrow> identity_row list \<Rightarrow> identity_row list" where
  "login_failure_update identityId now =
     update_where
       (\<lambda>r. li_id r = identityId \<and> (case li_cooldownUntil r of None \<Rightarrow> True | Some u \<Rightarrow> u \<le> now))
       (\<lambda>r. set_failed_attempts (set_cooldown_level (set_cooldown_until now r)))"

definition recordLoginFailure :: "row_id \<Rightarrow> time_ms \<Rightarrow> auth_db \<Rightarrow> time_ms option \<times> auth_db" where
  "recordLoginFailure identityId now db =
     (let db' = db\<lparr>db_identities := login_failure_update identityId now (db_identities db)\<rparr> in
      (case identity_by_id identityId db' of None \<Rightarrow> None | Some i \<Rightarrow> li_cooldownUntil i, db'))"

definition resetLoginFailures :: "row_id \<Rightarrow> auth_db \<Rightarrow> auth_db" where
  "resetLoginFailures identityId db =
     db\<lparr>db_identities :=
          update_where (\<lambda>r. li_id r = identityId)
            (\<lambda>r. r\<lparr>li_failedAttemptCount := 0, li_cooldownLevel := 0, li_cooldownUntil := None\<rparr>)
            (db_identities db)\<rparr>"

section \<open>Session families\<close>

definition revokeSessionFamily :: "row_id \<Rightarrow> string \<Rightarrow> time_ms \<Rightarrow> auth_db \<Rightarrow> auth_db" where
  "revokeSessionFamily sessionId reason now db =
     db\<lparr>db_sessions :=
          update_where (\<lambda>s. as_id s = sessionId \<and> as_status s = SessionActive)
            (\<lambda>s. s\<lparr>as_status := (if reason = ''session_expired'' then SessionExpired else SessionRevoked),
                   as_revokedAt := Some now, as_revocationReason := Some reason\<rparr>)
            (db_sessions db),
        db_credentials :=
          update_where (\<lambda>c. dc_sessionId c = sessionId \<and> dc_status c \<noteq> CredRevoked)
            (\<lambda>c. c\<lparr>dc_status := CredRevoked, dc_revokedAt := Some now\<rparr>)
            (db_credentials db),
        db_tokens :=
          update_where (\<lambda>t. at_sessionId t = sessionId \<and> at_revokedAt t = None)
            (\<lambda>t. t\<lparr>at_revokedAt := Some now\<rparr>)
            (db_tokens db)\<rparr>"

definition create_session ::
  "row_id \<Rightarrow> row_id \<Rightarrow> string \<Rightarrow> time_ms \<Rightarrow> time_ms \<Rightarrow> auth_db \<Rightarrow> row_id \<times> auth_db" where
  "create_session identityId employeeId orgId absoluteExpiresAt now db =
     (db_next db,
      db\<lparr>db_next := db_next db + 1,
         db_sessions := db_sessions db @
           [\<lparr>as_id = db_next db, as_identityId = identityId, as_employeeId = employeeId,
             as_orgId = orgId, as_status = SessionActive, as_absoluteExpiresAt = absoluteExpiresAt,
             as_revokedAt = None, as_revocationReason = None, as_createdAt = now\<rparr>]\<rparr>)"

definition create_credential ::
  "row_id \<Rightarrow> string \<Rightarrow> nat \<Rightarrow> time_ms \<Rightarrow> auth_db \<Rightarrow> auth_error + auth_db" where
  "create_credential sessionId credentialHash generation now db =
     (if \<exists>c\<in>set (db_credentials db).
           dc_credentialHash c = credentialHash \<or>
           dc_sessionId c = sessionId \<and> dc_generation c = generation
      then Inl UniqueViolation
      else Inr (db\<lparr>db_next := db_next db + 1,
             db_credentials := db_credentials db @
               [\<lparr>dc_id = db_next db, dc_sessionId = sessionId, dc_credentialHash = credentialHash,
                 dc_generation = generation, dc_status = CredActive, dc_consumedAt = None,
                 dc_revokedAt = None, dc_createdAt = now\<rparr>]\<rparr>))"

definition create_token ::
  "row_id \<Rightarrow> row_id \<Rightarrow> row_id \<Rightarrow> string \<Rightarrow> string \<Rightarrow> time_ms \<Rightarrow> time_ms \<Rightarrow> auth_db
     \<Rightarrow> auth_error + auth_db" where
  "create_token sessionId identityId employeeId orgId tokenHash expiresAt now db =
     (if \<exists>t\<in>set (db_tokens db). at_tokenHash t = tokenHash then Inl UniqueViolation
      else Inr (db\<lparr>db_next := db_next db + 1,
             db_tokens := db_tokens db @
               [\<lparr>at_id = db_next db, at_sessionId = sessionId, at_identityId = identityId,
                 at_employeeId = employeeId, at_orgId = orgId, at_tokenHash = tokenHash,
                 at_expiresAt = expiresAt, at_revokedAt = None, at_lastUsedAt = None,
                 at_createdAt = now\<rparr>]\<rparr>))"

text \<open>The guard that \<open>createSessionBundle\<close> and \<open>completeDeviceAuthorization\<close> share.\<close>

definition identity_refused ::
  "row_id \<Rightarrow> row_id \<Rightarrow> string \<Rightarrow> auth_db \<Rightarrow> auth_error + bool" where
  "identity_refused identityId employeeId orgId db =
     (case identity_by_id identityId db of
        None \<Rightarrow> Inr True
      | Some i \<Rightarrow>
          res_bind (or_else MissingRelation (employee_by_id (li_employeeId i) db)) (\<lambda>e.
          Inr (li_disabled i \<or> em_disabled e \<or> li_employeeId i \<noteq> employeeId \<or>
               li_orgId i \<noteq> orgId \<or> em_orgId e \<noteq> orgId)))"

definition createSessionBundle ::
  "row_id \<Rightarrow> row_id \<Rightarrow> string \<Rightarrow> string \<Rightarrow> string \<Rightarrow> time_ms \<Rightarrow> time_ms \<Rightarrow> time_ms
     \<Rightarrow> AuthRequestAudit option \<Rightarrow> auth_db \<Rightarrow> row_id tx" where
  "createSessionBundle identityId employeeId orgId credentialHash accessTokenHash
       absoluteExpiresAt accessTokenExpiresAt now audit db =
     res_bind (identity_refused identityId employeeId orgId db) (\<lambda>refused.
     res_bind (res_guard refused (Thrown ''Login Identity is not active.'')) (\<lambda>_.
     let (sessionId, db1) = create_session identityId employeeId orgId absoluteExpiresAt now db in
     res_bind (create_credential sessionId credentialHash 1 now db1) (\<lambda>db2.
     res_bind (create_token sessionId identityId employeeId orgId accessTokenHash
                 accessTokenExpiresAt now db2) (\<lambda>db3.
     Inr (sessionId,
       writeSecurityEvent
         (eventAudit audit
            ((event_of None orgId identityId employeeId (base_event session_created Succeeded now))
               \<lparr>ev_sessionId := Some sessionId\<rparr>)) db3)))))"

datatype RotateCredentialResult =
    Rotated row_id row_id row_id string
  | Replayed row_id
  | RotateInvalid

definition replay_detected ::
  "string \<Rightarrow> session_row \<Rightarrow> row_id \<Rightarrow> AuthRequestAudit \<Rightarrow> time_ms \<Rightarrow> auth_db \<Rightarrow> auth_db" where
  "replay_detected reason s sessionId audit now db =
     writeSecurityEvent
       (session_event session_revoked Succeeded (Some ''credential_replay'') s (Some audit) now)
     (writeSecurityEvent
        (session_event credential_replay_detected Denied (Some reason) s (Some audit) now)
     (revokeSessionFamily sessionId ''credential_replay'' now db))"

definition rotate_with ::
  "credential_row \<Rightarrow> session_row \<Rightarrow> string \<Rightarrow> string \<Rightarrow> time_ms \<Rightarrow> time_ms \<Rightarrow> AuthRequestAudit
     \<Rightarrow> auth_db \<Rightarrow> RotateCredentialResult tx" where
  "rotate_with credential s replacementCredentialHash accessTokenHash accessTokenExpiresAt now audit db =
     (if dc_status credential \<noteq> CredActive then
        Inr (Replayed (dc_sessionId credential),
          replay_detected ''consumed_generation_reused'' s (dc_sessionId credential) audit now db)
      else if as_status s \<noteq> SessionActive \<or> as_absoluteExpiresAt s \<le> now then
        Inr (RotateInvalid,
          if as_status s = SessionActive \<and> as_absoluteExpiresAt s \<le> now then
            writeSecurityEvent
              (session_event session_expired Denied (Some ''absolute_lifetime_elapsed'') s (Some audit) now)
              (revokeSessionFamily (dc_sessionId credential) ''session_expired'' now db)
          else db)
      else
        let wher = (\<lambda>c. dc_id c = dc_id credential \<and> dc_status c = CredActive);
            db1 = db\<lparr>db_credentials :=
                       update_where wher
                         (\<lambda>c. c\<lparr>dc_status := CredConsumed, dc_consumedAt := Some now\<rparr>)
                         (db_credentials db)\<rparr> in
        if count_where wher (db_credentials db) \<noteq> 1 then
          Inr (Replayed (dc_sessionId credential),
            replay_detected ''concurrent_generation_reuse'' s (dc_sessionId credential) audit now db1)
        else
          res_bind (create_credential (dc_sessionId credential) replacementCredentialHash
                      (dc_generation credential + 1) now db1) (\<lambda>db2.
          res_bind (create_token (dc_sessionId credential) (as_identityId s) (as_employeeId s)
                      (as_orgId s) accessTokenHash accessTokenExpiresAt now db2) (\<lambda>db3.
          Inr (Rotated (dc_sessionId credential) (as_identityId s) (as_employeeId s) (as_orgId s), db3))))"

definition rotateDurableCredential ::
  "string \<Rightarrow> string \<Rightarrow> string \<Rightarrow> time_ms \<Rightarrow> time_ms \<Rightarrow> AuthRequestAudit \<Rightarrow> auth_db
     \<Rightarrow> RotateCredentialResult tx" where
  "rotateDurableCredential presentedCredentialHash replacementCredentialHash accessTokenHash
       accessTokenExpiresAt now audit db =
     (case find (\<lambda>c. dc_credentialHash c = presentedCredentialHash) (db_credentials db) of
        None \<Rightarrow> Inr (RotateInvalid, db)
      | Some credential \<Rightarrow>
          res_bind (or_else MissingRelation (session_by_id (dc_sessionId credential) db)) (\<lambda>s.
          rotate_with credential s replacementCredentialHash accessTokenHash accessTokenExpiresAt
            now audit db))"

record AccessAuthenticationRecord =
  aa_identityId :: row_id
  aa_employeeId :: row_id
  aa_orgId :: string
  aa_organizationName :: string
  aa_displayName :: string
  aa_email :: string
  aa_role :: EmployeeRole
  aa_clearance :: int
  aa_identityDisabled :: bool
  aa_employeeDisabled :: bool

definition access_record ::
  "token_row \<Rightarrow> auth_db \<Rightarrow> auth_error + AccessAuthenticationRecord" where
  "access_record token db =
     res_bind (or_else MissingRelation (identity_by_id (at_identityId token) db)) (\<lambda>i.
     res_bind (or_else MissingRelation (employee_by_id (at_employeeId token) db)) (\<lambda>e.
     res_bind (or_else MissingRelation (map_of (db_organizations db) (em_orgId e))) (\<lambda>orgName.
     Inr \<lparr>aa_identityId = at_identityId token, aa_employeeId = at_employeeId token,
          aa_orgId = at_orgId token, aa_organizationName = orgName,
          aa_displayName = em_displayName e, aa_email = em_email e, aa_role = em_role e,
          aa_clearance = em_clearance e, aa_identityDisabled = li_disabled i,
          aa_employeeDisabled = em_disabled e\<rparr>)))"

definition authenticateAccessToken ::
  "string \<Rightarrow> time_ms \<Rightarrow> AuthRequestAudit option \<Rightarrow> auth_db \<Rightarrow> AccessAuthenticationRecord option tx" where
  "authenticateAccessToken tokenHash now audit db =
     (case find (\<lambda>t. at_tokenHash t = tokenHash) (db_tokens db) of
        None \<Rightarrow> Inr (None, db)
      | Some token \<Rightarrow>
          res_bind (or_else MissingRelation (session_by_id (at_sessionId token) db)) (\<lambda>s.
          res_bind (access_record token db) (\<lambda>rec.
          if at_revokedAt token \<noteq> None \<or> at_expiresAt token \<le> now \<or> as_status s \<noteq> SessionActive
          then Inr (None, db)
          else if as_absoluteExpiresAt s \<le> now then
            Inr (None,
              writeSecurityEvent
                (eventAudit audit
                   ((event_of (Some ''absolute_lifetime_elapsed'') (at_orgId token)
                       (at_identityId token) (at_employeeId token)
                       (base_event session_expired Denied now))
                      \<lparr>ev_sessionId := Some (at_sessionId token)\<rparr>))
                (revokeSessionFamily (at_sessionId token) ''session_expired'' now db))
          else
            Inr (Some rec,
              db\<lparr>db_tokens :=
                   update_where (\<lambda>t. at_id t = at_id token \<and> at_revokedAt t = None)
                     (\<lambda>t. t\<lparr>at_lastUsedAt := Some now\<rparr>) (db_tokens db)\<rparr>))))"

definition revokeSessionByDurableCredential ::
  "string \<Rightarrow> string \<Rightarrow> time_ms \<Rightarrow> AuthRequestAudit option \<Rightarrow> auth_db \<Rightarrow> bool tx" where
  "revokeSessionByDurableCredential credentialHash reason now audit db =
     (case find (\<lambda>c. dc_credentialHash c = credentialHash) (db_credentials db) of
        None \<Rightarrow> Inr (False, db)
      | Some credential \<Rightarrow>
          res_bind (or_else NotFound (session_by_id (dc_sessionId credential) db)) (\<lambda>s.
          Inr (True,
            writeSecurityEvent (session_event session_revoked Succeeded (Some reason) s audit now)
            (writeSecurityEvent (session_event logout_event Succeeded (Some reason) s audit now)
            (revokeSessionFamily (dc_sessionId credential) reason now db)))))"

definition revoke_browsers :: "row_id \<Rightarrow> time_ms \<Rightarrow> auth_db \<Rightarrow> auth_db" where
  "revoke_browsers identityId now db =
     db\<lparr>db_browsers :=
          update_where (\<lambda>b. bs_identityId b = identityId \<and> bs_revokedAt b = None)
            (\<lambda>b. b\<lparr>bs_revokedAt := Some now\<rparr>) (db_browsers db)\<rparr>"

definition active_session_ids :: "row_id \<Rightarrow> auth_db \<Rightarrow> row_id list" where
  "active_session_ids identityId db =
     map as_id (filter (\<lambda>s. as_identityId s = identityId \<and> as_status s = SessionActive) (db_sessions db))"

fun revoke_identity_loop ::
  "string \<Rightarrow> time_ms \<Rightarrow> row_id list \<Rightarrow> auth_db \<Rightarrow> auth_error + auth_db" where
  "revoke_identity_loop reason now [] db = Inr db"
| "revoke_identity_loop reason now (sid # sids) db =
     (let db1 = revokeSessionFamily sid reason now db in
      res_bind (or_else NotFound (session_by_id sid db1)) (\<lambda>details.
      revoke_identity_loop reason now sids
        (writeSecurityEvent (session_event session_revoked Succeeded (Some reason) details None now) db1)))"

definition revokeIdentitySessions :: "row_id \<Rightarrow> string \<Rightarrow> time_ms \<Rightarrow> auth_db \<Rightarrow> nat tx" where
  "revokeIdentitySessions identityId reason now db =
     (let db1 = revoke_browsers identityId now db;
          sids = active_session_ids identityId db1 in
      res_bind (revoke_identity_loop reason now sids db1) (\<lambda>db2. Inr (length sids, db2)))"

section \<open>Password setup\<close>

definition create_grant ::
  "row_id \<Rightarrow> SetupPurpose \<Rightarrow> string \<Rightarrow> time_ms \<Rightarrow> time_ms \<Rightarrow> auth_db \<Rightarrow> row_id tx" where
  "create_grant identityId purpose tokenHash expiresAt now db =
     (if \<exists>g\<in>set (db_grants db). sg_tokenHash g = tokenHash then Inl UniqueViolation
      else Inr (db_next db,
        db\<lparr>db_next := db_next db + 1,
           db_grants := db_grants db @
             [\<lparr>sg_id = db_next db, sg_identityId = identityId, sg_purpose = purpose,
               sg_tokenHash = tokenHash, sg_expiresAt = expiresAt, sg_usedAt = None,
               sg_revokedAt = None, sg_createdAt = now\<rparr>]\<rparr>))"

definition revoke_setups :: "row_id \<Rightarrow> time_ms \<Rightarrow> auth_db \<Rightarrow> auth_db" where
  "revoke_setups identityId now db =
     db\<lparr>db_setups :=
          update_where (\<lambda>s. ss_identityId s = identityId \<and> ss_consumedAt s = None \<and> ss_revokedAt s = None)
            (\<lambda>s. s\<lparr>ss_revokedAt := Some now\<rparr>) (db_setups db)\<rparr>"

definition revoke_grants :: "row_id \<Rightarrow> time_ms \<Rightarrow> auth_db \<Rightarrow> auth_db" where
  "revoke_grants identityId now db =
     db\<lparr>db_grants :=
          update_where (\<lambda>g. sg_identityId g = identityId \<and> sg_usedAt g = None \<and> sg_revokedAt g = None)
            (\<lambda>g. g\<lparr>sg_revokedAt := Some now\<rparr>) (db_grants db)\<rparr>"

definition replacePasswordSetupGrant ::
  "row_id \<Rightarrow> SetupPurpose \<Rightarrow> string \<Rightarrow> time_ms \<Rightarrow> time_ms \<Rightarrow> auth_db \<Rightarrow> row_id tx" where
  "replacePasswordSetupGrant identityId purpose tokenHash expiresAt now db =
     res_bind (or_else NotFound (identity_by_id identityId db)) (\<lambda>identity.
     res_bind (create_grant identityId purpose tokenHash expiresAt now
                 (revoke_grants identityId now (revoke_setups identityId now db))) (\<lambda>(grantId, db1).
     Inr (grantId,
       writeSecurityEvent
         (event_of (Some (purpose_name purpose)) (li_orgId identity) identityId (li_employeeId identity)
            (base_event setup_grant_issued Succeeded now)) db1)))"

definition create_setup ::
  "row_id \<Rightarrow> row_id \<Rightarrow> string \<Rightarrow> time_ms \<Rightarrow> time_ms \<Rightarrow> auth_db \<Rightarrow> auth_error + auth_db" where
  "create_setup identityId grantId sessionHash expiresAt now db =
     (if \<exists>s\<in>set (db_setups db). ss_sessionHash s = sessionHash then Inl UniqueViolation
      else Inr (db\<lparr>db_next := db_next db + 1,
             db_setups := db_setups db @
               [\<lparr>ss_id = db_next db, ss_identityId = identityId, ss_grantId = grantId,
                 ss_sessionHash = sessionHash, ss_expiresAt = expiresAt, ss_consumedAt = None,
                 ss_revokedAt = None, ss_createdAt = now\<rparr>]\<rparr>))"

definition exchange_with ::
  "grant_row \<Rightarrow> string \<Rightarrow> time_ms \<Rightarrow> time_ms \<Rightarrow> AuthRequestAudit \<Rightarrow> auth_db
     \<Rightarrow> (row_id \<times> SetupPurpose) option tx" where
  "exchange_with grant sessionHash expiresAt now audit db =
     (if sg_usedAt grant \<noteq> None \<or> sg_revokedAt grant \<noteq> None \<or> sg_expiresAt grant \<le> now
      then Inr (None, db)
      else
        let wher = (\<lambda>g. sg_id g = sg_id grant \<and> sg_usedAt g = None \<and> sg_revokedAt g = None \<and>
                        now < sg_expiresAt g);
            db1 = db\<lparr>db_grants := update_where wher (\<lambda>g. g\<lparr>sg_usedAt := Some now\<rparr>) (db_grants db)\<rparr> in
        if count_where wher (db_grants db) \<noteq> 1 then Inr (None, db1)
        else
          res_bind (create_setup (sg_identityId grant) (sg_id grant) sessionHash expiresAt now db1) (\<lambda>db2.
          res_bind (or_else NotFound (identity_by_id (sg_identityId grant) db2)) (\<lambda>identity.
          Inr (Some (sg_identityId grant, sg_purpose grant),
            writeSecurityEvent
              (eventAudit (Some audit)
                 (event_of (Some (purpose_name (sg_purpose grant))) (li_orgId identity)
                    (sg_identityId grant) (li_employeeId identity)
                    (base_event setup_grant_consumed Succeeded now))) db2))))"

definition exchangePasswordSetupGrant ::
  "string \<Rightarrow> string \<Rightarrow> time_ms \<Rightarrow> time_ms \<Rightarrow> AuthRequestAudit \<Rightarrow> auth_db
     \<Rightarrow> (row_id \<times> SetupPurpose) option tx" where
  "exchangePasswordSetupGrant grantTokenHash sessionHash expiresAt now audit db =
     (case find (\<lambda>g. sg_tokenHash g = grantTokenHash) (db_grants db) of
        None \<Rightarrow> Inr (None, db)
      | Some grant \<Rightarrow> exchange_with grant sessionHash expiresAt now audit db)"

record PasswordSetupAccount =
  pa_displayName :: string
  pa_email :: string
  pa_organizationName :: string
  pa_role :: EmployeeRole

definition findPasswordSetupAccount ::
  "string \<Rightarrow> time_ms \<Rightarrow> auth_db \<Rightarrow> auth_error + PasswordSetupAccount option" where
  "findPasswordSetupAccount sessionHash now db =
     (case find (\<lambda>s. ss_sessionHash s = sessionHash \<and> ss_consumedAt s = None \<and>
                     ss_revokedAt s = None \<and> now < ss_expiresAt s) (db_setups db) of
        None \<Rightarrow> Inr None
      | Some s \<Rightarrow>
          res_bind (or_else MissingRelation (identity_by_id (ss_identityId s) db)) (\<lambda>i.
          res_bind (or_else MissingRelation (employee_by_id (li_employeeId i) db)) (\<lambda>e.
          res_bind (or_else MissingRelation (map_of (db_organizations db) (em_orgId e))) (\<lambda>orgName.
          Inr (Some \<lparr>pa_displayName = em_displayName e, pa_email = li_normalizedEmail i,
                     pa_organizationName = orgName, pa_role = em_role e\<rparr>)))))"

fun revoke_reset_loop ::
  "identity_row \<Rightarrow> AuthRequestAudit \<Rightarrow> time_ms \<Rightarrow> row_id list \<Rightarrow> auth_db \<Rightarrow> auth_db" where
  "revoke_reset_loop identity audit now [] db = db"
| "revoke_reset_loop identity audit now (sid # sids) db =
     revoke_reset_loop identity audit now sids
       (writeSecurityEvent
          (eventAudit (Some audit)
             ((event_of (Some ''password_reset'') (li_orgId identity) (li_id identity)
                 (li_employeeId identity) (base_event session_revoked Succeeded now))
                \<lparr>ev_sessionId := Some sid\<rparr>))
          (revokeSessionFamily sid ''password_reset'' now db))"

definition set_password :: "row_id \<Rightarrow> string \<Rightarrow> auth_db \<Rightarrow> auth_db" where
  "set_password identityId passwordHash db =
     db\<lparr>db_identities :=
          update_where (\<lambda>r. li_id r = identityId)
            (\<lambda>r. r\<lparr>li_passwordHash := Some passwordHash, li_failedAttemptCount := 0,
                   li_cooldownLevel := 0, li_cooldownUntil := None\<rparr>)
            (db_identities db)\<rparr>"

definition consume_with ::
  "setup_row \<Rightarrow> grant_row \<Rightarrow> identity_row \<Rightarrow> string \<Rightarrow> time_ms \<Rightarrow> AuthRequestAudit \<Rightarrow> auth_db
     \<Rightarrow> bool tx" where
  "consume_with setup grant identity passwordHash now audit db =
     (if ss_consumedAt setup \<noteq> None \<or> ss_revokedAt setup \<noteq> None \<or> ss_expiresAt setup \<le> now
      then Inr (False, db)
      else
        let wher = (\<lambda>s. ss_id s = ss_id setup \<and> ss_consumedAt s = None \<and> ss_revokedAt s = None \<and>
                        now < ss_expiresAt s);
            db1 = db\<lparr>db_setups := update_where wher (\<lambda>s. s\<lparr>ss_consumedAt := Some now\<rparr>) (db_setups db)\<rparr> in
        if count_where wher (db_setups db) \<noteq> 1 then Inr (False, db1)
        else
          res_bind (or_else NotFound (identity_by_id (ss_identityId setup) db1)) (\<lambda>_.
          let db2 = revoke_browsers (ss_identityId setup) now
                      (set_password (ss_identityId setup) passwordHash db1);
              db3 = revoke_reset_loop identity audit now
                      (active_session_ids (ss_identityId setup) db2) db2 in
          Inr (True,
            writeSecurityEvent
              (eventAudit (Some audit)
                 (event_of (Some (purpose_name (sg_purpose grant))) (li_orgId identity)
                    (ss_identityId setup) (li_employeeId identity)
                    (base_event password_setup_completed Succeeded now))) db3)))"

definition consumePasswordSetupSession ::
  "string \<Rightarrow> string \<Rightarrow> time_ms \<Rightarrow> AuthRequestAudit \<Rightarrow> auth_db \<Rightarrow> bool tx" where
  "consumePasswordSetupSession sessionHash passwordHash now audit db =
     (case find (\<lambda>s. ss_sessionHash s = sessionHash) (db_setups db) of
        None \<Rightarrow> Inr (False, db)
      | Some setup \<Rightarrow>
          res_bind (or_else MissingRelation (find (\<lambda>g. sg_id g = ss_grantId setup) (db_grants db))) (\<lambda>grant.
          res_bind (or_else MissingRelation (identity_by_id (ss_identityId setup) db)) (\<lambda>identity.
          consume_with setup grant identity passwordHash now audit db)))"

section \<open>Device authorization\<close>

definition create_device ::
  "string \<Rightarrow> string \<Rightarrow> string \<Rightarrow> string \<Rightarrow> string \<Rightarrow> time_ms \<Rightarrow> time_ms \<Rightarrow> auth_db
     \<Rightarrow> auth_error + auth_db" where
  "create_device clientId deviceCodeHash userCodeHash instanceName instanceHostname expiresAt now db =
     (if \<exists>d\<in>set (db_devices db). da_deviceCodeHash d = deviceCodeHash \<or> da_userCodeHash d = userCodeHash
      then Inl UniqueViolation
      else Inr (db\<lparr>db_next := db_next db + 1,
             db_devices := db_devices db @
               [\<lparr>da_id = db_next db, da_clientId = clientId, da_deviceCodeHash = deviceCodeHash,
                 da_userCodeHash = userCodeHash, da_status = DevicePending,
                 da_instanceName = instanceName, da_instanceHostname = instanceHostname,
                 da_identityId = None, da_employeeId = None, da_orgId = None,
                 da_expiresAt = expiresAt, da_completedAt = None, da_redeemedAt = None,
                 da_revokedAt = None, da_createdAt = now\<rparr>]\<rparr>))"

definition createDeviceAuthorization ::
  "string \<Rightarrow> string \<Rightarrow> string \<Rightarrow> string \<Rightarrow> string \<Rightarrow> time_ms \<Rightarrow> time_ms \<Rightarrow> AuthRequestAudit
     \<Rightarrow> auth_db \<Rightarrow> auth_error + auth_db" where
  "createDeviceAuthorization deviceCodeHash userCodeHash clientId instanceName instanceHostname
       expiresAt now audit db =
     (let wher = (\<lambda>d. da_clientId d = clientId \<and> da_instanceName d = instanceName \<and>
                      da_instanceHostname d = instanceHostname \<and> da_status d = DevicePending);
          db1 = db\<lparr>db_devices :=
                     update_where wher (\<lambda>d. d\<lparr>da_status := DeviceRevoked, da_revokedAt := Some now\<rparr>)
                       (db_devices db)\<rparr>;
          db2 = (if 0 < count_where wher (db_devices db) then
                   writeSecurityEvent
                     (eventAudit (Some audit)
                        ((base_event device_authorization_revoked Succeeded now)
                           \<lparr>ev_reason := Some (''superseded:'' @ instanceName @ ''@'' @ instanceHostname)\<rparr>)) db1
                 else db1) in
      res_bind (create_device clientId deviceCodeHash userCodeHash instanceName instanceHostname
                  expiresAt now db2) (\<lambda>db3.
      Inr (writeSecurityEvent
             (eventAudit (Some audit)
                ((base_event device_authorization_issued Succeeded now)
                   \<lparr>ev_reason := Some (''instance:'' @ instanceName @ ''@'' @ instanceHostname)\<rparr>)) db3)))"

definition findDeviceAuthorizationByUserCode ::
  "string \<Rightarrow> time_ms \<Rightarrow> auth_db \<Rightarrow> (DeviceStatus \<times> string \<times> string) option" where
  "findDeviceAuthorizationByUserCode userCodeHash now db =
     (case find (\<lambda>d. da_userCodeHash d = userCodeHash) (db_devices db) of
        None \<Rightarrow> None
      | Some d \<Rightarrow>
          Some (if da_status d = DevicePending \<and> da_expiresAt d \<le> now then DeviceExpired else da_status d,
                da_instanceName d, da_instanceHostname d))"

definition complete_with ::
  "device_row \<Rightarrow> row_id \<Rightarrow> row_id \<Rightarrow> string \<Rightarrow> time_ms \<Rightarrow> AuthRequestAudit \<Rightarrow> auth_db \<Rightarrow> bool tx" where
  "complete_with d identityId employeeId orgId now audit db =
     (let wher = (\<lambda>r. da_id r = da_id d \<and> da_status r = DevicePending \<and> now < da_expiresAt r);
          db1 = db\<lparr>db_devices :=
                     update_where wher
                       (\<lambda>r. r\<lparr>da_status := DeviceCompleted, da_identityId := Some identityId,
                              da_employeeId := Some employeeId, da_orgId := Some orgId,
                              da_completedAt := Some now\<rparr>)
                       (db_devices db)\<rparr> in
      if count_where wher (db_devices db) \<noteq> 1 then Inr (False, db1)
      else
        Inr (True,
          writeSecurityEvent
            (eventAudit (Some audit)
               (event_of None orgId identityId employeeId
                  (base_event device_authorization_completed Succeeded now))) db1))"

definition completeDeviceAuthorization ::
  "string \<Rightarrow> row_id \<Rightarrow> row_id \<Rightarrow> string \<Rightarrow> time_ms \<Rightarrow> AuthRequestAudit \<Rightarrow> auth_db \<Rightarrow> bool tx" where
  "completeDeviceAuthorization userCodeHash identityId employeeId orgId now audit db =
     (case find (\<lambda>d. da_userCodeHash d = userCodeHash) (db_devices db) of
        None \<Rightarrow> Inr (False, db)
      | Some d \<Rightarrow>
          if da_status d \<noteq> DevicePending \<or> da_expiresAt d \<le> now then Inr (False, db)
          else
            res_bind (identity_refused identityId employeeId orgId db) (\<lambda>refused.
            if refused then Inr (False, db)
            else complete_with d identityId employeeId orgId now audit db))"

datatype DeviceCodeRedemption =
    Redeemed row_id row_id string
  | AuthorizationPending
  | RedemptionExpired
  | RedemptionInvalid

definition redeem_pending ::
  "device_row \<Rightarrow> time_ms \<Rightarrow> AuthRequestAudit \<Rightarrow> auth_db \<Rightarrow> DeviceCodeRedemption \<times> auth_db" where
  "redeem_pending d now audit db =
     (if da_expiresAt d \<le> now then
        let wher = (\<lambda>r. da_id r = da_id d \<and> da_status r = DevicePending);
            db1 = db\<lparr>db_devices := update_where wher (\<lambda>r. r\<lparr>da_status := DeviceExpired\<rparr>) (db_devices db)\<rparr> in
        (RedemptionExpired,
         if count_where wher (db_devices db) = 1 then
           writeSecurityEvent
             (eventAudit (Some audit)
                ((base_event device_authorization_expired Succeeded now)
                   \<lparr>ev_reason := Some ''pending_expired''\<rparr>)) db1
         else db1)
      else (AuthorizationPending, db))"

definition redeem_completed ::
  "device_row \<Rightarrow> time_ms \<Rightarrow> auth_db \<Rightarrow> DeviceCodeRedemption \<times> auth_db" where
  "redeem_completed d now db =
     (if da_expiresAt d \<le> now then (RedemptionExpired, db)
      else
        case (da_redeemedAt d, da_identityId d, da_employeeId d, da_orgId d) of
          (None, Some identityId, Some employeeId, Some orgId) \<Rightarrow>
            if orgId = [] then (RedemptionInvalid, db)
            else
              let wher = (\<lambda>r. da_id r = da_id d \<and> da_status r = DeviceCompleted \<and>
                              da_redeemedAt r = None \<and> now < da_expiresAt r);
                  db1 = db\<lparr>db_devices :=
                             update_where wher (\<lambda>r. r\<lparr>da_redeemedAt := Some now\<rparr>) (db_devices db)\<rparr> in
              if count_where wher (db_devices db) \<noteq> 1 then (RedemptionInvalid, db1)
              else (Redeemed identityId employeeId orgId, db1)
        | _ \<Rightarrow> (RedemptionInvalid, db))"

definition redeem_with ::
  "device_row \<Rightarrow> string \<Rightarrow> time_ms \<Rightarrow> AuthRequestAudit \<Rightarrow> auth_db \<Rightarrow> DeviceCodeRedemption \<times> auth_db" where
  "redeem_with d clientId now audit db =
     (if da_clientId d \<noteq> clientId then (RedemptionInvalid, db)
      else case da_status d of
        DevicePending \<Rightarrow> redeem_pending d now audit db
      | DeviceCompleted \<Rightarrow> redeem_completed d now db
      | _ \<Rightarrow> (RedemptionInvalid, db))"

definition redeemDeviceAuthorization ::
  "string \<Rightarrow> string \<Rightarrow> time_ms \<Rightarrow> AuthRequestAudit \<Rightarrow> auth_db \<Rightarrow> DeviceCodeRedemption \<times> auth_db" where
  "redeemDeviceAuthorization deviceCodeHash clientId now audit db =
     (case find (\<lambda>d. da_deviceCodeHash d = deviceCodeHash) (db_devices db) of
        None \<Rightarrow> (RedemptionInvalid, db)
      | Some d \<Rightarrow> redeem_with d clientId now audit db)"

end
