(* ===== verification/Auth_Operator.thy ===== *)
theory Auth_Operator
  imports Auth_Repository
begin

text \<open>
  The operator's side of the accounts: the password reset and the removal of synthetic test
  accounts of \<^verbatim>\<open>apps/api/src/auth/prisma-auth-operator-repository.ts\<close>, and the command line of
  \<^verbatim>\<open>operator-cli.ts\<close>. A \<open>deleteMany\<close> follows the referential actions of the schema: \<open>Cascade\<close>
  deletes the referring rows, \<open>SetNull\<close> clears the reference and \<open>Restrict\<close> fails the
  transaction. \<open>db_employee_references\<close> are the employee ids that restricting foreign keys of
  tables outside the authentication schema refer to.
\<close>

section \<open>Password reset\<close>

definition resetPassword ::
  "row_id \<Rightarrow> string \<Rightarrow> time_ms \<Rightarrow> time_ms \<Rightarrow> auth_db \<Rightarrow> (row_id \<times> row_id) option tx" where
  "resetPassword employeeId grantTokenHash grantExpiresAt now db =
     (case take 2 (filter (\<lambda>i. li_employeeId i = employeeId \<and> \<not> li_disabled i) (db_identities db)) of
        [] \<Rightarrow> Inr (None, db)
      | [identity] \<Rightarrow>
          res_bind (create_grant (li_id identity) PasswordReset grantTokenHash grantExpiresAt now
                      (revoke_grants (li_id identity) now (revoke_setups (li_id identity) now
                        (revoke_browsers (li_id identity) now db)))) (\<lambda>(_, db1).
          Inr (Some (li_employeeId identity, li_id identity),
            writeSecurityEvent
              (event_of (Some ''password_reset'') (li_orgId identity) (li_id identity)
                 (li_employeeId identity) (base_event setup_grant_issued Succeeded now)) db1))
      | _ \<Rightarrow> Inl (Thrown ''Employee has multiple active local-password Login Identities.''))"

section \<open>Removal of a test account\<close>

definition delete_sessions :: "row_id list \<Rightarrow> auth_db \<Rightarrow> auth_db" where
  "delete_sessions sids db =
     db\<lparr>db_sessions := delete_where (\<lambda>s. as_id s \<in> set sids) (db_sessions db),
        db_credentials := delete_where (\<lambda>c. dc_sessionId c \<in> set sids) (db_credentials db),
        db_tokens := delete_where (\<lambda>t. at_sessionId t \<in> set sids) (db_tokens db),
        db_events :=
          update_where (\<lambda>e. \<exists>sid\<in>set sids. ev_sessionId e = Some sid)
            (\<lambda>e. e\<lparr>ev_sessionId := None\<rparr>) (db_events db)\<rparr>"

definition delete_grants :: "row_id list \<Rightarrow> auth_db \<Rightarrow> auth_db" where
  "delete_grants identityIds db =
     (let gone = map sg_id (filter (\<lambda>g. sg_identityId g \<in> set identityIds) (db_grants db)) in
      db\<lparr>db_grants := delete_where (\<lambda>g. sg_identityId g \<in> set identityIds) (db_grants db),
         db_setups := delete_where (\<lambda>s. ss_grantId s \<in> set gone) (db_setups db)\<rparr>)"

definition delete_identities :: "row_id list \<Rightarrow> auth_db \<Rightarrow> auth_error + auth_db" where
  "delete_identities identityIds db =
     (if (\<exists>s\<in>set (db_sessions db). as_identityId s \<in> set identityIds) \<or>
         (\<exists>t\<in>set (db_tokens db). at_identityId t \<in> set identityIds)
      then Inl ForeignKeyViolation
      else
        let db1 = delete_grants identityIds db in
        Inr (db1\<lparr>
          db_identities := delete_where (\<lambda>i. li_id i \<in> set identityIds) (db_identities db1),
          db_setups := delete_where (\<lambda>s. ss_identityId s \<in> set identityIds) (db_setups db1),
          db_browsers := delete_where (\<lambda>b. bs_identityId b \<in> set identityIds) (db_browsers db1),
          db_devices :=
            update_where (\<lambda>d. \<exists>i\<in>set identityIds. da_identityId d = Some i)
              (\<lambda>d. d\<lparr>da_identityId := None\<rparr>) (db_devices db1),
          db_events :=
            update_where (\<lambda>e. \<exists>i\<in>set identityIds. ev_identityId e = Some i)
              (\<lambda>e. e\<lparr>ev_identityId := None\<rparr>) (db_events db1)\<rparr>))"

definition delete_employee :: "row_id \<Rightarrow> auth_db \<Rightarrow> auth_error + auth_db" where
  "delete_employee employeeId db =
     (if employee_by_id employeeId db = None then Inl NotFound
      else if (\<exists>i\<in>set (db_identities db). li_employeeId i = employeeId) \<or>
              (\<exists>s\<in>set (db_sessions db). as_employeeId s = employeeId) \<or>
              (\<exists>t\<in>set (db_tokens db). at_employeeId t = employeeId) \<or>
              employeeId \<in> set (db_document_uploaders db) \<or>
              employeeId \<in> set (db_employee_references db)
      then Inl ForeignKeyViolation
      else Inr (db\<lparr>
        db_employees := delete_where (\<lambda>e. em_id e = employeeId) (db_employees db),
        db_devices :=
          update_where (\<lambda>d. da_employeeId d = Some employeeId)
            (\<lambda>d. d\<lparr>da_employeeId := None\<rparr>) (db_devices db),
        db_events :=
          update_where (\<lambda>e. ev_employeeId e = Some employeeId)
            (\<lambda>e. e\<lparr>ev_employeeId := None\<rparr>) (db_events db)\<rparr>))"

definition delete_account_rows ::
  "row_id \<Rightarrow> row_id list \<Rightarrow> row_id list \<Rightarrow> auth_db \<Rightarrow> auth_db" where
  "delete_account_rows employeeId identityIds sessionIds db =
     (let db1 = db\<lparr>
            db_tokens :=
              delete_where (\<lambda>t. at_employeeId t = employeeId \<or> at_identityId t \<in> set identityIds) (db_tokens db),
            db_credentials := delete_where (\<lambda>c. dc_sessionId c \<in> set sessionIds) (db_credentials db),
            db_events :=
              delete_where
                (\<lambda>e. ev_employeeId e = Some employeeId \<or> (\<exists>i\<in>set identityIds. ev_identityId e = Some i) \<or>
                     (\<exists>sid\<in>set sessionIds. ev_sessionId e = Some sid)) (db_events db)\<rparr>;
          db2 = delete_sessions sessionIds db1;
          db3 = db2\<lparr>db_setups := delete_where (\<lambda>s. ss_identityId s \<in> set identityIds) (db_setups db2)\<rparr>;
          db4 = delete_grants identityIds db3 in
      db4\<lparr>db_audit_actors := delete_where (\<lambda>a. a = Some employeeId) (db_audit_actors db4)\<rparr>)"

definition deleteTestAccount ::
  "string \<Rightarrow> auth_db \<Rightarrow> (row_id \<times> row_id list) option tx" where
  "deleteTestAccount normalizedEmail db =
     (case find (\<lambda>i. li_normalizedEmail i = normalizedEmail) (db_identities db) of
        None \<Rightarrow> Inr (None, db)
      | Some identity \<Rightarrow>
          res_bind
            (res_guard (0 < count_where (\<lambda>u. u = li_employeeId identity) (db_document_uploaders db))
               (Thrown ''Test account still owns uploaded documents; clean test data first.'')) (\<lambda>_.
          let identityIds =
                map li_id (filter (\<lambda>i. li_employeeId i = li_employeeId identity) (db_identities db));
              sessionIds =
                map as_id (filter (\<lambda>s. as_employeeId s = li_employeeId identity) (db_sessions db)) in
          res_bind (delete_identities identityIds
                      (delete_account_rows (li_employeeId identity) identityIds sessionIds db)) (\<lambda>db1.
          res_bind (delete_employee (li_employeeId identity) db1) (\<lambda>db2.
          Inr (Some (li_employeeId identity, identityIds), db2)))))"

end
