(* ===== verification/Auth_Browser.thy ===== *)
theory Auth_Browser
  imports Auth_Repository
begin

text \<open>
  Browser sessions: the store of \<^verbatim>\<open>apps/api/src/auth/prisma-browser-session.ts\<close>
  (\<open>browser_create\<close>, \<open>browser_find\<close>, \<open>browser_revoke\<close>) and the class \<open>BrowserSessions\<close> of
  \<^verbatim>\<open>browser-session.ts\<close> over it. A session is bound to the password it was created with
  through the fingerprint of the password hash.
\<close>

section \<open>The store\<close>

definition no_password :: "string option \<Rightarrow> bool" where
  "no_password p \<longleftrightarrow> p = None \<or> p = Some []"

definition browser_refused ::
  "auth_platform \<Rightarrow> row_id \<Rightarrow> row_id \<Rightarrow> string \<Rightarrow> string \<Rightarrow> auth_db \<Rightarrow> auth_error + bool" where
  "browser_refused ap identityId employeeId orgId credentialFingerprint db =
     (case identity_by_id identityId db of
        None \<Rightarrow> Inr True
      | Some i \<Rightarrow>
          res_bind (or_else MissingRelation (employee_by_id (li_employeeId i) db)) (\<lambda>e.
          Inr (li_disabled i \<or> em_disabled e \<or> li_orgId i \<noteq> orgId \<or> em_orgId e \<noteq> orgId \<or>
               li_employeeId i \<noteq> employeeId \<or> no_password (li_passwordHash i) \<or>
               hashOpaqueSecret ap (the (li_passwordHash i)) \<noteq> credentialFingerprint)))"

definition browser_create ::
  "auth_platform \<Rightarrow> row_id \<Rightarrow> row_id \<Rightarrow> string \<Rightarrow> string \<Rightarrow> string \<Rightarrow> time_ms \<Rightarrow> time_ms
     \<Rightarrow> AuthRequestAudit \<Rightarrow> auth_db \<Rightarrow> bool tx" where
  "browser_create ap identityId employeeId orgId credentialFingerprint secretHash expiresAt now audit db =
     res_bind (browser_refused ap identityId employeeId orgId credentialFingerprint db) (\<lambda>refused.
     if refused then Inr (False, db)
     else if \<exists>b\<in>set (db_browsers db). bs_secretHash b = secretHash then Inl UniqueViolation
     else
       Inr (True,
         writeSecurityEvent
           (eventAudit (Some audit)
              (event_of (Some ''browser_sign_in'') orgId identityId employeeId
                 (base_event session_created Succeeded now)))
           (db\<lparr>db_next := db_next db + 1,
               db_browsers := db_browsers db @
                 [\<lparr>bs_id = db_next db, bs_identityId = identityId, bs_employeeId = employeeId,
                   bs_orgId = orgId, bs_secretHash = secretHash,
                   bs_credentialFingerprint = credentialFingerprint, bs_expiresAt = expiresAt,
                   bs_revokedAt = None, bs_createdAt = now\<rparr>]\<rparr>)))"

record BrowserPrincipal =
  bp_identityId :: row_id
  bp_id :: row_id
  bp_orgId :: string
  bp_organizationName :: string
  bp_displayName :: string
  bp_email :: string
  bp_role :: EmployeeRole
  bp_clearance :: int
  bp_disabled :: bool

record BrowserRecord =
  br_expiresAt :: time_ms
  br_revokedAt :: "time_ms option"
  br_credentialFingerprint :: string
  br_currentCredentialFingerprint :: string
  br_principal :: BrowserPrincipal

definition browser_record ::
  "auth_platform \<Rightarrow> browser_row \<Rightarrow> identity_row \<Rightarrow> employee_row \<Rightarrow> string \<Rightarrow> BrowserRecord option" where
  "browser_record ap row identity employee orgName =
     (if li_disabled identity \<or> em_disabled employee \<or> no_password (li_passwordHash identity) \<or>
         bs_identityId row \<noteq> li_id identity \<or> bs_employeeId row \<noteq> li_employeeId identity \<or>
         bs_orgId row \<noteq> li_orgId identity \<or> bs_orgId row \<noteq> em_orgId employee
      then None
      else Some
        \<lparr>br_expiresAt = bs_expiresAt row, br_revokedAt = bs_revokedAt row,
         br_credentialFingerprint = bs_credentialFingerprint row,
         br_currentCredentialFingerprint = hashOpaqueSecret ap (the (li_passwordHash identity)),
         br_principal =
           \<lparr>bp_identityId = bs_identityId row, bp_id = em_id employee, bp_orgId = em_orgId employee,
            bp_organizationName = orgName, bp_displayName = em_displayName employee,
            bp_email = em_email employee, bp_role = em_role employee,
            bp_clearance = em_clearance employee, bp_disabled = em_disabled employee\<rparr>\<rparr>)"

definition browser_find ::
  "auth_platform \<Rightarrow> string \<Rightarrow> auth_db \<Rightarrow> auth_error + BrowserRecord option" where
  "browser_find ap secretHash db =
     (case find (\<lambda>b. bs_secretHash b = secretHash) (db_browsers db) of
        None \<Rightarrow> Inr None
      | Some row \<Rightarrow>
          res_bind (or_else MissingRelation (identity_by_id (bs_identityId row) db)) (\<lambda>i.
          res_bind (or_else MissingRelation (employee_by_id (li_employeeId i) db)) (\<lambda>e.
          res_bind (or_else MissingRelation (map_of (db_organizations db) (em_orgId e))) (\<lambda>orgName.
          Inr (browser_record ap row i e orgName)))))"

definition browser_revoke :: "string \<Rightarrow> time_ms \<Rightarrow> auth_db \<Rightarrow> auth_db" where
  "browser_revoke secretHash now db =
     (let row = find (\<lambda>b. bs_secretHash b = secretHash) (db_browsers db);
          wher = (\<lambda>b. bs_secretHash b = secretHash \<and> bs_revokedAt b = None);
          db1 = db\<lparr>db_browsers :=
                     update_where wher (\<lambda>b. b\<lparr>bs_revokedAt := Some now\<rparr>) (db_browsers db)\<rparr> in
      case row of
        Some b \<Rightarrow>
          if count_where wher (db_browsers db) \<noteq> 0 then
            writeSecurityEvent
              (event_of (Some ''browser_logout'') (bs_orgId b) (bs_identityId b) (bs_employeeId b)
                 (base_event session_revoked Succeeded now)) db1
          else db1
      | None \<Rightarrow> db1)"

section \<open>The class \<open>BrowserSessions\<close>\<close>

definition BROWSER_SESSION_SECONDS :: int where
  "BROWSER_SESSION_SECONDS = 604800"

definition browser_secret_format :: "string \<Rightarrow> bool" where
  "browser_secret_format s \<longleftrightarrow>
     take 6 s = ''eh_bs_'' \<and> length s = 49 \<and> list_all secret_char (drop 6 s)"

definition fingerprint_format :: "string \<Rightarrow> bool" where
  "fingerprint_format s \<longleftrightarrow>
     length s = 64 \<and>
     list_all (\<lambda>c. is_digit c \<or> 97 \<le> (of_char c :: nat) \<and> (of_char c :: nat) \<le> 102) s"

definition browser_logout ::
  "auth_platform \<Rightarrow> string option \<Rightarrow> time_ms \<Rightarrow> auth_db \<Rightarrow> auth_db" where
  "browser_logout ap secret now db =
     (case secret of
        Some s \<Rightarrow> if s \<noteq> [] \<and> browser_secret_format s
                  then browser_revoke (hashOpaqueSecret ap s) now db else db
      | None \<Rightarrow> db)"

definition browser_issue ::
  "auth_platform \<Rightarrow> row_id \<Rightarrow> row_id \<Rightarrow> string \<Rightarrow> string \<Rightarrow> string option \<Rightarrow> nat list \<Rightarrow> time_ms
     \<Rightarrow> AuthRequestAudit \<Rightarrow> auth_db \<Rightarrow> string option tx" where
  "browser_issue ap identityId employeeId orgId credentialFingerprint previousSecret bytes now audit db =
     (let secret = ''eh_bs_'' @ base64url bytes in
      if \<not> fingerprint_format credentialFingerprint then Inr (None, db)
      else
        res_bind (browser_create ap identityId employeeId orgId credentialFingerprint
                    (hashOpaqueSecret ap secret) (now + BROWSER_SESSION_SECONDS * 1000) now audit db)
          (\<lambda>(created, db1).
           if \<not> created then Inr (None, db1)
           else Inr (Some secret,
             if previousSecret \<noteq> None \<and> previousSecret \<noteq> Some []
             then browser_logout ap previousSecret now db1 else db1)))"

definition browser_authenticate ::
  "auth_platform \<Rightarrow> string option \<Rightarrow> time_ms \<Rightarrow> auth_db \<Rightarrow> auth_error + BrowserPrincipal option" where
  "browser_authenticate ap secret now db =
     (case secret of
        None \<Rightarrow> Inr None
      | Some s \<Rightarrow>
          if s = [] \<or> \<not> browser_secret_format s then Inr None
          else
            res_bind (browser_find ap (hashOpaqueSecret ap s) db) (\<lambda>found.
            case found of
              None \<Rightarrow> Inr None
            | Some rec \<Rightarrow>
                if br_revokedAt rec \<noteq> None \<or> br_expiresAt rec \<le> now \<or> bp_disabled (br_principal rec) \<or>
                   br_credentialFingerprint rec \<noteq> br_currentCredentialFingerprint rec
                then Inr None
                else Inr (Some (br_principal rec))))"

section \<open>Properties of the store\<close>

lemma issued_secret_format:
  assumes "length bytes = 32"
  shows "browser_secret_format (''eh_bs_'' @ base64url bytes)"
  using assms base64url_chars [of bytes] base64url_length [of bytes]
  by (simp add: browser_secret_format_def)

lemma browser_authenticate_Some:
  assumes "browser_authenticate ap (Some s) now db = Inr (Some p)"
  shows "\<exists>row i e. find (\<lambda>b. bs_secretHash b = hashOpaqueSecret ap s) (db_browsers db) = Some row \<and>
           identity_by_id (bs_identityId row) db = Some i \<and>
           employee_by_id (li_employeeId i) db = Some e \<and>
           bs_revokedAt row = None \<and> now < bs_expiresAt row \<and>
           \<not> li_disabled i \<and> \<not> em_disabled e \<and> \<not> no_password (li_passwordHash i) \<and>
           bs_credentialFingerprint row = hashOpaqueSecret ap (the (li_passwordHash i)) \<and>
           bp_identityId p = bs_identityId row \<and> bp_orgId p = bs_orgId row"
  using assms
  by (auto simp: browser_authenticate_def browser_find_def browser_record_def res_simps
      split: if_split_asm option.split_asm)

end
