(* ===== verification/Auth_Core.thy ===== *)
theory Auth_Core
  imports Auth_Browser
begin

text \<open>
  The class \<open>AuthCore\<close> of \<^verbatim>\<open>apps/api/src/auth/auth-core.ts\<close> over the repository: every secret is
  generated and hashed here, and every expiry is the current time plus a lifetime. The random
  bytes of a call and the clock are arguments.
\<close>

definition DUMMY_PASSWORD_HASH :: "auth_platform \<Rightarrow> string" where
  "DUMMY_PASSWORD_HASH ap = hashPassword ap ''dummy verification password 4e385b6e''"

definition hashAcceptedPassword :: "auth_platform \<Rightarrow> string \<Rightarrow> auth_error + string" where
  "hashAcceptedPassword ap password =
     (case validatePassword password of
        PasswordValid \<Rightarrow> Inr (hashPassword ap password)
      | PasswordLength \<Rightarrow> Inl (Thrown ''password_length'')
      | CommonPassword \<Rightarrow> Inl (Thrown ''common_password''))"

datatype LoginResult =
    InvalidCredentials
  | LoginOk row_id row_id string string

definition cooling :: "LoginIdentityRecord \<Rightarrow> time_ms \<Rightarrow> bool" where
  "cooling identity now \<longleftrightarrow> (case lr_cooldownUntil identity of None \<Rightarrow> False | Some u \<Rightarrow> now < u)"

definition login_event ::
  "AuthSecurityEventType \<Rightarrow> EventOutcome \<Rightarrow> string option \<Rightarrow> LoginIdentityRecord \<Rightarrow> AuthRequestAudit
     \<Rightarrow> time_ms \<Rightarrow> SecurityEvent" where
  "login_event t out reason identity audit now =
     eventAudit (Some audit)
       (event_of reason (lr_orgId identity) (lr_id identity) (lr_employeeId identity)
          (base_event t out now))"

definition login_denied ::
  "LoginIdentityRecord \<Rightarrow> AuthRequestAudit \<Rightarrow> time_ms \<Rightarrow> auth_db \<Rightarrow> LoginResult \<times> auth_db" where
  "login_denied identity audit now db =
     (InvalidCredentials,
      writeSecurityEvent
        (login_event password_login_failed Denied
           (Some (if cooling identity now then ''cooldown_active'' else ''identity_or_employee_disabled''))
           identity audit now) db)"

definition login_wrong_password ::
  "LoginIdentityRecord \<Rightarrow> AuthRequestAudit \<Rightarrow> time_ms \<Rightarrow> auth_db \<Rightarrow> LoginResult \<times> auth_db" where
  "login_wrong_password identity audit now db =
     (let (cooldownUntil, db1) = recordLoginFailure (lr_id identity) now db;
          db2 = writeSecurityEvent
                  (login_event password_login_failed Failed (Some ''invalid_credentials'') identity audit now) db1 in
      (InvalidCredentials,
       if cooldownUntil \<noteq> None then
         writeSecurityEvent
           (login_event password_cooldown_entered Denied (Some ''progressive_cooldown'') identity audit now) db2
       else db2))"

definition verifyLogin ::
  "auth_platform \<Rightarrow> string \<Rightarrow> string \<Rightarrow> AuthRequestAudit \<Rightarrow> time_ms \<Rightarrow> auth_db \<Rightarrow> LoginResult tx" where
  "verifyLogin ap email password audit now db =
     res_bind (findLoginIdentityByEmail (normalizeLoginEmail email) db) (\<lambda>found.
     case found of
       None \<Rightarrow>
         Inr (InvalidCredentials,
           writeSecurityEvent
             (eventAudit (Some audit)
                ((base_event password_login_failed Failed now)\<lparr>ev_reason := Some ''invalid_credentials''\<rparr>)) db)
     | Some identity \<Rightarrow>
         if lr_disabled identity \<or> lr_employeeDisabled identity \<or>
            no_password (lr_passwordHash identity) \<or> cooling identity now
         then Inr (login_denied identity audit now db)
         else if \<not> verifyPassword ap password (the (lr_passwordHash identity))
         then Inr (login_wrong_password identity audit now db)
         else
           Inr (LoginOk (lr_id identity) (lr_employeeId identity) (lr_orgId identity)
                  (hashOpaqueSecret ap (the (lr_passwordHash identity))),
                writeSecurityEvent
                  (login_event password_login_succeeded Succeeded None identity audit now)
                  (resetLoginFailures (lr_id identity) db)))"

section \<open>Secrets and sessions\<close>

definition issuePasswordSetupGrant ::
  "auth_platform \<Rightarrow> row_id \<Rightarrow> SetupPurpose \<Rightarrow> nat list \<Rightarrow> time_ms \<Rightarrow> auth_db
     \<Rightarrow> (row_id \<times> string \<times> time_ms) tx" where
  "issuePasswordSetupGrant ap identityId purpose bytes now db =
     (let expiresAt = now + passwordSetupGrant AUTH_LIFETIMES_MS;
          secret = generateOpaqueSecret ''eh_ps_'' bytes in
      res_bind (replacePasswordSetupGrant identityId purpose (hashOpaqueSecret ap secret) expiresAt now db)
        (\<lambda>(grantId, db1). Inr ((grantId, secret, expiresAt), db1)))"

definition core_exchangePasswordSetupGrant ::
  "auth_platform \<Rightarrow> string \<Rightarrow> nat list \<Rightarrow> AuthRequestAudit \<Rightarrow> time_ms \<Rightarrow> auth_db
     \<Rightarrow> (row_id \<times> SetupPurpose \<times> string \<times> time_ms) option tx" where
  "core_exchangePasswordSetupGrant ap grantSecret bytes audit now db =
     (let sessionSecret = generateOpaqueSecret ''eh_ps_'' bytes;
          expiresAt = now + passwordSetupSession AUTH_LIFETIMES_MS in
      res_bind (exchangePasswordSetupGrant (hashOpaqueSecret ap grantSecret)
                  (hashOpaqueSecret ap sessionSecret) expiresAt now audit db)
        (\<lambda>(result, db1).
         Inr (map_option (\<lambda>(identityId, purpose). (identityId, purpose, sessionSecret, expiresAt)) result, db1)))"

definition core_consumePasswordSetupSession ::
  "auth_platform \<Rightarrow> string \<Rightarrow> string \<Rightarrow> AuthRequestAudit \<Rightarrow> time_ms \<Rightarrow> auth_db \<Rightarrow> bool tx" where
  "core_consumePasswordSetupSession ap sessionSecret password audit now db =
     res_bind (hashAcceptedPassword ap password) (\<lambda>passwordHash.
     consumePasswordSetupSession (hashOpaqueSecret ap sessionSecret) passwordHash now audit db)"

definition core_findPasswordSetupAccount ::
  "auth_platform \<Rightarrow> string \<Rightarrow> time_ms \<Rightarrow> auth_db \<Rightarrow> auth_error + PasswordSetupAccount option" where
  "core_findPasswordSetupAccount ap sessionSecret now db =
     findPasswordSetupAccount (hashOpaqueSecret ap sessionSecret) now db"

record IssuedDevice =
  id_deviceCode :: string
  id_userCode :: string
  id_expiresAt :: time_ms
  id_intervalSeconds :: nat

definition issueDeviceAuthorization ::
  "auth_platform \<Rightarrow> string \<Rightarrow> string \<Rightarrow> string \<Rightarrow> nat list \<Rightarrow> nat list \<Rightarrow> AuthRequestAudit \<Rightarrow> time_ms
     \<Rightarrow> auth_db \<Rightarrow> IssuedDevice tx" where
  "issueDeviceAuthorization ap clientId instanceName instanceHostname deviceBytes userBytes audit now db =
     (let expiresAt = now + deviceAuthorization AUTH_LIFETIMES_MS;
          deviceCode = generateOpaqueSecret ''eh_dc_'' deviceBytes;
          userCode = generateDeviceUserCode userBytes in
      res_bind (createDeviceAuthorization (hashOpaqueSecret ap deviceCode) (hashOpaqueSecret ap userCode)
                  clientId instanceName instanceHostname expiresAt now audit db)
        (\<lambda>db1. Inr (\<lparr>id_deviceCode = deviceCode, id_userCode = userCode, id_expiresAt = expiresAt,
                      id_intervalSeconds = 5\<rparr>, db1)))"

definition core_findDeviceAuthorizationByUserCode ::
  "auth_platform \<Rightarrow> string \<Rightarrow> time_ms \<Rightarrow> auth_db \<Rightarrow> (DeviceStatus \<times> string \<times> string) option" where
  "core_findDeviceAuthorizationByUserCode ap userCode now db =
     findDeviceAuthorizationByUserCode (hashOpaqueSecret ap userCode) now db"

definition core_completeDeviceAuthorization ::
  "auth_platform \<Rightarrow> string \<Rightarrow> row_id \<Rightarrow> row_id \<Rightarrow> string \<Rightarrow> AuthRequestAudit \<Rightarrow> time_ms \<Rightarrow> auth_db
     \<Rightarrow> bool tx" where
  "core_completeDeviceAuthorization ap userCode identityId employeeId orgId audit now db =
     completeDeviceAuthorization (hashOpaqueSecret ap userCode) identityId employeeId orgId now audit db"

definition core_redeemDeviceAuthorization ::
  "auth_platform \<Rightarrow> string \<Rightarrow> string \<Rightarrow> AuthRequestAudit \<Rightarrow> time_ms \<Rightarrow> auth_db
     \<Rightarrow> DeviceCodeRedemption \<times> auth_db" where
  "core_redeemDeviceAuthorization ap deviceCode clientId audit now db =
     redeemDeviceAuthorization (hashOpaqueSecret ap deviceCode) clientId now audit db"

record IssuedSession =
  is_sessionId :: row_id
  is_durableCredential :: string
  is_accessToken :: string
  is_absoluteExpiresAt :: time_ms
  is_accessTokenExpiresAt :: time_ms

definition createSession ::
  "auth_platform \<Rightarrow> row_id \<Rightarrow> row_id \<Rightarrow> string \<Rightarrow> nat list \<Rightarrow> nat list \<Rightarrow> AuthRequestAudit option
     \<Rightarrow> time_ms \<Rightarrow> auth_db \<Rightarrow> IssuedSession tx" where
  "createSession ap identityId employeeId orgId credentialBytes tokenBytes audit now db =
     (let durableCredential = generateOpaqueSecret ''eh_rt_'' credentialBytes;
          token = generateOpaqueSecret ''eh_at_'' tokenBytes;
          absoluteExpiresAt = now + durableSession AUTH_LIFETIMES_MS;
          accessTokenExpiresAt = now + accessToken AUTH_LIFETIMES_MS in
      res_bind (createSessionBundle identityId employeeId orgId (hashOpaqueSecret ap durableCredential)
                  (hashOpaqueSecret ap token) absoluteExpiresAt accessTokenExpiresAt now audit db)
        (\<lambda>(sessionId, db1).
         Inr (\<lparr>is_sessionId = sessionId, is_durableCredential = durableCredential,
               is_accessToken = token, is_absoluteExpiresAt = absoluteExpiresAt,
               is_accessTokenExpiresAt = accessTokenExpiresAt\<rparr>, db1)))"

datatype RenewResult =
    RenewInvalid
  | RenewReplayed
  | Renewed string string time_ms

definition core_rotateDurableCredential ::
  "auth_platform \<Rightarrow> string \<Rightarrow> nat list \<Rightarrow> nat list \<Rightarrow> AuthRequestAudit \<Rightarrow> time_ms \<Rightarrow> auth_db
     \<Rightarrow> RenewResult tx" where
  "core_rotateDurableCredential ap presentedCredential credentialBytes tokenBytes audit now db =
     (let durableCredential = generateOpaqueSecret ''eh_rt_'' credentialBytes;
          token = generateOpaqueSecret ''eh_at_'' tokenBytes;
          accessTokenExpiresAt = now + accessToken AUTH_LIFETIMES_MS in
      res_bind (rotateDurableCredential (hashOpaqueSecret ap presentedCredential)
                  (hashOpaqueSecret ap durableCredential) (hashOpaqueSecret ap token)
                  accessTokenExpiresAt now audit db)
        (\<lambda>(result, db1).
         case result of
           Rotated _ _ _ _ \<Rightarrow> Inr (Renewed durableCredential token accessTokenExpiresAt, db1)
         | Replayed _ \<Rightarrow> Inr (RenewReplayed, db1)
         | RotateInvalid \<Rightarrow>
             Inr (RenewInvalid,
               writeSecurityEvent
                 (eventAudit (Some audit)
                    ((base_event renewal_failed Failed now)
                       \<lparr>ev_reason := Some ''invalid_or_expired_credential''\<rparr>)) db1)))"

record AuthenticatedEmployee =
  ae_id :: row_id
  ae_orgId :: string
  ae_organizationName :: string
  ae_displayName :: string
  ae_email :: string
  ae_role :: EmployeeRole
  ae_clearance :: int
  ae_disabled :: bool

definition core_authenticateAccessToken ::
  "auth_platform \<Rightarrow> string \<Rightarrow> AuthRequestAudit \<Rightarrow> time_ms \<Rightarrow> auth_db \<Rightarrow> AuthenticatedEmployee option tx" where
  "core_authenticateAccessToken ap token audit now db =
     res_bind (authenticateAccessToken (hashOpaqueSecret ap token) now (Some audit) db)
       (\<lambda>(rec, db1).
        case rec of
          None \<Rightarrow> Inr (None, db1)
        | Some r \<Rightarrow>
            if aa_identityDisabled r \<or> aa_employeeDisabled r then Inr (None, db1)
            else Inr (Some
              \<lparr>ae_id = aa_employeeId r, ae_orgId = aa_orgId r,
               ae_organizationName = aa_organizationName r, ae_displayName = aa_displayName r,
               ae_email = aa_email r, ae_role = aa_role r, ae_clearance = aa_clearance r,
               ae_disabled = False\<rparr>, db1))"

definition logout ::
  "auth_platform \<Rightarrow> string \<Rightarrow> AuthRequestAudit option \<Rightarrow> time_ms \<Rightarrow> auth_db \<Rightarrow> bool tx" where
  "logout ap durableCredential audit now db =
     revokeSessionByDurableCredential (hashOpaqueSecret ap durableCredential) ''logout'' now audit db"

definition core_revokeIdentitySessions :: "row_id \<Rightarrow> string \<Rightarrow> time_ms \<Rightarrow> auth_db \<Rightarrow> nat tx" where
  "core_revokeIdentitySessions identityId reason now db = revokeIdentitySessions identityId reason now db"

definition core_writeSecurityEvent :: "SecurityEvent \<Rightarrow> time_ms \<Rightarrow> auth_db \<Rightarrow> auth_db" where
  "core_writeSecurityEvent e now db = writeSecurityEvent (e\<lparr>ev_createdAt := now\<rparr>) db"

definition core_pruneSecurityEvents :: "time_ms \<Rightarrow> auth_db \<Rightarrow> nat \<times> auth_db" where
  "core_pruneSecurityEvents now db =
     pruneSecurityEvents (now - securityEventRetention AUTH_LIFETIMES_MS) db"

end
