(* ===== verification/Auth_System.thy ===== *)
theory Auth_System
  imports Auth_Operator Auth_Core
begin

text \<open>
  The authentication service as a transition system. A state is the database together with
  the transactions that have read the row they will claim and have not claimed it yet; a step
  is one read, one claim or one whole operation of the repositories, in any order.

  \<open>evolves\<close> says how the tables may change: ids are never reused, and a closed row (an ended
  session, a consumed credential, a used grant, a redeemed device code, a revoked browser
  session) is never reopened. Every step evolves the tables, and \<open>auth_inv\<close> holds in every
  reachable state.
\<close>

section \<open>How rows may change\<close>

named_theorems kept_defs \<open>what a later state of a row keeps\<close>

definition session_kept :: "session_row \<Rightarrow> session_row \<Rightarrow> bool" where
  [kept_defs]: "session_kept s s' \<longleftrightarrow>
     as_identityId s' = as_identityId s \<and> (as_status s' = SessionActive \<longrightarrow> as_status s = SessionActive)"

definition credential_kept :: "credential_row \<Rightarrow> credential_row \<Rightarrow> bool" where
  [kept_defs]: "credential_kept c c' \<longleftrightarrow>
     dc_sessionId c' = dc_sessionId c \<and> dc_generation c' = dc_generation c \<and>
     (dc_status c' = CredActive \<longrightarrow> dc_status c = CredActive)"

definition grant_kept :: "grant_row \<Rightarrow> grant_row \<Rightarrow> bool" where
  [kept_defs]: "grant_kept g g' \<longleftrightarrow> (sg_usedAt g \<noteq> None \<longrightarrow> sg_usedAt g' \<noteq> None)"

definition setup_kept :: "setup_row \<Rightarrow> setup_row \<Rightarrow> bool" where
  [kept_defs]: "setup_kept s s' \<longleftrightarrow> (ss_consumedAt s \<noteq> None \<longrightarrow> ss_consumedAt s' \<noteq> None)"

definition device_kept :: "device_row \<Rightarrow> device_row \<Rightarrow> bool" where
  [kept_defs]: "device_kept d d' \<longleftrightarrow> (da_redeemedAt d \<noteq> None \<longrightarrow> da_redeemedAt d' \<noteq> None)"

definition browser_kept :: "browser_row \<Rightarrow> browser_row \<Rightarrow> bool" where
  [kept_defs]: "browser_kept b b' \<longleftrightarrow>
     bs_identityId b' = bs_identityId b \<and> bs_secretHash b' = bs_secretHash b \<and>
     bs_credentialFingerprint b' = bs_credentialFingerprint b \<and>
     (bs_revokedAt b \<noteq> None \<longrightarrow> bs_revokedAt b' \<noteq> None)"

lemma kept_reflp [simp, intro]:
  "reflp session_kept" "reflp credential_kept" "reflp grant_kept" "reflp setup_kept"
  "reflp device_kept" "reflp browser_kept"
  by (simp_all add: reflp_def kept_defs)

lemma kept_transp [simp, intro]:
  "transp session_kept" "transp credential_kept" "transp grant_kept" "transp setup_kept"
  "transp device_kept" "transp browser_kept"
  by (auto simp: transp_def kept_defs)

definition evolves :: "auth_db \<Rightarrow> auth_db \<Rightarrow> bool" where
  "evolves db db' \<longleftrightarrow>
     db_next db \<le> db_next db' \<and>
     grows as_id session_kept (db_next db) (db_next db') (db_sessions db) (db_sessions db') \<and>
     grows dc_id credential_kept (db_next db) (db_next db') (db_credentials db) (db_credentials db') \<and>
     grows sg_id grant_kept (db_next db) (db_next db') (db_grants db) (db_grants db') \<and>
     grows ss_id setup_kept (db_next db) (db_next db') (db_setups db) (db_setups db') \<and>
     grows da_id device_kept (db_next db) (db_next db') (db_devices db) (db_devices db') \<and>
     grows bs_id browser_kept (db_next db) (db_next db') (db_browsers db) (db_browsers db')"

lemma evolves_refl [simp, intro]: "evolves db db"
  by (simp add: evolves_def grows_refl)

lemma evolves_trans [trans]:
  assumes "evolves a b" "evolves b c"
  shows "evolves a c"
  using assms unfolding evolves_def by (blast intro: grows_trans order_trans kept_transp)

lemmas evolve_rules = grows_refl grows_update grows_append grows_delete kept_reflp

lemma evolves_event [simp]: "evolves a (writeSecurityEvent e db) = evolves a db"
  by (simp add: evolves_def writeSecurityEvent_def)

lemma evolves_revoke_family: "evolves db (revokeSessionFamily sid reason now db)"
  by (auto simp: evolves_def revokeSessionFamily_def kept_defs intro!: evolve_rules)

section \<open>Every operation evolves the tables\<close>

lemma evolves_create_session: "evolves db (snd (create_session i e org ab now db))"
  by (auto simp: evolves_def create_session_def intro!: evolve_rules)

lemma evolves_create_credential: "create_credential sid h g now db = Inr db' \<Longrightarrow> evolves db db'"
  by (auto simp: evolves_def create_credential_def intro!: evolve_rules split: if_split_asm)

lemma evolves_create_token: "create_token sid i e org h ex now db = Inr db' \<Longrightarrow> evolves db db'"
  by (auto simp: evolves_def create_token_def intro!: evolve_rules split: if_split_asm)

lemma evolves_create_grant: "create_grant i p h ex now db = Inr (g, db') \<Longrightarrow> evolves db db'"
  by (auto simp: evolves_def create_grant_def intro!: evolve_rules split: if_split_asm)

lemma evolves_create_setup: "create_setup i g h ex now db = Inr db' \<Longrightarrow> evolves db db'"
  by (auto simp: evolves_def create_setup_def intro!: evolve_rules split: if_split_asm)

lemma evolves_create_device: "create_device c dh uh n hn ex now db = Inr db' \<Longrightarrow> evolves db db'"
  by (auto simp: evolves_def create_device_def intro!: evolve_rules split: if_split_asm)

lemma evolves_revoke_browsers: "evolves db (revoke_browsers i now db)"
  by (auto simp: evolves_def revoke_browsers_def kept_defs intro!: evolve_rules)

lemma evolves_revoke_setups: "evolves db (revoke_setups i now db)"
  by (auto simp: evolves_def revoke_setups_def kept_defs intro!: evolve_rules)

lemma evolves_revoke_grants: "evolves db (revoke_grants i now db)"
  by (auto simp: evolves_def revoke_grants_def kept_defs intro!: evolve_rules)

lemma evolves_set_password: "evolves db (set_password i h db)"
  by (auto simp: evolves_def set_password_def intro!: evolve_rules)

lemma evolves_credentials:
  assumes "\<And>c. w c \<Longrightarrow> dc_id (d c) = dc_id c" "\<And>c. w c \<Longrightarrow> credential_kept c (d c)"
  shows "evolves db (db\<lparr>db_credentials := update_where w d (db_credentials db)\<rparr>)"
  using assms by (auto simp: evolves_def intro!: evolve_rules)

lemma evolves_grants:
  assumes "\<And>c. w c \<Longrightarrow> sg_id (d c) = sg_id c" "\<And>c. w c \<Longrightarrow> grant_kept c (d c)"
  shows "evolves db (db\<lparr>db_grants := update_where w d (db_grants db)\<rparr>)"
  using assms by (auto simp: evolves_def intro!: evolve_rules)

lemma evolves_setups:
  assumes "\<And>c. w c \<Longrightarrow> ss_id (d c) = ss_id c" "\<And>c. w c \<Longrightarrow> setup_kept c (d c)"
  shows "evolves db (db\<lparr>db_setups := update_where w d (db_setups db)\<rparr>)"
  using assms by (auto simp: evolves_def intro!: evolve_rules)

lemma evolves_devices:
  assumes "\<And>c. w c \<Longrightarrow> da_id (d c) = da_id c" "\<And>c. w c \<Longrightarrow> device_kept c (d c)"
  shows "evolves db (db\<lparr>db_devices := update_where w d (db_devices db)\<rparr>)"
  using assms by (auto simp: evolves_def intro!: evolve_rules)

lemma evolves_browsers:
  assumes "\<And>c. w c \<Longrightarrow> bs_id (d c) = bs_id c" "\<And>c. w c \<Longrightarrow> browser_kept c (d c)"
  shows "evolves db (db\<lparr>db_browsers := update_where w d (db_browsers db)\<rparr>)"
  using assms by (auto simp: evolves_def intro!: evolve_rules)

lemma evolves_replay: "evolves db (replay_detected r s sid audit now db)"
  by (simp add: replay_detected_def evolves_revoke_family)

lemma evolves_createSessionBundle:
  assumes "createSessionBundle i e org ch th ab ex now audit db = Inr (sid, db')"
  shows "evolves db db'"
proof -
  obtain db2 db3 where
    "create_credential (fst (create_session i e org ab now db)) ch 1 now
       (snd (create_session i e org ab now db)) = Inr db2"
    "create_token (fst (create_session i e org ab now db)) i e org th ex now db2 = Inr db3"
    "evolves db3 db'"
    using assms by (auto simp: createSessionBundle_def res_simps split: prod.split_asm)
  then show ?thesis
    by (meson evolves_create_session evolves_create_credential evolves_create_token evolves_trans)
qed

lemma evolves_rotate_with:
  assumes "rotate_with c s rh th ex now audit db = Inr (r, db')"
  shows "evolves db db'"
proof -
  define db1 where "db1 = db\<lparr>db_credentials :=
      update_where (\<lambda>x. dc_id x = dc_id c \<and> dc_status x = CredActive)
        (\<lambda>x. x\<lparr>dc_status := CredConsumed, dc_consumedAt := Some now\<rparr>) (db_credentials db)\<rparr>"
  have db1: "evolves db db1"
    unfolding db1_def by (rule evolves_credentials) (auto simp: kept_defs)
  have "evolves db db' \<or> evolves db1 db' \<or>
    (\<exists>db2 db3. create_credential (dc_sessionId c) rh (dc_generation c + 1) now db1 = Inr db2 \<and>
       create_token (dc_sessionId c) (as_identityId s) (as_employeeId s) (as_orgId s) th ex now db2 = Inr db')"
    using assms unfolding rotate_with_def Let_def db1_def [symmetric]
    by (auto simp: res_simps evolves_replay evolves_revoke_family split: if_split_asm)
  then show ?thesis
    by (meson db1 evolves_create_credential evolves_create_token evolves_trans)
qed

lemma evolves_authenticate:
  assumes "authenticateAccessToken h now audit db = Inr (r, db')"
  shows "evolves db db'"
  using assms
  by (auto simp: authenticateAccessToken_def res_simps evolves_revoke_family
      split: if_split_asm option.split_asm)
     (auto simp: evolves_def intro!: evolve_rules)

lemma evolves_revoke_by_credential:
  assumes "revokeSessionByDurableCredential h reason now audit db = Inr (r, db')"
  shows "evolves db db'"
  using assms
  by (auto simp: revokeSessionByDurableCredential_def res_simps evolves_revoke_family
      split: option.split_asm)

lemma evolves_revoke_loop:
  "revoke_identity_loop reason now sids db = Inr db' \<Longrightarrow> evolves db db'"
proof (induction sids arbitrary: db)
  case (Cons sid sids)
  then obtain e where
    "revoke_identity_loop reason now sids (writeSecurityEvent e (revokeSessionFamily sid reason now db)) = Inr db'"
    by (auto simp: res_simps Let_def)
  with Cons.IH have "evolves (writeSecurityEvent e (revokeSessionFamily sid reason now db)) db'"
    by blast
  then show ?case
    using evolves_event evolves_revoke_family evolves_trans by blast
qed simp

lemma evolves_revokeIdentitySessions:
  assumes "revokeIdentitySessions i reason now db = Inr (n, db')"
  shows "evolves db db'"
  using assms evolves_revoke_loop evolves_revoke_browsers evolves_trans
  by (fastforce simp: revokeIdentitySessions_def res_simps Let_def)

lemma evolves_reset_loop: "evolves db (revoke_reset_loop i audit now sids db)"
proof (induction sids arbitrary: db)
  case (Cons sid sids)
  show ?case
    by (simp, rule evolves_trans [OF _ Cons.IH]) (simp add: evolves_revoke_family)
qed simp

lemma evolves_issue_grant:
  assumes "create_grant i p h ex now (revoke_grants i now (revoke_setups i now db)) = Inr (g, db')"
  shows "evolves db db'"
  using assms by (meson evolves_create_grant evolves_revoke_grants evolves_revoke_setups evolves_trans)

lemma evolves_replace_grant:
  assumes "replacePasswordSetupGrant i p h ex now db = Inr (g, db')"
  shows "evolves db db'"
  using assms by (auto simp: replacePasswordSetupGrant_def res_simps evolves_issue_grant)

lemma evolves_exchange_with:
  assumes "exchange_with g h ex now audit db = Inr (r, db')"
  shows "evolves db db'"
proof -
  define db1 where "db1 = db\<lparr>db_grants :=
      update_where (\<lambda>x. sg_id x = sg_id g \<and> sg_usedAt x = None \<and> sg_revokedAt x = None \<and> now < sg_expiresAt x)
        (\<lambda>x. x\<lparr>sg_usedAt := Some now\<rparr>) (db_grants db)\<rparr>"
  have db1: "evolves db db1"
    unfolding db1_def by (rule evolves_grants) (auto simp: kept_defs)
  have "db' = db \<or> db' = db1 \<or> (\<exists>e db2. create_setup (sg_identityId g) (sg_id g) h ex now db1 = Inr db2 \<and>
          db' = writeSecurityEvent e db2)"
    using assms unfolding exchange_with_def Let_def db1_def [symmetric]
    by (auto simp: res_simps split: if_split_asm)
  then show ?thesis
    using db1 evolves_trans [OF db1 evolves_create_setup] by auto
qed

lemma evolves_consume:
  assumes "consumePasswordSetupSession h ph now audit db = Inr (r, db')"
  shows "evolves db db'"
proof -
  have "\<exists>ss g i. db' = db \<or> consume_with ss g i ph now audit db = Inr (r, db')"
    using assms by (auto simp: consumePasswordSetupSession_def res_simps split: option.split_asm)
  then obtain ss g i where "db' = db \<or> consume_with ss g i ph now audit db = Inr (r, db')"
    by blast
  moreover define db1 where "db1 = db\<lparr>db_setups :=
      update_where (\<lambda>x. ss_id x = ss_id ss \<and> ss_consumedAt x = None \<and> ss_revokedAt x = None \<and> now < ss_expiresAt x)
        (\<lambda>x. x\<lparr>ss_consumedAt := Some now\<rparr>) (db_setups db)\<rparr>"
  ultimately have "db' = db \<or> db' = db1 \<or> (\<exists>sids e. db' = writeSecurityEvent e
      (revoke_reset_loop i audit now sids
        (revoke_browsers (ss_identityId ss) now (set_password (ss_identityId ss) ph db1))))"
    unfolding consume_with_def Let_def db1_def [symmetric]
    by (auto simp: res_simps split: if_split_asm)
  moreover have db1: "evolves db db1"
    unfolding db1_def by (rule evolves_setups) (auto simp: kept_defs)
  ultimately show ?thesis
    using evolves_event evolves_reset_loop evolves_revoke_browsers evolves_set_password evolves_trans
    by (metis evolves_refl)
qed

lemma evolves_createDevice:
  assumes "createDeviceAuthorization dh uh c n hn ex now audit db = Inr db'"
  shows "evolves db db'"
proof -
  define db1 where "db1 = db\<lparr>db_devices :=
      update_where (\<lambda>d. da_clientId d = c \<and> da_instanceName d = n \<and> da_instanceHostname d = hn \<and>
                        da_status d = DevicePending)
        (\<lambda>d. d\<lparr>da_status := DeviceRevoked, da_revokedAt := Some now\<rparr>) (db_devices db)\<rparr>"
  have db1: "evolves db db1"
    unfolding db1_def by (rule evolves_devices) (auto simp: kept_defs)
  have "\<exists>db2 e db3. (db2 = db1 \<or> (\<exists>e'. db2 = writeSecurityEvent e' db1)) \<and>
      create_device c dh uh n hn ex now db2 = Inr db3 \<and> db' = writeSecurityEvent e db3"
    using assms unfolding createDeviceAuthorization_def Let_def db1_def [symmetric]
    by (auto simp: res_simps split: if_split_asm)
  then show ?thesis
    using db1 evolves_create_device evolves_trans by (metis evolves_event)
qed

lemma evolves_complete_with:
  assumes "complete_with d i e org now audit db = Inr (r, db')"
  shows "evolves db db'"
  using assms
  by (auto simp: complete_with_def Let_def kept_defs intro!: evolves_devices split: if_split_asm)

lemma evolves_redeem_with: "evolves db (snd (redeem_with d c now audit db))"
  by (auto simp: redeem_with_def redeem_pending_def redeem_completed_def Let_def kept_defs
      intro!: evolves_devices split: DeviceStatus.split option.split)

lemma evolves_browser_create:
  assumes "browser_create ap i e org fp h ex now audit db = Inr (r, db')"
  shows "evolves db db'"
  using assms
  by (auto simp: browser_create_def res_simps split: if_split_asm)
     (auto simp: evolves_def intro!: evolve_rules)

lemma evolves_browser_revoke: "evolves db (browser_revoke h now db)"
  by (auto simp: browser_revoke_def Let_def kept_defs intro!: evolves_browsers split: option.split)

lemma evolves_resetPassword:
  assumes "resetPassword e h ex now db = Inr (r, db')"
  shows "evolves db db'"
  using assms
  by (auto simp: resetPassword_def res_simps split: list.split_asm
      intro: evolves_trans [OF evolves_revoke_browsers evolves_issue_grant])

lemma evolves_delete_sessions: "evolves db (delete_sessions sids db)"
  by (auto simp: evolves_def delete_sessions_def intro!: evolve_rules)

lemma evolves_delete_grants: "evolves db (delete_grants ids db)"
  by (auto simp: evolves_def delete_grants_def Let_def intro!: evolve_rules)

lemma evolves_delete_identities: "delete_identities ids db = Inr db' \<Longrightarrow> evolves db db'"
  by (rule evolves_trans [OF evolves_delete_grants [of db ids]])
     (auto simp: evolves_def delete_identities_def Let_def kept_defs intro!: evolve_rules
      split: if_split_asm)

lemma evolves_delete_employee: "delete_employee e db = Inr db' \<Longrightarrow> evolves db db'"
  by (auto simp: evolves_def delete_employee_def kept_defs intro!: evolve_rules split: if_split_asm)

lemma evolves_delete_rows: "evolves db (delete_account_rows e ids sids db)"
proof -
  define db1 where "db1 = db\<lparr>
      db_tokens := delete_where (\<lambda>t. at_employeeId t = e \<or> at_identityId t \<in> set ids) (db_tokens db),
      db_credentials := delete_where (\<lambda>c. dc_sessionId c \<in> set sids) (db_credentials db),
      db_events := delete_where
        (\<lambda>x. ev_employeeId x = Some e \<or> (\<exists>i\<in>set ids. ev_identityId x = Some i) \<or>
             (\<exists>sid\<in>set sids. ev_sessionId x = Some sid)) (db_events db)\<rparr>"
  define db3 where "db3 = (delete_sessions sids db1)\<lparr>
      db_setups := delete_where (\<lambda>s. ss_identityId s \<in> set ids) (db_setups (delete_sessions sids db1))\<rparr>"
  have "evolves db db1"
    by (auto simp: evolves_def db1_def intro!: evolve_rules)
  also have "evolves db1 (delete_sessions sids db1)"
    by (rule evolves_delete_sessions)
  also have "evolves (delete_sessions sids db1) db3"
    by (auto simp: evolves_def db3_def intro!: evolve_rules)
  also have "evolves db3 (delete_grants ids db3)"
    by (rule evolves_delete_grants)
  also have "evolves (delete_grants ids db3) (delete_account_rows e ids sids db)"
    unfolding delete_account_rows_def Let_def db1_def [symmetric] db3_def [symmetric]
    by (auto simp: evolves_def intro!: evolve_rules)
  finally show ?thesis .
qed

lemma evolves_deleteTestAccount:
  assumes "deleteTestAccount email db = Inr (r, db')"
  shows "evolves db db'"
  using assms
  by (auto simp: deleteTestAccount_def res_simps Let_def split: option.split_asm)
     (meson evolves_delete_rows evolves_delete_identities evolves_delete_employee evolves_trans)

section \<open>Steps\<close>

datatype pending =
    PRotate credential_row session_row
  | PExchange grant_row
  | PRedeem device_row
  | PComplete device_row

type_synonym auth_state = "auth_db \<times> pending list"

text \<open>
  \<open>accounts\<close> is any change of the tables the service only reads or counts in (accounts,
  organizations, documents, audit log, other tables), \<open>login_failure\<close> and \<open>login_reset\<close> included;
  other components may take ids from the counter.
\<close>

inductive auth_step :: "auth_state \<Rightarrow> auth_state \<Rightarrow> bool" where
  accounts:
    "db_next db \<le> n \<Longrightarrow>
     auth_step (db, ps)
       (db\<lparr>db_next := n, db_organizations := orgs, db_employees := emps, db_identities := ids,
           db_audit_actors := aud, db_document_uploaders := docs, db_employee_references := refs\<rparr>, ps)"
| event: "auth_step (db, ps) (writeSecurityEvent e db, ps)"
| prune: "auth_step (db, ps) (snd (pruneSecurityEvents before db), ps)"
| login_failure: "auth_step (db, ps) (snd (recordLoginFailure i now db), ps)"
| login_reset: "auth_step (db, ps) (resetLoginFailures i db, ps)"
| replace_grant:
    "replacePasswordSetupGrant i p h ex now db = Inr (g, db') \<Longrightarrow> auth_step (db, ps) (db', ps)"
| read_grant:
    "find (\<lambda>g. sg_tokenHash g = h) (db_grants db) = Some g \<Longrightarrow>
     auth_step (db, ps) (db, PExchange g # ps)"
| exchange:
    "PExchange g \<in> set ps \<Longrightarrow> exchange_with g h ex now audit db = Inr (r, db') \<Longrightarrow>
     auth_step (db, ps) (db', remove1 (PExchange g) ps)"
| consume:
    "consumePasswordSetupSession h ph now audit db = Inr (r, db') \<Longrightarrow> auth_step (db, ps) (db', ps)"
| create_device:
    "createDeviceAuthorization dh uh c n hn ex now audit db = Inr db' \<Longrightarrow> auth_step (db, ps) (db', ps)"
| read_complete:
    "find (\<lambda>d. da_userCodeHash d = h) (db_devices db) = Some d \<Longrightarrow>
     auth_step (db, ps) (db, PComplete d # ps)"
| complete:
    "PComplete d \<in> set ps \<Longrightarrow> complete_with d i e org now audit db = Inr (r, db') \<Longrightarrow>
     auth_step (db, ps) (db', remove1 (PComplete d) ps)"
| read_redeem:
    "find (\<lambda>d. da_deviceCodeHash d = h) (db_devices db) = Some d \<Longrightarrow>
     auth_step (db, ps) (db, PRedeem d # ps)"
| redeem:
    "PRedeem d \<in> set ps \<Longrightarrow> redeem_with d c now audit db = (r, db') \<Longrightarrow>
     auth_step (db, ps) (db', remove1 (PRedeem d) ps)"
| create_session:
    "createSessionBundle i e org ch th ab ex now audit db = Inr (sid, db') \<Longrightarrow>
     auth_step (db, ps) (db', ps)"
| read_credential:
    "find (\<lambda>c. dc_credentialHash c = h) (db_credentials db) = Some c \<Longrightarrow>
     session_by_id (dc_sessionId c) db = Some s \<Longrightarrow>
     auth_step (db, ps) (db, PRotate c s # ps)"
| rotate:
    "PRotate c s \<in> set ps \<Longrightarrow> rotate_with c s rh th ex now audit db = Inr (r, db') \<Longrightarrow>
     auth_step (db, ps) (db', remove1 (PRotate c s) ps)"
| authenticate:
    "authenticateAccessToken h now audit db = Inr (r, db') \<Longrightarrow> auth_step (db, ps) (db', ps)"
| revoke_credential:
    "revokeSessionByDurableCredential h reason now audit db = Inr (r, db') \<Longrightarrow>
     auth_step (db, ps) (db', ps)"
| revoke_identity:
    "revokeIdentitySessions i reason now db = Inr (n, db') \<Longrightarrow> auth_step (db, ps) (db', ps)"
| browser_in:
    "browser_create ap i e org fp h ex now audit db = Inr (r, db') \<Longrightarrow> auth_step (db, ps) (db', ps)"
| browser_out: "auth_step (db, ps) (browser_revoke h now db, ps)"
| operator_reset:
    "resetPassword e h ex now db = Inr (r, db') \<Longrightarrow> auth_step (db, ps) (db', ps)"
| operator_delete:
    "deleteTestAccount email db = Inr (r, db') \<Longrightarrow> auth_step (db, ps) (db', ps)"

lemma step_evolves:
  assumes "auth_step st st'"
  shows "evolves (fst st) (fst st')"
  using assms
proof (cases rule: auth_step.cases)
  case (redeem d ps c now audit db r db')
  then show ?thesis
    using evolves_redeem_with by (metis fst_conv snd_conv)
qed (auto simp: evolves_replace_grant evolves_exchange_with evolves_consume evolves_createDevice
    evolves_complete_with evolves_createSessionBundle evolves_rotate_with evolves_authenticate
    evolves_revoke_by_credential evolves_revokeIdentitySessions evolves_browser_create
    evolves_browser_revoke evolves_resetPassword evolves_deleteTestAccount,
    auto simp: evolves_def pruneSecurityEvents_def recordLoginFailure_def resetLoginFailures_def Let_def
    intro!: evolve_rules)

lemma reach_evolves: "auth_step\<^sup>*\<^sup>* st st' \<Longrightarrow> evolves (fst st) (fst st')"
  by (induction rule: rtranclp_induct) (auto intro: evolves_trans step_evolves)

end
