(* ===== verification/Auth_Sessions.thy ===== *)
theory Auth_Sessions
  imports Auth_System
begin

text \<open>
  The invariant of the session tables: ids and unique columns are distinct; an active
  credential and an access token that is not revoked belong to an active session; the active
  credential of a session has its highest generation. Every step keeps it, also a rotation
  that claims a credential it read in an earlier state.
\<close>

section \<open>The invariant\<close>

definition live_session :: "row_id \<Rightarrow> auth_db \<Rightarrow> bool" where
  "live_session sid db \<longleftrightarrow> (\<exists>s\<in>set (db_sessions db). as_id s = sid \<and> as_status s = SessionActive)"

definition session_keys_ok :: "auth_db \<Rightarrow> bool" where
  "session_keys_ok db \<longleftrightarrow>
     (\<forall>s\<in>set (db_sessions db). as_id s < db_next db) \<and>
     (\<forall>c\<in>set (db_credentials db). dc_id c < db_next db \<and> dc_sessionId c < db_next db) \<and>
     (\<forall>t\<in>set (db_tokens db). at_sessionId t < db_next db) \<and>
     distinct (map as_id (db_sessions db)) \<and>
     distinct (map dc_id (db_credentials db)) \<and>
     distinct (map (\<lambda>c. (dc_sessionId c, dc_generation c)) (db_credentials db))"

definition families_ok :: "auth_db \<Rightarrow> bool" where
  "families_ok db \<longleftrightarrow>
     (\<forall>c\<in>set (db_credentials db). dc_status c = CredActive \<longrightarrow> live_session (dc_sessionId c) db) \<and>
     (\<forall>t\<in>set (db_tokens db). at_revokedAt t = None \<longrightarrow> live_session (at_sessionId t) db)"

definition newest_active :: "auth_db \<Rightarrow> bool" where
  "newest_active db \<longleftrightarrow>
     (\<forall>c\<in>set (db_credentials db). \<forall>c'\<in>set (db_credentials db).
        dc_sessionId c' = dc_sessionId c \<and> dc_status c = CredActive \<longrightarrow>
        dc_generation c' \<le> dc_generation c)"

definition session_inv :: "auth_db \<Rightarrow> bool" where
  "session_inv db \<longleftrightarrow> session_keys_ok db \<and> families_ok db \<and> newest_active db"

lemmas session_inv_defs =
  session_inv_def session_keys_ok_def families_ok_def newest_active_def live_session_def

lemma one_active:
  assumes "session_inv db" "c \<in> set (db_credentials db)" "c' \<in> set (db_credentials db)"
    "dc_status c = CredActive" "dc_status c' = CredActive" "dc_sessionId c = dc_sessionId c'"
  shows "c = c'"
proof -
  have "dc_generation c = dc_generation c'"
    using assms unfolding session_inv_def newest_active_def by (metis order_antisym)
  moreover have "inj_on (\<lambda>c. (dc_sessionId c, dc_generation c)) (set (db_credentials db))"
    using assms(1) by (simp add: session_inv_def session_keys_ok_def distinct_map)
  ultimately show ?thesis
    using assms(2,3,6) by (auto dest: inj_onD)
qed

section \<open>The primitives keep it\<close>

lemma session_inv_mono:
  assumes "session_inv db" "db_next db \<le> db_next db'" "db_sessions db' = db_sessions db"
    "db_credentials db' = db_credentials db" "db_tokens db' = db_tokens db"
  shows "session_inv db'"
  using assms by (fastforce simp: session_inv_defs)

lemma session_inv_event [simp]: "session_inv (writeSecurityEvent e db) = session_inv db"
  by (simp add: session_inv_defs writeSecurityEvent_def)

lemma live_revoke_other:
  assumes "sid' \<noteq> sid" "live_session sid' db"
  shows "live_session sid' (revokeSessionFamily sid reason now db)"
proof -
  obtain s where s: "s \<in> set (db_sessions db)" "as_id s = sid'" "as_status s = SessionActive"
    using assms(2) by (auto simp: live_session_def)
  with assms(1) have "s \<in> set (db_sessions (revokeSessionFamily sid reason now db))"
    by (simp add: revokeSessionFamily_def update_where_keeps)
  with s show ?thesis
    by (auto simp: live_session_def)
qed

lemma revoked_sessions:
  "db_sessions (revokeSessionFamily sid reason now db) =
     update_where (\<lambda>s. as_id s = sid \<and> as_status s = SessionActive)
       (\<lambda>s. s\<lparr>as_status := (if reason = ''session_expired'' then SessionExpired else SessionRevoked),
              as_revokedAt := Some now, as_revocationReason := Some reason\<rparr>) (db_sessions db)"
  by (simp add: revokeSessionFamily_def)

lemma not_live_revoked: "\<not> live_session sid (revokeSessionFamily sid reason now db)"
  unfolding live_session_def revoked_sessions
  by (rule update_where_none) simp_all

lemma revoked_credentials:
  assumes "c \<in> set (db_credentials (revokeSessionFamily sid reason now db))"
  obtains c0 where "c0 \<in> set (db_credentials db)" "dc_id c = dc_id c0"
    "dc_sessionId c = dc_sessionId c0" "dc_generation c = dc_generation c0"
    "dc_status c = (if dc_sessionId c0 = sid then CredRevoked else dc_status c0)"
proof -
  obtain c0 where "c0 \<in> set (db_credentials db)"
    "c = (if dc_sessionId c0 = sid \<and> dc_status c0 \<noteq> CredRevoked
          then c0\<lparr>dc_status := CredRevoked, dc_revokedAt := Some now\<rparr> else c0)"
    using assms by (auto simp: revokeSessionFamily_def row_simps)
  then show ?thesis
    by (intro that [of c0]) simp_all
qed

lemma revoked_tokens:
  assumes "t \<in> set (db_tokens (revokeSessionFamily sid reason now db))"
  obtains t0 where "t0 \<in> set (db_tokens db)" "at_sessionId t = at_sessionId t0"
    "at_revokedAt t = None \<longleftrightarrow> at_sessionId t0 \<noteq> sid \<and> at_revokedAt t0 = None"
proof -
  obtain t0 where "t0 \<in> set (db_tokens db)"
    "t = (if at_sessionId t0 = sid \<and> at_revokedAt t0 = None then t0\<lparr>at_revokedAt := Some now\<rparr> else t0)"
    using assms by (auto simp: revokeSessionFamily_def row_simps)
  then show ?thesis
    by (intro that [of t0]) auto
qed

lemma keys_revoke: "session_keys_ok db \<Longrightarrow> session_keys_ok (revokeSessionFamily sid reason now db)"
  by (auto simp: session_keys_ok_def revokeSessionFamily_def row_simps)

lemma session_inv_revoke:
  assumes "session_inv db"
  shows "session_inv (revokeSessionFamily sid reason now db)"
proof -
  have "families_ok (revokeSessionFamily sid reason now db)"
    unfolding families_ok_def
  proof (intro conjI ballI impI)
    fix c
    assume c: "c \<in> set (db_credentials (revokeSessionFamily sid reason now db))" and a: "dc_status c = CredActive"
    from c obtain c0 where "c0 \<in> set (db_credentials db)" "dc_sessionId c = dc_sessionId c0"
      "dc_status c = (if dc_sessionId c0 = sid then CredRevoked else dc_status c0)"
      by (rule revoked_credentials)
    with a assms show "live_session (dc_sessionId c) (revokeSessionFamily sid reason now db)"
      by (auto simp: session_inv_def families_ok_def live_revoke_other split: if_split_asm)
  next
    fix t
    assume t: "t \<in> set (db_tokens (revokeSessionFamily sid reason now db))" and a: "at_revokedAt t = None"
    from t obtain t0 where "t0 \<in> set (db_tokens db)" "at_sessionId t = at_sessionId t0"
      "at_revokedAt t = None \<longleftrightarrow> at_sessionId t0 \<noteq> sid \<and> at_revokedAt t0 = None"
      by (rule revoked_tokens)
    with a assms show "live_session (at_sessionId t) (revokeSessionFamily sid reason now db)"
      by (auto simp: session_inv_def families_ok_def live_revoke_other)
  qed
  moreover have "newest_active (revokeSessionFamily sid reason now db)"
    using assms unfolding session_inv_def newest_active_def
    by (metis CredentialStatus.distinct(3) revoked_credentials)
  ultimately show ?thesis
    using assms keys_revoke by (simp add: session_inv_def)
qed

lemma session_inv_create_session:
  "session_inv db \<Longrightarrow> session_inv (snd (create_session i e org ab now db))"
  by (fastforce simp: session_inv_defs create_session_def)

lemma session_inv_create_credential:
  assumes "session_inv db" "create_credential sid h g now db = Inr db'" "live_session sid db"
    and old: "\<And>c. c \<in> set (db_credentials db) \<Longrightarrow> dc_sessionId c = sid \<Longrightarrow>
                dc_status c \<noteq> CredActive \<and> dc_generation c < g"
  shows "session_inv db'"
proof -
  define c where "c = \<lparr>dc_id = db_next db, dc_sessionId = sid, dc_credentialHash = h,
    dc_generation = g, dc_status = CredActive, dc_consumedAt = None, dc_revokedAt = None, dc_createdAt = now\<rparr>"
  have db': "db' = db\<lparr>db_next := db_next db + 1, db_credentials := db_credentials db @ [c]\<rparr>"
    using assms(2) by (auto simp: create_credential_def c_def split: if_split_asm)
  have "sid < db_next db"
    using assms(1,3) by (auto simp: session_inv_defs)
  then have "session_keys_ok db'"
    using assms(1) old by (fastforce simp: db' session_inv_def session_keys_ok_def c_def)
  moreover have "families_ok db'"
    using assms(1,3) by (auto simp: db' session_inv_def families_ok_def live_session_def c_def)
  moreover have "newest_active db'"
    using assms(1) old unfolding session_inv_def newest_active_def db'
    by (auto simp: c_def less_imp_le)
  ultimately show ?thesis
    by (simp add: session_inv_def)
qed

lemma live_create_credential:
  "create_credential sid h g now db = Inr db' \<Longrightarrow> live_session sid' db' = live_session sid' db"
  by (auto simp: create_credential_def live_session_def split: if_split_asm)

lemma session_inv_create_token:
  assumes "session_inv db" "create_token sid i e org h ex now db = Inr db'" "live_session sid db"
  shows "session_inv db'"
proof -
  have "sid < db_next db"
    using assms(1,3) by (auto simp: session_inv_defs)
  moreover have "live_session sid' db' = live_session sid' db" for sid'
    using assms(2) by (auto simp: create_token_def live_session_def split: if_split_asm)
  ultimately show ?thesis
    using assms unfolding session_inv_def session_keys_ok_def families_ok_def newest_active_def
    by (auto simp: create_token_def less_Suc_eq split: if_split_asm)
qed

lemma session_inv_tokens:
  assumes "session_inv db" "\<And>t. w t \<Longrightarrow> at_sessionId (d t) = at_sessionId t"
    "\<And>t. w t \<Longrightarrow> at_revokedAt (d t) = at_revokedAt t"
  shows "session_inv (db\<lparr>db_tokens := update_where w d (db_tokens db)\<rparr>)"
  using assms by (auto simp: session_inv_defs row_simps)

lemma session_inv_delete:
  assumes "session_inv db" "\<And>c. c \<in> set (db_credentials db) \<Longrightarrow> dc_sessionId c \<in> sids \<Longrightarrow> wc c"
    "\<And>t. t \<in> set (db_tokens db) \<Longrightarrow> at_sessionId t \<in> sids \<Longrightarrow> wt t"
    "db_next db' = db_next db" "db_sessions db' = delete_where (\<lambda>s. as_id s \<in> sids) (db_sessions db)"
    "db_credentials db' = delete_where wc (db_credentials db)"
    "db_tokens db' = delete_where wt (db_tokens db)"
  shows "session_inv db'"
proof -
  have keep: "live_session sid db \<Longrightarrow> sid \<notin> sids \<Longrightarrow> live_session sid db'" for sid
    using assms(5) by (auto simp: live_session_def row_simps)
  have "session_keys_ok db'"
    using assms(1,4-) by (auto simp: session_inv_def session_keys_ok_def row_simps distinct_map_delete)
  moreover have "families_ok db'"
    unfolding families_ok_def
  proof (intro conjI ballI impI)
    fix c
    assume "c \<in> set (db_credentials db')" "dc_status c = CredActive"
    with assms(1,2,6) show "live_session (dc_sessionId c) db'"
      by (intro keep) (auto simp: session_inv_def families_ok_def row_simps)
  next
    fix t
    assume "t \<in> set (db_tokens db')" "at_revokedAt t = None"
    with assms(1,3,7) show "live_session (at_sessionId t) db'"
      by (intro keep) (auto simp: session_inv_def families_ok_def row_simps)
  qed
  moreover have "newest_active db'"
    using assms(1,6) by (simp add: session_inv_def newest_active_def row_simps)
  ultimately show ?thesis
    by (simp add: session_inv_def)
qed

section \<open>The operations keep it\<close>

text \<open>
  A rotation claims the credential it has read. The read may be stale, but the id, the session
  and the generation of a credential never change.
\<close>

definition credential_read :: "auth_db \<Rightarrow> credential_row \<Rightarrow> bool" where
  "credential_read db c \<longleftrightarrow>
     dc_id c < db_next db \<and> dc_sessionId c < db_next db \<and>
     (\<forall>c'\<in>set (db_credentials db). dc_id c' = dc_id c \<longrightarrow>
        dc_sessionId c' = dc_sessionId c \<and> dc_generation c' = dc_generation c)"

definition claim_credential :: "credential_row \<Rightarrow> time_ms \<Rightarrow> auth_db \<Rightarrow> auth_db" where
  "claim_credential c now db =
     db\<lparr>db_credentials :=
          update_where (\<lambda>x. dc_id x = dc_id c \<and> dc_status x = CredActive)
            (\<lambda>x. x\<lparr>dc_status := CredConsumed, dc_consumedAt := Some now\<rparr>) (db_credentials db)\<rparr>"

definition claimable :: "credential_row \<Rightarrow> auth_db \<Rightarrow> bool" where
  "claimable c db \<longleftrightarrow>
     count_where (\<lambda>x. dc_id x = dc_id c \<and> dc_status x = CredActive) (db_credentials db) = 1"

lemma claimed_row:
  assumes "x \<in> set (db_credentials (claim_credential c now db))"
  obtains x0 where "x0 \<in> set (db_credentials db)" "dc_id x = dc_id x0"
    "dc_sessionId x = dc_sessionId x0" "dc_generation x = dc_generation x0"
    "dc_status x = CredActive \<longleftrightarrow> dc_status x0 = CredActive \<and> dc_id x0 \<noteq> dc_id c"
proof -
  obtain x0 where "x0 \<in> set (db_credentials db)"
    "x = (if dc_id x0 = dc_id c \<and> dc_status x0 = CredActive
          then x0\<lparr>dc_status := CredConsumed, dc_consumedAt := Some now\<rparr> else x0)"
    using assms by (auto simp: claim_credential_def mem_update_where)
  then show ?thesis
    by (intro that [of x0]) auto
qed

lemma claimable_row:
  assumes "claimable c db"
  obtains x where "x \<in> set (db_credentials db)" "dc_id x = dc_id c" "dc_status x = CredActive"
proof -
  have "\<exists>x\<in>set (db_credentials db). dc_id x = dc_id c \<and> dc_status x = CredActive"
    using assms count_where_0 [of "\<lambda>x. dc_id x = dc_id c \<and> dc_status x = CredActive" "db_credentials db"]
    by (auto simp: claimable_def)
  with that show ?thesis by blast
qed

lemma session_inv_claim:
  assumes "session_inv db"
  shows "session_inv (claim_credential c now db)"
proof -
  have live: "live_session sid (claim_credential c now db) = live_session sid db" for sid
    by (simp add: live_session_def claim_credential_def)
  have "session_keys_ok (claim_credential c now db)"
    using assms by (auto simp: session_inv_def session_keys_ok_def claim_credential_def row_simps)
  moreover have "families_ok (claim_credential c now db)"
    unfolding families_ok_def live
  proof (intro conjI ballI impI)
    fix x
    assume "x \<in> set (db_credentials (claim_credential c now db))" and a: "dc_status x = CredActive"
    from this(1) show "live_session (dc_sessionId x) db"
      by (rule claimed_row) (use a assms in \<open>auto simp: session_inv_def families_ok_def\<close>)
  next
    fix t
    assume "t \<in> set (db_tokens (claim_credential c now db))" "at_revokedAt t = None"
    with assms show "live_session (at_sessionId t) db"
      by (simp add: session_inv_def families_ok_def claim_credential_def)
  qed
  moreover have "newest_active (claim_credential c now db)"
    using assms unfolding session_inv_def newest_active_def by (metis claimed_row)
  ultimately show ?thesis
    by (simp add: session_inv_def)
qed

lemma claimed_no_active:
  assumes "session_inv db" "credential_read db c" "claimable c db"
    "x \<in> set (db_credentials (claim_credential c now db))" "dc_sessionId x = dc_sessionId c"
  shows "dc_status x \<noteq> CredActive \<and> dc_generation x < dc_generation c + 1"
proof -
  obtain y where y: "y \<in> set (db_credentials db)" "dc_id y = dc_id c" "dc_status y = CredActive"
    using assms(3) by (rule claimable_row)
  with assms(2) have ys: "dc_sessionId y = dc_sessionId c" "dc_generation y = dc_generation c"
    by (simp_all add: credential_read_def)
  obtain x0 where x0: "x0 \<in> set (db_credentials db)" "dc_sessionId x = dc_sessionId x0"
    "dc_generation x = dc_generation x0"
    "dc_status x = CredActive \<longleftrightarrow> dc_status x0 = CredActive \<and> dc_id x0 \<noteq> dc_id c"
    using assms(4) by (rule claimed_row)
  have "dc_generation x0 \<le> dc_generation y"
    using assms(1,5) x0(1,2) y(1,3) ys(1) unfolding session_inv_def newest_active_def by metis
  moreover have "dc_status x \<noteq> CredActive"
    using one_active [OF assms(1) x0(1) y(1) _ y(3)] x0 ys assms(5) y(2) by auto
  ultimately show ?thesis
    using x0(3) ys(2) by simp
qed

lemma claimable_live:
  assumes "session_inv db" "credential_read db c" "claimable c db"
  shows "live_session (dc_sessionId c) db"
  using assms(3)
  by (rule claimable_row)
     (use assms in \<open>auto simp: session_inv_def families_ok_def credential_read_def\<close>)

text \<open>The outcomes of a rotation.\<close>

lemma rotate_with_Inr:
  assumes "rotate_with c s rh th ex now audit db = Inr (r, db')"
  obtains
    (replay) reason where "r = Replayed (dc_sessionId c)"
      "dc_status c \<noteq> CredActive \<or> \<not> claimable c db"
      "db' = replay_detected reason s (dc_sessionId c) audit now db \<or>
       db' = replay_detected reason s (dc_sessionId c) audit now (claim_credential c now db)"
  | (expired) e where "r = RotateInvalid" "as_absoluteExpiresAt s \<le> now"
      "db' = writeSecurityEvent e (revokeSessionFamily (dc_sessionId c) ''session_expired'' now db)"
  | (ended) "r = RotateInvalid" "db' = db"
  | (rotated) db2 where
      "r = Rotated (dc_sessionId c) (as_identityId s) (as_employeeId s) (as_orgId s)"
      "dc_status c = CredActive" "as_status s = SessionActive" "now < as_absoluteExpiresAt s"
      "claimable c db"
      "create_credential (dc_sessionId c) rh (dc_generation c + 1) now (claim_credential c now db) = Inr db2"
      "create_token (dc_sessionId c) (as_identityId s) (as_employeeId s) (as_orgId s) th ex now db2 = Inr db'"
  using assms
  unfolding rotate_with_def Let_def claim_credential_def [symmetric] claimable_def [symmetric]
  by (simp add: res_simps not_le split: if_split_asm) (metis not_le)+

lemma session_inv_replay:
  "session_inv db \<Longrightarrow> session_inv (replay_detected reason s sid audit now db)"
  by (simp add: replay_detected_def session_inv_revoke)

lemma session_inv_rotate:
  assumes "session_inv db" "credential_read db c" "rotate_with c s rh th ex now audit db = Inr (r, db')"
  shows "session_inv db'"
  using assms(3)
proof (cases rule: rotate_with_Inr)
  case (rotated db2)
  have live: "live_session (dc_sessionId c) (claim_credential c now db)"
    using claimable_live [OF assms(1,2) rotated(5)]
    by (simp add: live_session_def claim_credential_def)
  have "session_inv db2"
    by (rule session_inv_create_credential [OF session_inv_claim [OF assms(1)] rotated(6) live])
       (rule claimed_no_active [OF assms(1,2) rotated(5)])
  with live rotated(6,7) show ?thesis
    by (meson live_create_credential session_inv_create_token)
qed (use assms(1) in \<open>auto simp: session_inv_replay session_inv_revoke session_inv_claim\<close>)

lemma createSessionBundle_Inr:
  assumes "createSessionBundle i e org ch th ab ex now audit db = Inr (sid, db')"
  obtains db1 db2 db3 ev where "create_session i e org ab now db = (sid, db1)"
    "create_credential sid ch 1 now db1 = Inr db2"
    "create_token sid i e org th ex now db2 = Inr db3" "db' = writeSecurityEvent ev db3"
  using assms by (auto simp: createSessionBundle_def res_simps split: prod.split_asm)

lemma session_inv_createSessionBundle:
  assumes "session_inv db" "createSessionBundle i e org ch th ab ex now audit db = Inr (sid, db')"
  shows "session_inv db'"
  using assms(2)
proof (rule createSessionBundle_Inr)
  fix db1 db2 db3 ev
  assume a: "create_session i e org ab now db = (sid, db1)" "create_credential sid ch 1 now db1 = Inr db2"
    "create_token sid i e org th ex now db2 = Inr db3" "db' = writeSecurityEvent ev db3"
  have "session_inv db1"
    using session_inv_create_session [OF assms(1), of i e org ab now] a(1) by simp
  moreover have live: "live_session sid db1"
    using a(1) by (auto simp: create_session_def live_session_def)
  moreover have "dc_sessionId c \<noteq> sid" if "c \<in> set (db_credentials db1)" for c
    using that assms(1) a(1) by (fastforce simp: create_session_def session_inv_def session_keys_ok_def)
  ultimately have "session_inv db2"
    using a(2) by (metis session_inv_create_credential)
  with a(2-4) live show ?thesis
    by (metis live_create_credential session_inv_create_token session_inv_event)
qed

lemma session_inv_authenticate:
  assumes "session_inv db" "authenticateAccessToken h now audit db = Inr (r, db')"
  shows "session_inv db'"
  using assms(2,1)
  by (auto simp: authenticateAccessToken_def res_simps session_inv_revoke
      split: if_split_asm option.split_asm intro!: session_inv_tokens)

lemma session_inv_revoke_by_credential:
  assumes "session_inv db" "revokeSessionByDurableCredential h reason now audit db = Inr (r, db')"
  shows "session_inv db'"
  using assms(2,1)
  by (auto simp: revokeSessionByDurableCredential_def res_simps session_inv_revoke split: option.split_asm)

lemma session_inv_revoke_loop:
  "session_inv db \<Longrightarrow> revoke_identity_loop reason now sids db = Inr db' \<Longrightarrow> session_inv db'"
proof (induction sids arbitrary: db)
  case (Cons sid sids)
  then obtain ev where
    "revoke_identity_loop reason now sids (writeSecurityEvent ev (revokeSessionFamily sid reason now db)) = Inr db'"
    by (auto simp: res_simps Let_def)
  with Cons.IH show ?case
    using Cons.prems(1) session_inv_event session_inv_revoke by blast
qed simp

lemma session_inv_reset_loop:
  "session_inv db \<Longrightarrow> session_inv (revoke_reset_loop i audit now sids db)"
  by (induction sids arbitrary: db) (simp_all add: session_inv_revoke)

lemma session_inv_revoke_browsers [simp]: "session_inv (revoke_browsers i now db) = session_inv db"
  by (simp add: session_inv_defs revoke_browsers_def)

lemma session_inv_revokeIdentitySessions:
  assumes "session_inv db" "revokeIdentitySessions i reason now db = Inr (n, db')"
  shows "session_inv db'"
  using assms session_inv_revoke_loop [of "revoke_browsers i now db"]
  by (auto simp: revokeIdentitySessions_def res_simps Let_def)

lemma consume_Inr:
  assumes "consumePasswordSetupSession h ph now audit db = Inr (r, db')"
  obtains
    (refused) "\<not> r" "db' = db"
  | (lost) w d where "\<not> r" "db' = db\<lparr>db_setups := update_where w d (db_setups db)\<rparr>"
  | (consumed) ss i db1 sids ev where r
      "ss \<in> set (db_setups db)" "ss_sessionHash ss = h" "ss_consumedAt ss = None" "ss_revokedAt ss = None"
      "now < ss_expiresAt ss" "identity_by_id (ss_identityId ss) db = Some i"
      "db1 = revoke_browsers (ss_identityId ss) now (set_password (ss_identityId ss) ph
         (db\<lparr>db_setups := update_where
            (\<lambda>s. ss_id s = ss_id ss \<and> ss_consumedAt s = None \<and> ss_revokedAt s = None \<and> now < ss_expiresAt s)
            (\<lambda>s. s\<lparr>ss_consumedAt := Some now\<rparr>) (db_setups db)\<rparr>))"
      "sids = active_session_ids (ss_identityId ss) db1"
      "db' = writeSecurityEvent ev (revoke_reset_loop i audit now sids db1)"
proof (cases "find (\<lambda>s. ss_sessionHash s = h) (db_setups db)")
  case None
  with assms refused show ?thesis
    by (simp add: consumePasswordSetupSession_def)
next
  case (Some ss)
  then have ss: "ss \<in> set (db_setups db)" "ss_sessionHash ss = h"
    by (auto dest: find_SomeD)
  obtain g i where i: "identity_by_id (ss_identityId ss) db = Some i"
    and c: "consume_with ss g i ph now audit db = Inr (r, db')"
    using assms Some by (auto simp: consumePasswordSetupSession_def res_simps)
  from c ss i show ?thesis
    unfolding consume_with_def Let_def
    by (auto simp: res_simps not_le split: if_split_asm intro: refused lost consumed)
qed

lemma session_inv_consume:
  assumes "session_inv db" "consumePasswordSetupSession h ph now audit db = Inr (r, db')"
  shows "session_inv db'"
  using assms(2)
proof (cases rule: consume_Inr)
  case lost
  then show ?thesis
    using assms(1) by (auto intro: session_inv_mono)
next
  case (consumed ss i db1 sids ev)
  have "session_inv db1"
    unfolding consumed(8) session_inv_revoke_browsers
    by (rule session_inv_mono [OF assms(1)]) (simp_all add: set_password_def)
  then show ?thesis
    unfolding consumed(10) by (simp add: session_inv_reset_loop)
qed (use assms(1) in simp)

lemma session_inv_delete_rows:
  assumes "session_inv db"
  shows "session_inv (delete_account_rows e ids sids db)"
  by (rule session_inv_delete [OF assms, where sids = "set sids"
        and wc = "\<lambda>c. dc_sessionId c \<in> set sids"
        and wt = "\<lambda>t. (at_employeeId t = e \<or> at_identityId t \<in> set ids) \<or> at_sessionId t \<in> set sids"])
     (auto simp: delete_account_rows_def delete_sessions_def delete_grants_def Let_def delete_where_def
      intro: filter_cong)

lemma session_inv_deleteTestAccount:
  assumes "session_inv db" "deleteTestAccount email db = Inr (r, db')"
  shows "session_inv db'"
proof -
  have "db' = db \<or> (\<exists>e ids sids db1. delete_identities ids (delete_account_rows e ids sids db) = Inr db1 \<and>
          delete_employee e db1 = Inr db')"
    using assms(2) by (auto simp: deleteTestAccount_def res_simps Let_def split: option.split_asm)
  then consider "db' = db" | e ids sids db1 where
    "delete_identities ids (delete_account_rows e ids sids db) = Inr db1" "delete_employee e db1 = Inr db'"
    by blast
  then show ?thesis
  proof cases
    case 2
    have "session_inv db1"
      by (rule session_inv_mono [OF session_inv_delete_rows [OF assms(1), of e ids sids]])
         (use 2(1) in \<open>auto simp: delete_identities_def delete_grants_def Let_def split: if_split_asm\<close>)
    then show ?thesis
      by (rule session_inv_mono) (use 2(2) in \<open>auto simp: delete_employee_def split: if_split_asm\<close>)
  qed (use assms(1) in simp)
qed

end
