(* ===== verification/Auth_Safety.thy ===== *)
theory Auth_Safety
  imports Auth_Sessions
begin

text \<open>
  What the authentication service guarantees in every reachable state, for every interleaving
  of its transactions: the session invariant, the finality of an ended session, and the single
  use of credentials, setup grants and device codes (interpretations of \<open>single_use\<close>).
\<close>

section \<open>The invariant of the service\<close>

definition tables_keyed :: "auth_db \<Rightarrow> bool" where
  "tables_keyed db \<longleftrightarrow>
     well_keyed as_id (db_next db) (db_sessions db) \<and>
     well_keyed dc_id (db_next db) (db_credentials db) \<and>
     well_keyed sg_id (db_next db) (db_grants db) \<and>
     well_keyed ss_id (db_next db) (db_setups db) \<and>
     well_keyed da_id (db_next db) (db_devices db) \<and>
     well_keyed bs_id (db_next db) (db_browsers db)"

lemma tables_keyed_evolves: "evolves db db' \<Longrightarrow> tables_keyed db \<Longrightarrow> tables_keyed db'"
  unfolding evolves_def tables_keyed_def by (blast intro: grows_keyed)

fun read_ok :: "auth_db \<Rightarrow> pending \<Rightarrow> bool" where
  "read_ok db (PRotate c s) \<longleftrightarrow> credential_read db c \<and> as_id s = dc_sessionId c"
| "read_ok db (PExchange g) \<longleftrightarrow> sg_id g < db_next db"
| "read_ok db (PRedeem d) \<longleftrightarrow> da_id d < db_next db"
| "read_ok db (PComplete d) \<longleftrightarrow> da_id d < db_next db"

lemma credential_read_evolves:
  assumes "evolves db db'" "credential_read db c"
  shows "credential_read db' c"
  unfolding credential_read_def
proof (intro conjI ballI impI)
  show "dc_id c < db_next db'" "dc_sessionId c < db_next db'"
    using assms by (auto simp: evolves_def credential_read_def)
  fix c'
  assume c': "c' \<in> set (db_credentials db')" and i: "dc_id c' = dc_id c"
  have g: "grows dc_id credential_kept (db_next db) (db_next db') (db_credentials db) (db_credentials db')"
    using assms(1) by (simp add: evolves_def)
  from assms(2) i have "dc_id c' < db_next db"
    by (simp add: credential_read_def)
  with g c' obtain c0 where "c0 \<in> set (db_credentials db)" "dc_id c0 = dc_id c'" "credential_kept c0 c'"
    by (rule growsD)
  with assms(2) i show "dc_sessionId c' = dc_sessionId c" "dc_generation c' = dc_generation c"
    by (simp_all add: credential_read_def credential_kept_def)
qed

lemma read_ok_evolves: "evolves db db' \<Longrightarrow> read_ok db p \<Longrightarrow> read_ok db' p"
  by (cases p) (auto simp: credential_read_evolves, auto simp: evolves_def)

definition auth_inv :: "auth_state \<Rightarrow> bool" where
  "auth_inv st \<longleftrightarrow>
     session_inv (fst st) \<and> tables_keyed (fst st) \<and> (\<forall>p\<in>set (snd st). read_ok (fst st) p)"

lemma credential_read_now:
  assumes "session_inv db" "tables_keyed db" "c \<in> set (db_credentials db)"
  shows "credential_read db c"
  using assms well_keyed_unique [of dc_id "db_next db" "db_credentials db"]
  by (auto simp: credential_read_def tables_keyed_def well_keyed_def session_inv_def session_keys_ok_def)

text \<open>The operations that do not touch the session tables.\<close>

definition same_sessions :: "auth_db \<Rightarrow> auth_db \<Rightarrow> bool" where
  "same_sessions db db' \<longleftrightarrow>
     db_next db \<le> db_next db' \<and> db_sessions db' = db_sessions db \<and>
     db_credentials db' = db_credentials db \<and> db_tokens db' = db_tokens db"

lemma same_sessions_inv: "same_sessions db db' \<Longrightarrow> session_inv db \<Longrightarrow> session_inv db'"
  by (auto simp: same_sessions_def intro: session_inv_mono)

lemma same_event [simp]: "same_sessions a (writeSecurityEvent e db) = same_sessions a db"
  by (simp add: same_sessions_def writeSecurityEvent_def)

lemma same_issue_grant:
  "create_grant i p h ex now (revoke_grants i now (revoke_setups i now db)) = Inr (g, db') \<Longrightarrow>
   same_sessions db db'"
  by (auto simp: create_grant_def revoke_grants_def revoke_setups_def same_sessions_def split: if_split_asm)

lemma same_replace_grant:
  "replacePasswordSetupGrant i p h ex now db = Inr (g, db') \<Longrightarrow> same_sessions db db'"
  by (auto simp: replacePasswordSetupGrant_def res_simps same_issue_grant)

lemma same_resetPassword:
  assumes "resetPassword e h ex now db = Inr (r, db')"
  shows "same_sessions db db'"
  using assms
  by (auto simp: resetPassword_def res_simps split: list.split_asm dest!: same_issue_grant)
     (auto simp: same_sessions_def revoke_browsers_def)

lemma same_exchange:
  assumes "exchange_with g h ex now audit db = Inr (r, db')"
  shows "same_sessions db db'"
  using assms
  by (auto simp: exchange_with_def create_setup_def Let_def res_simps same_sessions_def
      writeSecurityEvent_def split: if_split_asm)

lemma same_create_device:
  assumes "createDeviceAuthorization dh uh c n hn ex now audit db = Inr db'"
  shows "same_sessions db db'"
  using assms
  by (auto simp: createDeviceAuthorization_def create_device_def Let_def res_simps same_sessions_def
      writeSecurityEvent_def split: if_split_asm)

lemma same_complete:
  assumes "complete_with d i e org now audit db = Inr (r, db')"
  shows "same_sessions db db'"
  using assms
  by (auto simp: complete_with_def Let_def split: if_split_asm) (simp_all add: same_sessions_def)

lemma same_redeem: "same_sessions db (snd (redeem_with d c now audit db))"
  by (auto simp: redeem_with_def redeem_pending_def redeem_completed_def Let_def
      split: DeviceStatus.split option.split) (simp_all add: same_sessions_def)

lemma same_browser_create:
  assumes "browser_create ap i e org fp h ex now audit db = Inr (r, db')"
  shows "same_sessions db db'"
  using assms
  by (auto simp: browser_create_def res_simps split: if_split_asm) (simp_all add: same_sessions_def)

lemma same_browser_revoke: "same_sessions db (browser_revoke h now db)"
  by (auto simp: browser_revoke_def Let_def split: option.split) (simp_all add: same_sessions_def)

lemma same_accounts:
  "db_next db \<le> n \<Longrightarrow>
   same_sessions db (db\<lparr>db_next := n, db_organizations := orgs, db_employees := emps, db_identities := ids,
     db_audit_actors := aud, db_document_uploaders := docs, db_employee_references := refs\<rparr>)"
  "same_sessions db (snd (pruneSecurityEvents before db))"
  "same_sessions db (snd (recordLoginFailure i now db))"
  "same_sessions db (resetLoginFailures i db)"
  by (simp_all add: same_sessions_def pruneSecurityEvents_def recordLoginFailure_def
      resetLoginFailures_def Let_def)

lemmas same_rules =
  same_accounts same_replace_grant same_resetPassword same_exchange same_create_device same_complete
  same_browser_create same_browser_revoke

lemmas session_inv_same = same_rules [THEN same_sessions_inv]

lemmas session_inv_ops =
  session_inv_consume session_inv_createSessionBundle session_inv_authenticate
  session_inv_revoke_by_credential session_inv_revokeIdentitySessions session_inv_deleteTestAccount

lemma step_session_inv:
  assumes "auth_step st st'" "auth_inv st"
  shows "session_inv (fst st')"
proof -
  have inv: "session_inv (fst st)" and reads: "\<And>p. p \<in> set (snd st) \<Longrightarrow> read_ok (fst st) p"
    using assms(2) by (auto simp: auth_inv_def)
  from assms(1) show ?thesis
  proof (cases rule: auth_step.cases)
    case (rotate c s ps rh th ex now audit db r db')
    with reads [of "PRotate c s"] inv show ?thesis
      by (auto intro: session_inv_rotate)
  next
    case (redeem d ps c now audit db r db')
    with inv same_sessions_inv [OF same_redeem [of db d c now audit]] show ?thesis
      by simp
  qed (use inv in \<open>auto intro: session_inv_same session_inv_ops\<close>)
qed

lemma step_auth_inv:
  assumes "auth_step st st'" "auth_inv st"
  shows "auth_inv st'"
proof -
  have ev: "evolves (fst st) (fst st')"
    using assms(1) by (rule step_evolves)
  have keyed: "tables_keyed (fst st)" and inv: "session_inv (fst st)"
    and reads: "\<And>p. p \<in> set (snd st) \<Longrightarrow> read_ok (fst st) p"
    using assms(2) by (simp_all add: auth_inv_def)
  have "read_ok (fst st') p" if "p \<in> set (snd st')" for p
  proof (cases "p \<in> set (snd st)")
    case True
    with reads ev show ?thesis by (blast intro: read_ok_evolves)
  next
    case False
    with assms(1) that show ?thesis
    proof (cases rule: auth_step.cases)
      case (read_credential h db c s ps)
      with that False keyed inv show ?thesis
        by (auto simp: session_by_id_def dest!: find_SomeD intro!: credential_read_now)
    qed (use keyed in \<open>auto simp: tables_keyed_def well_keyed_def dest!: find_SomeD
        dest: notin_set_remove1\<close>)
  qed
  with step_session_inv [OF assms] tables_keyed_evolves [OF ev keyed] show ?thesis
    by (simp add: auth_inv_def)
qed

interpretation auth: stable auth_step auth_inv
  by unfold_locales (rule step_auth_inv)

definition auth_initial :: "auth_db \<Rightarrow> bool" where
  "auth_initial db \<longleftrightarrow>
     db_grants db = [] \<and> db_setups db = [] \<and> db_devices db = [] \<and> db_sessions db = [] \<and>
     db_credentials db = [] \<and> db_tokens db = [] \<and> db_browsers db = []"

definition auth_reachable :: "auth_state \<Rightarrow> bool" where
  "auth_reachable st \<longleftrightarrow> (\<exists>db0. auth_initial db0 \<and> auth_step\<^sup>*\<^sup>* (db0, []) st)"

lemma initial_auth_inv: "auth_initial db \<Longrightarrow> auth_inv (db, [])"
  by (simp add: auth_initial_def auth_inv_def session_inv_defs tables_keyed_def well_keyed_def)

lemma reachable_auth_inv: "auth_reachable st \<Longrightarrow> auth_inv st"
  unfolding auth_reachable_def using auth.reach_keeps initial_auth_inv by blast

section \<open>Closed rows stay closed\<close>

definition ended :: "row_id \<Rightarrow> auth_db \<Rightarrow> bool" where
  "ended sid db \<longleftrightarrow> sid < db_next db \<and> \<not> live_session sid db"

definition credential_spent :: "row_id \<Rightarrow> auth_db \<Rightarrow> bool" where
  "credential_spent cid db \<longleftrightarrow>
     cid < db_next db \<and> (\<forall>c\<in>set (db_credentials db). dc_id c = cid \<longrightarrow> dc_status c \<noteq> CredActive)"

definition grant_spent :: "row_id \<Rightarrow> auth_db \<Rightarrow> bool" where
  "grant_spent gid db \<longleftrightarrow>
     gid < db_next db \<and> (\<forall>g\<in>set (db_grants db). sg_id g = gid \<longrightarrow> sg_usedAt g \<noteq> None)"

definition device_spent :: "row_id \<Rightarrow> auth_db \<Rightarrow> bool" where
  "device_spent did db \<longleftrightarrow>
     did < db_next db \<and> (\<forall>d\<in>set (db_devices db). da_id d = did \<longrightarrow> da_redeemedAt d \<noteq> None)"

lemma ended_evolves:
  assumes "evolves db db'" "ended sid db"
  shows "ended sid db'"
proof -
  have g: "grows as_id session_kept (db_next db) (db_next db') (db_sessions db) (db_sessions db')"
    using assms(1) by (simp add: evolves_def)
  have "as_status s \<noteq> SessionActive" if s: "s \<in> set (db_sessions db')" "as_id s = sid" for s
  proof -
    from assms(2) s(2) have "as_id s < db_next db" by (simp add: ended_def)
    with g s(1) obtain s0 where "s0 \<in> set (db_sessions db)" "as_id s0 = as_id s" "session_kept s0 s"
      by (rule growsD)
    with assms(2) s(2) show ?thesis
      by (auto simp: ended_def live_session_def session_kept_def)
  qed
  with assms show ?thesis
    by (auto simp: ended_def live_session_def evolves_def)
qed

lemma credential_spent_evolves:
  assumes "evolves db db'" "credential_spent cid db"
  shows "credential_spent cid db'"
  using assms unfolding evolves_def credential_spent_def
  by (metis credential_kept_def growsD order_less_le_trans)

lemma grant_spent_evolves:
  assumes "evolves db db'" "grant_spent gid db"
  shows "grant_spent gid db'"
  using assms unfolding evolves_def grant_spent_def
  by (metis grant_kept_def growsD order_less_le_trans)

lemma device_spent_evolves:
  assumes "evolves db db'" "device_spent did db"
  shows "device_spent did db'"
  using assms unfolding evolves_def device_spent_def
  by (metis device_kept_def growsD order_less_le_trans)

interpretation ended: stable auth_step "\<lambda>st. ended sid (fst st)" for sid
  by unfold_locales (rule ended_evolves [OF step_evolves])

section \<open>Claims\<close>

text \<open>
  A claim of the row with a given id that succeeds, from a read of any age: a rotation that
  issues a new credential, an exchange that opens a setup session, a redemption that returns an
  identity.
\<close>

definition rotates :: "row_id \<Rightarrow> auth_state \<Rightarrow> auth_state \<Rightarrow> bool" where
  "rotates cid st st' \<longleftrightarrow> tables_keyed (fst st) \<and>
     (\<exists>c s rh th ex now audit sid i e org. dc_id c = cid \<and>
        rotate_with c s rh th ex now audit (fst st) = Inr (Rotated sid i e org, fst st'))"

definition exchanges :: "row_id \<Rightarrow> auth_state \<Rightarrow> auth_state \<Rightarrow> bool" where
  "exchanges gid st st' \<longleftrightarrow> tables_keyed (fst st) \<and>
     (\<exists>g h ex now audit r. sg_id g = gid \<and> exchange_with g h ex now audit (fst st) = Inr (Some r, fst st'))"

definition redeems :: "row_id \<Rightarrow> auth_state \<Rightarrow> auth_state \<Rightarrow> bool" where
  "redeems did st st' \<longleftrightarrow> tables_keyed (fst st) \<and>
     (\<exists>d c now audit i e org. da_id d = did \<and>
        redeem_with d c now audit (fst st) = (Redeemed i e org, fst st'))"

lemma claim_spends_credential:
  assumes "tables_keyed db" "claimable c db"
  shows "credential_spent (dc_id c) (claim_credential c now db)"
proof -
  have keyed: "well_keyed dc_id (db_next db) (db_credentials db)"
    using assms(1) by (simp add: tables_keyed_def)
  have "dc_id c < db_next db"
    using assms(2) keyed unfolding claimable_def by (rule claimed_row_exists) simp
  moreover have "dc_status x \<noteq> CredActive"
    if "x \<in> set (db_credentials (claim_credential c now db))" "dc_id x = dc_id c" for x
    using that by (metis claimed_row)
  ultimately show ?thesis
    by (simp add: credential_spent_def claim_credential_def)
qed

lemma rotates_spends:
  assumes "tables_keyed db" "rotate_with c s rh th ex now audit db = Inr (Rotated sid i e org, db')"
  shows "credential_spent (dc_id c) db'"
  using assms(2)
proof (cases rule: rotate_with_Inr)
  case (rotated db2)
  show ?thesis
    using rotated(6,7) claim_spends_credential [OF assms(1) rotated(5)]
    by (meson credential_spent_evolves evolves_create_credential evolves_create_token)
qed simp_all

lemma spent_credential_refused:
  assumes "credential_spent (dc_id c) db" "rotate_with c s rh th ex now audit db = Inr (r, db')"
  shows "r = Replayed (dc_sessionId c) \<or> r = RotateInvalid"
  using assms(2)
proof (cases rule: rotate_with_Inr)
  case (rotated db2)
  from rotated(5) assms(1) show ?thesis
    by (metis claimable_row credential_spent_def)
qed simp_all

interpretation rotation: single_use auth_step "\<lambda>st. credential_spent cid (fst st)" "rotates cid" for cid
proof unfold_locales
  show "credential_spent cid (fst t)" if "auth_step s t" "credential_spent cid (fst s)" for s t
    using that by (metis credential_spent_evolves step_evolves)
  show "credential_spent cid (fst t)" if "rotates cid s t" for s t
    using that by (auto simp: rotates_def intro: rotates_spends)
  show "\<not> rotates cid s t" if "credential_spent cid (fst s)" for s t
    using that by (auto simp: rotates_def dest: spent_credential_refused)
qed

abbreviation grant_open :: "grant_row \<Rightarrow> time_ms \<Rightarrow> grant_row \<Rightarrow> bool" where
  "grant_open g now x \<equiv>
     sg_id x = sg_id g \<and> sg_usedAt x = None \<and> sg_revokedAt x = None \<and> now < sg_expiresAt x"

lemma exchange_with_Some:
  assumes "exchange_with g h ex now audit db = Inr (Some r, db')"
  obtains db2 ev where "count_where (grant_open g now) (db_grants db) = 1"
    "create_setup (sg_identityId g) (sg_id g) h ex now
       (db\<lparr>db_grants := update_where (grant_open g now) (\<lambda>x. x\<lparr>sg_usedAt := Some now\<rparr>) (db_grants db)\<rparr>) = Inr db2"
    "db' = writeSecurityEvent ev db2" "r = (sg_identityId g, sg_purpose g)"
  using assms by (auto simp: exchange_with_def Let_def res_simps split: if_split_asm)

lemma exchange_spends:
  assumes "tables_keyed db" "exchange_with g h ex now audit db = Inr (Some r, db')"
  shows "grant_spent (sg_id g) db'"
  using assms(2)
proof (rule exchange_with_Some)
  fix db2 ev
  let ?db1 = "db\<lparr>db_grants := update_where (grant_open g now) (\<lambda>x. x\<lparr>sg_usedAt := Some now\<rparr>) (db_grants db)\<rparr>"
  assume a: "count_where (grant_open g now) (db_grants db) = 1"
    "create_setup (sg_identityId g) (sg_id g) h ex now ?db1 = Inr db2" "db' = writeSecurityEvent ev db2"
  have keyed: "well_keyed sg_id (db_next db) (db_grants db)"
    using assms(1) by (simp add: tables_keyed_def)
  have "sg_id g < db_next db"
    using a(1) keyed by (rule claimed_row_exists) simp
  moreover have "sg_usedAt x \<noteq> None"
    if "x \<in> set (update_where (grant_open g now) (\<lambda>x. x\<lparr>sg_usedAt := Some now\<rparr>) (db_grants db))"
      "sg_id x = sg_id g" for x
    by (rule claim_closes_row(1) [OF keyed a(1) _ _ that]) simp_all
  ultimately have "grant_spent (sg_id g) ?db1"
    by (simp add: grant_spent_def)
  with a(2) have "grant_spent (sg_id g) db2"
    by (meson evolves_create_setup grant_spent_evolves)
  then show ?thesis
    by (simp add: a(3) grant_spent_def writeSecurityEvent_def)
qed

lemma spent_grant_refused:
  assumes "grant_spent (sg_id g) db" "exchange_with g h ex now audit db = Inr (r, db')"
  shows "r = None"
proof (cases r)
  case (Some x)
  from assms(2) [unfolded Some] have "count_where (grant_open g now) (db_grants db) = 1"
    by (rule exchange_with_Some)
  with assms(1) show ?thesis
    using count_where_0 [of "grant_open g now" "db_grants db"] by (auto simp: grant_spent_def)
qed

interpretation exchange: single_use auth_step "\<lambda>st. grant_spent gid (fst st)" "exchanges gid" for gid
proof unfold_locales
  show "grant_spent gid (fst t)" if "auth_step s t" "grant_spent gid (fst s)" for s t
    using that by (metis grant_spent_evolves step_evolves)
  show "grant_spent gid (fst t)" if "exchanges gid s t" for s t
    using that by (auto simp: exchanges_def intro: exchange_spends)
  show "\<not> exchanges gid s t" if "grant_spent gid (fst s)" for s t
    using that by (auto simp: exchanges_def dest: spent_grant_refused)
qed

abbreviation device_open :: "device_row \<Rightarrow> time_ms \<Rightarrow> device_row \<Rightarrow> bool" where
  "device_open d now r \<equiv>
     da_id r = da_id d \<and> da_status r = DeviceCompleted \<and> da_redeemedAt r = None \<and> now < da_expiresAt r"

lemma redeem_with_Redeemed:
  assumes "redeem_with d c now audit db = (Redeemed i e org, db')"
  shows "count_where (device_open d now) (db_devices db) = 1 \<and>
    db' = db\<lparr>db_devices := update_where (device_open d now) (\<lambda>r. r\<lparr>da_redeemedAt := Some now\<rparr>) (db_devices db)\<rparr> \<and>
    da_clientId d = c \<and> da_status d = DeviceCompleted \<and> now < da_expiresAt d \<and>
    da_identityId d = Some i \<and> da_employeeId d = Some e \<and> da_orgId d = Some org"
  using assms
  by (auto simp: redeem_with_def redeem_pending_def redeem_completed_def Let_def not_le
      split: if_split_asm DeviceStatus.split_asm option.split_asm)

lemma redeem_spends:
  assumes "tables_keyed db" "redeem_with d c now audit db = (Redeemed i e org, db')"
  shows "device_spent (da_id d) db'"
proof -
  have keyed: "well_keyed da_id (db_next db) (db_devices db)"
    using assms(1) by (simp add: tables_keyed_def)
  have one: "count_where (device_open d now) (db_devices db) = 1"
    and db': "db' = db\<lparr>db_devices :=
      update_where (device_open d now) (\<lambda>r. r\<lparr>da_redeemedAt := Some now\<rparr>) (db_devices db)\<rparr>"
    using redeem_with_Redeemed [OF assms(2)] by simp_all
  have "da_id d < db_next db"
    using one keyed by (rule claimed_row_exists) simp
  moreover have "da_redeemedAt x \<noteq> None"
    if "x \<in> set (update_where (device_open d now) (\<lambda>r. r\<lparr>da_redeemedAt := Some now\<rparr>) (db_devices db))"
      "da_id x = da_id d" for x
    by (rule claim_closes_row(1) [OF keyed one _ _ that]) simp_all
  ultimately show ?thesis
    by (simp add: device_spent_def db')
qed

lemma spent_device_refused:
  assumes "device_spent (da_id d) db"
  shows "redeem_with d c now audit db \<noteq> (Redeemed i e org, db')"
proof
  assume "redeem_with d c now audit db = (Redeemed i e org, db')"
  then have "count_where (device_open d now) (db_devices db) = 1"
    by (simp add: redeem_with_Redeemed)
  with assms show False
    using count_where_0 [of "device_open d now" "db_devices db"] by (auto simp: device_spent_def)
qed

interpretation redemption: single_use auth_step "\<lambda>st. device_spent did (fst st)" "redeems did" for did
proof unfold_locales
  show "device_spent did (fst t)" if "auth_step s t" "device_spent did (fst s)" for s t
    using that by (metis device_spent_evolves step_evolves)
  show "device_spent did (fst t)" if "redeems did s t" for s t
    using that by (auto simp: redeems_def intro: redeem_spends)
  show "\<not> redeems did s t" if "device_spent did (fst s)" for s t
    using that by (auto simp: redeems_def dest: spent_device_refused)
qed

section \<open>Sessions and credentials\<close>

text \<open>
  C11: In every reachable state, whatever the interleaving of the transactions, a session has
  at most one active durable credential; that credential belongs to an active session and has
  the highest generation of its session.
\<close>

theorem one_active_credential_per_session:
  assumes "auth_reachable (db, ps)" "c \<in> set (db_credentials db)" "dc_status c = CredActive"
  shows "live_session (dc_sessionId c) db \<and>
    (\<forall>c'\<in>set (db_credentials db). dc_sessionId c' = dc_sessionId c \<longrightarrow>
       dc_generation c' \<le> dc_generation c \<and> (dc_status c' = CredActive \<longrightarrow> c' = c))"
proof -
  have inv: "session_inv db"
    using reachable_auth_inv [OF assms(1)] by (simp add: auth_inv_def)
  moreover have "c' = c" if "c' \<in> set (db_credentials db)" "dc_sessionId c' = dc_sessionId c"
    "dc_status c' = CredActive" for c'
    using one_active [OF inv that(1) assms(2) that(3) assms(3) that(2)] .
  ultimately show ?thesis
    using assms(2,3) by (auto simp: session_inv_def families_ok_def newest_active_def)
qed

text \<open>
  C1: A session that has ended (logout, replay, expiry, password reset, revocation or removal
  of its account) never comes back. In every later state none of its access tokens
  authenticates, and no rotation of one of its credentials succeeds, not even one that read the
  credential before the session ended.
\<close>

theorem ended_session_is_final:
  assumes "auth_reachable st" "ended sid (fst st)" "auth_step\<^sup>*\<^sup>* st (db, ps)"
  shows "(\<forall>t h now audit rec db'.
            find (\<lambda>t. at_tokenHash t = h) (db_tokens db) = Some t \<and> at_sessionId t = sid \<longrightarrow>
            authenticateAccessToken h now audit db \<noteq> Inr (Some rec, db')) \<and>
         (\<forall>c s rh th ex now audit sid' i e org db'.
            PRotate c s \<in> set ps \<and> dc_sessionId c = sid \<longrightarrow>
            rotate_with c s rh th ex now audit db \<noteq> Inr (Rotated sid' i e org, db'))"
proof -
  have "auth_reachable (db, ps)"
    using assms(1,3) unfolding auth_reachable_def by (meson rtranclp_trans)
  then have inv: "session_inv db" and reads: "\<And>p. p \<in> set ps \<Longrightarrow> read_ok db p"
    using reachable_auth_inv by (fastforce simp: auth_inv_def)+
  have "ended sid db"
    using ended.reach_keeps [OF assms(3,2)] by simp
  then have dead: "\<not> live_session sid db"
    by (simp add: ended_def)
  have "authenticateAccessToken h now audit db \<noteq> Inr (Some rec, db')"
    if t: "find (\<lambda>t. at_tokenHash t = h) (db_tokens db) = Some t" "at_sessionId t = sid"
    for t h now audit rec db'
  proof -
    have "at_revokedAt t \<noteq> None"
      using inv dead t find_SomeD [OF t(1)] by (auto simp: session_inv_def families_ok_def)
    with t(1) show ?thesis
      by (auto simp: authenticateAccessToken_def res_simps split: if_split_asm)
  qed
  moreover have "rotate_with c s rh th ex now audit db \<noteq> Inr (Rotated sid' i e org, db')"
    if p: "PRotate c s \<in> set ps" "dc_sessionId c = sid" for c s rh th ex now audit sid' i e org db'
  proof
    assume "rotate_with c s rh th ex now audit db = Inr (Rotated sid' i e org, db')"
    then have "claimable c db"
      by (cases rule: rotate_with_Inr) simp_all
    with inv reads [OF p(1)] p(2) dead show False
      by (auto dest: claimable_live)
  qed
  ultimately show ?thesis by blast
qed

lemma replayed_ends:
  assumes "session_inv db" "read_ok db (PRotate c s)"
    "rotate_with c s rh th ex now audit db = Inr (Replayed sid, db')"
  shows "sid = dc_sessionId c \<and> ended sid db' \<and>
    (\<forall>x\<in>set (db_credentials db'). dc_sessionId x = sid \<longrightarrow> dc_status x = CredRevoked) \<and>
    (\<forall>t\<in>set (db_tokens db'). at_sessionId t = sid \<longrightarrow> at_revokedAt t \<noteq> None)"
  using assms(3)
proof (cases rule: rotate_with_Inr)
  case (replay reason)
  then obtain db1 where db1: "db_next db1 = db_next db"
    "db' = replay_detected reason s (dc_sessionId c) audit now db1"
    using that [of db] that [of "claim_credential c now db"] by (auto simp: claim_credential_def)
  have "ended sid db'"
    using assms(2) db1 replay(1) not_live_revoked [of sid "''credential_replay''" now db1]
    by (auto simp: ended_def replay_detected_def writeSecurityEvent_def live_session_def
        revokeSessionFamily_def credential_read_def)
  moreover have "dc_status x = CredRevoked" if "x \<in> set (db_credentials db')" "dc_sessionId x = sid" for x
    using that db1 replay(1) revoked_credentials [of x "dc_sessionId c" "''credential_replay''" now db1]
    by (auto simp: replay_detected_def writeSecurityEvent_def)
  moreover have "at_revokedAt t \<noteq> None" if "t \<in> set (db_tokens db')" "at_sessionId t = sid" for t
    using that db1 replay(1) revoked_tokens [of t "dc_sessionId c" "''credential_replay''" now db1]
    by (auto simp: replay_detected_def writeSecurityEvent_def)
  ultimately show ?thesis
    using replay(1) by blast
qed simp_all

text \<open>
  C6: A durable credential is rotated at most once. When a rotation has succeeded, every
  later rotation of the same credential, from a read of any age, is refused; and when it is
  refused as a replay, the whole session family ends: the session is closed and all its
  credentials and access tokens are revoked.
\<close>

theorem reused_credential_ends_session:
  assumes "auth_reachable (db, ps)" "PRotate c s \<in> set ps"
    "rotate_with c s rh th ex now audit db = Inr (Rotated sid i e org, db1)"
    "auth_step\<^sup>*\<^sup>* (db1, remove1 (PRotate c s) ps) (db2, ps2)"
    "PRotate c' s' \<in> set ps2" "dc_id c' = dc_id c"
    "rotate_with c' s' rh' th' ex' now' audit' db2 = Inr (r, db3)"
  shows "(r = Replayed (dc_sessionId c') \<or> r = RotateInvalid) \<and>
    (r = Replayed (dc_sessionId c') \<longrightarrow>
       ended (dc_sessionId c') db3 \<and>
       (\<forall>x\<in>set (db_credentials db3). dc_sessionId x = dc_sessionId c' \<longrightarrow> dc_status x = CredRevoked) \<and>
       (\<forall>t\<in>set (db_tokens db3). at_sessionId t = dc_sessionId c' \<longrightarrow> at_revokedAt t \<noteq> None))"
proof -
  have "auth_step (db, ps) (db1, remove1 (PRotate c s) ps)"
    using assms(2,3) by (rule auth_step.rotate)
  then have later: "auth_reachable (db2, ps2)"
    using assms(1,4) unfolding auth_reachable_def
    by (meson converse_rtranclp_into_rtranclp rtranclp_trans)
  have "credential_spent (dc_id c) db1"
    using reachable_auth_inv [OF assms(1)] assms(3) by (auto simp: auth_inv_def intro: rotates_spends)
  then have "credential_spent (dc_id c') db2"
    using rotation.reach_keeps [OF assms(4), of "dc_id c"] assms(6) by simp
  then have "r = Replayed (dc_sessionId c') \<or> r = RotateInvalid"
    using assms(7) by (rule spent_credential_refused)
  moreover have "session_inv db2" "read_ok db2 (PRotate c' s')"
    using reachable_auth_inv [OF later] assms(5) by (auto simp: auth_inv_def)
  ultimately show ?thesis
    using replayed_ends [of db2 c' s' rh' th' ex' now' audit' "dc_sessionId c'" db3] assms(7) by blast
qed

lemma exchangesI:
  "tables_keyed db \<Longrightarrow> exchange_with g h ex now audit db = Inr (Some r, db') \<Longrightarrow>
   exchanges (sg_id g) (db, ps) (db', ps')"
  unfolding exchanges_def fst_conv by blast

lemma redeemsI:
  "tables_keyed db \<Longrightarrow> redeem_with d cl now audit db = (Redeemed i e org, db') \<Longrightarrow>
   redeems (da_id d) (db, ps) (db', ps')"
  unfolding redeems_def fst_conv by blast

lemma reach_keyed: "auth_step\<^sup>*\<^sup>* (db, ps) (db', ps') \<Longrightarrow> tables_keyed db \<Longrightarrow> tables_keyed db'"
  using reach_evolves tables_keyed_evolves by fastforce

text \<open>
  C19: A password setup grant opens at most one setup session: once an exchange has succeeded,
  no later exchange of the same grant succeeds, whenever it read the grant.
\<close>

theorem setup_grant_single_use:
  assumes "auth_reachable (db, ps)" "exchange_with g h ex now audit db = Inr (Some r, db1)"
    "auth_step\<^sup>*\<^sup>* (db1, ps1) (db2, ps2)" "sg_id g' = sg_id g"
  shows "exchange_with g' h' ex' now' audit' db2 \<noteq> Inr (Some r', db3)"
proof
  assume again: "exchange_with g' h' ex' now' audit' db2 = Inr (Some r', db3)"
  have k: "tables_keyed db"
    using reachable_auth_inv [OF assms(1)] by (simp add: auth_inv_def)
  then have "tables_keyed db2"
    using assms(2,3) by (meson evolves_exchange_with reach_keyed tables_keyed_evolves)
  with again assms(4) have "exchanges (sg_id g) (db2, ps2) (db3, ps2)"
    by (metis exchangesI)
  with exchange.claimed_once [OF exchangesI [OF k assms(2)] assms(3)] show False
    by blast
qed

text \<open>
  C20: A device code is redeemed at most once: once a redemption has returned an identity, no
  later redemption of the same device authorization returns one, whenever it read the row.
\<close>

theorem device_code_single_use:
  assumes "auth_reachable (db, ps)" "redeem_with d cl now audit db = (Redeemed i e org, db1)"
    "auth_step\<^sup>*\<^sup>* (db1, ps1) (db2, ps2)" "da_id d' = da_id d"
  shows "redeem_with d' cl' now' audit' db2 \<noteq> (Redeemed i' e' org', db3)"
proof
  assume again: "redeem_with d' cl' now' audit' db2 = (Redeemed i' e' org', db3)"
  have k: "tables_keyed db"
    using reachable_auth_inv [OF assms(1)] by (simp add: auth_inv_def)
  then have "tables_keyed db2"
    using assms(2,3) evolves_redeem_with [of db d cl now audit]
    by (metis reach_keyed snd_conv tables_keyed_evolves)
  with again assms(4) have "redeems (da_id d) (db2, ps2) (db3, ps2)"
    by (metis redeemsI)
  with redemption.claimed_once [OF redeemsI [OF k assms(2)] assms(3)] show False
    by blast
qed

end
