(* ===== verification/Auth_Accounts.thy ===== *)
theory Auth_Accounts
  imports Auth_Safety
begin

text \<open>
  Logins and password changes: the conditions of a successful login, the agreement of the
  \<open>UPDATE\<close> statement that counts a failure with \<open>cooldownAfterFailure\<close>, and what the
  completion of a password setup closes.
\<close>

section \<open>Login\<close>

lemma findLoginIdentity_Some:
  "findLoginIdentityByEmail email db = Inr (Some r) \<longleftrightarrow>
     (\<exists>i e. find (\<lambda>x. li_normalizedEmail x = email) (db_identities db) = Some i \<and>
        employee_by_id (li_employeeId i) db = Some e \<and>
        r = \<lparr>lr_id = li_id i, lr_orgId = li_orgId i, lr_employeeId = li_employeeId i,
             lr_passwordHash = li_passwordHash i, lr_disabled = li_disabled i,
             lr_employeeDisabled = em_disabled e, lr_failedAttemptCount = li_failedAttemptCount i,
             lr_cooldownLevel = li_cooldownLevel i, lr_cooldownUntil = li_cooldownUntil i\<rparr>)"
  by (auto simp: findLoginIdentityByEmail_def res_simps split: option.splits)

definition cooldown_over :: "identity_row \<Rightarrow> time_ms \<Rightarrow> bool" where
  "cooldown_over r now \<longleftrightarrow> (case li_cooldownUntil r of None \<Rightarrow> True | Some u \<Rightarrow> u \<le> now)"

text \<open>
  C37: A login succeeds exactly when the normalized email names an identity whose own and
  whose employee's account are enabled, which has a password, is not in its cooldown, and whose
  stored hash Argon2 accepts for the password. It then returns that identity with the
  fingerprint of the stored hash and clears its failure counters.
\<close>

theorem login_succeeds_iff:
  "verifyLogin ap email password audit now db = Inr (LoginOk i e org fp, db') \<longleftrightarrow>
     (\<exists>row emp hash.
        find (\<lambda>x. li_normalizedEmail x = normalizeLoginEmail email) (db_identities db) = Some row \<and>
        employee_by_id (li_employeeId row) db = Some emp \<and>
        \<not> li_disabled row \<and> \<not> em_disabled emp \<and>
        li_passwordHash row = Some hash \<and> hash \<noteq> [] \<and>
        cooldown_over row now \<and>
        ap_argon2_verify ap hash password = Some True \<and>
        i = li_id row \<and> e = li_employeeId row \<and> org = li_orgId row \<and>
        fp = hashOpaqueSecret ap hash \<and>
        db' = writeSecurityEvent
                (eventAudit (Some audit) (event_of None org i e (base_event password_login_succeeded Succeeded now)))
                (resetLoginFailures i db))"
proof -
  define found where "found = findLoginIdentityByEmail (normalizeLoginEmail email) db"
  consider (err) x where "found = Inl x" | (none) "found = Inr None" | (some) r where "found = Inr (Some r)"
    by (metis option.exhaust sumE)
  then show ?thesis
  proof cases
    case err
    then have "\<not> (\<exists>row emp. find (\<lambda>x. li_normalizedEmail x = normalizeLoginEmail email) (db_identities db) = Some row \<and>
        employee_by_id (li_employeeId row) db = Some emp)"
      by (auto simp: found_def findLoginIdentityByEmail_def or_else_def split: option.split_asm)
    with err show ?thesis
      by (auto simp: verifyLogin_def found_def [symmetric])
  next
    case none
    then have "find (\<lambda>x. li_normalizedEmail x = normalizeLoginEmail email) (db_identities db) = None"
      by (auto simp: found_def findLoginIdentityByEmail_def res_simps split: option.split_asm)
    with none show ?thesis
      by (simp add: verifyLogin_def found_def [symmetric])
  next
    case (some r)
    then obtain row emp where row:
      "find (\<lambda>x. li_normalizedEmail x = normalizeLoginEmail email) (db_identities db) = Some row"
      "employee_by_id (li_employeeId row) db = Some emp"
      and r: "r = \<lparr>lr_id = li_id row, lr_orgId = li_orgId row, lr_employeeId = li_employeeId row,
             lr_passwordHash = li_passwordHash row, lr_disabled = li_disabled row,
             lr_employeeDisabled = em_disabled emp, lr_failedAttemptCount = li_failedAttemptCount row,
             lr_cooldownLevel = li_cooldownLevel row, lr_cooldownUntil = li_cooldownUntil row\<rparr>"
      by (auto simp: found_def findLoginIdentity_Some)
    have v: "verifyPassword ap password hash \<longleftrightarrow> ap_argon2_verify ap hash password = Some True" for hash
      by (simp add: verifyPassword_def nfc_def split: option.split)
    have c: "cooling r now \<longleftrightarrow> \<not> cooldown_over row now"
      by (auto simp: cooling_def cooldown_over_def r split: option.split)
    show ?thesis
      unfolding verifyLogin_def found_def [symmetric] some res_bind_simps option.case c v
      by (auto simp: r row no_password_def login_denied_def login_wrong_password_def login_event_def
          Let_def split: prod.split)
  qed
qed

text \<open>
  C38: The SQL statement that records a failed login computes what \<open>cooldownAfterFailure\<close>
  computes, for every counter and level: the new counter, the new level, and a cooldown that
  ends the returned number of milliseconds from now. A row in its cooldown is left as it is.
\<close>

theorem login_failure_matches_cooldown:
  "map (\<lambda>r. (li_id r, li_failedAttemptCount r, li_cooldownLevel r, li_cooldownUntil r))
     (login_failure_update identityId now rows) =
   map (\<lambda>r. if li_id r = identityId \<and> cooldown_over r now then
              let k = cooldownAfterFailure (li_failedAttemptCount r) (li_cooldownLevel r) in
              (li_id r, cd_failedAttemptCount k, cd_cooldownLevel k,
               map_option (\<lambda>ms. now + ms) (cd_cooldownMs k))
            else (li_id r, li_failedAttemptCount r, li_cooldownLevel r, li_cooldownUntil r)) rows"
proof -
  have minutes: "cooldown_minutes (min (level + 1) 5 - 1) =
      (if min (level + 1) 5 = 1 then 5 else if min (level + 1) 5 = 2 then 10
       else if min (level + 1) 5 = 3 then 20 else if min (level + 1) 5 = 4 then 40 else 60)" for level :: int
  proof -
    consider "level < 0" | "level = 0" | "level = 1" | "level = 2" | "level = 3" | "4 \<le> level"
      by linarith
    then show ?thesis
      by cases (auto simp: cooldown_minutes_def min_def numeral_eq_Suc)
  qed
  show ?thesis
    by (auto simp: login_failure_update_def update_where_def cooldownAfterFailure_def Let_def minutes
        set_failed_attempts_def set_cooldown_level_def set_cooldown_until_def cooldown_over_def
        split: option.splits)
qed

section \<open>Completion of a password setup\<close>

lemma reset_loop_other [simp]:
  "db_browsers (revoke_reset_loop i audit now sids db) = db_browsers db"
  "db_identities (revoke_reset_loop i audit now sids db) = db_identities db"
  "db_next (revoke_reset_loop i audit now sids db) = db_next db"
  by (induction sids arbitrary: db) (simp_all add: writeSecurityEvent_def revokeSessionFamily_def)

lemma live_event [simp]: "live_session sid (writeSecurityEvent e db) = live_session sid db"
  by (simp add: live_session_def writeSecurityEvent_def)

lemma live_revoke:
  assumes "live_session sid (revokeSessionFamily sid' reason now db)"
  shows "live_session sid db \<and> sid \<noteq> sid'"
proof -
  have "sid \<noteq> sid'"
    using assms not_live_revoked by metis
  with assms show ?thesis
    unfolding live_session_def revoked_sessions mem_update_where Bex_def
    by (auto split: if_split_asm)
qed

lemma live_reset_loop:
  "live_session sid (revoke_reset_loop i audit now sids db) \<Longrightarrow> live_session sid db \<and> sid \<notin> set sids"
proof (induction sids arbitrary: db)
  case (Cons sid0 sids)
  then show ?case
    by (auto dest!: Cons.IH live_revoke)
qed simp

lemma identity_after_set_password:
  assumes "identity_by_id i db = Some r"
  shows "identity_by_id i (set_password i ph db) =
    Some (r\<lparr>li_passwordHash := Some ph, li_failedAttemptCount := 0, li_cooldownLevel := 0, li_cooldownUntil := None\<rparr>)"
  using assms find_SomeD [OF assms [unfolded identity_by_id_def]]
  by (simp add: identity_by_id_def set_password_def find_update_where)

lemma browsers_after_revoke:
  "b \<in> set (db_browsers (revoke_browsers i now db)) \<Longrightarrow> bs_identityId b = i \<Longrightarrow> bs_revokedAt b \<noteq> None"
  using update_where_none [of "db_browsers db" "\<lambda>b. bs_identityId b = i \<and> bs_revokedAt b = None"
      "\<lambda>b. bs_identityId b = i \<and> bs_revokedAt b = None" "\<lambda>b. b\<lparr>bs_revokedAt := Some now\<rparr>"]
  by (auto simp: revoke_browsers_def)

lemma reset_loop_ends_identity:
  assumes "tables_keyed db" "s \<in> set (db_sessions (revoke_reset_loop r audit now (active_session_ids i db) db))"
    "as_identityId s = i"
  shows "as_status s \<noteq> SessionActive"
proof
  assume active: "as_status s = SessionActive"
  let ?db' = "revoke_reset_loop r audit now (active_session_ids i db) db"
  have ev: "evolves db ?db'"
    by (rule evolves_reset_loop)
  have "as_id s < db_next db"
    using tables_keyed_evolves [OF ev assms(1)] assms(2) by (auto simp: tables_keyed_def well_keyed_def)
  then obtain s0 where "s0 \<in> set (db_sessions db)" "as_id s0 = as_id s" "session_kept s0 s"
    using ev assms(2) unfolding evolves_def by (metis growsD)
  then have "as_id s \<in> set (active_session_ids i db)"
    using active assms(3) unfolding active_session_ids_def session_kept_def set_map set_filter
    by (intro image_eqI [of _ _ s0]) auto
  moreover have "live_session (as_id s) ?db'"
    using assms(2) active by (auto simp: live_session_def)
  ultimately show False
    using live_reset_loop by blast
qed

text \<open>
  C18: When a password setup session is consumed, access under the old password is closed in
  the same transaction: the identity has the new password hash and no cooldown, every session
  of the identity has ended with its access tokens revoked, every browser session of the
  identity is revoked, and the setup session was open and named the identity.
\<close>

theorem password_setup_closes_access:
  assumes "auth_reachable (db, ps)" "consumePasswordSetupSession h ph now audit db = Inr (True, db')"
  shows "\<exists>ss\<in>set (db_setups db). ss_sessionHash ss = h \<and> ss_consumedAt ss = None \<and>
      ss_revokedAt ss = None \<and> now < ss_expiresAt ss \<and>
      (\<exists>row. identity_by_id (ss_identityId ss) db' = Some row \<and> li_passwordHash row = Some ph \<and>
         li_failedAttemptCount row = 0 \<and> li_cooldownLevel row = 0 \<and> li_cooldownUntil row = None) \<and>
      (\<forall>s\<in>set (db_sessions db'). as_identityId s = ss_identityId ss \<longrightarrow>
         as_status s \<noteq> SessionActive \<and>
         (\<forall>t\<in>set (db_tokens db'). at_sessionId t = as_id s \<longrightarrow> at_revokedAt t \<noteq> None)) \<and>
      (\<forall>b\<in>set (db_browsers db'). bs_identityId b = ss_identityId ss \<longrightarrow> bs_revokedAt b \<noteq> None)"
  using assms(2)
proof (cases rule: consume_Inr)
  case (consumed ss i db1 sids ev)
  have inv: "auth_inv (db, ps)"
    using assms(1) by (rule reachable_auth_inv)
  have inv': "session_inv db'"
    using session_inv_consume [OF _ assms(2)] inv by (simp add: auth_inv_def)
  have keyed': "tables_keyed db'"
    using tables_keyed_evolves [OF evolves_consume [OF assms(2)]] inv by (simp add: auth_inv_def)
  have keyed1: "tables_keyed db1"
  proof -
    have "evolves (db\<lparr>db_setups := update_where
            (\<lambda>s. ss_id s = ss_id ss \<and> ss_consumedAt s = None \<and> ss_revokedAt s = None \<and> now < ss_expiresAt s)
            (\<lambda>s. s\<lparr>ss_consumedAt := Some now\<rparr>) (db_setups db)\<rparr>) db1"
      unfolding consumed(8) by (meson evolves_set_password evolves_revoke_browsers evolves_trans)
    moreover have "evolves db (db\<lparr>db_setups := update_where
            (\<lambda>s. ss_id s = ss_id ss \<and> ss_consumedAt s = None \<and> ss_revokedAt s = None \<and> now < ss_expiresAt s)
            (\<lambda>s. s\<lparr>ss_consumedAt := Some now\<rparr>) (db_setups db)\<rparr>)"
      by (rule evolves_setups) (auto simp: kept_defs)
    ultimately show ?thesis
      using inv tables_keyed_evolves evolves_trans by (auto simp: auth_inv_def)
  qed
  have "\<exists>row. identity_by_id (ss_identityId ss) db' = Some row \<and> li_passwordHash row = Some ph \<and>
         li_failedAttemptCount row = 0 \<and> li_cooldownLevel row = 0 \<and> li_cooldownUntil row = None"
    using consumed(7) identity_after_set_password [of "ss_identityId ss" "db\<lparr>db_setups := _\<rparr>" i ph]
    unfolding consumed(8,10) by (auto simp: identity_by_id_def writeSecurityEvent_def revoke_browsers_def)
  moreover have ended: "as_status s \<noteq> SessionActive"
    if "s \<in> set (db_sessions db')" "as_identityId s = ss_identityId ss" for s
    using that reset_loop_ends_identity [OF keyed1] unfolding consumed(9,10)
    by (auto simp: writeSecurityEvent_def)
  moreover have "at_revokedAt t \<noteq> None"
    if "s \<in> set (db_sessions db')" "as_identityId s = ss_identityId ss" "t \<in> set (db_tokens db')"
      "at_sessionId t = as_id s" for s t
  proof -
    have "\<not> live_session (as_id s) db'"
      using ended [OF that(1,2)] keyed' that(1) unfolding live_session_def tables_keyed_def
      by (metis well_keyed_unique)
    with inv' that(3,4) show ?thesis
      by (auto simp: session_inv_def families_ok_def)
  qed
  moreover have "bs_revokedAt b \<noteq> None"
    if "b \<in> set (db_browsers db')" "bs_identityId b = ss_identityId ss" for b
    using that browsers_after_revoke unfolding consumed(8,10) by (auto simp: writeSecurityEvent_def)
  ultimately show ?thesis
    using consumed(2-6) by blast
qed simp_all

section \<open>The operator's reset\<close>

text \<open>
  An operator's password reset leaves every durable session as it is: the same sessions
  are live, with the same credentials and access tokens; only browser sessions, open setup
  sessions and open setup grants of the identity are revoked. (The login guide says that the
  reset revokes the durable sessions; they end when the new password is set.)
\<close>

theorem operator_reset_keeps_durable_sessions:
  assumes "resetPassword employeeId h ex now db = Inr (Some (e, i), db')"
  shows "db_sessions db' = db_sessions db \<and> db_credentials db' = db_credentials db \<and>
    db_tokens db' = db_tokens db \<and>
    (\<forall>b\<in>set (db_browsers db'). bs_identityId b = i \<longrightarrow> bs_revokedAt b \<noteq> None) \<and>
    count_where (\<lambda>g. sg_identityId g = i \<and> sg_usedAt g = None \<and> sg_revokedAt g = None) (db_grants db') = 1 \<and>
    count_where (\<lambda>s. ss_identityId s = i \<and> ss_consumedAt s = None \<and> ss_revokedAt s = None) (db_setups db') = 0"
proof -
  obtain g db1 ev where g: "create_grant i PasswordReset h ex now
      (revoke_grants i now (revoke_setups i now (revoke_browsers i now db))) = Inr (g, db1)"
    and db': "db' = writeSecurityEvent ev db1"
    using assms by (auto simp: resetPassword_def res_simps split: list.split_asm)
  have "same_sessions db db'"
    using assms by (rule same_resetPassword)
  moreover have "db_browsers db' = db_browsers (revoke_browsers i now db)"
    and grants: "db_grants db' = db_grants (revoke_grants i now db) @
      [\<lparr>sg_id = db_next db, sg_identityId = i, sg_purpose = PasswordReset, sg_tokenHash = h,
        sg_expiresAt = ex, sg_usedAt = None, sg_revokedAt = None, sg_createdAt = now\<rparr>]"
    and setups: "db_setups db' = db_setups (revoke_setups i now db)"
    using g by (auto simp: db' create_grant_def writeSecurityEvent_def revoke_grants_def revoke_setups_def
        revoke_browsers_def split: if_split_asm)
  moreover have "count_where (\<lambda>g. sg_identityId g = i \<and> sg_usedAt g = None \<and> sg_revokedAt g = None)
      (db_grants (revoke_grants i now db)) = 0"
    by (simp add: revoke_grants_def count_where_update)
  moreover have "count_where (\<lambda>s. ss_identityId s = i \<and> ss_consumedAt s = None \<and> ss_revokedAt s = None)
      (db_setups (revoke_setups i now db)) = 0"
    by (simp add: revoke_setups_def count_where_update)
  ultimately show ?thesis
    using browsers_after_revoke [of _ i now db]
    by (auto simp: same_sessions_def count_where_def)
qed

end
