(* ===== verification/Auth_Examples.thy ===== *)
theory Auth_Examples
  imports Auth_Accounts
begin

text \<open>
  A run of the authentication service on a small database: an account signs in on a device,
  two requests present its durable credential at the same time, and a password setup is
  completed. The properties of the service are instantiated on its states.
\<close>

definition demo_audit :: AuthRequestAudit where
  "demo_audit = \<lparr>au_requestId = ''r'', au_sourceIp = ''ip'', au_launcherVersion = None\<rparr>"

definition demo_db0 :: auth_db where
  "demo_db0 =
     \<lparr>db_next = 2, db_organizations = [(''o'', ''Org'')],
      db_employees = [\<lparr>em_id = 0, em_orgId = ''o'', em_email = ''a@b'', em_displayName = ''A'',
                       em_role = RoleEmployee, em_clearance = 1, em_disabled = False\<rparr>],
      db_identities = [\<lparr>li_id = 1, li_orgId = ''o'', li_employeeId = 0, li_normalizedEmail = ''a@b'',
                        li_passwordHash = Some ''h'', li_disabled = False, li_failedAttemptCount = 0,
                        li_cooldownLevel = 0, li_cooldownUntil = None\<rparr>],
      db_grants = [], db_setups = [], db_devices = [], db_sessions = [], db_credentials = [],
      db_tokens = [], db_browsers = [], db_events = [], db_audit_actors = [],
      db_document_uploaders = [], db_employee_references = []\<rparr>"

lemma demo_initial: "auth_initial demo_db0"
  by (simp add: auth_initial_def demo_db0_def)

lemmas demo_defs = demo_audit_def demo_db0_def Let_def
  identity_by_id_def employee_by_id_def session_by_id_def or_else_def writeSecurityEvent_def

lemma reachable_step:
  "auth_reachable st \<Longrightarrow> auth_step st st' \<Longrightarrow> auth_reachable st'"
  unfolding auth_reachable_def by (meson rtranclp.rtrancl_into_rtrancl)

lemma reachable_initial: "auth_initial db \<Longrightarrow> auth_reachable (db, [])"
  unfolding auth_reachable_def by blast

section \<open>A session whose credential is presented twice\<close>

definition demo_created :: "row_id tx" where
  "demo_created = createSessionBundle 1 0 ''o'' ''c1'' ''t1'' 1000 100 0 None demo_db0"

definition demo_db1 :: auth_db where
  "demo_db1 = snd (projr demo_created)"

lemma demo_created: "demo_created = Inr (2, demo_db1)"
  by (simp add: demo_db1_def demo_created_def createSessionBundle_def identity_refused_def
      create_session_def create_credential_def create_token_def demo_defs)

definition demo_credential :: credential_row where
  "demo_credential = hd (db_credentials demo_db1)"

definition demo_session :: session_row where
  "demo_session = hd (db_sessions demo_db1)"

lemmas demo_bundle_defs = demo_created_def createSessionBundle_def identity_refused_def
  create_session_def create_credential_def create_token_def

lemma demo_db1_tables:
  "db_next demo_db1 = 5" "db_credentials demo_db1 = [demo_credential]"
  "db_sessions demo_db1 = [demo_session]"
  "demo_credential = \<lparr>dc_id = 3, dc_sessionId = 2, dc_credentialHash = ''c1'', dc_generation = 1,
     dc_status = CredActive, dc_consumedAt = None, dc_revokedAt = None, dc_createdAt = 0\<rparr>"
  "demo_session = \<lparr>as_id = 2, as_identityId = 1, as_employeeId = 0, as_orgId = ''o'',
     as_status = SessionActive, as_absoluteExpiresAt = 1000, as_revokedAt = None,
     as_revocationReason = None, as_createdAt = 0\<rparr>"
  "db_tokens demo_db1 = [\<lparr>at_id = 4, at_sessionId = 2, at_identityId = 1, at_employeeId = 0,
     at_orgId = ''o'', at_tokenHash = ''t1'', at_expiresAt = 100, at_revokedAt = None,
     at_lastUsedAt = None, at_createdAt = 0\<rparr>]"
  by (simp_all add: demo_credential_def demo_session_def demo_db1_def demo_bundle_defs demo_defs)

lemma demo_reach1: "auth_reachable (demo_db1, [])"
  by (rule reachable_step [OF reachable_initial [OF demo_initial]])
     (rule auth_step.create_session [OF demo_created [unfolded demo_created_def]])

abbreviation demo_read :: pending where
  "demo_read \<equiv> PRotate demo_credential demo_session"

lemma demo_read_step: "auth_step (demo_db1, ps) (demo_db1, demo_read # ps)"
  by (rule auth_step.read_credential [of "''c1''"]) (simp_all add: demo_db1_tables session_by_id_def)

lemma demo_reach2: "auth_reachable (demo_db1, [demo_read, demo_read])"
  by (rule reachable_step [OF reachable_step [OF demo_reach1 demo_read_step] demo_read_step])

definition demo_rotated :: "RotateCredentialResult tx" where
  "demo_rotated = rotate_with demo_credential demo_session ''c2'' ''t2'' 110 10 demo_audit demo_db1"

definition demo_db2 :: auth_db where
  "demo_db2 = snd (projr demo_rotated)"

lemma demo_rotated: "demo_rotated = Inr (Rotated 2 1 0 ''o'', demo_db2)"
  by (simp add: demo_db2_def demo_rotated_def rotate_with_def demo_db1_tables update_where_def
      count_where_def create_credential_def create_token_def Let_def)

definition demo_replayed :: "RotateCredentialResult tx" where
  "demo_replayed = rotate_with demo_credential demo_session ''c3'' ''t3'' 110 11 demo_audit demo_db2"

definition demo_db3 :: auth_db where
  "demo_db3 = snd (projr demo_replayed)"

lemma demo_replayed: "demo_replayed = Inr (Replayed 2, demo_db3)"
  by (simp add: demo_db3_def demo_replayed_def demo_db2_def demo_rotated_def rotate_with_def
      demo_db1_tables update_where_def count_where_def create_credential_def create_token_def Let_def)

theorem one_active_credential_per_session_witness:
  "demo_credential \<in> set (db_credentials demo_db1) \<and> dc_status demo_credential = CredActive \<and>
   live_session 2 demo_db1"
  using one_active_credential_per_session [OF demo_reach1, of demo_credential]
  by (simp add: demo_db1_tables)

theorem reused_credential_ends_session_witness:
  "demo_rotated = Inr (Rotated 2 1 0 ''o'', demo_db2) \<and> demo_replayed = Inr (Replayed 2, demo_db3) \<and>
   ended 2 demo_db3"
  using reused_credential_ends_session [OF demo_reach2 _ demo_rotated [unfolded demo_rotated_def]
      rtranclp.rtrancl_refl, of demo_credential demo_session "''c3''" "''t3''" 110 11 demo_audit
      "Replayed 2" demo_db3] demo_rotated demo_replayed
  by (simp add: demo_replayed_def demo_db1_tables(4))

lemma demo_reach3: "auth_reachable (demo_db3, [])"
proof -
  have "auth_step (demo_db1, [demo_read, demo_read]) (demo_db2, [demo_read])"
    using auth_step.rotate [OF _ demo_rotated [unfolded demo_rotated_def], of "[demo_read, demo_read]"] by simp
  moreover have "auth_step (demo_db2, [demo_read]) (demo_db3, [])"
    using auth_step.rotate [OF _ demo_replayed [unfolded demo_replayed_def], of "[demo_read]"] by simp
  ultimately show ?thesis
    using demo_reach2 reachable_step by blast
qed

lemma demo_db3_tables:
  "ended 2 demo_db3" "map at_tokenHash (db_tokens demo_db3) = [''t1'', ''t2'']"
  "map at_sessionId (db_tokens demo_db3) = [2, 2]"
  by (simp_all add: ended_def live_session_def demo_db3_def demo_replayed_def demo_db2_def demo_rotated_def
      rotate_with_def replay_detected_def revokeSessionFamily_def writeSecurityEvent_def
      demo_db1_tables update_where_def count_where_def create_credential_def create_token_def Let_def)

theorem ended_session_is_final_witness:
  "\<forall>rec db'. authenticateAccessToken ''t1'' 12 None demo_db3 \<noteq> Inr (Some rec, db')"
proof -
  obtain t where t: "find (\<lambda>t. at_tokenHash t = ''t1'') (db_tokens demo_db3) = Some t" "at_sessionId t = 2"
    using demo_db3_tables(2,3) by (cases "db_tokens demo_db3") auto
  then show ?thesis
    using ended_session_is_final [OF demo_reach3 _ rtranclp.rtrancl_refl, of 2] demo_db3_tables(1)
    unfolding fst_conv by blast
qed

section \<open>A password setup\<close>

definition demo_granted :: "row_id tx" where
  "demo_granted = replacePasswordSetupGrant 1 PasswordReset ''g'' 500 5 demo_db1"

definition demo_db4 :: auth_db where
  "demo_db4 = snd (projr demo_granted)"

definition demo_grant :: grant_row where
  "demo_grant = hd (db_grants demo_db4)"

lemma demo_db1_rest:
  "db_identities demo_db1 = db_identities demo_db0" "db_employees demo_db1 = db_employees demo_db0"
  "db_grants demo_db1 = []" "db_setups demo_db1 = []" "db_devices demo_db1 = []" "db_browsers demo_db1 = []"
  by (simp_all add: demo_db1_def demo_bundle_defs demo_defs)

lemmas demo_grant_defs = demo_granted_def replacePasswordSetupGrant_def create_grant_def
  revoke_grants_def revoke_setups_def update_where_def demo_db1_tables demo_db1_rest

lemma demo_granted: "demo_granted = Inr (5, demo_db4)"
  by (simp add: demo_db4_def demo_grant_defs demo_defs)

lemma demo_db4_tables:
  "db_next demo_db4 = 6" "db_grants demo_db4 = [demo_grant]" "db_setups demo_db4 = []"
  "db_identities demo_db4 = db_identities demo_db0" "db_sessions demo_db4 = [demo_session]"
  "demo_grant = \<lparr>sg_id = 5, sg_identityId = 1, sg_purpose = PasswordReset, sg_tokenHash = ''g'',
     sg_expiresAt = 500, sg_usedAt = None, sg_revokedAt = None, sg_createdAt = 5\<rparr>"
  by (simp_all add: demo_grant_def demo_db4_def demo_grant_defs demo_defs)

lemma demo_reach4: "auth_reachable (demo_db4, [PExchange demo_grant])"
proof -
  have "auth_step (demo_db1, []) (demo_db4, [])"
    using auth_step.replace_grant [OF demo_granted [unfolded demo_granted_def]] .
  moreover have "auth_step (demo_db4, []) (demo_db4, [PExchange demo_grant])"
    by (rule auth_step.read_grant [of "''g''"]) (simp add: demo_db4_tables)
  ultimately show ?thesis
    using demo_reach1 reachable_step by blast
qed

definition demo_exchanged :: "(row_id \<times> SetupPurpose) option tx" where
  "demo_exchanged = exchange_with demo_grant ''s'' 600 6 demo_audit demo_db4"

definition demo_db5 :: auth_db where
  "demo_db5 = snd (projr demo_exchanged)"

lemmas demo_exchange_defs = demo_exchanged_def exchange_with_def create_setup_def update_where_def
  count_where_def demo_db4_tables

lemma demo_exchanged: "demo_exchanged = Inr (Some (1, PasswordReset), demo_db5)"
  by (simp add: demo_db5_def demo_exchange_defs demo_defs)

theorem setup_grant_single_use_witness:
  "\<forall>r' db'. exchange_with demo_grant ''again'' 600 7 demo_audit demo_db5 \<noteq> Inr (Some r', db')"
  using setup_grant_single_use [OF demo_reach4 demo_exchanged [unfolded demo_exchanged_def]
      rtranclp.rtrancl_refl [of _ "(demo_db5, [])"] refl] by blast

lemma demo_reach5: "auth_reachable (demo_db5, [])"
  using reachable_step [OF demo_reach4]
    auth_step.exchange [OF _ demo_exchanged [unfolded demo_exchanged_def], of "[PExchange demo_grant]"] by simp

lemma demo_db5_tables:
  "db_grants demo_db5 = [demo_grant\<lparr>sg_usedAt := Some 6\<rparr>]" "db_sessions demo_db5 = [demo_session]"
  "db_identities demo_db5 = db_identities demo_db0"
  "db_setups demo_db5 = [\<lparr>ss_id = 6, ss_identityId = 1, ss_grantId = 5, ss_sessionHash = ''s'',
     ss_expiresAt = 600, ss_consumedAt = None, ss_revokedAt = None, ss_createdAt = 6\<rparr>]"
  by (simp_all add: demo_db5_def demo_exchange_defs demo_defs)

definition demo_db6 :: auth_db where
  "demo_db6 = snd (projr (consumePasswordSetupSession ''s'' ''h2'' 7 demo_audit demo_db5))"

lemma demo_consumed: "consumePasswordSetupSession ''s'' ''h2'' 7 demo_audit demo_db5 = Inr (True, demo_db6)"
  by (simp add: demo_db6_def consumePasswordSetupSession_def consume_with_def demo_db5_tables demo_db4_tables
      update_where_def count_where_def demo_defs)

theorem password_setup_closes_access_witness:
  "\<exists>row. identity_by_id 1 demo_db6 = Some row \<and> li_passwordHash row = Some ''h2''"
  using password_setup_closes_access [OF demo_reach5 demo_consumed] by (auto simp: demo_db5_tables)

section \<open>A device authorization\<close>

definition demo_db7 :: auth_db where
  "demo_db7 = projr (createDeviceAuthorization ''d'' ''u'' ''cl'' ''pc'' ''host'' 600 5 demo_audit demo_db1)"

lemma demo_device_created:
  "createDeviceAuthorization ''d'' ''u'' ''cl'' ''pc'' ''host'' 600 5 demo_audit demo_db1 = Inr demo_db7"
  by (simp add: demo_db7_def createDeviceAuthorization_def create_device_def update_where_def count_where_def
      demo_db1_rest demo_defs)

definition demo_device :: device_row where
  "demo_device = hd (db_devices demo_db7)"

definition demo_db8 :: auth_db where
  "demo_db8 = snd (projr (complete_with demo_device 1 0 ''o'' 6 demo_audit demo_db7))"

lemma demo_db7_tables:
  "db_devices demo_db7 = [demo_device]"
  "demo_device = \<lparr>da_id = 5, da_clientId = ''cl'', da_deviceCodeHash = ''d'', da_userCodeHash = ''u'',
     da_status = DevicePending, da_instanceName = ''pc'', da_instanceHostname = ''host'',
     da_identityId = None, da_employeeId = None, da_orgId = None, da_expiresAt = 600,
     da_completedAt = None, da_redeemedAt = None, da_revokedAt = None, da_createdAt = 5\<rparr>"
  by (simp_all add: demo_device_def demo_db7_def createDeviceAuthorization_def create_device_def
      update_where_def count_where_def demo_db1_rest demo_db1_tables demo_defs)

lemma demo_device_completed:
  "complete_with demo_device 1 0 ''o'' 6 demo_audit demo_db7 = Inr (True, demo_db8)"
  by (simp add: demo_db8_def complete_with_def demo_db7_tables count_where_def Let_def)

definition demo_completed :: device_row where
  "demo_completed = hd (db_devices demo_db8)"

lemma demo_db8_tables:
  "db_devices demo_db8 = [demo_completed]"
  "demo_completed = demo_device\<lparr>da_status := DeviceCompleted, da_identityId := Some 1,
     da_employeeId := Some 0, da_orgId := Some ''o'', da_completedAt := Some 6\<rparr>"
  by (simp_all add: demo_completed_def demo_db8_def complete_with_def demo_db7_tables count_where_def
      update_where_def demo_defs)

lemma demo_reach8: "auth_reachable (demo_db8, [PRedeem demo_completed])"
proof -
  have "auth_step (demo_db1, []) (demo_db7, [])"
    using auth_step.create_device [OF demo_device_created] .
  moreover have "auth_step (demo_db7, []) (demo_db7, [PComplete demo_device])"
    by (rule auth_step.read_complete [of "''u''"]) (simp add: demo_db7_tables)
  moreover have "auth_step (demo_db7, [PComplete demo_device]) (demo_db8, [])"
    using auth_step.complete [OF _ demo_device_completed, of "[PComplete demo_device]"] by simp
  moreover have "auth_step (demo_db8, []) (demo_db8, [PRedeem demo_completed])"
    by (rule auth_step.read_redeem [of "''d''"]) (simp add: demo_db8_tables demo_db7_tables)
  ultimately show ?thesis
    using demo_reach1 reachable_step by blast
qed

definition demo_db9 :: auth_db where
  "demo_db9 = snd (redeem_with demo_completed ''cl'' 7 demo_audit demo_db8)"

lemma demo_redeemed: "redeem_with demo_completed ''cl'' 7 demo_audit demo_db8 = (Redeemed 1 0 ''o'', demo_db9)"
  by (simp add: demo_db9_def redeem_with_def redeem_completed_def demo_db8_tables demo_db7_tables
      count_where_def Let_def)

theorem device_code_single_use_witness:
  "\<forall>i e org db'. redeem_with demo_completed ''cl'' 8 demo_audit demo_db9 \<noteq> (Redeemed i e org, db')"
  using device_code_single_use [OF demo_reach8 demo_redeemed
      rtranclp.rtrancl_refl [of _ "(demo_db9, [])"] refl] by blast
section \<open>An operator's reset\<close>

theorem operator_reset_keeps_durable_sessions_witness:
  "\<exists>db'. resetPassword 0 ''g'' 500 5 demo_db1 = Inr (Some (0, 1), db') \<and> live_session 2 db'"
proof -
  obtain db' where db': "resetPassword 0 ''g'' 500 5 demo_db1 = Inr (Some (0, 1), db')"
    by (simp add: resetPassword_def create_grant_def revoke_grants_def revoke_setups_def
        revoke_browsers_def update_where_def demo_db1_rest demo_db1_tables demo_db0_def)
  have "db_sessions db' = [demo_session]"
    using operator_reset_keeps_durable_sessions [OF db'] by (simp add: demo_db1_tables)
  then have "live_session 2 db'"
    by (simp add: live_session_def demo_db1_tables)
  with db' show ?thesis by blast
qed

end
