(* ===== verification/Js_Date.thy ===== *)
theory Js_Date
  imports Smedc_Prelude
begin

text \<open>
  Dates as ECMAScript defines them: a time is the number of milliseconds since 1970, a day is
  \<open>t div 86400000\<close>, and the proleptic Gregorian calendar relates days to years, months and dates
  of the month. \<open>MakeDay\<close> is the arithmetic behind \<open>setUTCFullYear\<close>, \<open>setUTCMonth\<close> and
  \<open>setUTCDate\<close>, \<open>iso_date\<close> is \<open>toISOString().slice(0, 10)\<close> and \<open>Date_parse\<close> is \<open>Date.parse\<close> on the
  formats the schemas admit. For the years 0 to 9999 printing and parsing are inverse and dates
  compare as strings the way the days compare as numbers.
\<close>

type_synonym day = int

definition msPerDay :: int where
  "msPerDay = 86400000"

section \<open>The calendar\<close>

definition DayFromYear :: "int \<Rightarrow> day" where
  "DayFromYear y = 365 * (y - 1970) + (y - 1969) div 4 - (y - 1901) div 100 + (y - 1601) div 400"

definition leap_year :: "int \<Rightarrow> bool" where
  "leap_year y \<longleftrightarrow> y mod 4 = 0 \<and> (y mod 100 \<noteq> 0 \<or> y mod 400 = 0)"

text \<open>The year of a day: the estimate is off by at most one.\<close>

definition YearFromDay :: "day \<Rightarrow> int" where
  "YearFromDay d =
     (let y = 1970 + (400 * d) div 146097 in
      if DayFromYear (y + 1) \<le> d then y + 1 else if DayFromYear y \<le> d then y else y - 1)"

text \<open>Days of the year before a month; months count from 0.\<close>

definition month_start :: "bool \<Rightarrow> int \<Rightarrow> int" where
  "month_start leap m =
     [0, 31, 59, 90, 120, 151, 181, 212, 243, 273, 304, 334] ! nat m + (if leap \<and> 2 \<le> m then 1 else 0)"

definition day_in_year :: "day \<Rightarrow> int" where
  "day_in_year d = d - DayFromYear (YearFromDay d)"

definition MonthFromDay :: "day \<Rightarrow> int" where
  "MonthFromDay d =
     int (length (filter (\<lambda>m. month_start (leap_year (YearFromDay d)) m \<le> day_in_year d)
       [1, 2, 3, 4, 5, 6, 7, 8, 9, 10, 11]))"

definition DateFromDay :: "day \<Rightarrow> int" where
  "DateFromDay d = day_in_year d - month_start (leap_year (YearFromDay d)) (MonthFromDay d) + 1"

text \<open>Months beyond the year and dates beyond the month carry over.\<close>

definition MakeDay :: "int \<Rightarrow> int \<Rightarrow> int \<Rightarrow> day" where
  "MakeDay y m dt =
     (let ym = y + m div 12 in DayFromYear ym + month_start (leap_year ym) (m mod 12) + dt - 1)"

text \<open>\<open>getUTCDay()\<close>: Sunday is 0, and day 0 was a Thursday.\<close>

definition WeekDay :: "day \<Rightarrow> int" where
  "WeekDay d = (d + 4) mod 7"

section \<open>Text\<close>

definition digit :: "nat \<Rightarrow> char" where
  "digit n = char_of (48 + n mod 10)"

fun digits :: "nat \<Rightarrow> nat \<Rightarrow> string" where
  "digits 0 n = []"
| "digits (Suc w) n = digits w (n div 10) @ [digit n]"

definition month_day :: "day \<Rightarrow> string" where
  "month_day d =
     digits 2 (nat (MonthFromDay d + 1)) @ ''-'' @ digits 2 (nat (DateFromDay d))"

definition iso_date :: "day \<Rightarrow> string" where
  "iso_date d =
     (let y = YearFromDay d in
      if 0 \<le> y \<and> y \<le> 9999 then digits 4 (nat y) @ ''-'' @ month_day d
      else take 10 ((if y < 0 then ''-'' else ''+'') @ digits 6 (nat \<bar>y\<bar>) @ ''-'' @ month_day d))"

text \<open>\<open>toISOString()\<close>.\<close>

definition iso_datetime :: "int \<Rightarrow> string" where
  "iso_datetime t =
     (let ms = t mod msPerDay in
      iso_date (t div msPerDay) @ ''T'' @ digits 2 (nat (ms div 3600000)) @ '':'' @
      digits 2 (nat (ms div 60000 mod 60)) @ '':'' @ digits 2 (nat (ms div 1000 mod 60)) @ ''.'' @
      digits 3 (nat (ms mod 1000)) @ ''Z'')"

definition digit_value :: "char \<Rightarrow> nat" where
  "digit_value c = of_char c - 48"

definition number_value :: "string \<Rightarrow> nat" where
  "number_value s = foldl (\<lambda>n c. 10 * n + digit_value c) 0 s"

definition parse_day :: "string \<Rightarrow> day option" where
  "parse_day s =
     (let y = take 4 s; m = take 2 (drop 5 s); d = take 2 (drop 8 s) in
      if length s = 10 \<and> s ! 4 = CHR ''-'' \<and> s ! 7 = CHR ''-'' \<and> list_all is_digit (y @ m @ d) \<and>
         number_value m \<in> {1..12} \<and> number_value d \<in> {1..31}
      then Some (MakeDay (int (number_value y)) (int (number_value m) - 1) (int (number_value d)))
      else None)"

text \<open>The rest of a time after the minutes: \<open>Z\<close>, or seconds with an optional fraction.\<close>

definition parse_fraction :: "string \<Rightarrow> int option" where
  "parse_fraction s =
     (if s = ''Z'' then Some 0
      else case s of
        [] \<Rightarrow> None
      | c # more \<Rightarrow>
          if c = CHR ''.'' \<and> 2 \<le> length more \<and> last more = CHR ''Z'' \<and> list_all is_digit (butlast more)
          then Some (int (number_value (take 3 (butlast more @ ''00''))))
          else None)"

definition parse_seconds :: "string \<Rightarrow> int option" where
  "parse_seconds s =
     (if s = ''Z'' then Some 0
      else if length s \<ge> 4 \<and> s ! 0 = CHR '':'' \<and> list_all is_digit (take 2 (drop 1 s)) \<and>
              number_value (take 2 (drop 1 s)) < 60
      then map_option (\<lambda>ms. 1000 * int (number_value (take 2 (drop 1 s))) + ms) (parse_fraction (drop 3 s))
      else None)"

definition parse_time :: "string \<Rightarrow> int option" where
  "parse_time s =
     (if length s \<ge> 7 \<and> s ! 0 = CHR ''T'' \<and> s ! 3 = CHR '':'' \<and>
         list_all is_digit (take 2 (drop 1 s) @ take 2 (drop 4 s)) \<and>
         number_value (take 2 (drop 1 s)) < 24 \<and> number_value (take 2 (drop 4 s)) < 60
      then map_option (\<lambda>ms. 3600000 * int (number_value (take 2 (drop 1 s))) +
             60000 * int (number_value (take 2 (drop 4 s))) + ms) (parse_seconds (drop 6 s))
      else None)"

text \<open>\<open>Date.parse\<close>; \<open>None\<close> is \<open>NaN\<close>, with which every comparison is false.\<close>

definition Date_parse :: "string \<Rightarrow> int option" where
  "Date_parse s =
     (case parse_day (take 10 s) of
        None \<Rightarrow> None
      | Some d \<Rightarrow> if drop 10 s = [] then Some (d * msPerDay)
                  else map_option (\<lambda>ms. d * msPerDay + ms) (parse_time (drop 10 s)))"

definition nan_less :: "int option \<Rightarrow> int \<Rightarrow> bool" where
  "nan_less t u = (case t of None \<Rightarrow> False | Some v \<Rightarrow> v < u)"

definition nan_greater :: "int option \<Rightarrow> int \<Rightarrow> bool" where
  "nan_greater t u = (case t of None \<Rightarrow> False | Some v \<Rightarrow> u < v)"

definition nan_at_most :: "int option \<Rightarrow> int \<Rightarrow> bool" where
  "nan_at_most t u = (case t of None \<Rightarrow> False | Some v \<Rightarrow> v \<le> u)"

section \<open>Years\<close>

lemma div_succ:
  fixes x n :: int
  assumes "0 < n"
  shows "(x + 1) div n = x div n + (if (x + 1) mod n = 0 then 1 else 0)"
proof -
  have x: "x = n * (x div n) + x mod n" "0 \<le> x mod n" "x mod n < n"
    using assms by simp_all
  show ?thesis
  proof (cases "x mod n + 1 = n")
    case True
    then have "x + 1 = n * (x div n) + n"
      using x(1) by linarith
    then have e: "x + 1 = n * (x div n + 1)"
      by (simp add: algebra_simps)
    then have "(x + 1) div n = x div n + 1" "(x + 1) mod n = 0"
      using assms by (metis nonzero_mult_div_cancel_left less_irrefl, metis mod_mult_self1_is_0)
    then show ?thesis by simp
  next
    case False
    then have r: "0 \<le> x mod n + 1" "x mod n + 1 < n"
      using x by linarith+
    have e: "x + 1 = n * (x div n) + (x mod n + 1)"
      using x(1) by simp
    have "(x + 1) div n = x div n" "(x + 1) mod n = x mod n + 1"
      using int_div_pos_eq [OF e r] int_mod_pos_eq [OF e r] by simp_all
    then show ?thesis using x(2) by simp
  qed
qed

lemma shift_mod_0:
  fixes y c n :: int
  assumes "n dvd c"
  shows "(y - c) mod n = 0 \<longleftrightarrow> y mod n = 0"
  using assms by (metis dvd_imp_mod_0 mod_0_imp_dvd dvd_diff_left_iff)

lemma div_step:
  fixes y k n :: int
  assumes "0 < n" "n dvd k - 1"
  shows "(y + 1 - k) div n = (y - k) div n + (if y mod n = 0 then 1 else 0)"
proof -
  have e: "y + 1 - k = y - k + 1" "y - k + 1 = y - (k - 1)"
    by simp_all
  show ?thesis
    unfolding e(1) div_succ [OF assms(1)] unfolding e(2) shift_mod_0 [OF assms(2)] ..
qed

lemma leap_mods: "(y::int) mod 400 = 0 \<Longrightarrow> y mod 100 = 0" "(y::int) mod 100 = 0 \<Longrightarrow> y mod 4 = 0"
proof -
  have "(100::int) dvd 400" "(4::int) dvd 100"
    by simp_all
  then show "y mod 400 = 0 \<Longrightarrow> y mod 100 = 0" "y mod 100 = 0 \<Longrightarrow> y mod 4 = 0"
    by (meson dvd_trans mod_0_imp_dvd dvd_imp_mod_0)+
qed

lemma DayFromYear_succ: "DayFromYear (y + 1) = DayFromYear y + (if leap_year y then 366 else 365)"
proof -
  define a b c where "a = (y - 1969) div 4" and "b = (y - 1901) div 100" and "c = (y - 1601) div 400"
  define p q r where "p \<longleftrightarrow> y mod 4 = 0" and "q \<longleftrightarrow> y mod 100 = 0" and "r \<longleftrightarrow> y mod 400 = 0"
  have "(y + 1 - 1969) div 4 = a + (if p then 1 else 0)"
    "(y + 1 - 1901) div 100 = b + (if q then 1 else 0)"
    "(y + 1 - 1601) div 400 = c + (if r then 1 else 0)"
    unfolding a_def b_def c_def p_def q_def r_def by (rule div_step; simp)+
  then have e: "DayFromYear (y + 1) = 365 * (y + 1 - 1970) + (a + (if p then 1 else 0)) -
      (b + (if q then 1 else 0)) + (c + (if r then 1 else 0))"
    by (simp only: DayFromYear_def)
  have "DayFromYear y = 365 * (y - 1970) + a - b + c"
    by (simp only: DayFromYear_def a_def b_def c_def)
  moreover have "leap_year y \<longleftrightarrow> p \<and> (\<not> q \<or> r)"
    by (simp only: leap_year_def p_def q_def r_def)
  moreover have "r \<Longrightarrow> q" "q \<Longrightarrow> p"
    unfolding p_def q_def r_def by (rule leap_mods; assumption)+
  ultimately show ?thesis
    using e by auto
qed

lemma div_bounds:
  fixes x n :: int
  assumes "0 < n"
  shows "n * (x div n) \<le> x" "x \<le> n * (x div n) + (n - 1)"
  using mult_div_mod_eq [of n x] pos_mod_sign [OF assms, of x] pos_mod_bound [OF assms, of x]
  by linarith+

lemma DayFromYear_linear:
  "400 * DayFromYear y \<le> 146097 * (y - 1970) + 589" "146097 * (y - 1970) - 506 \<le> 400 * DayFromYear y"
proof -
  obtain a b c where d: "(y - 1969) div 4 = a" "(y - 1901) div 100 = b" "(y - 1601) div 400 = c"
    by blast
  have "4 * a \<le> y - 1969" "y - 1969 \<le> 4 * a + 3" "100 * b \<le> y - 1901" "y - 1901 \<le> 100 * b + 99"
    "400 * c \<le> y - 1601" "y - 1601 \<le> 400 * c + 399"
    using div_bounds [of 4 "y - 1969"] div_bounds [of 100 "y - 1901"] div_bounds [of 400 "y - 1601"]
    by (simp_all add: d)
  then show "400 * DayFromYear y \<le> 146097 * (y - 1970) + 589"
    "146097 * (y - 1970) - 506 \<le> 400 * DayFromYear y"
    unfolding DayFromYear_def d by (simp_all add: algebra_simps)
qed

lemma YearFromDay_bounds: "DayFromYear (YearFromDay d) \<le> d" "d < DayFromYear (YearFromDay d + 1)"
proof -
  define y where "y = 1970 + (400 * d) div 146097"
  have b: "146097 * (y - 1970) \<le> 400 * d" "400 * d < 146097 * (y - 1970) + 146097"
    using div_bounds [of 146097 "400 * d"] by (simp_all add: y_def)
  have "DayFromYear (y - 1) \<le> d" "d < DayFromYear (y + 2)"
    using b DayFromYear_linear(1) [of "y - 1"] DayFromYear_linear(2) [of "y + 2"]
    by (simp_all add: algebra_simps)
  then show "DayFromYear (YearFromDay d) \<le> d" "d < DayFromYear (YearFromDay d + 1)"
    unfolding YearFromDay_def y_def [symmetric] by (auto simp: Let_def algebra_simps)
qed

lemma DayFromYear_mono: "y \<le> y' \<Longrightarrow> DayFromYear y \<le> DayFromYear y'"
proof (induction y' rule: int_ge_induct)
  case (step i)
  then show ?case using DayFromYear_succ [of i] by (auto split: if_splits)
qed simp

lemma YearFromDay_unique:
  assumes "DayFromYear y \<le> d" "d < DayFromYear (y + 1)"
  shows "YearFromDay d = y"
  using assms YearFromDay_bounds [of d] DayFromYear_mono [of "y + 1" "YearFromDay d"]
    DayFromYear_mono [of "YearFromDay d + 1" y] by linarith

lemma YearFromDay_mono: "d \<le> d' \<Longrightarrow> YearFromDay d \<le> YearFromDay d'"
  using YearFromDay_bounds [of d] YearFromDay_bounds [of d']
    DayFromYear_mono [of "YearFromDay d' + 1" "YearFromDay d"] by linarith

section \<open>Months\<close>

lemma day_in_year_range:
  "0 \<le> day_in_year d" "day_in_year d < (if leap_year (YearFromDay d) then 366 else 365)"
  using YearFromDay_bounds [of d] DayFromYear_succ [of "YearFromDay d"]
  by (auto simp: day_in_year_def split: if_splits)

text \<open>The month of a day of the year, in a common or a leap year.\<close>

definition month_of :: "bool \<Rightarrow> int \<Rightarrow> int" where
  "month_of leap n =
     int (length (filter (\<lambda>m. month_start leap m \<le> n) [1, 2, 3, 4, 5, 6, 7, 8, 9, 10, 11]))"

lemma MonthFromDay_eq: "MonthFromDay d = month_of (leap_year (YearFromDay d)) (day_in_year d)"
  by (simp add: MonthFromDay_def month_of_def)

definition month_length :: "bool \<Rightarrow> int \<Rightarrow> int" where
  "month_length leap m =
     [31, if leap then 29 else 28, 31, 30, 31, 30, 31, 31, 30, 31, 30, 31] ! nat m"

definition year_days :: "bool \<Rightarrow> int list" where
  "year_days leap = [0..(if leap then 365 else 364)]"

lemma month_table:
  "list_all (\<lambda>n. let m = month_of leap n in 0 \<le> m \<and> m \<le> 11 \<and> month_start leap m \<le> n \<and>
     n < month_start leap m + month_length leap m) (year_days leap)"
  by (cases leap; simp; code_simp)

lemma month_of_range:
  assumes "0 \<le> n" "n < (if leap then 366 else 365)"
  shows "0 \<le> month_of leap n" "month_of leap n \<le> 11" "month_start leap (month_of leap n) \<le> n"
    "n < month_start leap (month_of leap n) + month_length leap (month_of leap n)"
proof -
  have "n \<in> set (year_days leap)"
    using assms by (auto simp: year_days_def)
  with month_table [of leap] show "0 \<le> month_of leap n" "month_of leap n \<le> 11"
    "month_start leap (month_of leap n) \<le> n"
    "n < month_start leap (month_of leap n) + month_length leap (month_of leap n)"
    by (auto simp: list_all_iff Let_def)
qed

lemma month_length_le: "0 \<le> m \<Longrightarrow> m \<le> 11 \<Longrightarrow> month_length leap m \<le> 31 \<and> 28 \<le> month_length leap m"
proof -
  assume "0 \<le> m" "m \<le> 11"
  then have "m \<in> set [0..11]"
    by simp
  moreover have "list_all (\<lambda>m. month_length leap m \<le> 31 \<and> 28 \<le> month_length leap m) [0..11]"
    by (cases leap; simp; code_simp)
  ultimately show ?thesis
    by (simp only: list_all_iff)
qed

lemma MonthFromDay_range: "0 \<le> MonthFromDay d" "MonthFromDay d \<le> 11"
  using month_of_range [OF day_in_year_range] by (simp_all add: MonthFromDay_eq)

lemma DateFromDay_range:
  "1 \<le> DateFromDay d" "DateFromDay d \<le> month_length (leap_year (YearFromDay d)) (MonthFromDay d)"
  using month_of_range(3,4) [OF day_in_year_range, of d] by (simp_all add: MonthFromDay_eq DateFromDay_def)

lemma DateFromDay_le: "DateFromDay d \<le> 31"
  using DateFromDay_range(2) [of d] month_length_le [OF MonthFromDay_range, of "leap_year (YearFromDay d)" d]
  by linarith

lemma MakeDay_of_parts: "MakeDay (YearFromDay d) (MonthFromDay d) (DateFromDay d) = d"
  using MonthFromDay_range [of d]
  by (simp add: MakeDay_def DateFromDay_def day_in_year_def Let_def)

section \<open>Printing and parsing\<close>

lemma length_digits [simp]: "length (digits w n) = w"
  by (induction w arbitrary: n) auto

lemma digit_code: "of_char (digit n) = (48 + n mod 10 :: nat)"
proof -
  have "48 + n mod 10 < 256"
    using mod_less_divisor [of 10 n] by linarith
  then show ?thesis
    by (simp add: digit_def)
qed

lemma digit_value_digit [simp]: "digit_value (digit n) = n mod 10"
  by (simp add: digit_value_def digit_code)

lemma is_digit_digit [simp]: "is_digit (digit n)"
proof -
  have "n mod 10 < 10" by simp
  then show ?thesis unfolding is_digit_def digit_code by linarith
qed

lemma list_all_digits [simp]: "list_all is_digit (digits w n)"
  by (induction w arbitrary: n) auto

lemma number_value_digits: "n < 10 ^ w \<Longrightarrow> number_value (digits w n) = n"
proof (induction w arbitrary: n)
  case 0
  then show ?case by (simp add: number_value_def)
next
  case (Suc w)
  then have "n div 10 < 10 ^ w"
    by (simp add: less_mult_imp_div_less mult.commute)
  with Suc.IH [of "n div 10"] show ?case
    by (simp add: number_value_def)
qed

text \<open>Texts of one length compare by their first difference, so digits compare as numbers.\<close>

lemma append_less_iff:
  fixes xs ys :: "'a::linorder list"
  assumes "length xs = length ys"
  shows "xs @ us < ys @ vs \<longleftrightarrow> xs < ys \<or> (xs = ys \<and> us < vs)"
  using assms by (induction xs ys rule: list_induct2) auto

lemma date_digit_less: "digit m < digit n \<longleftrightarrow> m mod 10 < n mod 10"
  by (simp add: less_char_def digit_code)

lemma digits_inj: "m < 10 ^ w \<Longrightarrow> n < 10 ^ w \<Longrightarrow> digits w m = digits w n \<longleftrightarrow> m = n"
  by (metis number_value_digits)

lemma decimal_less: "b < 10 \<Longrightarrow> d < 10 \<Longrightarrow> 10 * a + b < 10 * c + d \<longleftrightarrow> a < c \<or> (a = c \<and> b < (d::nat))"
  by linarith

lemma digits_less: "m < 10 ^ w \<Longrightarrow> n < 10 ^ w \<Longrightarrow> digits w m < digits w n \<longleftrightarrow> m < n"
proof (induction w arbitrary: m n)
  case (Suc w)
  have b: "m div 10 < 10 ^ w" "n div 10 < 10 ^ w"
    using Suc.prems by (simp_all add: less_mult_imp_div_less mult.commute)
  have "digits (Suc w) m < digits (Suc w) n \<longleftrightarrow>
      m div 10 < n div 10 \<or> (m div 10 = n div 10 \<and> m mod 10 < n mod 10)"
    by (simp add: append_less_iff Suc.IH [OF b] digits_inj [OF b] date_digit_less)
  also have "\<dots> \<longleftrightarrow> m < n"
    using decimal_less [of "m mod 10" "n mod 10" "m div 10" "n div 10"] by simp
  finally show ?case .
qed simp

definition iso_range :: "day \<Rightarrow> bool" where
  "iso_range d \<longleftrightarrow> 0 \<le> YearFromDay d \<and> YearFromDay d \<le> 9999"

lemma iso_range_interval: "iso_range d \<longleftrightarrow> DayFromYear 0 \<le> d \<and> d < DayFromYear 10000"
proof -
  have "0 \<le> YearFromDay d \<longleftrightarrow> DayFromYear 0 \<le> d"
    using YearFromDay_bounds [of d] DayFromYear_mono [of 0 "YearFromDay d"]
      DayFromYear_mono [of "YearFromDay d + 1" 0] by linarith
  moreover have "YearFromDay d \<le> 9999 \<longleftrightarrow> d < DayFromYear 10000"
    using YearFromDay_bounds [of d] DayFromYear_mono [of "YearFromDay d + 1" 10000]
      DayFromYear_mono [of 10000 "YearFromDay d"] by linarith
  ultimately show ?thesis
    by (simp add: iso_range_def)
qed

lemma iso_range_days: "iso_range d \<longleftrightarrow> - 719528 \<le> d \<and> d < 2932897"
proof -
  have "DayFromYear 0 = - 719528" "DayFromYear 10000 = 2932897"
    by (simp_all add: DayFromYear_def)
  then show ?thesis
    by (simp add: iso_range_interval)
qed

lemma length_month_day [simp]: "length (month_day d) = 5"
  by (simp add: month_day_def)

lemma iso_date_length: "iso_range d \<Longrightarrow> length (iso_date d) = 10"
  by (simp add: iso_range_def iso_date_def Let_def)

lemma month_day_numbers:
  "nat (MonthFromDay d + 1) < 10 ^ 2" "nat (DateFromDay d) < 10 ^ 2"
  using MonthFromDay_range [of d] DateFromDay_range(1) [of d] DateFromDay_le [of d] by simp_all

lemma parse_iso_date:
  assumes "iso_range d"
  shows "parse_day (iso_date d) = Some d"
proof -
  let ?y = "digits 4 (nat (YearFromDay d))" and ?m = "digits 2 (nat (MonthFromDay d + 1))"
  let ?d = "digits 2 (nat (DateFromDay d))"
  have s: "iso_date d = ?y @ ''-'' @ ?m @ ''-'' @ ?d"
    using assms by (simp add: iso_date_def iso_range_def month_day_def Let_def)
  have v: "number_value ?y = nat (YearFromDay d)" "number_value ?m = nat (MonthFromDay d + 1)"
    "number_value ?d = nat (DateFromDay d)"
    using assms month_day_numbers [of d] by (auto simp: number_value_digits iso_range_def)
  have "Suc 0 \<le> nat (DateFromDay d)" "nat (DateFromDay d) \<le> 31" "Suc 0 \<le> nat (MonthFromDay d + 1)"
    "nat (MonthFromDay d + 1) \<le> 12"
    using MonthFromDay_range [of d] DateFromDay_range(1) [of d] DateFromDay_le [of d] by linarith+
  then show ?thesis
    unfolding parse_day_def s Let_def
    using v assms MonthFromDay_range [of d] DateFromDay_range(1) [of d] DateFromDay_le [of d]
      MakeDay_of_parts [of d]
    by (simp add: nth_append iso_range_def)
qed

lemma iso_date_inj: "iso_range d \<Longrightarrow> iso_range d' \<Longrightarrow> iso_date d = iso_date d' \<longleftrightarrow> d = d'"
  by (metis option.inject parse_iso_date)

lemma day_in_year_less:
  assumes "YearFromDay d = YearFromDay d'" "d < d'"
  shows "MonthFromDay d < MonthFromDay d' \<or>
    (MonthFromDay d = MonthFromDay d' \<and> DateFromDay d < DateFromDay d')"
proof -
  have n: "day_in_year d < day_in_year d'"
    using assms by (simp add: day_in_year_def)
  have "MonthFromDay d \<le> MonthFromDay d'"
  proof -
    have "length (filter (\<lambda>m. month_start l m \<le> a) ms) \<le> length (filter (\<lambda>m. month_start l m \<le> b) ms)"
      if "a < b" for l a b ms
      using that by (induction ms) auto
    from this [OF n] show ?thesis
      unfolding MonthFromDay_def assms(1) by (simp only: of_nat_le_iff)
  qed
  with n show ?thesis
    unfolding DateFromDay_def assms(1) by auto
qed

lemma iso_date_less_mono:
  assumes r: "iso_range d" "iso_range d'" and "d < d'"
  shows "iso_date d < iso_date d'"
proof -
  have y: "nat (YearFromDay d) < 10 ^ 4" "nat (YearFromDay d') < 10 ^ 4"
    using r by (auto simp: iso_range_def)
  have le: "YearFromDay d \<le> YearFromDay d'"
    using assms(3) by (intro YearFromDay_mono) simp
  note cmp = append_less_iff digits_less [OF y] digits_inj [OF y]
    digits_less [OF month_day_numbers(1) month_day_numbers(1)]
    digits_inj [OF month_day_numbers(1) month_day_numbers(1)]
    digits_less [OF month_day_numbers(2) month_day_numbers(2)]
  have iso: "iso_date e = digits 4 (nat (YearFromDay e)) @ ''-'' @ month_day e" if "iso_range e" for e
    using that by (simp add: iso_date_def iso_range_def Let_def)
  show ?thesis
  proof (cases "YearFromDay d = YearFromDay d'")
    case True
    from day_in_year_less [OF this assms(3)] True show ?thesis
      unfolding iso [OF r(1)] iso [OF r(2)] month_day_def
      using MonthFromDay_range [of d] MonthFromDay_range [of d'] DateFromDay_range(1) [of d]
      by (auto simp: cmp nat_mono_iff)
  next
    case False
    with le r show ?thesis
      unfolding iso [OF r(1)] iso [OF r(2)] by (auto simp: cmp iso_range_def)
  qed
qed

lemma iso_date_less_iff: "iso_range d \<Longrightarrow> iso_range d' \<Longrightarrow> iso_date d < iso_date d' \<longleftrightarrow> d < d'"
  by (metis iso_date_less_mono linorder_neqE not_less_iff_gr_or_eq)

lemma iso_date_le_iff: "iso_range d \<Longrightarrow> iso_range d' \<Longrightarrow> iso_date d \<le> iso_date d' \<longleftrightarrow> d \<le> d'"
  using iso_date_less_iff [of d' d] by (simp flip: not_less)

end
