(* ===== verification/Json_Canonical.thy ===== *)
theory Json_Canonical
  imports Json_Text Js_Date "HOL-Library.Multiset"
begin

text \<open>
  \<open>workflowCanonicalJson\<close> of \<^verbatim>\<open>packages/domain/src/enterprise-workflows.ts\<close>, the text that the workflow
  services hash and compare. The text of a value with integer numbers determines the value,
  and the canonical text does not depend on the order in which a database returns the keys of
  an object.
\<close>

section \<open>The canonical text\<close>

fun normalize_json :: "json \<Rightarrow> json" where
  "normalize_json (JArr xs) = JArr (map normalize_json xs)"
| "normalize_json (JObj kvs) = JObj (sort_key fst (map (\<lambda>(k, v). (k, normalize_json v)) kvs))"
| "normalize_json v = v"

definition workflowCanonicalJson :: "json \<Rightarrow> string" where
  "workflowCanonicalJson v = json_text (\<lambda>_. []) (normalize_json v)"

section \<open>The text of a number\<close>

lemma nat_text_step:
  "nat_text n = (if n < 10 then [digit n] else nat_text (n div 10) @ [digit n])"
  by (subst nat_text.simps) (simp add: digit_def)

lemma nat_text_digits: "list_all is_digit (nat_text n)"
  by (induction n rule: nat_text.induct) (subst nat_text_step, simp)

lemma nat_text_nonempty: "nat_text n \<noteq> []"
  by (subst nat_text_step) simp

lemma number_value_nat_text [simp]: "number_value (nat_text n) = n"
proof (induction n rule: nat_text.induct)
  case (1 n)
  then show ?case
    by (subst nat_text_step) (auto simp: number_value_def)
qed

lemma digits_then_inj:
  assumes "list_all is_digit xs" "list_all is_digit ys"
    "r = [] \<or> \<not> is_digit (hd r)" "r' = [] \<or> \<not> is_digit (hd r')" "xs @ r = ys @ r'"
  shows "xs = ys" "r = r'"
proof -
  have tw: "takeWhile is_digit (zs @ q) = zs" "dropWhile is_digit (zs @ q) = q"
    if "list_all is_digit zs" "q = [] \<or> \<not> is_digit (hd q)" for zs q
    using that by (induction zs) (cases q; simp)+
  from tw [OF assms(1,3)] tw [OF assms(2,4)] assms(5) show "xs = ys" "r = r'"
    by metis+
qed

section \<open>The text determines the value\<close>

fun plain_json :: "json \<Rightarrow> bool" where
  "plain_json (JNum n) \<longleftrightarrow> (\<exists>i. n = js_num i \<and> \<bar>i\<bar> < 1000000000000000000000)"
| "plain_json (JArr xs) \<longleftrightarrow> (\<forall>x\<in>set xs. plain_json x)"
| "plain_json (JObj kvs) \<longleftrightarrow> (\<forall>kv\<in>set kvs. plain_json (snd kv))"
| "plain_json _ \<longleftrightarrow> True"

definition ends_value :: "string \<Rightarrow> bool" where
  "ends_value r \<longleftrightarrow> r = [] \<or> hd r \<in> {CHR '','', CHR '']'', CHR ''}''}"

abbreviation jtext :: "json \<Rightarrow> string" where
  "jtext \<equiv> json_text (\<lambda>_. [])"

lemma num_text_int: "\<bar>i\<bar> < 1000000000000000000000 \<Longrightarrow> num_text nf (js_num i) = int_text i"
proof -
  assume "\<bar>i\<bar> < 1000000000000000000000"
  then have "\<bar>of_int i :: rat\<bar> < of_int 1000000000000000000000"
    by (simp only: of_int_abs [symmetric] of_int_less_iff)
  then show ?thesis
    by (simp add: num_text_def js_num_def)
qed

lemma ends_value_not_digit: "ends_value r \<Longrightarrow> r = [] \<or> \<not> is_digit (hd r)"
  by (auto simp: ends_value_def is_digit_def)

lemma nat_text_head: "is_digit (hd (nat_text n))"
  using nat_text_digits [of n] nat_text_nonempty [of n] by (cases "nat_text n") auto

lemma int_text_inj:
  assumes "ends_value r" "ends_value r'" "int_text i @ r = int_text j @ r'"
  shows "i = j \<and> r = r'"
proof -
  have nz: "CHR ''-'' # xs \<noteq> nat_text n @ ys" for xs ys n
    using nat_text_head [of n] nat_text_nonempty [of n] by (cases "nat_text n") (auto simp: is_digit_def)
  have inj: "m = n \<and> r = r'" if "nat_text m @ r = nat_text n @ r'" for m n
    using digits_then_inj [OF nat_text_digits nat_text_digits ends_value_not_digit [OF assms(1)]
        ends_value_not_digit [OF assms(2)] that] by (metis number_value_nat_text)
  consider "i < 0" "j < 0" | "0 \<le> i" "0 \<le> j" | "i < 0" "0 \<le> j" | "0 \<le> i" "j < 0"
    by linarith
  then show ?thesis
  proof cases
    case 1
    with assms(3) inj [of "nat (- i)" "nat (- j)"] show ?thesis by (simp add: int_text_def eq_nat_nat_iff)
  next
    case 2
    with assms(3) inj [of "nat i" "nat j"] show ?thesis by (simp add: int_text_def eq_nat_nat_iff)
  next
    case 3
    with assms(3) nz [of "nat_text (nat (- i)) @ r"] show ?thesis by (simp add: int_text_def)
  next
    case 4
    with assms(3) nz [of "nat_text (nat (- j)) @ r'" "nat i" r] show ?thesis
      unfolding int_text_def by (metis append_Cons not_less)
  qed
qed

text \<open>The first character tells what kind of value follows.\<close>

datatype json_kind = KNull | KTrue | KFalse | KNum | KStr | KArr | KObj

fun kind_of :: "json \<Rightarrow> json_kind" where
  "kind_of JNull = KNull"
| "kind_of (JBool b) = (if b then KTrue else KFalse)"
| "kind_of (JNum _) = KNum"
| "kind_of (JStr _) = KStr"
| "kind_of (JArr _) = KArr"
| "kind_of (JObj _) = KObj"

definition first_kind :: "char \<Rightarrow> json_kind" where
  "first_kind c =
     (if c = CHR ''n'' then KNull else if c = CHR ''t'' then KTrue else if c = CHR ''f'' then KFalse
      else if c = CHR 0x22 then KStr else if c = CHR ''['' then KArr else if c = CHR ''{'' then KObj
      else KNum)"

lemma first_kind_digit: "is_digit c \<Longrightarrow> first_kind c = KNum"
  by (auto simp: first_kind_def is_digit_def)

lemma text_head:
  assumes "plain_json j"
  obtains c cs where "jtext j = c # cs" "first_kind c = kind_of j"
    "c \<notin> {CHR '','', CHR '']'', CHR ''}''}"
proof -
  have "\<exists>c cs. jtext j = c # cs \<and> first_kind c = kind_of j \<and> c \<notin> {CHR '','', CHR '']'', CHR ''}''}"
  proof (cases j)
    case (JNum n)
    with assms obtain i where i: "jtext j = int_text i"
      by (auto simp: num_text_int)
    have "\<exists>c cs. nat_text m = c # cs \<and> is_digit c" for m
      using nat_text_head [of m] nat_text_nonempty [of m] by (cases "nat_text m") auto
    then obtain c cs where c: "int_text i = c # cs" "is_digit c \<or> c = CHR ''-''"
      unfolding int_text_def by (metis (full_types))
    have "first_kind c = KNum" "c \<notin> {CHR '','', CHR '']'', CHR ''}''}"
      using c(2) by (auto simp: first_kind_def is_digit_def)
    then show ?thesis
      unfolding i c(1) using JNum by simp
  qed (auto simp: first_kind_def js_quote_def)
  then show thesis
    using that by blast
qed

lemma text_kind:
  assumes "plain_json j" "plain_json k" "jtext j @ r = jtext k @ r'"
  shows "kind_of j = kind_of k"
  using text_head [OF assms(1)] text_head [OF assms(2)] assms(3) by (metis append_Cons list.inject)

lemma str_join_Cons: "str_join sep (x # xs) = x @ concat (map (\<lambda>y. sep @ y) xs)"
  by (induction xs arbitrary: x) auto

text \<open>A closed sequence of items is determined when each item is.\<close>

definition determined :: "('a \<Rightarrow> string) \<Rightarrow> ('a \<Rightarrow> bool) \<Rightarrow> 'a \<Rightarrow> bool" where
  "determined item good x \<longleftrightarrow>
     (\<forall>y r r'. good y \<longrightarrow> ends_value r \<longrightarrow> ends_value r' \<longrightarrow> item x @ r = item y @ r' \<longrightarrow> x = y \<and> r = r')"

definition opens :: "('a \<Rightarrow> string) \<Rightarrow> char \<Rightarrow> 'a \<Rightarrow> bool" where
  "opens item close x \<longleftrightarrow> (\<exists>c cs. item x = c # cs \<and> c \<noteq> close)"

definition items_tail :: "('a \<Rightarrow> string) \<Rightarrow> 'a list \<Rightarrow> string" where
  "items_tail item xs = concat (map (\<lambda>x. '','' @ item x) xs)"

lemma items_tail_simps [simp]:
  "items_tail item [] = []"
  "items_tail item (x # xs) = CHR '','' # item x @ items_tail item xs"
  by (simp_all add: items_tail_def)

lemma join_items: "str_join '','' (map item (x # xs)) = item x @ items_tail item xs"
  by (simp add: str_join_Cons items_tail_def comp_def)

lemma items_tail_ends: "close \<in> {CHR '']'', CHR ''}''} \<Longrightarrow> ends_value (items_tail item xs @ close # r)"
  by (cases xs) (auto simp: ends_value_def)

lemma items_tail_inj:
  assumes "close \<in> {CHR '']'', CHR ''}''}" "\<forall>x\<in>set xs. determined item good x" "\<forall>y\<in>set ys. good y"
    "items_tail item xs @ close # r = items_tail item ys @ close # r'"
  shows "xs = ys \<and> r = r'"
  using assms(2-)
proof (induction xs arbitrary: ys)
  case Nil
  then show ?case using assms(1) by (cases ys) auto
next
  case (Cons x xs)
  show ?case
  proof (cases ys)
    case Nil
    with Cons.prems assms(1) show ?thesis by auto
  next
    case (Cons y ys')
    have "item x @ items_tail item xs @ close # r = item y @ items_tail item ys' @ close # r'"
      using Cons.prems(3) Cons by simp
    then have "x = y" "items_tail item xs @ close # r = items_tail item ys' @ close # r'"
      using Cons.prems(1,2) Cons items_tail_ends [OF assms(1)] unfolding determined_def
      by (metis list.set_intros(1))+
    with Cons.IH [of ys'] Cons.prems Cons show ?thesis
      by auto
  qed
qed

lemma items_inj:
  assumes "close \<in> {CHR '']'', CHR ''}''}" "\<forall>x\<in>set xs. determined item good x \<and> opens item close x"
    "\<forall>y\<in>set ys. good y \<and> opens item close y"
    "str_join '','' (map item xs) @ close # r = str_join '','' (map item ys) @ close # r'"
  shows "xs = ys \<and> r = r'"
proof (cases "xs = [] \<or> ys = []")
  case True
  have "str_join '','' (map item (z # zs)) @ close # q \<noteq> close # q'" if "opens item close z" for z zs q q'
    using that unfolding join_items by (auto simp: opens_def)
  with True assms(2,3,4) show ?thesis
    by (cases xs; cases ys) (auto, metis+)
next
  case False
  then obtain x xs' y ys' where l: "xs = x # xs'" "ys = y # ys'"
    by (meson list.exhaust)
  have "item x @ items_tail item xs' @ close # r = item y @ items_tail item ys' @ close # r'"
    using assms(4) unfolding l join_items by simp
  then have "x = y" "items_tail item xs' @ close # r = items_tail item ys' @ close # r'"
    using assms(2,3) l items_tail_ends [OF assms(1)] unfolding determined_def
    by (metis list.set_intros(1))+
  with items_tail_inj [OF assms(1), of xs' item good ys' r r'] assms(2,3) l show ?thesis
    by auto
qed

definition member_text :: "string \<times> json \<Rightarrow> string" where
  "member_text kv = js_quote (fst kv) @ '':'' @ jtext (snd kv)"

lemma object_text: "jtext (JObj kvs) = ''{'' @ str_join '','' (map member_text kvs) @ ''}''"
  by (simp add: member_text_def [abs_def] case_prod_beta')

lemma opens_value: "plain_json j \<Longrightarrow> close \<in> {CHR '']'', CHR ''}''} \<Longrightarrow> opens jtext close j"
  unfolding opens_def by (rule text_head [of j]) auto

lemma opens_member: "close \<in> {CHR '']'', CHR ''}''} \<Longrightarrow> opens member_text close kv"
  by (auto simp: opens_def member_text_def js_quote_def)

lemma determined_member:
  "determined jtext plain_json (snd kv) \<Longrightarrow> determined member_text (\<lambda>kv. plain_json (snd kv)) kv"
  by (auto simp: determined_def member_text_def prod_eq_iff)

lemma determined_simple:
  "determined jtext plain_json JNull" "determined jtext plain_json (JBool b)"
  "determined jtext plain_json (JStr s)"
proof -
  have only: "determined jtext plain_json x"
    if "plain_json x" "\<And>k. kind_of k = kind_of x \<Longrightarrow> k = x" for x
    unfolding determined_def using text_kind [OF that(1)] that(2) by (metis append_same_eq same_append_eq)
  have "k = JNull" if "kind_of k = kind_of JNull" for k
    using that by (cases k) (auto split: if_splits)
  then show "determined jtext plain_json JNull"
    by (intro only) simp_all
  have "k = JBool b" if "kind_of k = kind_of (JBool b)" for k
    using that by (cases k) (auto split: if_splits)
  then show "determined jtext plain_json (JBool b)"
    by (intro only) simp_all
  show "determined jtext plain_json (JStr s)"
    unfolding determined_def
  proof (intro allI impI)
    fix k r r'
    assume k: "plain_json k" and e: "jtext (JStr s) @ r = jtext k @ r'"
    from text_kind [OF _ k e] obtain t where "k = JStr t"
      by (cases k) (auto split: if_splits)
    with e show "JStr s = k \<and> r = r'" by simp
  qed
qed

lemma json_text_determined: "plain_json j \<Longrightarrow> determined jtext plain_json j"
proof (induction j)
  case (JNum n)
  then obtain i where i: "n = js_num i" "jtext (JNum n) = int_text i"
    by (auto simp: num_text_int)
  show ?case
    unfolding determined_def
  proof (intro allI impI)
    fix k r r'
    assume k: "plain_json k" and e: "ends_value r" "ends_value r'" "jtext (JNum n) @ r = jtext k @ r'"
    from text_kind [OF JNum k e(3)] obtain n' where "k = JNum n'"
      by (cases k) (auto split: if_splits)
    with k obtain i' where "k = JNum (js_num i')" "jtext k = int_text i'"
      by (auto simp: num_text_int)
    with e i int_text_inj [of r r' i i'] show "JNum n = k \<and> r = r'"
      by simp
  qed
next
  case (JArr xs)
  show ?case
    unfolding determined_def
  proof (intro allI impI)
    fix k r r'
    assume k: "plain_json k" and e: "ends_value r" "ends_value r'" "jtext (JArr xs) @ r = jtext k @ r'"
    from text_kind [OF JArr.prems k e(3)] obtain ys where ys: "k = JArr ys"
      by (cases k) (auto split: if_splits)
    have "xs = ys \<and> r = r'"
    proof (rule items_inj)
      show "str_join '','' (map jtext xs) @ CHR '']'' # r = str_join '','' (map jtext ys) @ CHR '']'' # r'"
        using e(3) ys by simp
      show "\<forall>x\<in>set xs. determined jtext plain_json x \<and> opens jtext CHR '']'' x"
        using JArr by (simp add: opens_value)
      show "\<forall>y\<in>set ys. plain_json y \<and> opens jtext CHR '']'' y"
        using k ys by (simp add: opens_value)
    qed simp
    with ys show "JArr xs = k \<and> r = r'"
      by simp
  qed
next
  case (JObj kvs)
  show ?case
    unfolding determined_def
  proof (intro allI impI)
    fix k r r'
    assume k: "plain_json k" and e: "ends_value r" "ends_value r'" "jtext (JObj kvs) @ r = jtext k @ r'"
    from text_kind [OF JObj.prems k e(3)] obtain lvs where lvs: "k = JObj lvs"
      by (cases k) (auto split: if_splits)
    have "kvs = lvs \<and> r = r'"
    proof (rule items_inj)
      show "str_join '','' (map member_text kvs) @ CHR ''}'' # r = str_join '','' (map member_text lvs) @ CHR ''}'' # r'"
        using e(3) unfolding lvs object_text by simp
      show "\<forall>kv\<in>set kvs. determined member_text (\<lambda>kv. plain_json (snd kv)) kv \<and> opens member_text CHR ''}'' kv"
        using JObj by (fastforce intro: determined_member simp: opens_member snds.simps)
      show "\<forall>kv\<in>set lvs. plain_json (snd kv) \<and> opens member_text CHR ''}'' kv"
        using k lvs by (simp add: opens_member)
    qed simp
    with lvs show "JObj kvs = k \<and> r = r'"
      by simp
  qed
qed (simp_all add: determined_simple)

section \<open>The order of keys does not matter\<close>

fun unique_keys :: "json \<Rightarrow> bool" where
  "unique_keys (JArr xs) \<longleftrightarrow> (\<forall>x\<in>set xs. unique_keys x)"
| "unique_keys (JObj kvs) \<longleftrightarrow> distinct (map fst kvs) \<and> (\<forall>kv\<in>set kvs. unique_keys (snd kv))"
| "unique_keys _ \<longleftrightarrow> True"

text \<open>Two values that are equal as JSON: arrays item by item, objects key by key.\<close>

inductive same_value :: "json \<Rightarrow> json \<Rightarrow> bool" where
  same_null: "same_value JNull JNull"
| same_bool: "same_value (JBool b) (JBool b)"
| same_num: "same_value (JNum n) (JNum n)"
| same_str: "same_value (JStr s) (JStr s)"
| same_arr: "list_all2 same_value xs ys \<Longrightarrow> same_value (JArr xs) (JArr ys)"
| same_obj: "fst ` set kvs = fst ` set lvs \<Longrightarrow>
    (\<And>k v w. (k, v) \<in> set kvs \<Longrightarrow> (k, w) \<in> set lvs \<Longrightarrow> same_value v w) \<Longrightarrow>
    same_value (JObj kvs) (JObj lvs)"

inductive_simps same_value_simps [simp]:
  "same_value JNull b" "same_value (JBool x) b" "same_value (JNum n) b" "same_value (JStr s) b"
  "same_value (JArr xs) b" "same_value (JObj kvs) b"

lemma normalize_json_plain: "plain_json j \<Longrightarrow> plain_json (normalize_json j)"
  by (induction j rule: normalize_json.induct) fastforce+

lemma sort_key_eq_iff:
  assumes "distinct (map fst xs)" "distinct (map fst (ys :: (string \<times> 'a) list))"
  shows "sort_key fst xs = sort_key fst ys \<longleftrightarrow> set xs = set ys"
proof
  assume "sort_key fst xs = sort_key fst ys"
  then show "set xs = set ys" by (metis set_sort)
next
  assume "set xs = set ys"
  moreover have "distinct xs" "distinct ys"
    using assms by (simp_all add: distinct_map)
  ultimately have "mset xs = mset (sort_key fst ys)"
    by (simp add: set_eq_iff_mset_eq_distinct)
  then show "sort_key fst xs = sort_key fst ys"
    using assms(1) by (intro sort_key_inj_key_eq) (simp_all add: distinct_map)
qed

lemma keyed_set_eq_iff:
  assumes "distinct (map fst xs)" "distinct (map fst ys)"
  shows "set xs = set ys \<longleftrightarrow>
    fst ` set xs = fst ` set ys \<and> (\<forall>k v w. (k, v) \<in> set xs \<longrightarrow> (k, w) \<in> set ys \<longrightarrow> v = w)"
proof
  assume "set xs = set ys"
  with assms show "fst ` set xs = fst ` set ys \<and> (\<forall>k v w. (k, v) \<in> set xs \<longrightarrow> (k, w) \<in> set ys \<longrightarrow> v = w)"
    by (metis eq_key_imp_eq_value)
next
  assume r: "fst ` set xs = fst ` set ys \<and> (\<forall>k v w. (k, v) \<in> set xs \<longrightarrow> (k, w) \<in> set ys \<longrightarrow> v = w)"
  have "kv \<in> set ys" if "kv \<in> set xs" for kv
  proof -
    from that r obtain w where "(fst kv, w) \<in> set ys" by (metis (no_types, lifting) image_iff prod.collapse)
    with r that show ?thesis by (metis prod.collapse)
  qed
  moreover have "kv \<in> set xs" if "kv \<in> set ys" for kv
  proof -
    from that r obtain w where "(fst kv, w) \<in> set xs" by (metis (no_types, lifting) image_iff prod.collapse)
    with r that show ?thesis by (metis prod.collapse)
  qed
  ultimately show "set xs = set ys" by blast
qed

lemma normalize_eq_iff:
  "unique_keys a \<Longrightarrow> unique_keys b \<Longrightarrow> normalize_json a = normalize_json b \<longleftrightarrow> same_value a b"
proof (induction a arbitrary: b)
  case (JArr xs)
  then have IH: "normalize_json x = normalize_json y \<longleftrightarrow> same_value x y" if "x \<in> set xs" "unique_keys y" for x y
    using that by simp
  show ?case
  proof (cases b)
    case (JArr ys)
    then have "map normalize_json xs = map normalize_json ys \<longleftrightarrow> list_all2 same_value xs ys"
      using JArr.prems IH by (auto simp: list_all2_conv_all_nth list_eq_iff_nth_eq)
    with JArr show ?thesis by simp
  qed auto
next
  case (JObj kvs)
  have IH: "normalize_json v = normalize_json w \<longleftrightarrow> same_value v w" if "(k, v) \<in> set kvs" "unique_keys w" for k v w
    using JObj that by (fastforce simp: snds.simps)
  show ?case
  proof (cases b)
    case b: (JObj lvs)
    let ?n = "map (\<lambda>(k, v). (k, normalize_json v))"
    have IH': "normalize_json v = normalize_json w \<longleftrightarrow> same_value v w"
      if "(k, v) \<in> set kvs" "(k, w) \<in> set lvs" for k v w
      using that JObj.prems(2) b by (intro IH) auto
    have fst_n: "map fst (?n zs) = map fst zs" for zs
      by (induction zs) auto
    have d: "distinct (map fst (?n kvs))" "distinct (map fst (?n lvs))"
      using JObj.prems b unfolding fst_n by simp_all
    have img: "fst ` set (?n zs) = fst ` set zs" for zs
      by (metis fst_n list.set_map)
    have mem: "(k, v') \<in> set (?n zs) \<longleftrightarrow> (\<exists>v. (k, v) \<in> set zs \<and> v' = normalize_json v)" for k v' zs
      by force
    have "normalize_json (JObj kvs) = normalize_json b \<longleftrightarrow>
        fst ` set kvs = fst ` set lvs \<and>
        (\<forall>k v w. (k, v) \<in> set kvs \<longrightarrow> (k, w) \<in> set lvs \<longrightarrow> normalize_json v = normalize_json w)"
      unfolding b normalize_json.simps json.inject sort_key_eq_iff [OF d] keyed_set_eq_iff [OF d] img mem
      by blast
    also have "\<dots> \<longleftrightarrow> same_value (JObj kvs) b"
      unfolding b same_value_simps json.inject using IH' by (metis (no_types, lifting))
    finally show ?thesis .
  qed auto
qed (case_tac [!] b; auto)+

section \<open>Properties\<close>

text \<open>
  C24: the canonical text is a faithful name of a JSON value: two values with integer numbers and
  distinct keys have the same canonical text exactly when they are equal as JSON values, whatever
  the order of their keys. A digest over the text therefore survives a database that reorders
  keys, and distinguishes everything else.
\<close>
theorem canonical_text_same_value:
  assumes "plain_json a" "plain_json b" "unique_keys a" "unique_keys b"
  shows "workflowCanonicalJson a = workflowCanonicalJson b \<longleftrightarrow> same_value a b"
proof -
  have "workflowCanonicalJson a = workflowCanonicalJson b \<longleftrightarrow> normalize_json a = normalize_json b"
    using json_text_determined [OF normalize_json_plain [OF assms(1)]] normalize_json_plain [OF assms(2)]
    unfolding workflowCanonicalJson_def determined_def ends_value_def
    by (metis append.right_neutral)
  with normalize_eq_iff [OF assms(3,4)] show ?thesis by simp
qed

theorem canonical_text_same_value_witness:
  "workflowCanonicalJson (JObj [(''b'', JNum (js_num 1)), (''a'', JArr [JStr ''x''])]) =
     workflowCanonicalJson (JObj [(''a'', JArr [JStr ''x'']), (''b'', JNum (js_num 1))])"
  by (subst canonical_text_same_value) (auto simp: js_num_def)

end
