(* ===== verification/Workflow_Records.thy ===== *)
theory Workflow_Records
  imports Workflow_Live_Policy Json_Canonical
begin

text \<open>
  The data of the workflow services, from \<^verbatim>\<open>packages/domain/src/enterprise-workflows.ts\<close>: changes,
  readiness checks, host snapshots, installations, run snapshots, receipts and summaries, each
  with its schema as a bool-valued function and, where the services hash it, its JSON form. The
  version tests of \<^verbatim>\<open>package-compatibility.ts\<close> and \<^verbatim>\<open>request-audit-context.ts\<close> are here too.

  Literal fields (\<open>host: "codex"\<close>, \<open>platform: "macos"\<close>, the time zone) are not stored in the
  records; they appear in the JSON forms. Versions and counts are natural numbers, the values
  their schemas admit.
\<close>

section \<open>Versions\<close>

text \<open>\<open>s.split(sep)\<close> for a separator of one character.\<close>

fun str_split :: "char \<Rightarrow> string \<Rightarrow> string list" where
  "str_split sep [] = [[]]"
| "str_split sep (c # cs) =
     (if c = sep then [] # str_split sep cs
      else case str_split sep cs of [] \<Rightarrow> [[c]] | w # ws \<Rightarrow> (c # w) # ws)"

definition all_digits :: "string \<Rightarrow> bool" where
  "all_digits s \<longleftrightarrow> s \<noteq> [] \<and> list_all is_digit s"

text \<open>The expression \<^verbatim>\<open>0|[1-9][0-9]*\<close>.\<close>

definition decimal_number :: "string \<Rightarrow> bool" where
  "decimal_number s \<longleftrightarrow> all_digits s \<and> (s = ''0'' \<or> hd s \<noteq> CHR ''0'')"

text \<open>The expression \<^verbatim>\<open>\d+\.\d+\.\d+\<close> of the schemas.\<close>

definition version_format :: "string \<Rightarrow> bool" where
  "version_format s \<longleftrightarrow> length (str_split CHR ''.'' s) = 3 \<and> list_all all_digits (str_split CHR ''.'' s)"

definition supportsWorkflowPackageVersion :: "string \<Rightarrow> bool" where
  "supportsWorkflowPackageVersion version =
     (case str_split CHR ''.'' version of
        [major, minor, patch] \<Rightarrow> major = ''1'' \<and> minor = ''0'' \<and> decimal_number patch
      | _ \<Rightarrow> False)"

record semantic_version =
  sv_numbers :: "nat list"
  sv_prerelease :: "string option"

definition is_prerelease_char :: "char \<Rightarrow> bool" where
  "is_prerelease_char c \<longleftrightarrow> is_digit c \<or> is_upper c \<or> is_lower c \<or> c = CHR ''.'' \<or> c = CHR ''-''"

definition semanticVersion :: "string option \<Rightarrow> semantic_version option" where
  "semanticVersion v =
     (case v of
        None \<Rightarrow> None
      | Some s \<Rightarrow>
          let core = takeWhile (\<lambda>c. c \<noteq> CHR ''-'') s; rest = dropWhile (\<lambda>c. c \<noteq> CHR ''-'') s;
              parts = str_split CHR ''.'' core in
          if length parts = 3 \<and> list_all decimal_number parts \<and>
             (rest = [] \<or> (tl rest \<noteq> [] \<and> list_all is_prerelease_char (tl rest)))
          then Some \<lparr>sv_numbers = map number_value parts,
                     sv_prerelease = (if rest = [] then None else Some (tl rest))\<rparr>
          else None)"

text \<open>The loop over the three numbers returns at the first difference.\<close>

fun numbers_at_least :: "nat list \<Rightarrow> nat list \<Rightarrow> bool option" where
  "numbers_at_least (a # as) (b # bs) = (if a \<noteq> b then Some (b < a) else numbers_at_least as bs)"
| "numbers_at_least _ _ = None"

definition launcherVersionAtLeast :: "string option \<Rightarrow> string \<Rightarrow> bool" where
  "launcherVersionAtLeast version minimum =
     (case (semanticVersion version, semanticVersion (Some minimum)) of
        (Some current, Some required) \<Rightarrow>
          (case numbers_at_least (sv_numbers current) (sv_numbers required) of
             Some r \<Rightarrow> r
           | None \<Rightarrow> sv_prerelease current = None \<or> sv_prerelease required \<noteq> None)
      | _ \<Rightarrow> False)"

definition ENTERPRISE_WORKFLOW_LAUNCHER_VERSION :: string where
  "ENTERPRISE_WORKFLOW_LAUNCHER_VERSION = ''0.16.0''"

section \<open>Changes\<close>

datatype ControlState = ctl_active | ctl_paused | ctl_revoked

datatype WorkflowChange =
    IntegrationChange EnterpriseIntegrationConfiguration
  | ConfigurationChange WorkflowConfiguration
  | AuthorizationChange "WorkflowAuthorizationScope list" "string list"
  | ControlChange ControlState string

fun workflowChangeSchema :: "zod_formats \<Rightarrow> WorkflowChange \<Rightarrow> bool" where
  "workflowChangeSchema z (IntegrationChange c) \<longleftrightarrow> enterpriseIntegrationSchema c"
| "workflowChangeSchema z (ConfigurationChange c) \<longleftrightarrow> workflowConfigurationSchema z c"
| "workflowChangeSchema z (AuthorizationChange grant revoke) \<longleftrightarrow>
     list_all (workflowAuthorizationScopeSchema z) grant \<and> length grant \<le> 20 \<and>
     list_all workflowIdSchema revoke \<and> length revoke \<le> 100"
| "workflowChangeSchema z (ControlChange _ reason) \<longleftrightarrow> 1 \<le> length reason \<and> length reason \<le> 2000"

section \<open>Installations\<close>

datatype InstallationState = ins_not_installed | ins_pending | ins_paused | ins_enabled | ins_revoked

datatype ReadinessState =
  rd_ready | rd_needs_configuration | rd_needs_login | rd_permission_denied | rd_unsupported | rd_unavailable

datatype WorkflowCapability =
    cap_configuration | cap_permissions | cap_meituan_erp | cap_meituan_reviews | cap_download
  | cap_workspace | cap_dependencies | cap_email_identity | cap_sent_mail_lookup
  | cap_host_schedule | cap_host_timezone | cap_host_model | cap_assignment | cap_file_format

datatype SampleStatus = sample_verified | sample_no_sample | sample_not_checked

record WorkflowReadinessCheck =
  rk_capability :: WorkflowCapability
  rk_status :: ReadinessState
  rk_nextStep :: string
  rk_checkedAt :: string
  rk_sampleStatus :: "SampleStatus option"

definition workflowReadinessCheckSchema :: "zod_formats \<Rightarrow> WorkflowReadinessCheck \<Rightarrow> bool" where
  "workflowReadinessCheckSchema z v \<longleftrightarrow> length (rk_nextStep v) \<le> 2000 \<and> z_isoDatetime z (rk_checkedAt v)"

datatype HostState = host_paused | host_enabled

record WorkflowHostSnapshot =
  hs_taskId :: string
  hs_projectRef :: string
  hs_cron :: string
  hs_model :: string
  hs_reasoningEffort :: string
  hs_state :: HostState
  hs_verifiedAt :: string

definition workflowHostSnapshotSchema :: "zod_formats \<Rightarrow> WorkflowHostSnapshot \<Rightarrow> bool" where
  "workflowHostSnapshotSchema z v \<longleftrightarrow>
     workflowIdSchema (hs_taskId v) \<and> workflowIdSchema (hs_projectRef v) \<and>
     1 \<le> length (hs_cron v) \<and> length (hs_cron v) \<le> 255 \<and> workflowNameSchema (hs_model v) \<and>
     hs_reasoningEffort v \<in>
       set [''minimal'', ''low'', ''medium'', ''high'', ''xhigh'', ''max'', ''ultra''] \<and>
     z_isoDatetime z (hs_verifiedAt v)"

record WorkflowInstallation =
  wi_installationId :: string
  wi_deviceAlias :: string
  wi_launcherVersion :: string
  wi_workflowPackageVersion :: string
  wi_hostSnapshot :: "WorkflowHostSnapshot option"

definition workflowInstallationSchema :: "zod_formats \<Rightarrow> WorkflowInstallation \<Rightarrow> bool" where
  "workflowInstallationSchema z v \<longleftrightarrow>
     workflowIdSchema (wi_installationId v) \<and> workflowNameSchema (wi_deviceAlias v) \<and>
     version_format (wi_launcherVersion v) \<and> version_format (wi_workflowPackageVersion v) \<and>
     opt_all (workflowHostSnapshotSchema z) (wi_hostSnapshot v)"

section \<open>Runs\<close>

datatype RunPhase =
    ph_preparing | ph_collecting | ph_validating | ph_processing | ph_delivering | ph_verifying
  | ph_cleaning | ph_finished

datatype RunStatus = st_running | st_succeeded | st_partial | st_needs_attention | st_failed | st_unknown

record WorkflowRunBinding =
  bd_installationId :: string
  bd_runId :: string
  bd_assignmentEpoch :: nat
  bd_controlVersion :: nat

record WorkflowRunSnapshot =
  sn_workflowType :: WorkflowType
  sn_window :: WorkflowWindow
  sn_integrationVersion :: nat
  sn_configurationVersion :: nat
  sn_workflowPackageVersion :: string
  sn_integration :: EnterpriseIntegrationConfiguration
  sn_configuration :: WorkflowConfiguration

definition workflowRunSnapshotSchema :: "zod_formats \<Rightarrow> WorkflowRunSnapshot \<Rightarrow> bool" where
  "workflowRunSnapshotSchema z v \<longleftrightarrow>
     workflowDateRangeSchema z (sn_window v) \<and>
     version_format (sn_workflowPackageVersion v) \<and> enterpriseIntegrationSchema (sn_integration v) \<and>
     workflowConfigurationSchema z (sn_configuration v) \<and>
     sn_workflowType v = config_type (sn_configuration v)"

datatype ObservationStatus = ob_observed_zero | ob_no_source | ob_unreadable | ob_incomplete | ob_confirmed

record WorkflowObservation =
  ob_dataset :: WorkflowDataset
  ob_storeName :: string
  ob_date :: string
  ob_status :: ObservationStatus
  ob_evidenceHash :: "string option"

definition workflowObservationSchema :: "zod_formats \<Rightarrow> WorkflowObservation \<Rightarrow> bool" where
  "workflowObservationSchema z v \<longleftrightarrow>
     workflowNameSchema (ob_storeName v) \<and> z_isoDate z (ob_date v) \<and>
     opt_all workflowHashSchema (ob_evidenceHash v) \<and>
     (ob_status v \<noteq> ob_observed_zero \<or> ob_evidenceHash v \<noteq> None)"

datatype Cleanup = cl_pending | cl_confirmed_files_cleaned | cl_retained | cl_blocked

definition WORKFLOW_ERROR_CODES :: "string list" where
  "WORKFLOW_ERROR_CODES =
     [''WORKFLOW_CONFIGURATION_REQUIRED'', ''WORKFLOW_VERSION_INCOMPATIBLE'',
      ''WORKFLOW_SOURCE_MAPPING_CONFLICT'', ''WORKFLOW_ADMIN_REQUIRED'', ''WORKFLOW_PERMISSION_DENIED'',
      ''WORKFLOW_INSTALLATION_MISMATCH'', ''WORKFLOW_BUSY'', ''WORKFLOW_CONTROL_REVOKED'',
      ''WORKFLOW_ACTION_UNKNOWN'', ''WORKFLOW_VERSION_CONFLICT'', ''ORDER_SCOPE_CONFLICT'',
      ''ORDER_SCOPE_REQUIRED'', ''WORKFLOW_SOURCE_UNAVAILABLE'']"

record UnresolvedItem =
  ur_code :: string
  ur_actionId :: "string option"
  ur_nextStep :: string

record WorkflowRunSummary =
  sm_phase :: RunPhase
  sm_status :: RunStatus
  sm_observations :: "WorkflowObservation list"
  sm_unresolved :: "UnresolvedItem list"
  sm_cleanup :: Cleanup

section \<open>Receipts\<close>

datatype ActionState = ac_intent | ac_confirmed | ac_failed | ac_unknown

datatype ReceiptState = rcp_confirmed | rcp_failed | rcp_unknown

fun receipt_action_state :: "ReceiptState \<Rightarrow> ActionState" where
  "receipt_action_state rcp_confirmed = ac_confirmed"
| "receipt_action_state rcp_failed = ac_failed"
| "receipt_action_state rcp_unknown = ac_unknown"

datatype Evidence =
    ev_service_status | ev_launcher_transfer | ev_provider_readback | ev_smedc_readback
  | ev_manual_resolution | ev_request_rejected | ev_transport_unknown

record LauncherTransfer =
  lt_identityHash :: string
  lt_manifestHash :: string
  lt_resultHash :: string
  lt_launcherVersion :: string
  lt_verifiedAt :: string
  lt_partitionCount :: nat
  lt_fileCount :: nat
  lt_totalByteSize :: string
  lt_totalRowCount :: string
  lt_requestId :: "string option"

record SmedcReadback =
  rb_identityHash :: string
  rb_observedFactsHash :: string
  rb_resultHash :: string
  rb_recordIds :: "string list"
  rb_observedAt :: string
  rb_reviewCount :: nat
  rb_matchedCount :: nat

datatype ProviderOutcome = out_published | out_sent | out_not_executed

record ProviderReadback =
  pr_identityHash :: string
  pr_artifactHash :: string
  pr_correlationMarker :: string
  pr_providerReceiptId :: string
  pr_observedAt :: string
  pr_outcome :: ProviderOutcome

record WorkflowActionReceipt =
  rt_actionId :: string
  rt_state :: ReceiptState
  rt_evidence :: Evidence
  rt_receiptId :: "string option"
  rt_jobId :: "string option"
  rt_resultHash :: "string option"
  rt_reason :: "string option"
  rt_verifiedAt :: string
  rt_launcherTransfer :: "LauncherTransfer option"
  rt_smedcReadback :: "SmedcReadback option"
  rt_providerReadback :: "ProviderReadback option"

definition digits_up_to_20 :: "string \<Rightarrow> bool" where
  "digits_up_to_20 s \<longleftrightarrow> all_digits s \<and> length s \<le> 20"

definition launcherTransferSchema :: "zod_formats \<Rightarrow> LauncherTransfer \<Rightarrow> bool" where
  "launcherTransferSchema z v \<longleftrightarrow>
     workflowHashSchema (lt_identityHash v) \<and> workflowHashSchema (lt_manifestHash v) \<and>
     workflowHashSchema (lt_resultHash v) \<and> version_format (lt_launcherVersion v) \<and>
     z_isoDatetime z (lt_verifiedAt v) \<and> lt_partitionCount v \<le> 100000 \<and> lt_fileCount v \<le> 100000 \<and>
     digits_up_to_20 (lt_totalByteSize v) \<and> digits_up_to_20 (lt_totalRowCount v) \<and>
     opt_all workflowIdSchema (lt_requestId v)"

definition smedcReadbackSchema :: "zod_formats \<Rightarrow> SmedcReadback \<Rightarrow> bool" where
  "smedcReadbackSchema z v \<longleftrightarrow>
     workflowHashSchema (rb_identityHash v) \<and> workflowHashSchema (rb_observedFactsHash v) \<and>
     workflowHashSchema (rb_resultHash v) \<and> list_all workflowIdSchema (rb_recordIds v) \<and>
     1 \<le> length (rb_recordIds v) \<and> length (rb_recordIds v) \<le> 1000 \<and>
     length (js_uniq (rb_recordIds v)) = length (rb_recordIds v) \<and> z_isoDatetime z (rb_observedAt v) \<and>
     0 < rb_reviewCount v \<and> rb_reviewCount v \<le> 1000 \<and> 0 < rb_matchedCount v \<and> rb_matchedCount v \<le> 1000"

definition providerReadbackSchema :: "zod_formats \<Rightarrow> ProviderReadback \<Rightarrow> bool" where
  "providerReadbackSchema z v \<longleftrightarrow>
     workflowHashSchema (pr_identityHash v) \<and> workflowHashSchema (pr_artifactHash v) \<and>
     workflowIdSchema (pr_correlationMarker v) \<and> workflowNameSchema (pr_providerReceiptId v) \<and>
     z_isoDatetime z (pr_observedAt v)"

text \<open>The issues of \<open>superRefine\<close>. \<open>!v.receiptId\<close> also holds of the empty string, which the name
  schema excludes; \<open>reason\<close> may be empty.\<close>

definition receipt_issues :: "WorkflowActionReceipt \<Rightarrow> string list" where
  "receipt_issues v =
     (if rt_state v = rcp_confirmed \<and>
         (rt_evidence v \<notin> {ev_service_status, ev_launcher_transfer, ev_provider_readback,
            ev_smedc_readback, ev_manual_resolution} \<or> (rt_receiptId v = None \<and> rt_jobId v = None))
      then [''Confirmed actions require a verified receipt or job identity.''] else []) @
     (if rt_evidence v = ev_manual_resolution \<and>
         (case rt_reason v of None \<Rightarrow> True | Some r \<Rightarrow> js_trim r = [])
      then [''Manual resolution requires an audited reason.''] else []) @
     (if rt_evidence v = ev_transport_unknown \<and> rt_state v \<noteq> rcp_unknown
      then [''Transport uncertainty cannot establish a terminal result.''] else [])"

definition workflowActionReceiptSchema :: "zod_formats \<Rightarrow> WorkflowActionReceipt \<Rightarrow> bool" where
  "workflowActionReceiptSchema z v \<longleftrightarrow>
     workflowIdSchema (rt_actionId v) \<and> opt_all workflowNameSchema (rt_receiptId v) \<and>
     opt_all workflowNameSchema (rt_jobId v) \<and> opt_all workflowHashSchema (rt_resultHash v) \<and>
     opt_all (\<lambda>s. length s \<le> 2000) (rt_reason v) \<and> z_isoDatetime z (rt_verifiedAt v) \<and>
     opt_all (launcherTransferSchema z) (rt_launcherTransfer v) \<and>
     opt_all (smedcReadbackSchema z) (rt_smedcReadback v) \<and>
     opt_all (providerReadbackSchema z) (rt_providerReadback v) \<and>
     receipt_issues v = []"

section \<open>JSON forms\<close>

fun purpose_text :: "MailPurpose \<Rightarrow> string" where
  "purpose_text review_drafts = ''review_drafts''"
| "purpose_text weekly_report = ''weekly_report''"
| "purpose_text exception_mail = ''exception''"

fun control_text :: "ControlState \<Rightarrow> string" where
  "control_text ctl_active = ''active''"
| "control_text ctl_paused = ''paused''"
| "control_text ctl_revoked = ''revoked''"

fun host_state_text :: "HostState \<Rightarrow> string" where
  "host_state_text host_paused = ''paused''"
| "host_state_text host_enabled = ''enabled''"

fun phase_text :: "RunPhase \<Rightarrow> string" where
  "phase_text ph_preparing = ''preparing''"
| "phase_text ph_collecting = ''collecting''"
| "phase_text ph_validating = ''validating''"
| "phase_text ph_processing = ''processing''"
| "phase_text ph_delivering = ''delivering''"
| "phase_text ph_verifying = ''verifying''"
| "phase_text ph_cleaning = ''cleaning''"
| "phase_text ph_finished = ''finished''"

fun run_status_text :: "RunStatus \<Rightarrow> string" where
  "run_status_text st_running = ''running''"
| "run_status_text st_succeeded = ''succeeded''"
| "run_status_text st_partial = ''partial''"
| "run_status_text st_needs_attention = ''needs_attention''"
| "run_status_text st_failed = ''failed''"
| "run_status_text st_unknown = ''unknown''"

fun observation_text :: "ObservationStatus \<Rightarrow> string" where
  "observation_text ob_observed_zero = ''observed_zero''"
| "observation_text ob_no_source = ''no_source''"
| "observation_text ob_unreadable = ''unreadable''"
| "observation_text ob_incomplete = ''incomplete''"
| "observation_text ob_confirmed = ''confirmed''"

fun cleanup_text :: "Cleanup \<Rightarrow> string" where
  "cleanup_text cl_pending = ''pending''"
| "cleanup_text cl_confirmed_files_cleaned = ''confirmed_files_cleaned''"
| "cleanup_text cl_retained = ''retained''"
| "cleanup_text cl_blocked = ''blocked''"

fun receipt_state_text :: "ReceiptState \<Rightarrow> string" where
  "receipt_state_text rcp_confirmed = ''confirmed''"
| "receipt_state_text rcp_failed = ''failed''"
| "receipt_state_text rcp_unknown = ''unknown''"

fun evidence_text :: "Evidence \<Rightarrow> string" where
  "evidence_text ev_service_status = ''service_status''"
| "evidence_text ev_launcher_transfer = ''launcher_transfer''"
| "evidence_text ev_provider_readback = ''provider_readback''"
| "evidence_text ev_smedc_readback = ''smedc_readback''"
| "evidence_text ev_manual_resolution = ''manual_resolution''"
| "evidence_text ev_request_rejected = ''request_rejected''"
| "evidence_text ev_transport_unknown = ''transport_unknown''"

fun outcome_text :: "ProviderOutcome \<Rightarrow> string" where
  "outcome_text out_published = ''published''"
| "outcome_text out_sent = ''sent''"
| "outcome_text out_not_executed = ''not_executed''"

definition jnat :: "nat \<Rightarrow> json" where
  "jnat n = JNum (js_num (int n))"

definition jstrs :: "string list \<Rightarrow> json" where
  "jstrs ss = JArr (map JStr ss)"

definition json_of_window :: "WorkflowWindow \<Rightarrow> json" where
  "json_of_window w = JObj [(''startDate'', JStr (w_startDate w)), (''endDate'', JStr (w_endDate w))]"

definition json_of_review :: "ReviewIdentity \<Rightarrow> json" where
  "json_of_review r = JObj
     [(''source'', json_of_source (ri_source r)), (''feedbackId'', JStr (ri_feedbackId r)),
      (''recipient'', JStr (ri_recipient r))]"

fun json_of_identity :: "WorkflowActionIdentity \<Rightarrow> json" where
  "json_of_identity (UploadAction v) = JObj
     ([(''storeNames'', jstrs (up_storeNames v)), (''window'', json_of_window (up_window v)),
       (''kind'', JStr ''upload''), (''dataset'', JStr (dataset_text (up_dataset v)))] @
      opt_field ''orderScope'' JStr (up_orderScope v) @
      [(''sourceHash'', JStr (up_sourceHash v)), (''metadataHash'', JStr (up_metadataHash v))])"
| "json_of_identity (DownloadAction v) = JObj
     ([(''storeNames'', jstrs (dl_storeNames v)), (''window'', json_of_window (dl_window v)),
       (''kind'', JStr ''download''), (''dataset'', JStr (dataset_text (dl_dataset v)))] @
      opt_field ''manifestHash'' JStr (dl_manifestHash v))"
| "json_of_identity (ReviewSyncAction v) = JObj
     [(''storeNames'', jstrs (rs_storeNames v)), (''window'', json_of_window (rs_window v)),
      (''kind'', JStr ''review_sync''), (''source'', json_of_source (rs_source v)),
      (''observedFactsHash'', JStr (rs_observedFactsHash v))]"
| "json_of_identity (ReviewPublishAction v) = JObj
     [(''kind'', JStr ''review_publish''), (''storeName'', JStr (rp_storeName v)),
      (''source'', json_of_source (rp_source v)), (''feedbackId'', JStr (rp_feedbackId v)),
      (''purpose'', JStr ''customer_reply'')]"
| "json_of_identity (EmailAction v) = JObj
     ([(''storeNames'', jstrs (em_storeNames v)), (''window'', json_of_window (em_window v)),
       (''kind'', JStr ''email''), (''purpose'', JStr (purpose_text (em_purpose v))),
       (''recipients'', jstrs (em_recipients v)), (''sender'', JStr (em_sender v)),
       (''deliveryVersion'', JNum (em_deliveryVersion v))] @
      opt_field ''reviewIdentities'' (\<lambda>rs. JArr (map json_of_review rs)) (em_reviewIdentities v))"

definition json_of_transfer :: "LauncherTransfer \<Rightarrow> json" where
  "json_of_transfer v = JObj
     ([(''identityHash'', JStr (lt_identityHash v)), (''manifestHash'', JStr (lt_manifestHash v)),
       (''resultHash'', JStr (lt_resultHash v)), (''launcherVersion'', JStr (lt_launcherVersion v)),
       (''verifiedAt'', JStr (lt_verifiedAt v)), (''partitionCount'', jnat (lt_partitionCount v)),
       (''fileCount'', jnat (lt_fileCount v)), (''totalByteSize'', JStr (lt_totalByteSize v)),
       (''totalRowCount'', JStr (lt_totalRowCount v))] @
      opt_field ''requestId'' JStr (lt_requestId v))"

definition json_of_readback :: "SmedcReadback \<Rightarrow> json" where
  "json_of_readback v = JObj
     [(''identityHash'', JStr (rb_identityHash v)), (''observedFactsHash'', JStr (rb_observedFactsHash v)),
      (''resultHash'', JStr (rb_resultHash v)), (''recordIds'', jstrs (rb_recordIds v)),
      (''observedAt'', JStr (rb_observedAt v)), (''outcome'', JStr ''matched''),
      (''reviewCount'', jnat (rb_reviewCount v)), (''matchedCount'', jnat (rb_matchedCount v))]"

definition json_of_provider :: "ProviderReadback \<Rightarrow> json" where
  "json_of_provider v = JObj
     [(''identityHash'', JStr (pr_identityHash v)), (''artifactHash'', JStr (pr_artifactHash v)),
      (''correlationMarker'', JStr (pr_correlationMarker v)),
      (''providerReceiptId'', JStr (pr_providerReceiptId v)), (''observedAt'', JStr (pr_observedAt v)),
      (''outcome'', JStr (outcome_text (pr_outcome v)))]"

definition json_of_receipt :: "WorkflowActionReceipt \<Rightarrow> json" where
  "json_of_receipt v = JObj
     ([(''actionId'', JStr (rt_actionId v)), (''state'', JStr (receipt_state_text (rt_state v))),
       (''evidence'', JStr (evidence_text (rt_evidence v)))] @
      opt_field ''receiptId'' JStr (rt_receiptId v) @ opt_field ''jobId'' JStr (rt_jobId v) @
      opt_field ''resultHash'' JStr (rt_resultHash v) @ opt_field ''reason'' JStr (rt_reason v) @
      [(''verifiedAt'', JStr (rt_verifiedAt v))] @
      opt_field ''launcherTransfer'' json_of_transfer (rt_launcherTransfer v) @
      opt_field ''smedcReadback'' json_of_readback (rt_smedcReadback v) @
      opt_field ''providerReadback'' json_of_provider (rt_providerReadback v))"

definition json_of_intent :: "WorkflowActionIntent \<Rightarrow> json" where
  "json_of_intent v = JObj
     ([(''actionId'', JStr (ai_actionId v)), (''identity'', json_of_identity (ai_identity v))] @
      opt_field ''artifactHash'' JStr (ai_artifactHash v) @
      opt_field ''correlationMarker'' JStr (ai_correlationMarker v))"

definition json_of_host :: "WorkflowHostSnapshot \<Rightarrow> json" where
  "json_of_host v = JObj
     [(''host'', JStr ''codex''), (''platform'', JStr ''macos''), (''taskId'', JStr (hs_taskId v)),
      (''projectRef'', JStr (hs_projectRef v)), (''cron'', JStr (hs_cron v)),
      (''timezone'', JStr ''Asia/Shanghai''), (''model'', JStr (hs_model v)),
      (''reasoningEffort'', JStr (hs_reasoningEffort v)), (''state'', JStr (host_state_text (hs_state v))),
      (''verifiedAt'', JStr (hs_verifiedAt v))]"

definition json_of_policy_source :: "PolicySource \<Rightarrow> json" where
  "json_of_policy_source v = JObj
     [(''key'', JStr (ps_key v)), (''storeName'', JStr (ps_storeName v)), (''binding'', JStr (ps_binding v))]"

definition json_of_policy :: "WorkflowLivePolicy \<Rightarrow> json" where
  "json_of_policy v = JObj
     [(''stores'', jstrs (lp_stores v)), (''datasets'', JArr (map (JStr \<circ> dataset_text) (lp_datasets v))),
      (''channels'', JArr (map (JStr \<circ> channel_text) (lp_channels v))),
      (''publicationStores'', jstrs (lp_publicationStores v)), (''senders'', jstrs (lp_senders v)),
      (''recipients'', jstrs (lp_recipients v)),
      (''sources'', JArr (map json_of_policy_source (lp_sources v))),
      (''ignored'', jstrs (lp_ignored v)), (''reviewsBlocked'', JBool (lp_reviewsBlocked v))]"

fun json_of_scope :: "WorkflowAuthorizationScope \<Rightarrow> json" where
  "json_of_scope (UploadScope ds stores) = JObj
     [(''kind'', JStr ''upload''), (''datasets'', JArr (map (JStr \<circ> dataset_text) ds)), (''storeNames'', jstrs stores)]"
| "json_of_scope (DownloadScope ds stores) = JObj
     [(''kind'', JStr ''download''), (''datasets'', JArr (map (JStr \<circ> dataset_text) ds)), (''storeNames'', jstrs stores)]"
| "json_of_scope (ReviewSyncScope chs stores) = JObj
     [(''kind'', JStr ''review_sync''), (''channels'', JArr (map (JStr \<circ> channel_text) chs)), (''storeNames'', jstrs stores)]"
| "json_of_scope (ReviewPublishScope chs stores) = JObj
     [(''kind'', JStr ''review_publish''), (''channels'', JArr (map (JStr \<circ> channel_text) chs)), (''storeNames'', jstrs stores)]"
| "json_of_scope (EmailScope p stores recipients sender version) = JObj
     [(''kind'', JStr ''email''), (''purpose'', JStr (purpose_text p)), (''storeNames'', jstrs stores),
      (''recipients'', jstrs recipients), (''allowedSender'', JStr sender), (''deliveryVersion'', JNum version)]"

fun json_of_change :: "WorkflowChange \<Rightarrow> json" where
  "json_of_change (IntegrationChange c) =
     JObj [(''kind'', JStr ''integration''), (''configuration'', json_of_integration c)]"
| "json_of_change (ConfigurationChange c) =
     JObj [(''kind'', JStr ''configuration''), (''configuration'', json_of_configuration c)]"
| "json_of_change (AuthorizationChange grant revoke) =
     JObj [(''kind'', JStr ''authorization''), (''grant'', JArr (map json_of_scope grant)),
           (''revokeAuthorizationIds'', jstrs revoke)]"
| "json_of_change (ControlChange state reason) =
     JObj [(''kind'', JStr ''control''), (''state'', JStr (control_text state)), (''reason'', JStr reason)]"

definition json_of_observation :: "WorkflowObservation \<Rightarrow> json" where
  "json_of_observation v = JObj
     ([(''dataset'', JStr (dataset_text (ob_dataset v))), (''storeName'', JStr (ob_storeName v)),
       (''date'', JStr (ob_date v)), (''status'', JStr (observation_text (ob_status v)))] @
      opt_field ''evidenceHash'' JStr (ob_evidenceHash v))"

definition json_of_unresolved :: "UnresolvedItem \<Rightarrow> json" where
  "json_of_unresolved v = JObj
     ([(''code'', JStr (ur_code v))] @ opt_field ''actionId'' JStr (ur_actionId v) @
      [(''nextStep'', JStr (ur_nextStep v))])"

definition json_of_summary :: "WorkflowRunSummary \<Rightarrow> json" where
  "json_of_summary v = JObj
     [(''phase'', JStr (phase_text (sm_phase v))), (''status'', JStr (run_status_text (sm_status v))),
      (''observations'', JArr (map json_of_observation (sm_observations v))),
      (''unresolved'', JArr (map json_of_unresolved (sm_unresolved v))),
      (''cleanup'', JStr (cleanup_text (sm_cleanup v)))]"

definition workflowRunSummarySchema :: "zod_formats \<Rightarrow> WorkflowRunSummary \<Rightarrow> bool" where
  "workflowRunSummarySchema z v \<longleftrightarrow>
     list_all (workflowObservationSchema z) (sm_observations v) \<and>
     length (sm_observations v) \<le> lim_summaryItems WORKFLOW_LIMITS \<and>
     list_all (\<lambda>u. ur_code u \<in> set WORKFLOW_ERROR_CODES \<and> opt_all workflowIdSchema (ur_actionId u) \<and>
       length (ur_nextStep u) \<le> 2000) (sm_unresolved v) \<and>
     length (sm_unresolved v) \<le> lim_summaryItems WORKFLOW_LIMITS \<and>
     length (sm_observations v) + length (sm_unresolved v) \<le> lim_summaryItems WORKFLOW_LIMITS \<and>
     workflowPayloadFits (json_of_summary v) (lim_summaryBytes WORKFLOW_LIMITS)"

end
