(* ===== verification/Workflow_Store.thy ===== *)
theory Workflow_Store
  imports Workflow_Records Business_Authorization Row_Store
begin

text \<open>
  The state of the workflow services (\<^verbatim>\<open>packages/db/prisma/schema.prisma\<close>, models 1447 to 1651) and
  \<^verbatim>\<open>apps/api/src/enterprise-workflows/repository.ts\<close>: the authorization snapshot a transaction loads,
  the lock of a workflow row, read checks, digests and the audit log.

  \<^item> \<open>wf_db\<close> has one list of rows per table; JSON columns hold the typed values the schemas
    accepted when they were written. \<open>wf_facts\<close> holds the tables of other components, which the
    workflow services only read.
  \<^item> A transaction is a function from the database to an error or a result with the next
    database; an error rolls back. \<open>create\<close> on a table with a unique key fails with
    \<open>UniqueViolation\<close> when the key is taken. Generated ids are arguments, so the model does not
    assume that they are fresh.
  \<^item> Every transaction that writes locks the rows of the enterprise integration and of the
    workflow first, so transactions on one enterprise are atomic steps.
\<close>

datatype workflow_error =
    WORKFLOW_ADMIN_REQUIRED
  | WORKFLOW_CONFIGURATION_REQUIRED
  | WORKFLOW_PERMISSION_DENIED
  | WORKFLOW_SOURCE_MAPPING_CONFLICT
  | WORKFLOW_VERSION_CONFLICT
  | WORKFLOW_VERSION_INCOMPATIBLE
  | WORKFLOW_INSTALLATION_MISMATCH
  | WORKFLOW_SOURCE_UNAVAILABLE
  | WORKFLOW_BUSY
  | WORKFLOW_CONTROL_REVOKED
  | WORKFLOW_ACTION_UNKNOWN
  | UniqueViolation
  | RecordNotFound
  | SchemaError
  | UncaughtError

section \<open>Tables of other components\<close>

record employee_fact =
  ef_orgId :: string
  ef_id :: string
  ef_role :: EmployeeRole
  ef_disabled :: bool
  ef_clearance :: js_number

record state_fact =
  sf_orgId :: string
  sf_mode :: AuthorizationMode
  sf_version :: nat

record category_fact =
  cf_orgId :: string
  cf_id :: string
  cf_key :: "string option"
  cf_kind :: CategoryKind
  cf_confidentialityLevel :: "js_number option"
  cf_allowGroup :: bool
  cf_allowStore :: bool
  cf_dimensionIds :: "string list"

record grant_dimension =
  gd_dimensionId :: string
  gd_allValues :: bool
  gd_values :: "string list"

record grant_fact =
  gf_orgId :: string
  gf_id :: string
  gf_employeeId :: string
  gf_enterpriseKey :: string
  gf_ownership :: BusinessOwnership
  gf_allStores :: bool
  gf_categoryIds :: "string list"
  gf_stores :: "string list"
  gf_dimensions :: "grant_dimension list"

record store_fact =
  bst_orgId :: string
  bst_enterpriseKey :: string
  bst_name :: string
  bst_retired :: bool

datatype resource_kind = rk_store_review | rk_source_fragment | rk_other

record scope_fact =
  rsc_enterpriseKey :: string
  rsc_ownership :: BusinessOwnership
  rsc_storeName :: "string option"

record resource_fact =
  rf_orgId :: string
  rf_kind :: resource_kind
  rf_resourceKey :: string
  rf_categoryId :: string
  rf_valid :: bool
  rf_sourceDocumentId :: "string option"
  rf_scopes :: "scope_fact list"

text \<open>An import batch joined with its source document; \<open>ib_applied\<close> is \<open>status = "applied"\<close>.\<close>

record batch_fact =
  ib_orgId :: string
  ib_id :: string
  ib_dataset :: string
  ib_applied :: bool
  ib_appliedAt :: "time_ms option"
  ib_archivedAt :: "time_ms option"
  ib_naturalKey :: "string option"
  ib_appliedRowCount :: nat
  ib_sourceDocumentId :: string
  ib_documentChecksum :: string
  ib_documentActive :: bool
  ib_documentArchivedAt :: "time_ms option"

text \<open>The three members of a ledger row's payload that are read, as \<open>JSON_UNQUOTE\<close> returns them.\<close>

record ledger_fact =
  lg_orgId :: string
  lg_importBatchId :: string
  lg_sourceDocumentId :: string
  lg_storeName :: "string option"
  lg_receiptId :: "string option"
  lg_purchaseDate :: "string option"

datatype OrderScope = os_settled_only | os_all_statuses | os_legacy_unknown

record job_fact =
  pj_orgId :: string
  pj_id :: string
  pj_enterpriseKey :: string
  pj_dataset :: string
  pj_sourceChecksumSha256 :: string
  pj_published :: bool
  pj_sourceStartDate :: day
  pj_sourceEndDate :: day
  pj_orderScope :: "OrderScope option"
  pj_partitionCount :: nat

record partition_fact =
  pt_orgId :: string
  pt_enterpriseKey :: string
  pt_dataset :: string
  pt_storeName :: string
  pt_businessDate :: day
  pt_rowCount :: nat
  pt_publishedByJobId :: string

record download_fact =
  dr_orgId :: string
  dr_id :: string
  dr_requesterId :: string
  dr_succeeded :: bool
  dr_enterpriseKey :: string
  dr_dataset :: string
  dr_startDate :: string
  dr_endDate :: string
  dr_manifestStores :: "string list"
  dr_partitionCount :: nat
  dr_totalRowCount :: nat

text \<open>The column \<open>source\<close> of a review, by the channel whose title it holds.\<close>

datatype review_source = src_meituan | src_dianping | src_other

record review_fact =
  rv_orgId :: string
  rv_id :: string
  rv_enterpriseKey :: string
  rv_storeName :: string
  rv_source :: review_source
  rv_reviewedAt :: time_ms

record wf_facts =
  fc_employees :: "employee_fact list"
  fc_states :: "state_fact list"
  fc_categories :: "category_fact list"
  fc_grants :: "grant_fact list"
  fc_enterprises :: "(string \<times> string) list"
  fc_stores :: "store_fact list"
  fc_resources :: "resource_fact list"
  fc_batches :: "batch_fact list"
  fc_ledger :: "ledger_fact list"
  fc_jobs :: "job_fact list"
  fc_partitions :: "partition_fact list"
  fc_downloads :: "download_fact list"
  fc_reviews :: "review_fact list"

section \<open>Tables of the workflow services\<close>

record integration_row =
  ei_orgId :: string
  ei_enterpriseKey :: string
  ei_version :: nat
  ei_configuration :: EnterpriseIntegrationConfiguration
  ei_orderScopeRequired :: bool
  ei_updatedBy :: string

record workflow_row =
  wf_id :: string
  wf_orgId :: string
  wf_enterpriseKey :: string
  wf_type :: WorkflowType
  wf_version :: nat
  wf_controlVersion :: nat
  wf_controlState :: ControlState
  wf_assignmentEpoch :: nat
  wf_assignedInstallationId :: "string option"
  wf_leaseRunId :: "string option"
  wf_leaseExpiresAt :: "time_ms option"

record configuration_row =
  cv_orgId :: string
  cv_workflowId :: string
  cv_version :: nat
  cv_configuration :: WorkflowConfiguration
  cv_createdBy :: string

record workflow_dependency =
  dp_workflowId :: string
  dp_version :: nat
  dp_controlVersion :: nat

record affected_workflow =
  af_workflowType :: WorkflowType
  af_storeNames :: "string list"

record takeover_change =
  tk_installationId :: string
  tk_assignmentEpoch :: nat
  tk_oldInstallationId :: "string option"
  tk_oldHostState :: bool
  tk_unknownActionIds :: "string list"
  tk_unknownActionCount :: nat
  tk_unknownLatestChange :: "string option"

record backfill_change =
  bf_installationId :: string
  bf_assignmentEpoch :: nat
  bf_window :: WorkflowWindow
  bf_reason :: string

text \<open>
  The column \<open>change\<close> of a preview: a bare change, an integration change in its envelope, a
  takeover (\<open>tk_oldHostState\<close> holds when the old host is declared paused rather than unavailable)
  or a backfill. Each reader's \<open>safeParse\<close> accepts one of the shapes.
\<close>

datatype preview_change =
    PlainChange WorkflowChange
  | EnvelopeChange WorkflowChange "workflow_dependency list" "affected_workflow list"
  | TakeoverChange takeover_change
  | BackfillChange backfill_change

record preview_row =
  pv_id :: string
  pv_orgId :: string
  pv_enterpriseKey :: string
  pv_workflowType :: WorkflowType
  pv_expectedVersion :: nat
  pv_expectedIntegrationVersion :: nat
  pv_expectedControlVersion :: nat
  pv_change :: preview_change
  pv_confirmationDigest :: string
  pv_preparedBy :: string
  pv_expiresAt :: time_ms
  pv_consumedAt :: "time_ms option"

record authorization_row =
  wa_id :: string
  wa_orgId :: string
  wa_workflowId :: string
  wa_scope :: WorkflowAuthorizationScope
  wa_configurationVersion :: nat
  wa_controlVersion :: nat
  wa_grantedBy :: string
  wa_grantedAt :: time_ms
  wa_revokedBy :: "string option"
  wa_revokedAt :: "time_ms option"

datatype FirstRunVerification = fr_not_run | fr_verified | fr_failed | fr_partial

record installation_row =
  il_orgId :: string
  il_workflowId :: string
  il_installationId :: string
  il_employeeId :: string
  il_version :: nat
  il_deviceAlias :: string
  il_launcherVersion :: string
  il_workflowPackageVersion :: string
  il_state :: InstallationState
  il_hostSnapshot :: "WorkflowHostSnapshot option"
  il_readinessChecks :: "WorkflowReadinessCheck list"
  il_firstRunVerification :: FirstRunVerification
  il_lastCheckedAt :: "time_ms option"
  il_updatedAt :: time_ms

datatype RunMode = mode_scheduled | mode_backfill

record run_row =
  rn_id :: string
  rn_orgId :: string
  rn_workflowId :: string
  rn_installationId :: string
  rn_employeeId :: string
  rn_configurationVersion :: nat
  rn_integrationVersion :: nat
  rn_controlVersion :: nat
  rn_assignmentEpoch :: nat
  rn_workflowPackageVersion :: string
  rn_startDate :: string
  rn_endDate :: string
  rn_mode :: RunMode
  rn_snapshot :: WorkflowRunSnapshot
  rn_restrictivePolicy :: "WorkflowLivePolicy option"
  rn_phase :: RunPhase
  rn_status :: RunStatus
  rn_summary :: "WorkflowRunSummary option"
  rn_startedAt :: time_ms
  rn_renewedAt :: time_ms
  rn_finishedAt :: "time_ms option"
  rn_retainUntil :: time_ms

record action_row =
  at_orgId :: string
  at_workflowId :: string
  at_actionId :: string
  at_runId :: string
  at_idempotencyKey :: string
  at_identity :: WorkflowActionIdentity
  at_artifactHash :: "string option"
  at_correlationMarker :: "string option"
  at_state :: ActionState
  at_receipt :: "WorkflowActionReceipt option"
  at_createdAt :: time_ms
  at_updatedAt :: time_ms
  at_confirmedAt :: "time_ms option"

record dedup_row =
  dd_orgId :: string
  dd_workflowId :: string
  dd_key :: string
  dd_actionId :: string

record audit_row =
  au_orgId :: string
  au_actorEmployeeId :: string
  au_action :: string
  au_targetId :: string
  au_metadata :: json

section \<open>Migrations\<close>

record completed_action =
  ca_legacyKeyHash :: string
  ca_intent :: WorkflowActionIntent
  ca_receipt :: WorkflowActionReceipt

datatype migration_code = mg_source_conflict | mg_missing_receipt | mg_unknown_action | mg_missing_local_evidence

record migration_unresolved =
  mu_code :: migration_code
  mu_sourceRef :: string
  mu_evidenceHash :: "string option"
  mu_intent :: "WorkflowActionIntent option"
  mu_receipt :: "WorkflowActionReceipt option"

datatype recovery_scope =
    DatasetRecovery WorkflowDataset "string list" WorkflowWindow
  | ReviewsRecovery WorkflowSourceIdentity string WorkflowWindow "string option"
  | ReportRecovery "string list" WorkflowWindow
  | UnknownRecovery string

datatype recovery_kind = rec_business | rec_evidence
datatype recovery_disposition = rec_open | rec_waived | rec_resolved

record recovery_item =
  ry_itemId :: string
  ry_kind :: recovery_kind
  ry_disposition :: recovery_disposition
  ry_stage :: RunPhase
  ry_scope :: recovery_scope
  ry_evidenceRef :: "string option"
  ry_evidenceHash :: "string option"
  ry_resolutionReason :: "string option"

record migration_page_item =
  mp_workflowId :: string
  mp_completedActions :: "completed_action list"
  mp_unresolved :: "migration_unresolved list"
  mp_recoveryItems :: "recovery_item list option"

type_synonym migration_chunk = "migration_page_item list"

record manifest_workflow =
  mw_page :: migration_page_item
  mw_configuration :: WorkflowConfiguration
  mw_authorizations :: "WorkflowAuthorizationScope list"
  mw_hostSnapshot :: WorkflowHostSnapshot

record migration_manifest =
  mm_sourceSnapshotHash :: string
  mm_targetVersion :: nat
  mm_integration :: EnterpriseIntegrationConfiguration
  mm_workflows :: "manifest_workflow list"

record migration_target =
  mt_workflowId :: string
  mt_version :: nat
  mt_controlVersion :: nat
  mt_assignmentEpoch :: nat

datatype MigrationStage = stg_preview | stg_validated | stg_imported | stg_host_switched | stg_verified

record migration_row =
  mg_id :: string
  mg_orgId :: string
  mg_enterpriseKey :: string
  mg_sourceSnapshotHash :: string
  mg_targetVersion :: nat
  mg_version :: nat
  mg_stage :: MigrationStage
  mg_manifest :: migration_manifest
  mg_targetVersions :: "migration_target list"
  mg_confirmationDigest :: string
  mg_createdBy :: string
  mg_createdAt :: time_ms
  mg_sealedAt :: "time_ms option"
  mg_chunkCount :: nat
  mg_recordCount :: nat
  mg_chunksDigest :: "string option"
  mg_validatedChunks :: nat
  mg_importedChunks :: nat

record chunk_row =
  ck_orgId :: string
  ck_migrationId :: string
  ck_sequence :: nat
  ck_payload :: migration_chunk
  ck_digest :: string
  ck_recordCount :: nat
  ck_importedAt :: "time_ms option"

record wf_db =
  wd_facts :: wf_facts
  wd_integrations :: "integration_row list"
  wd_workflows :: "workflow_row list"
  wd_configurations :: "configuration_row list"
  wd_previews :: "preview_row list"
  wd_authorizations :: "authorization_row list"
  wd_installations :: "installation_row list"
  wd_runs :: "run_row list"
  wd_actions :: "action_row list"
  wd_dedup :: "dedup_row list"
  wd_migrations :: "migration_row list"
  wd_chunks :: "chunk_row list"
  wd_audit :: "audit_row list"

type_synonym 'a wtx = "workflow_error + 'a \<times> wf_db"

section \<open>Calls\<close>

text \<open>
  What a call is made with: the employee (\<open>ac_rest\<close> are the further members of the employee
  object, which only enter digests), the service clock, the clock of the database client (default
  and update timestamps) and the ids it draws: \<open>e_newId\<close> is \<open>id()\<close>, \<open>e_cuid\<close> are the generated keys
  in the order of the creations. SHA-256 is the argument \<open>sha\<close>.
\<close>

record Actor =
  ac_id :: string
  ac_orgId :: string
  ac_rest :: "(string \<times> json) list"

record wf_env =
  e_now :: time_ms
  e_clock :: time_ms
  e_newId :: string
  e_cuid :: "nat \<Rightarrow> string"

type_synonym digest = "string \<Rightarrow> string"

definition json_of_actor :: "Actor \<Rightarrow> json" where
  "json_of_actor a = JObj ([(''id'', JStr (ac_id a)), (''orgId'', JStr (ac_orgId a))] @ ac_rest a)"

definition hash :: "digest \<Rightarrow> json \<Rightarrow> string" where
  "hash sha v = sha (workflowCanonicalJson v)"

section \<open>The authorization snapshot\<close>

definition toBusinessCategoryRule :: "category_fact \<Rightarrow> BusinessCategoryRule" where
  "toBusinessCategoryRule row =
     \<lparr>cat_id = cf_id row,
      cat_key = (case cf_key row of Some k \<Rightarrow> if k = [] then None else Some k | None \<Rightarrow> None),
      cat_kind = cf_kind row,
      cat_confidentialityLevel = cf_confidentialityLevel row,
      cat_ownerships = (if cf_allowGroup row then [OwnGroup] else []) @
        (if cf_allowStore row then [OwnStore] else []),
      cat_requiredDimensionIds = sort (cf_dimensionIds row)\<rparr>"

definition toBusinessGrant :: "grant_fact \<Rightarrow> BusinessGrant" where
  "toBusinessGrant row =
     \<lparr>gr_id = gf_id row,
      gr_orgId = gf_orgId row,
      gr_enterpriseKey = gf_enterpriseKey row,
      gr_categoryIds = gf_categoryIds row,
      gr_ownership = gf_ownership row,
      gr_stores = (if gf_ownership row = OwnStore
        then Some (if gf_allStores row then SelAll else SelFixed (gf_stores row)) else None),
      gr_dimensions = map (\<lambda>d. (gd_dimensionId d, if gd_allValues d then SelAll else SelFixed (gd_values d)))
        (gf_dimensions row)\<rparr>"

text \<open>\<open>loadBusinessGrants(tx, orgId, employeeId)\<close> and the lookup of that employee in its result.\<close>

definition loadBusinessGrants :: "string \<Rightarrow> string \<Rightarrow> wf_facts \<Rightarrow> BusinessGrant list" where
  "loadBusinessGrants orgId employeeId f =
     map toBusinessGrant (filter (\<lambda>r. gf_orgId r = orgId \<and> gf_employeeId r = employeeId) (fc_grants f))"

definition load_snapshot :: "Actor \<Rightarrow> wf_db \<Rightarrow> workflow_error + AuthorizationSnapshot" where
  "load_snapshot actor db =
     (let f = wd_facts db in
      res_bind (or_else WORKFLOW_ADMIN_REQUIRED
        (find (\<lambda>e. ef_id e = ac_id actor \<and> ef_orgId e = ac_orgId actor \<and> ef_role e = RoleAdmin \<and> \<not> ef_disabled e)
          (fc_employees f))) (\<lambda>employee.
      let state = find (\<lambda>s. sf_orgId s = ac_orgId actor) (fc_states f) in
      Inr \<lparr>sn_orgId = ac_orgId actor,
           sn_employeeId = ac_id actor,
           sn_role = ef_role employee,
           sn_disabled = ef_disabled employee,
           sn_clearance = ef_clearance employee,
           sn_mode = (case state of None \<Rightarrow> ModeLegacy | Some s \<Rightarrow> sf_mode s),
           sn_authorizationVersion = nat_text (case state of None \<Rightarrow> 0 | Some s \<Rightarrow> sf_version s),
           sn_categories = map toBusinessCategoryRule
             (filter (\<lambda>c. cf_orgId c = ac_orgId actor) (fc_categories f)),
           sn_grants = loadBusinessGrants (ac_orgId actor) (ac_id actor) f\<rparr>))"

text \<open>\<open>transaction\<close>: the snapshot is loaded before the body runs, on the same database.\<close>

definition transaction :: "Actor \<Rightarrow> (AuthorizationSnapshot \<Rightarrow> wf_db \<Rightarrow> 'a wtx) \<Rightarrow> wf_db \<Rightarrow> 'a wtx" where
  "transaction actor body db = res_bind (load_snapshot actor db) (\<lambda>auth. body auth db)"

section \<open>Locks, reads and the audit log\<close>

definition find_workflow :: "string \<Rightarrow> string \<Rightarrow> wf_db \<Rightarrow> workflow_row option" where
  "find_workflow orgId workflowId db =
     find (\<lambda>w. wf_orgId w = orgId \<and> wf_id w = workflowId) (wd_workflows db)"

definition lockWorkflow :: "Actor \<Rightarrow> string \<Rightarrow> wf_db \<Rightarrow> workflow_error + workflow_row" where
  "lockWorkflow actor workflowId db =
     res_bind (or_else WORKFLOW_CONFIGURATION_REQUIRED (find_workflow (ac_orgId actor) workflowId db)) (\<lambda>w.
     res_bind (res_guard (wf_id w \<noteq> workflowId) WORKFLOW_CONFIGURATION_REQUIRED) (\<lambda>_. Inr w))"

definition requireRead ::
  "AuthorizationSnapshot \<Rightarrow> workflow_row \<Rightarrow> string list \<Rightarrow> string list \<Rightarrow> workflow_error + unit" where
  "requireRead snapshot workflow stores datasets =
     res_forM (\<lambda>dataset.
       case find (\<lambda>c. cat_key c = Some dataset) (sn_categories snapshot) of
         None \<Rightarrow> Inl WORKFLOW_PERMISSION_DENIED
       | Some category \<Rightarrow>
           res_guard (canReadResource snapshot
             \<lparr>req_orgId = wf_orgId workflow, req_categoryId = cat_id category, req_valid = True,
              req_fileConfidentialityLevel = None,
              req_scopes = map (\<lambda>storeName.
                \<lparr>sc_enterpriseKey = wf_enterpriseKey workflow, sc_ownership = OwnStore,
                 sc_storeName = Some storeName, sc_dimensions = []\<rparr>) stores\<rparr> \<noteq> Allowed)
             WORKFLOW_PERMISSION_DENIED)
       datasets"

definition audit :: "Actor \<Rightarrow> string \<Rightarrow> string \<Rightarrow> (string \<times> json) list \<Rightarrow> wf_db \<Rightarrow> wf_db" where
  "audit actor action targetId metadata db = db\<lparr>wd_audit := wd_audit db @
     [\<lparr>au_orgId = ac_orgId actor, au_actorEmployeeId = ac_id actor, au_action = ''workflow.'' @ action,
       au_targetId = targetId, au_metadata = JObj metadata\<rparr>]\<rparr>"

text \<open>\<open>update\<close> of one row by its key, and rows of the current workflow.\<close>

definition update_workflow :: "string \<Rightarrow> (workflow_row \<Rightarrow> workflow_row) \<Rightarrow> wf_db \<Rightarrow> wf_db" where
  "update_workflow workflowId data db =
     db\<lparr>wd_workflows := update_where (\<lambda>w. wf_id w = workflowId) data (wd_workflows db)\<rparr>"

definition create_workflow :: "workflow_row \<Rightarrow> wf_db \<Rightarrow> workflow_error + wf_db" where
  "create_workflow row db =
     (if list_ex (\<lambda>w. wf_id w = wf_id row \<or>
           (wf_orgId w = wf_orgId row \<and> wf_enterpriseKey w = wf_enterpriseKey row \<and> wf_type w = wf_type row))
         (wd_workflows db)
      then Inl UniqueViolation
      else Inr (db\<lparr>wd_workflows := wd_workflows db @ [row]\<rparr>))"

definition create_preview :: "preview_row \<Rightarrow> wf_db \<Rightarrow> workflow_error + wf_db" where
  "create_preview row db =
     (if list_ex (\<lambda>p. pv_id p = pv_id row) (wd_previews db) then Inl UniqueViolation
      else Inr (db\<lparr>wd_previews := wd_previews db @ [row]\<rparr>))"

definition consume_preview :: "string \<Rightarrow> time_ms \<Rightarrow> wf_db \<Rightarrow> wf_db" where
  "consume_preview previewId now db =
     db\<lparr>wd_previews := update_where (\<lambda>p. pv_id p = previewId) (\<lambda>p. p\<lparr>pv_consumedAt := Some now\<rparr>) (wd_previews db)\<rparr>"

end
