(* ===== verification/Workflow_Change.thy ===== *)
theory Workflow_Change
  imports Workflow_Store
begin

text \<open>
  \<^verbatim>\<open>apps/api/src/enterprise-workflows/configuration.ts\<close>: workflows and their configurations, the
  two-step change of a configuration (a prepared preview, then a save that must match it) and
  the narrowing of unfinished runs. Each branch of \<open>saveChange\<close> is a definition of its own.
\<close>

section \<open>Reads\<close>

definition configuration :: "wf_db \<Rightarrow> workflow_row \<Rightarrow> WorkflowConfiguration option" where
  "configuration db workflow = map_option cv_configuration
     (find (\<lambda>c. cv_orgId c = wf_orgId workflow \<and> cv_workflowId c = wf_id workflow \<and> cv_version c = wf_version workflow)
       (wd_configurations db))"

definition integration :: "wf_db \<Rightarrow> workflow_row \<Rightarrow> workflow_error + integration_row" where
  "integration db workflow = or_else RecordNotFound
     (find (\<lambda>i. ei_orgId i = wf_orgId workflow \<and> ei_enterpriseKey i = wf_enterpriseKey workflow) (wd_integrations db))"

definition empty_integration :: EnterpriseIntegrationConfiguration where
  "empty_integration = \<lparr>in_sourceAccounts = [], in_storeMappings = [], in_exclusions = []\<rparr>"

definition new_workflow :: "string \<Rightarrow> string \<Rightarrow> string \<Rightarrow> WorkflowType \<Rightarrow> workflow_row" where
  "new_workflow i orgId enterpriseKey t =
     \<lparr>wf_id = i, wf_orgId = orgId, wf_enterpriseKey = enterpriseKey, wf_type = t, wf_version = 0,
      wf_controlVersion = 0, wf_controlState = ctl_paused, wf_assignmentEpoch = 0,
      wf_assignedInstallationId = None, wf_leaseRunId = None, wf_leaseExpiresAt = None\<rparr>"

definition find_workflow_type :: "string \<Rightarrow> string \<Rightarrow> WorkflowType \<Rightarrow> wf_db \<Rightarrow> workflow_row option" where
  "find_workflow_type orgId enterpriseKey t db =
     find (\<lambda>w. wf_orgId w = orgId \<and> wf_enterpriseKey w = enterpriseKey \<and> wf_type w = t) (wd_workflows db)"

definition upsert_integration :: "Actor \<Rightarrow> string \<Rightarrow> wf_db \<Rightarrow> wf_db" where
  "upsert_integration actor enterpriseKey db =
     (if list_ex (\<lambda>i. ei_orgId i = ac_orgId actor \<and> ei_enterpriseKey i = enterpriseKey) (wd_integrations db) then db
      else db\<lparr>wd_integrations := wd_integrations db @
        [\<lparr>ei_orgId = ac_orgId actor, ei_enterpriseKey = enterpriseKey, ei_version = 0,
          ei_configuration = empty_integration, ei_orderScopeRequired = False, ei_updatedBy = ac_id actor\<rparr>]\<rparr>)"

definition ensureWorkflow :: "wf_env \<Rightarrow> Actor \<Rightarrow> string \<Rightarrow> WorkflowType \<Rightarrow> wf_db \<Rightarrow> workflow_row wtx" where
  "ensureWorkflow e actor enterpriseKey t db =
     res_bind (res_guard ((ac_orgId actor, enterpriseKey) \<notin> set (fc_enterprises (wd_facts db)))
       WORKFLOW_CONFIGURATION_REQUIRED) (\<lambda>_.
     let db1 = upsert_integration actor enterpriseKey db in
     case find_workflow_type (ac_orgId actor) enterpriseKey t db1 of
       Some w \<Rightarrow> Inr (w, db1)
     | None \<Rightarrow>
         let w = new_workflow (e_cuid e 0) (ac_orgId actor) enterpriseKey t in
         res_bind (create_workflow w db1) (\<lambda>db2. Inr (w, db2)))"

record workflow_view =
  vw_workflow :: workflow_row
  vw_configuration :: "WorkflowConfiguration option"
  vw_integration :: integration_row
  vw_authorizations :: "authorization_row list"

definition active_authorizations :: "string \<Rightarrow> string \<Rightarrow> wf_db \<Rightarrow> authorization_row list" where
  "active_authorizations orgId workflowId db =
     filter (\<lambda>a. wa_orgId a = orgId \<and> wa_workflowId a = workflowId \<and> wa_revokedAt a = None) (wd_authorizations db)"

definition view :: "workflow_row \<Rightarrow> wf_db \<Rightarrow> workflow_error + workflow_view" where
  "view workflow db =
     res_bind (integration db workflow) (\<lambda>i. Inr
       \<lparr>vw_workflow = workflow, vw_configuration = configuration db workflow, vw_integration = i,
        vw_authorizations = active_authorizations (wf_orgId workflow) (wf_id workflow) db\<rparr>)"

section \<open>Validation against the directory\<close>

definition live_stores :: "string \<Rightarrow> string \<Rightarrow> wf_db \<Rightarrow> string list" where
  "live_stores orgId enterpriseKey db =
     map bst_name (filter (\<lambda>s. bst_orgId s = orgId \<and> bst_enterpriseKey s = enterpriseKey \<and> \<not> bst_retired s)
       (fc_stores (wd_facts db)))"

definition validateStores :: "workflow_row \<Rightarrow> string list \<Rightarrow> wf_db \<Rightarrow> workflow_error + unit" where
  "validateStores workflow stores db =
     (let rows = filter (\<lambda>r. r \<in> set stores) (live_stores (wf_orgId workflow) (wf_enterpriseKey workflow) db) in
      res_guard (list_ex (\<lambda>s. \<not> list_ex (\<lambda>r. r = s) rows) stores) WORKFLOW_SOURCE_MAPPING_CONFLICT)"

fun config_channels :: "WorkflowConfiguration \<Rightarrow> SourceChannel list" where
  "config_channels (ReviewConfig c) = rc_channels c"
| "config_channels _ = [ch_erp]"

definition unmapped_store ::
  "WorkflowConfiguration \<Rightarrow> EnterpriseIntegrationConfiguration \<Rightarrow> bool" where
  "unmapped_store config source \<longleftrightarrow>
     (let product = (if config_type config = MeituanDailyIngestion then meituan_erp else meituan_reviews) in
      list_ex (\<lambda>store. list_ex (\<lambda>channel.
        \<not> list_ex (\<lambda>m. sm_storeName m = store \<and> si_product (sm_source m) = product \<and>
             si_channel (sm_source m) = channel) (in_storeMappings source))
        (config_channels config)) (config_storeNames config))"

definition validateConfiguration ::
  "workflow_row \<Rightarrow> WorkflowConfiguration \<Rightarrow> EnterpriseIntegrationConfiguration option \<Rightarrow> wf_db \<Rightarrow> workflow_error + unit" where
  "validateConfiguration workflow config source db =
     res_bind (res_guard (config_type config \<noteq> wf_type workflow) WORKFLOW_SOURCE_MAPPING_CONFLICT) (\<lambda>_.
     res_bind (validateStores workflow (config_storeNames config) db) (\<lambda>_.
     res_guard (case source of
         None \<Rightarrow> False
       | Some src \<Rightarrow> config_type config \<noteq> WeeklyBusinessReport \<and> unmapped_store config src)
       WORKFLOW_SOURCE_MAPPING_CONFLICT))"

section \<open>The impact of an integration change\<close>

definition live_policy ::
  "WorkflowConfiguration \<Rightarrow> EnterpriseIntegrationConfiguration \<Rightarrow> workflow_error + WorkflowLivePolicy" where
  "live_policy config source =
     (case workflowLivePolicy config source of Inl _ \<Rightarrow> Inl UncaughtError | Inr p \<Rightarrow> Inr p)"

fun type_index :: "WorkflowType \<Rightarrow> nat" where
  "type_index MeituanDailyIngestion = 0"
| "type_index MeituanReviewOperations = 1"
| "type_index WeeklyBusinessReport = 2"

definition enterprise_workflows :: "string \<Rightarrow> string \<Rightarrow> wf_db \<Rightarrow> workflow_row list" where
  "enterprise_workflows orgId enterpriseKey db =
     filter (\<lambda>w. wf_orgId w = orgId \<and> wf_enterpriseKey w = enterpriseKey) (wd_workflows db)"

definition lost_stores :: "WorkflowLivePolicy \<Rightarrow> WorkflowLivePolicy \<Rightarrow> string list" where
  "lost_stores oldPolicy nextPolicy = sort (js_uniq (map ps_storeName
     (filter (\<lambda>s. \<not> list_ex (\<lambda>t. ps_binding t = ps_binding s \<and> ps_storeName t = ps_storeName s)
        (lp_sources nextPolicy)) (lp_sources oldPolicy))))"

definition workflow_impact ::
  "EnterpriseIntegrationConfiguration \<Rightarrow> EnterpriseIntegrationConfiguration \<Rightarrow> wf_db \<Rightarrow> workflow_row
     \<Rightarrow> workflow_error + affected_workflow list" where
  "workflow_impact before after db dep =
     (case configuration db dep of
        None \<Rightarrow> Inr []
      | Some config \<Rightarrow>
          res_bind (live_policy config before) (\<lambda>oldPolicy.
          res_bind (live_policy config after) (\<lambda>afterPolicy.
          let stores = lost_stores oldPolicy (intersectWorkflowLivePolicy oldPolicy afterPolicy) in
          Inr (if stores = [] then []
               else [\<lparr>af_workflowType = wf_type dep, af_storeNames = stores\<rparr>]))))"

definition integrationImpact ::
  "workflow_row \<Rightarrow> EnterpriseIntegrationConfiguration \<Rightarrow> EnterpriseIntegrationConfiguration \<Rightarrow> wf_db
     \<Rightarrow> workflow_error + workflow_dependency list \<times> affected_workflow list" where
  "integrationImpact workflow before after db =
     (let dependents = sort_key (type_index \<circ> wf_type)
        (enterprise_workflows (wf_orgId workflow) (wf_enterpriseKey workflow) db) in
      res_bind (res_mapM (workflow_impact before after db) dependents) (\<lambda>affected.
      Inr (map (\<lambda>w. \<lparr>dp_workflowId = wf_id w, dp_version = wf_version w, dp_controlVersion = wf_controlVersion w\<rparr>)
             dependents, concat affected)))"

definition json_of_dependency :: "workflow_dependency \<Rightarrow> json" where
  "json_of_dependency d = JObj [(''workflowId'', JStr (dp_workflowId d)), (''version'', jnat (dp_version d)),
     (''controlVersion'', jnat (dp_controlVersion d))]"

definition json_of_impact :: "affected_workflow list \<Rightarrow> json" where
  "json_of_impact as = JObj [(''affectedWorkflows'', JArr (map (\<lambda>a. JObj
     [(''workflowType'', JStr (workflow_type_text (af_workflowType a))), (''storeNames'', jstrs (af_storeNames a))]) as))]"

definition impact_members :: "workflow_dependency list \<Rightarrow> affected_workflow list \<Rightarrow> (string \<times> json) list" where
  "impact_members ds as =
     [(''dependencies'', JArr (map json_of_dependency ds)), (''impact'', json_of_impact as)]"

section \<open>Narrowing unfinished runs\<close>

definition run_policy :: "run_row \<Rightarrow> workflow_error + WorkflowLivePolicy" where
  "run_policy run =
     res_bind (live_policy (sn_configuration (rn_snapshot run)) (sn_integration (rn_snapshot run))) (\<lambda>original.
     Inr (case rn_restrictivePolicy run of None \<Rightarrow> original | Some p \<Rightarrow> p))"

fun restrict_loop :: "WorkflowLivePolicy \<Rightarrow> run_row list \<Rightarrow> wf_db \<Rightarrow> workflow_error + wf_db" where
  "restrict_loop nextPolicy [] db = Inr db"
| "restrict_loop nextPolicy (run # runs) db =
     res_bind (run_policy run) (\<lambda>previous.
     restrict_loop nextPolicy runs (db\<lparr>wd_runs := update_where (\<lambda>r. rn_id r = rn_id run)
       (\<lambda>r. r\<lparr>rn_restrictivePolicy := Some (intersectWorkflowLivePolicy previous nextPolicy)\<rparr>) (wd_runs db)\<rparr>))"

definition unfinished_runs :: "string \<Rightarrow> string \<Rightarrow> wf_db \<Rightarrow> run_row list" where
  "unfinished_runs orgId workflowId db =
     filter (\<lambda>r. rn_orgId r = orgId \<and> rn_workflowId r = workflowId \<and> rn_finishedAt r = None) (wd_runs db)"

definition restrictRuns ::
  "digest \<Rightarrow> workflow_row \<Rightarrow> WorkflowConfiguration \<Rightarrow> WorkflowConfiguration \<Rightarrow> EnterpriseIntegrationConfiguration
     \<Rightarrow> EnterpriseIntegrationConfiguration \<Rightarrow> wf_db \<Rightarrow> workflow_error + wf_db" where
  "restrictRuns sha workflow before after oldSource newSource db =
     res_bind (live_policy before oldSource) (\<lambda>oldPolicy.
     res_bind (live_policy after newSource) (\<lambda>nextPolicy.
     if hash sha (json_of_policy oldPolicy) =
        hash sha (json_of_policy (intersectWorkflowLivePolicy oldPolicy nextPolicy)) then Inr db
     else
       let db1 = update_workflow (wf_id workflow) (\<lambda>w. w\<lparr>wf_controlVersion := wf_controlVersion w + 1\<rparr>) db in
       restrict_loop nextPolicy (unfinished_runs (wf_orgId workflow) (wf_id workflow) db1) db1))"

section \<open>Preparing a change\<close>

record expected_versions =
  ex_expectedVersion :: nat
  ex_expectedIntegrationVersion :: nat
  ex_expectedControlVersion :: nat

definition checkVersions :: "workflow_row \<Rightarrow> nat \<Rightarrow> expected_versions \<Rightarrow> workflow_error + unit" where
  "checkVersions workflow integrationVersion x =
     res_guard (wf_version workflow \<noteq> ex_expectedVersion x \<or> integrationVersion \<noteq> ex_expectedIntegrationVersion x \<or>
       wf_controlVersion workflow \<noteq> ex_expectedControlVersion x) WORKFLOW_VERSION_CONFLICT"

record prepare_input =
  pi_enterpriseKey :: string
  pi_workflowType :: WorkflowType
  pi_expected :: expected_versions
  pi_change :: WorkflowChange

definition json_of_prepare_input :: "prepare_input \<Rightarrow> json" where
  "json_of_prepare_input v = JObj
     [(''enterpriseKey'', JStr (pi_enterpriseKey v)), (''workflowType'', JStr (workflow_type_text (pi_workflowType v))),
      (''expectedVersion'', jnat (ex_expectedVersion (pi_expected v))),
      (''expectedIntegrationVersion'', jnat (ex_expectedIntegrationVersion (pi_expected v))),
      (''expectedControlVersion'', jnat (ex_expectedControlVersion (pi_expected v))),
      (''change'', json_of_change (pi_change v))]"

fun change_kind :: "WorkflowChange \<Rightarrow> string" where
  "change_kind (IntegrationChange _) = ''integration''"
| "change_kind (ConfigurationChange _) = ''configuration''"
| "change_kind (AuthorizationChange _ _) = ''authorization''"
| "change_kind (ControlChange _ _) = ''control''"

text \<open>The two checks before the preview, and the context of an integration change.\<close>

definition validate_change :: "workflow_row \<Rightarrow> WorkflowChange \<Rightarrow> wf_db \<Rightarrow> workflow_error + unit" where
  "validate_change workflow change db =
     (case change of
        ConfigurationChange c \<Rightarrow> validateConfiguration workflow c None db
      | IntegrationChange c \<Rightarrow> validateStores workflow (map sm_storeName (in_storeMappings c)) db
      | _ \<Rightarrow> Inr ())"

definition prepared_change ::
  "workflow_row \<Rightarrow> integration_row \<Rightarrow> WorkflowChange \<Rightarrow> wf_db \<Rightarrow> workflow_error + preview_change" where
  "prepared_change workflow shared change db =
     (case change of
        IntegrationChange c \<Rightarrow>
          res_bind (integrationImpact workflow (ei_configuration shared) c db) (\<lambda>(ds, as). Inr (EnvelopeChange change ds as))
      | _ \<Rightarrow> Inr (PlainChange change))"

fun json_of_prepared :: "preview_change \<Rightarrow> json" where
  "json_of_prepared (PlainChange c) = json_of_change c"
| "json_of_prepared (EnvelopeChange c ds as) = JObj ((''change'', json_of_change c) # impact_members ds as)"
| "json_of_prepared _ = JNull"

fun impact_metadata :: "preview_change \<Rightarrow> (string \<times> json) list" where
  "impact_metadata (EnvelopeChange _ _ as) = [(''impact'', json_of_impact as)]"
| "impact_metadata _ = []"

record prepared_preview =
  pp_previewId :: string
  pp_confirmationDigest :: string
  pp_expiresAt :: time_ms
  pp_change :: preview_change

definition prepareChange ::
  "digest \<Rightarrow> wf_env \<Rightarrow> Actor \<Rightarrow> workflow_row \<Rightarrow> prepare_input \<Rightarrow> wf_db \<Rightarrow> prepared_preview wtx" where
  "prepareChange sha e actor workflow inp db =
     res_bind (integration db workflow) (\<lambda>shared.
     res_bind (checkVersions workflow (ei_version shared) (pi_expected inp)) (\<lambda>_.
     res_bind (validate_change workflow (pi_change inp) db) (\<lambda>_.
     res_bind (prepared_change workflow shared (pi_change inp) db) (\<lambda>prepared.
     let previewId = e_newId e;
         confirmationDigest = hash sha (JObj
           [(''previewId'', JStr previewId), (''actor'', json_of_actor actor),
            (''input'', json_of_prepare_input inp), (''preparedChange'', json_of_prepared prepared)]);
         expiresAt = e_now e + 15 * 60000 in
     res_bind (create_preview
       \<lparr>pv_id = previewId, pv_orgId = ac_orgId actor, pv_enterpriseKey = wf_enterpriseKey workflow,
        pv_workflowType = wf_type workflow, pv_expectedVersion = wf_version workflow,
        pv_expectedIntegrationVersion = ei_version shared, pv_expectedControlVersion = wf_controlVersion workflow,
        pv_change = prepared, pv_confirmationDigest = confirmationDigest, pv_preparedBy = ac_id actor,
        pv_expiresAt = expiresAt, pv_consumedAt = None\<rparr> db) (\<lambda>db1.
     let db2 = audit actor ''prepare_change'' (wf_id workflow)
           ([(''previewId'', JStr previewId), (''kind'', JStr (change_kind (pi_change inp)))] @ impact_metadata prepared) db1 in
     Inr (\<lparr>pp_previewId = previewId, pp_confirmationDigest = confirmationDigest, pp_expiresAt = expiresAt,
           pp_change = prepared\<rparr>, db2))))))"

section \<open>Saving a change\<close>

record save_input =
  si_enterpriseKey :: string
  si_workflowType :: WorkflowType
  si_expected :: expected_versions
  si_previewId :: string
  si_confirmationDigest :: string

definition find_preview ::
  "wf_env \<Rightarrow> Actor \<Rightarrow> workflow_row \<Rightarrow> string \<Rightarrow> string \<Rightarrow> expected_versions \<Rightarrow> wf_db \<Rightarrow> preview_row option" where
  "find_preview e actor workflow previewId confirmationDigest x db =
     find (\<lambda>p. pv_id p = previewId \<and> pv_orgId p = ac_orgId actor \<and>
        pv_enterpriseKey p = wf_enterpriseKey workflow \<and> pv_workflowType p = wf_type workflow \<and>
        pv_preparedBy p = ac_id actor \<and> pv_confirmationDigest p = confirmationDigest \<and>
        pv_consumedAt p = None \<and> e_now e < pv_expiresAt p \<and>
        pv_expectedVersion p = ex_expectedVersion x \<and>
        pv_expectedIntegrationVersion p = ex_expectedIntegrationVersion x \<and>
        pv_expectedControlVersion p = ex_expectedControlVersion x) (wd_previews db)"

text \<open>The parsed change with the envelope's context; the envelope schema bounds both lists by 3.\<close>

fun parse_change :: "preview_change \<Rightarrow> (WorkflowChange \<times> (workflow_dependency list \<times> affected_workflow list) option) option" where
  "parse_change (PlainChange c) = Some (c, None)"
| "parse_change (EnvelopeChange c ds as) =
     (if length ds \<le> 3 \<and> length as \<le> 3 then Some (c, Some (ds, as)) else None)"
| "parse_change _ = None"

definition check_impact ::
  "digest \<Rightarrow> workflow_row \<Rightarrow> integration_row \<Rightarrow> WorkflowChange \<Rightarrow>
     (workflow_dependency list \<times> affected_workflow list) option \<Rightarrow> wf_db \<Rightarrow>
     workflow_error + affected_workflow list option" where
  "check_impact sha workflow shared change envelope db =
     (case change of
        IntegrationChange c \<Rightarrow>
          (case envelope of
             None \<Rightarrow> Inl WORKFLOW_VERSION_CONFLICT
           | Some (ds, as) \<Rightarrow>
               res_bind (integrationImpact workflow (ei_configuration shared) c db) (\<lambda>(ds', as').
               res_bind (res_guard (hash sha (JObj (impact_members ds' as')) \<noteq> hash sha (JObj (impact_members ds as)))
                 WORKFLOW_VERSION_CONFLICT) (\<lambda>_. Inr (Some as'))))
      | _ \<Rightarrow> Inr None)"

definition create_configuration :: "configuration_row \<Rightarrow> wf_db \<Rightarrow> workflow_error + wf_db" where
  "create_configuration row db =
     (if list_ex (\<lambda>c. cv_orgId c = cv_orgId row \<and> cv_workflowId c = cv_workflowId row \<and> cv_version c = cv_version row)
           (wd_configurations db)
      then Inl UniqueViolation
      else Inr (db\<lparr>wd_configurations := wd_configurations db @ [row]\<rparr>))"

definition save_configuration ::
  "digest \<Rightarrow> Actor \<Rightarrow> workflow_row \<Rightarrow> integration_row \<Rightarrow> WorkflowConfiguration \<Rightarrow> wf_db \<Rightarrow> workflow_error + wf_db" where
  "save_configuration sha actor workflow shared config db =
     res_bind (validateConfiguration workflow config None db) (\<lambda>_.
     res_bind (case configuration db workflow of
         None \<Rightarrow> Inr db
       | Some previous \<Rightarrow>
           restrictRuns sha workflow previous config (ei_configuration shared) (ei_configuration shared) db) (\<lambda>db1.
     res_bind (create_configuration
       \<lparr>cv_orgId = ac_orgId actor, cv_workflowId = wf_id workflow, cv_version = wf_version workflow + 1,
        cv_configuration = config, cv_createdBy = ac_id actor\<rparr> db1) (\<lambda>db2.
     Inr (update_workflow (wf_id workflow) (\<lambda>w. w\<lparr>wf_version := wf_version w + 1\<rparr>) db2))))"

fun restrict_dependents ::
  "digest \<Rightarrow> EnterpriseIntegrationConfiguration \<Rightarrow> EnterpriseIntegrationConfiguration \<Rightarrow> workflow_row list \<Rightarrow> wf_db
     \<Rightarrow> workflow_error + wf_db" where
  "restrict_dependents sha before after [] db = Inr db"
| "restrict_dependents sha before after (dep # ds) db =
     res_bind (case configuration db dep of
         None \<Rightarrow> Inr db
       | Some config \<Rightarrow> restrictRuns sha dep config config before after db) (\<lambda>db1.
     restrict_dependents sha before after ds db1)"

definition save_integration ::
  "digest \<Rightarrow> Actor \<Rightarrow> workflow_row \<Rightarrow> integration_row \<Rightarrow> EnterpriseIntegrationConfiguration \<Rightarrow> wf_db \<Rightarrow> workflow_error + wf_db" where
  "save_integration sha actor workflow shared config db =
     res_bind (validateStores workflow (map sm_storeName (in_storeMappings config)) db) (\<lambda>_.
     res_bind (restrict_dependents sha (ei_configuration shared) config
       (sort_key wf_id (enterprise_workflows (ac_orgId actor) (wf_enterpriseKey workflow) db)) db) (\<lambda>db1.
     let matches = (\<lambda>i. ei_orgId i = ac_orgId actor \<and> ei_enterpriseKey i = wf_enterpriseKey workflow \<and>
           ei_version i = ei_version shared) in
     res_bind (res_guard (count_where matches (wd_integrations db1) \<noteq> 1) WORKFLOW_VERSION_CONFLICT) (\<lambda>_.
     Inr (db1\<lparr>wd_integrations := update_where matches
       (\<lambda>i. i\<lparr>ei_configuration := config, ei_version := ei_version i + 1, ei_updatedBy := ac_id actor\<rparr>)
       (wd_integrations db1)\<rparr>))))"

fun scope_storeNames :: "WorkflowAuthorizationScope \<Rightarrow> string list" where
  "scope_storeNames (UploadScope _ stores) = stores"
| "scope_storeNames (DownloadScope _ stores) = stores"
| "scope_storeNames (ReviewSyncScope _ stores) = stores"
| "scope_storeNames (ReviewPublishScope _ stores) = stores"
| "scope_storeNames (EmailScope _ stores _ _ _) = stores"

definition create_authorization :: "authorization_row \<Rightarrow> wf_db \<Rightarrow> workflow_error + wf_db" where
  "create_authorization row db =
     (if list_ex (\<lambda>a. wa_id a = wa_id row) (wd_authorizations db) then Inl UniqueViolation
      else Inr (db\<lparr>wd_authorizations := wd_authorizations db @ [row]\<rparr>))"

text \<open>The loop that creates one authorization per scope; \<open>n\<close> counts the keys drawn so far.\<close>

fun grant_loop ::
  "wf_env \<Rightarrow> Actor \<Rightarrow> string \<Rightarrow> nat \<Rightarrow> nat \<Rightarrow> nat \<Rightarrow> WorkflowAuthorizationScope list \<Rightarrow> wf_db \<Rightarrow> workflow_error + wf_db" where
  "grant_loop e actor workflowId cfgVersion ctlVersion n [] db = Inr db"
| "grant_loop e actor workflowId cfgVersion ctlVersion n (scope # scopes) db =
     res_bind (create_authorization
       \<lparr>wa_id = e_cuid e n, wa_orgId = ac_orgId actor, wa_workflowId = workflowId, wa_scope = scope,
        wa_configurationVersion = cfgVersion, wa_controlVersion = ctlVersion, wa_grantedBy = ac_id actor,
        wa_grantedAt = e_clock e, wa_revokedBy = None, wa_revokedAt = None\<rparr> db) (\<lambda>db1.
     grant_loop e actor workflowId cfgVersion ctlVersion (n + 1) scopes db1)"

definition save_authorization ::
  "wf_env \<Rightarrow> Actor \<Rightarrow> workflow_row \<Rightarrow> WorkflowAuthorizationScope list \<Rightarrow> string list \<Rightarrow> wf_db \<Rightarrow> workflow_error + wf_db" where
  "save_authorization e actor workflow grant revoke db =
     res_bind (res_guard (case configuration db workflow of
         None \<Rightarrow> True
       | Some config \<Rightarrow> list_ex (\<lambda>g. list_ex (\<lambda>s. s \<notin> set (config_storeNames config)) (scope_storeNames g)) grant)
       WORKFLOW_CONFIGURATION_REQUIRED) (\<lambda>_.
     let matches = (\<lambda>a. wa_orgId a = ac_orgId actor \<and> wa_workflowId a = wf_id workflow \<and>
           wa_id a \<in> set revoke \<and> wa_revokedAt a = None) in
     res_bind (res_guard (revoke \<noteq> [] \<and> count_where matches (wd_authorizations db) \<noteq> length revoke)
       WORKFLOW_VERSION_CONFLICT) (\<lambda>_.
     let db1 = (if revoke = [] then db else db\<lparr>wd_authorizations := update_where matches
           (\<lambda>a. a\<lparr>wa_revokedAt := Some (e_now e), wa_revokedBy := Some (ac_id actor)\<rparr>) (wd_authorizations db)\<rparr>) in
     res_bind (res_guard (length (active_authorizations (ac_orgId actor) (wf_id workflow) db1) + length grant > 20)
       WORKFLOW_PERMISSION_DENIED) (\<lambda>_.
     res_bind (grant_loop e actor (wf_id workflow) (wf_version workflow) (wf_controlVersion workflow + 1) 0 grant db1) (\<lambda>db2.
     Inr (update_workflow (wf_id workflow) (\<lambda>w. w\<lparr>wf_controlVersion := wf_controlVersion w + 1\<rparr>) db2)))))"

definition save_control ::
  "workflow_row \<Rightarrow> integration_row \<Rightarrow> ControlState \<Rightarrow> wf_db \<Rightarrow> workflow_error + wf_db" where
  "save_control workflow shared state db =
     res_bind (if state = ctl_active
       then (case configuration db workflow of
               None \<Rightarrow> Inl WORKFLOW_CONFIGURATION_REQUIRED
             | Some config \<Rightarrow> validateConfiguration workflow config (Some (ei_configuration shared)) db)
       else Inr ()) (\<lambda>_.
     Inr (update_workflow (wf_id workflow)
       (\<lambda>w. w\<lparr>wf_controlState := state, wf_controlVersion := wf_controlVersion w + 1\<rparr>) db))"

definition apply_change ::
  "digest \<Rightarrow> wf_env \<Rightarrow> Actor \<Rightarrow> workflow_row \<Rightarrow> integration_row \<Rightarrow> WorkflowChange \<Rightarrow> wf_db \<Rightarrow> workflow_error + wf_db" where
  "apply_change sha e actor workflow shared change db =
     (case change of
        ConfigurationChange c \<Rightarrow> save_configuration sha actor workflow shared c db
      | IntegrationChange c \<Rightarrow> save_integration sha actor workflow shared c db
      | AuthorizationChange grant revoke \<Rightarrow> save_authorization e actor workflow grant revoke db
      | ControlChange state _ \<Rightarrow> save_control workflow shared state db)"

definition saveChange ::
  "digest \<Rightarrow> wf_env \<Rightarrow> Actor \<Rightarrow> workflow_row \<Rightarrow> save_input \<Rightarrow> wf_db \<Rightarrow> workflow_view wtx" where
  "saveChange sha e actor workflow inp db =
     res_bind (integration db workflow) (\<lambda>shared.
     res_bind (checkVersions workflow (ei_version shared) (si_expected inp)) (\<lambda>_.
     res_bind (or_else WORKFLOW_VERSION_CONFLICT
       (find_preview e actor workflow (si_previewId inp) (si_confirmationDigest inp) (si_expected inp) db)) (\<lambda>preview.
     res_bind (or_else WORKFLOW_VERSION_CONFLICT (parse_change (pv_change preview))) (\<lambda>(change, envelope).
     res_bind (check_impact sha workflow shared change envelope db) (\<lambda>impact.
     res_bind (apply_change sha e actor workflow shared change db) (\<lambda>db1.
     let db2 = audit actor ''save_change'' (wf_id workflow)
           ([(''previewId'', JStr (pv_id preview)), (''kind'', JStr (change_kind change))] @
            opt_field ''impact'' json_of_impact impact)
           (consume_preview (pv_id preview) (e_now e) db1) in
     res_bind (or_else RecordNotFound (find (\<lambda>w. wf_id w = wf_id workflow) (wd_workflows db2))) (\<lambda>w.
     res_bind (view w db2) (\<lambda>v. Inr (v, db2)))))))))"

end
