(* ===== verification/Workflow_Installations.thy ===== *)
theory Workflow_Installations
  imports Workflow_Change
begin

text \<open>
  \<^verbatim>\<open>apps/api/src/enterprise-workflows/installations.ts\<close>: registration of an installation, its
  readiness, and the takeover that assigns a workflow to another installation. Each branch of
  \<open>installOperation\<close> is a definition of its own.
\<close>

section \<open>Lookup and readiness\<close>

definition find_installation :: "string \<Rightarrow> string \<Rightarrow> string \<Rightarrow> wf_db \<Rightarrow> installation_row option" where
  "find_installation orgId workflowId installationId db =
     find (\<lambda>i. il_orgId i = orgId \<and> il_workflowId i = workflowId \<and> il_installationId i = installationId)
       (wd_installations db)"

definition getInstallation :: "Actor \<Rightarrow> workflow_row \<Rightarrow> string \<Rightarrow> bool \<Rightarrow> wf_db \<Rightarrow> workflow_error + installation_row" where
  "getInstallation actor workflow installationId allowRevoked db =
     res_bind (or_else WORKFLOW_INSTALLATION_MISMATCH
       (find_installation (ac_orgId actor) (wf_id workflow) installationId db)) (\<lambda>row.
     res_bind (res_guard (il_installationId row \<noteq> installationId \<or> il_employeeId row \<noteq> ac_id actor \<or>
       (il_state row = ins_revoked \<and> \<not> allowRevoked)) WORKFLOW_INSTALLATION_MISMATCH) (\<lambda>_. Inr row))"

fun required_capabilities :: "WorkflowType \<Rightarrow> WorkflowCapability list" where
  "required_capabilities MeituanDailyIngestion =
     [cap_configuration, cap_permissions, cap_workspace, cap_dependencies, cap_host_schedule,
      cap_host_timezone, cap_host_model, cap_download, cap_meituan_erp]"
| "required_capabilities MeituanReviewOperations =
     [cap_configuration, cap_permissions, cap_workspace, cap_dependencies, cap_host_schedule,
      cap_host_timezone, cap_host_model, cap_meituan_reviews]"
| "required_capabilities WeeklyBusinessReport =
     [cap_configuration, cap_permissions, cap_workspace, cap_dependencies, cap_host_schedule,
      cap_host_timezone, cap_host_model, cap_download]"

definition check_ready :: "time_ms \<Rightarrow> WorkflowReadinessCheck list \<Rightarrow> WorkflowCapability \<Rightarrow> bool" where
  "check_ready now checks capability \<longleftrightarrow>
     list_ex (\<lambda>c. rk_capability c = capability \<and> rk_status c = rd_ready \<and>
       nan_at_most (Date_parse (rk_checkedAt c)) (now + 60000) \<and>
       nan_greater (Date_parse (rk_checkedAt c)) (now - 86400000)) checks"

definition requireReady ::
  "wf_env \<Rightarrow> Actor \<Rightarrow> workflow_row \<Rightarrow> string \<Rightarrow> bool \<Rightarrow> wf_db \<Rightarrow> workflow_error + installation_row" where
  "requireReady e actor workflow installationId allowRevoked db =
     res_bind (getInstallation actor workflow installationId allowRevoked db) (\<lambda>row.
     res_bind (or_else WORKFLOW_CONFIGURATION_REQUIRED (configuration db workflow)) (\<lambda>config.
     res_bind (integration db workflow) (\<lambda>shared.
     res_bind (validateConfiguration workflow config (Some (ei_configuration shared)) db) (\<lambda>_.
     res_bind (res_guard (\<not> launcherVersionAtLeast (Some (il_launcherVersion row)) ENTERPRISE_WORKFLOW_LAUNCHER_VERSION \<or>
       \<not> supportsWorkflowPackageVersion (il_workflowPackageVersion row)) WORKFLOW_VERSION_INCOMPATIBLE) (\<lambda>_.
     res_bind (res_guard (il_hostSnapshot row = None) WORKFLOW_SOURCE_UNAVAILABLE) (\<lambda>_.
     res_bind (res_guard (list_ex (\<lambda>capability. \<not> check_ready (e_now e) (il_readinessChecks row) capability)
       (required_capabilities (config_type config))) WORKFLOW_SOURCE_UNAVAILABLE) (\<lambda>_.
     Inr row)))))))"

definition activateOrderScope :: "workflow_row \<Rightarrow> wf_db \<Rightarrow> wf_db" where
  "activateOrderScope workflow db =
     (case configuration db workflow of
        Some (DailyConfig c) \<Rightarrow>
          if ds_in_store_orders \<in> set (dc_datasets c)
          then db\<lparr>wd_integrations := update_where
                 (\<lambda>i. ei_orgId i = wf_orgId workflow \<and> ei_enterpriseKey i = wf_enterpriseKey workflow)
                 (\<lambda>i. i\<lparr>ei_orderScopeRequired := True\<rparr>) (wd_integrations db)\<rparr>
          else db
      | _ \<Rightarrow> db)"

section \<open>Registration\<close>

definition update_installation ::
  "wf_env \<Rightarrow> string \<Rightarrow> string \<Rightarrow> string \<Rightarrow> (installation_row \<Rightarrow> installation_row) \<Rightarrow> wf_db \<Rightarrow> wf_db" where
  "update_installation e orgId workflowId installationId data db =
     db\<lparr>wd_installations := update_where
       (\<lambda>i. il_orgId i = orgId \<and> il_workflowId i = workflowId \<and> il_installationId i = installationId)
       (\<lambda>i. (data i)\<lparr>il_version := il_version i + 1, il_updatedAt := e_clock e\<rparr>) (wd_installations db)\<rparr>"

definition json_of_optional :: "('a \<Rightarrow> json) \<Rightarrow> 'a option \<Rightarrow> json" where
  "json_of_optional f v = (case v of None \<Rightarrow> JNull | Some x \<Rightarrow> f x)"

definition same_installation :: "digest \<Rightarrow> WorkflowInstallation \<Rightarrow> installation_row \<Rightarrow> bool" where
  "same_installation sha v old \<longleftrightarrow>
     il_installationId old = wi_installationId v \<and> il_deviceAlias old = wi_deviceAlias v \<and>
     il_launcherVersion old = wi_launcherVersion v \<and> il_workflowPackageVersion old = wi_workflowPackageVersion v \<and>
     (case wi_hostSnapshot v of
        None \<Rightarrow> True
      | Some h \<Rightarrow> hash sha (json_of_optional json_of_host (il_hostSnapshot old)) = hash sha (json_of_host h))"

definition register_data :: "WorkflowInstallation \<Rightarrow> installation_row \<Rightarrow> installation_row" where
  "register_data v i = i\<lparr>il_deviceAlias := wi_deviceAlias v, il_launcherVersion := wi_launcherVersion v,
     il_workflowPackageVersion := wi_workflowPackageVersion v,
     il_hostSnapshot := (case wi_hostSnapshot v of None \<Rightarrow> il_hostSnapshot i | Some h \<Rightarrow> Some h)\<rparr>"

definition new_installation :: "wf_env \<Rightarrow> Actor \<Rightarrow> string \<Rightarrow> WorkflowInstallation \<Rightarrow> installation_row" where
  "new_installation e actor workflowId v =
     \<lparr>il_orgId = ac_orgId actor, il_workflowId = workflowId, il_installationId = wi_installationId v,
      il_employeeId = ac_id actor, il_version = 1, il_deviceAlias = wi_deviceAlias v,
      il_launcherVersion = wi_launcherVersion v, il_workflowPackageVersion = wi_workflowPackageVersion v,
      il_state = ins_pending, il_hostSnapshot = wi_hostSnapshot v, il_readinessChecks = [],
      il_firstRunVerification = fr_not_run, il_lastCheckedAt = None, il_updatedAt = e_clock e\<rparr>"

datatype install_result =
    InstallationResult installation_row
  | TakeoverPrepared string string takeover_change "time_ms option"
  | TakeoverDone nat string "string list" nat "string option"

definition register_installation ::
  "digest \<Rightarrow> wf_env \<Rightarrow> Actor \<Rightarrow> workflow_row \<Rightarrow> WorkflowInstallation \<Rightarrow> wf_db \<Rightarrow> install_result wtx" where
  "register_installation sha e actor workflow v db =
     (let log = audit actor ''register'' (wf_id workflow) [(''installationId'', JStr (wi_installationId v))] in
      case find_installation (ac_orgId actor) (wf_id workflow) (wi_installationId v) db of
        None \<Rightarrow>
          let row = new_installation e actor (wf_id workflow) v in
          Inr (InstallationResult row, log (db\<lparr>wd_installations := wd_installations db @ [row]\<rparr>))
      | Some old \<Rightarrow>
          if il_employeeId old \<noteq> ac_id actor then Inl WORKFLOW_INSTALLATION_MISMATCH
          else if same_installation sha v old then Inr (InstallationResult old, db)
          else
            let data = (\<lambda>i. (register_data v i)\<lparr>il_readinessChecks := []\<rparr>) in
            Inr (InstallationResult ((data old)\<lparr>il_version := il_version old + 1, il_updatedAt := e_clock e\<rparr>),
              log (update_installation e (ac_orgId actor) (wf_id workflow) (wi_installationId v) data db)))"

section \<open>Readiness, host and state of an installation\<close>

definition verified_run_exists :: "Actor \<Rightarrow> workflow_row \<Rightarrow> integration_row \<Rightarrow> installation_row \<Rightarrow> wf_db \<Rightarrow> bool" where
  "verified_run_exists actor workflow shared old db \<longleftrightarrow>
     list_ex (\<lambda>r. rn_orgId r = ac_orgId actor \<and> rn_workflowId r = wf_id workflow \<and>
       rn_installationId r = il_installationId old \<and> rn_configurationVersion r = wf_version workflow \<and>
       rn_integrationVersion r = ei_version shared \<and>
       rn_workflowPackageVersion r = il_workflowPackageVersion old \<and>
       rn_status r = st_succeeded \<and> rn_finishedAt r \<noteq> None) (wd_runs db)"

definition record_installation ::
  "wf_env \<Rightarrow> Actor \<Rightarrow> workflow_row \<Rightarrow> string \<Rightarrow> installation_row \<Rightarrow> (installation_row \<Rightarrow> installation_row) \<Rightarrow> wf_db
     \<Rightarrow> install_result wtx" where
  "record_installation e actor workflow kind old data db =
     Inr (InstallationResult ((data old)\<lparr>il_version := il_version old + 1, il_updatedAt := e_clock e\<rparr>),
       audit actor kind (wf_id workflow) [(''installationId'', JStr (il_installationId old))]
         (update_installation e (ac_orgId actor) (wf_id workflow) (il_installationId old) data db))"

definition record_checks ::
  "wf_env \<Rightarrow> Actor \<Rightarrow> workflow_row \<Rightarrow> string \<Rightarrow> WorkflowReadinessCheck list \<Rightarrow> FirstRunVerification \<Rightarrow> wf_db
     \<Rightarrow> install_result wtx" where
  "record_checks e actor workflow installationId checks verification db =
     res_bind (getInstallation actor workflow installationId True db) (\<lambda>old.
     res_bind (res_guard (length (js_uniq (map rk_capability checks)) \<noteq> length checks) WORKFLOW_SOURCE_UNAVAILABLE) (\<lambda>_.
     res_bind (if verification = fr_verified
       then res_bind (integration db workflow) (\<lambda>shared.
              res_guard (\<not> verified_run_exists actor workflow shared old db) WORKFLOW_SOURCE_UNAVAILABLE)
       else Inr ()) (\<lambda>_.
     record_installation e actor workflow ''record_checks'' old
       (\<lambda>i. i\<lparr>il_readinessChecks := checks, il_firstRunVerification := verification,
              il_lastCheckedAt := Some (e_now e)\<rparr>) db)))"

definition record_host ::
  "wf_env \<Rightarrow> Actor \<Rightarrow> workflow_row \<Rightarrow> string \<Rightarrow> WorkflowHostSnapshot \<Rightarrow> wf_db \<Rightarrow> install_result wtx" where
  "record_host e actor workflow installationId host db =
     res_bind (getInstallation actor workflow installationId True db) (\<lambda>old.
     record_installation e actor workflow ''record_host'' old (\<lambda>i. i\<lparr>il_hostSnapshot := Some host\<rparr>) db)"

definition set_state ::
  "wf_env \<Rightarrow> Actor \<Rightarrow> workflow_row \<Rightarrow> string \<Rightarrow> nat \<Rightarrow> InstallationState \<Rightarrow> wf_db \<Rightarrow> install_result wtx" where
  "set_state e actor workflow installationId expectedVersion state db =
     res_bind (getInstallation actor workflow installationId False db) (\<lambda>old.
     res_bind (res_guard (il_version old \<noteq> expectedVersion) WORKFLOW_VERSION_CONFLICT) (\<lambda>_.
     res_bind (if state = ins_enabled
       then res_bind (requireReady e actor workflow installationId False db) (\<lambda>_.
            res_bind (res_guard (wf_assignedInstallationId workflow \<noteq> Some installationId \<or>
              wf_controlState workflow \<noteq> ctl_active) WORKFLOW_INSTALLATION_MISMATCH) (\<lambda>_.
            Inr (activateOrderScope workflow db)))
       else Inr db) (\<lambda>db1.
     record_installation e actor workflow ''set_state'' old (\<lambda>i. i\<lparr>il_state := state\<rparr>) db1)))"

section \<open>Takeover\<close>

definition is_pending :: "action_row \<Rightarrow> bool" where
  "is_pending a \<longleftrightarrow> at_state a = ac_intent \<or> at_state a = ac_unknown"

definition pending_actions :: "string \<Rightarrow> string \<Rightarrow> wf_db \<Rightarrow> action_row list" where
  "pending_actions orgId workflowId db =
     filter (\<lambda>a. at_orgId a = orgId \<and> at_workflowId a = workflowId \<and> is_pending a) (wd_actions db)"

definition unknown_action_ids :: "action_row list \<Rightarrow> string list" where
  "unknown_action_ids pending = take 100 (sort (map at_actionId pending))"

definition latest_change :: "action_row list \<Rightarrow> string option" where
  "latest_change pending =
     (if pending = [] then None else Some (iso_datetime (Max (at_updatedAt ` set pending))))"

definition json_of_takeover :: "takeover_change \<Rightarrow> json" where
  "json_of_takeover t = JObj
     [(''kind'', JStr ''takeover''), (''installationId'', JStr (tk_installationId t)),
      (''assignmentEpoch'', jnat (tk_assignmentEpoch t)),
      (''oldInstallationId'', json_of_optional JStr (tk_oldInstallationId t)),
      (''oldHostState'', JStr (if tk_oldHostState t then ''paused'' else ''unavailable'')),
      (''unknownActionIds'', jstrs (tk_unknownActionIds t)),
      (''unknownActionCount'', jnat (tk_unknownActionCount t)),
      (''unknownLatestChange'', json_of_optional JStr (tk_unknownLatestChange t))]"

definition host_confirmed_paused :: "Actor \<Rightarrow> workflow_row \<Rightarrow> string \<Rightarrow> wf_db \<Rightarrow> bool" where
  "host_confirmed_paused actor workflow installationId db \<longleftrightarrow>
     (case find_installation (ac_orgId actor) (wf_id workflow) installationId db of
        None \<Rightarrow> False
      | Some old \<Rightarrow> (case il_hostSnapshot old of None \<Rightarrow> False | Some h \<Rightarrow> hs_state h = host_paused))"

definition lease_live :: "workflow_row \<Rightarrow> time_ms \<Rightarrow> bool" where
  "lease_live workflow now \<longleftrightarrow>
     wf_leaseRunId workflow \<noteq> None \<and> (case wf_leaseExpiresAt workflow of None \<Rightarrow> False | Some t \<Rightarrow> now < t)"

text \<open>The checks both takeover operations begin with.\<close>

definition takeover_guard :: "wf_env \<Rightarrow> Actor \<Rightarrow> workflow_row \<Rightarrow> string \<Rightarrow> nat \<Rightarrow> wf_db \<Rightarrow> workflow_error + unit" where
  "takeover_guard e actor workflow installationId expectedEpoch db =
     res_bind (requireReady e actor workflow installationId True db) (\<lambda>_.
     res_bind (res_guard (wf_assignmentEpoch workflow \<noteq> expectedEpoch) WORKFLOW_VERSION_CONFLICT) (\<lambda>_.
     res_guard (lease_live workflow (e_now e)) WORKFLOW_BUSY))"

definition paused_guard :: "Actor \<Rightarrow> workflow_row \<Rightarrow> bool \<Rightarrow> wf_db \<Rightarrow> workflow_error + unit" where
  "paused_guard actor workflow declaredPaused db =
     (case wf_assignedInstallationId workflow of
        None \<Rightarrow> Inr ()
      | Some old \<Rightarrow> res_guard (declaredPaused \<and> \<not> host_confirmed_paused actor workflow old db) WORKFLOW_BUSY)"

definition prepare_takeover ::
  "digest \<Rightarrow> wf_env \<Rightarrow> Actor \<Rightarrow> workflow_row \<Rightarrow> string \<Rightarrow> nat \<Rightarrow> bool \<Rightarrow> wf_db \<Rightarrow> install_result wtx" where
  "prepare_takeover sha e actor workflow installationId expectedEpoch declaredPaused db =
     res_bind (takeover_guard e actor workflow installationId expectedEpoch db) (\<lambda>_.
     res_bind (paused_guard actor workflow declaredPaused db) (\<lambda>_.
     res_bind (integration db workflow) (\<lambda>shared.
     let pending = pending_actions (ac_orgId actor) (wf_id workflow) db;
         change = \<lparr>tk_installationId = installationId, tk_assignmentEpoch = wf_assignmentEpoch workflow,
           tk_oldInstallationId = wf_assignedInstallationId workflow, tk_oldHostState = declaredPaused,
           tk_unknownActionIds = unknown_action_ids pending, tk_unknownActionCount = length pending,
           tk_unknownLatestChange = latest_change pending\<rparr>;
         previewId = e_newId e;
         confirmationDigest = hash sha (JObj [(''actor'', json_of_actor actor), (''previewId'', JStr previewId),
           (''change'', json_of_takeover change)]) in
     res_bind (create_preview
       \<lparr>pv_id = previewId, pv_orgId = ac_orgId actor, pv_enterpriseKey = wf_enterpriseKey workflow,
        pv_workflowType = wf_type workflow, pv_expectedVersion = wf_version workflow,
        pv_expectedIntegrationVersion = ei_version shared, pv_expectedControlVersion = wf_controlVersion workflow,
        pv_change = TakeoverChange change, pv_confirmationDigest = confirmationDigest, pv_preparedBy = ac_id actor,
        pv_expiresAt = e_now e + 900000, pv_consumedAt = None\<rparr> db) (\<lambda>db1.
     Inr (TakeoverPrepared previewId confirmationDigest change (wf_leaseExpiresAt workflow), db1)))))"

text \<open>The preview must describe the takeover that is about to happen.\<close>

definition takeover_matches ::
  "digest \<Rightarrow> workflow_row \<Rightarrow> string \<Rightarrow> action_row list \<Rightarrow> takeover_change \<Rightarrow> bool" where
  "takeover_matches sha workflow installationId pending change \<longleftrightarrow>
     tk_installationId change = installationId \<and>
     tk_assignmentEpoch change = wf_assignmentEpoch workflow \<and>
     tk_oldInstallationId change = wf_assignedInstallationId workflow \<and>
     hash sha (jstrs (tk_unknownActionIds change)) = hash sha (jstrs (unknown_action_ids pending)) \<and>
     tk_unknownActionCount change = length pending \<and>
     tk_unknownLatestChange change = latest_change pending"

definition parse_takeover :: "preview_change \<Rightarrow> takeover_change option" where
  "parse_takeover c = (case c of TakeoverChange t \<Rightarrow> Some t | _ \<Rightarrow> None)"

definition revoke_assigned :: "wf_env \<Rightarrow> Actor \<Rightarrow> workflow_row \<Rightarrow> string \<Rightarrow> wf_db \<Rightarrow> wf_db" where
  "revoke_assigned e actor workflow installationId db =
     (case wf_assignedInstallationId workflow of
        None \<Rightarrow> db
      | Some old \<Rightarrow>
          if old = installationId then db
          else update_installation e (ac_orgId actor) (wf_id workflow) old (\<lambda>i. i\<lparr>il_state := ins_revoked\<rparr>) db)"

definition reassign :: "wf_env \<Rightarrow> Actor \<Rightarrow> workflow_row \<Rightarrow> string \<Rightarrow> wf_db \<Rightarrow> wf_db" where
  "reassign e actor workflow installationId db =
     (let epoch = wf_assignmentEpoch workflow + 1;
          db1 = update_workflow (wf_id workflow)
            (\<lambda>w. w\<lparr>wf_assignedInstallationId := Some installationId, wf_assignmentEpoch := wf_assignmentEpoch w + 1,
                   wf_leaseRunId := None, wf_leaseExpiresAt := None\<rparr>) db;
          db2 = db1\<lparr>wd_runs := update_where
            (\<lambda>r. rn_orgId r = ac_orgId actor \<and> rn_workflowId r = wf_id workflow \<and> rn_finishedAt r = None)
            (\<lambda>r. r\<lparr>rn_installationId := installationId, rn_employeeId := ac_id actor, rn_assignmentEpoch := epoch,
                   rn_controlVersion := wf_controlVersion workflow\<rparr>) (wd_runs db1)\<rparr> in
      db2\<lparr>wd_actions := update_where
        (\<lambda>a. at_orgId a = ac_orgId actor \<and> at_workflowId a = wf_id workflow \<and> at_state a = ac_intent)
        (\<lambda>a. a\<lparr>at_state := ac_unknown, at_updatedAt := e_clock e\<rparr>) (wd_actions db2)\<rparr>)"

definition takeover ::
  "digest \<Rightarrow> wf_env \<Rightarrow> Actor \<Rightarrow> workflow_row \<Rightarrow> string \<Rightarrow> nat \<Rightarrow> string \<Rightarrow> string \<Rightarrow> wf_db \<Rightarrow> install_result wtx" where
  "takeover sha e actor workflow installationId expectedEpoch previewId confirmationDigest db =
     res_bind (takeover_guard e actor workflow installationId expectedEpoch db) (\<lambda>_.
     res_bind (integration db workflow) (\<lambda>shared.
     let pending = pending_actions (ac_orgId actor) (wf_id workflow) db in
     res_bind (or_else WORKFLOW_VERSION_CONFLICT (find_preview e actor workflow previewId confirmationDigest
       \<lparr>ex_expectedVersion = wf_version workflow, ex_expectedIntegrationVersion = ei_version shared,
        ex_expectedControlVersion = wf_controlVersion workflow\<rparr> db)) (\<lambda>preview.
     res_bind (or_else WORKFLOW_VERSION_CONFLICT (parse_takeover (pv_change preview))) (\<lambda>change.
     res_bind (res_guard (\<not> takeover_matches sha workflow installationId pending change) WORKFLOW_VERSION_CONFLICT) (\<lambda>_.
     res_bind (paused_guard actor workflow (tk_oldHostState change) db) (\<lambda>_.
     let db1 = reassign e actor workflow installationId (revoke_assigned e actor workflow installationId db);
         db2 = update_installation e (ac_orgId actor) (wf_id workflow) installationId
           (\<lambda>i. i\<lparr>il_state := (if wf_controlState workflow = ctl_active then ins_enabled else ins_paused)\<rparr>) db1;
         db3 = (if wf_controlState workflow = ctl_active then activateOrderScope workflow db2 else db2);
         ids = unknown_action_ids pending in
     Inr (TakeoverDone (wf_assignmentEpoch workflow + 1) installationId ids (length pending)
            (if length ids < length pending then Some (last ids) else None),
          audit actor ''takeover'' (wf_id workflow)
            [(''installationId'', JStr installationId),
             (''oldInstallationId'', json_of_optional JStr (tk_oldInstallationId change)),
             (''unknownActionIds'', jstrs ids)]
            (consume_preview (pv_id preview) (e_now e) db3))))))))"

section \<open>Dispatch\<close>

datatype install_op =
    Register WorkflowInstallation
  | RecordChecks string "WorkflowReadinessCheck list" FirstRunVerification
  | RecordHost string WorkflowHostSnapshot
  | SetState string nat InstallationState string
  | PrepareTakeover string nat bool
  | Takeover string nat string string

fun installOperation ::
  "digest \<Rightarrow> wf_env \<Rightarrow> Actor \<Rightarrow> workflow_row \<Rightarrow> install_op \<Rightarrow> wf_db \<Rightarrow> install_result wtx" where
  "installOperation sha e actor w (Register v) db = register_installation sha e actor w v db"
| "installOperation sha e actor w (RecordChecks i checks v) db = record_checks e actor w i checks v db"
| "installOperation sha e actor w (RecordHost i h) db = record_host e actor w i h db"
| "installOperation sha e actor w (SetState i n state reason) db = set_state e actor w i n state db"
| "installOperation sha e actor w (PrepareTakeover i epoch paused) db = prepare_takeover sha e actor w i epoch paused db"
| "installOperation sha e actor w (Takeover i epoch p d) db = takeover sha e actor w i epoch p d db"

end
