(* ===== verification/Workflow_Runs.thy ===== *)
theory Workflow_Runs
  imports Workflow_Installations
begin

text \<open>
  \<^verbatim>\<open>apps/api/src/enterprise-workflows/runs.ts\<close>: the scheduled window, the binding of a caller to a
  run, and the operations of a run. \<open>requireBinding\<close> is what every operation under a lease goes
  through: it checks control, assignment, run and lease, and computes the live policy.
\<close>

section \<open>Windows\<close>

text \<open>The calendar day in \<open>Asia/Shanghai\<close>, eight hours ahead of UTC.\<close>

definition shanghai_day :: "time_ms \<Rightarrow> day" where
  "shanghai_day now = (now + 28800000) div msPerDay"

definition scheduledWindow :: "WorkflowType \<Rightarrow> time_ms \<Rightarrow> WorkflowWindow" where
  "scheduledWindow t now =
     (let today = shanghai_day now in
      if t = WeeklyBusinessReport then
        let offset = (WeekDay today + 6) mod 7 in
        \<lparr>w_startDate = iso_date (today + (- offset - 7)), w_endDate = iso_date (today + (- offset - 1))\<rparr>
      else
        \<lparr>w_startDate = iso_date (today + (- 1)),
         w_endDate = (if t = MeituanReviewOperations then iso_date today else iso_date (today + (- 1)))\<rparr>)"

section \<open>Bindings\<close>

definition requireRunRead ::
  "AuthorizationSnapshot \<Rightarrow> workflow_row \<Rightarrow> WorkflowConfiguration \<Rightarrow> workflow_error + unit" where
  "requireRunRead auth workflow config =
     (if config_type config = WeeklyBusinessReport
      then requireRead auth workflow (config_storeNames config) [''business'', ''dishes'']
      else Inr ())"

record bound_run =
  bn_run :: run_row
  bn_snapshot :: WorkflowRunSnapshot
  bn_installation :: installation_row
  bn_livePolicy :: WorkflowLivePolicy

definition find_run :: "string \<Rightarrow> string \<Rightarrow> string \<Rightarrow> wf_db \<Rightarrow> run_row option" where
  "find_run orgId workflowId runId db =
     find (\<lambda>r. rn_id r = runId \<and> rn_orgId r = orgId \<and> rn_workflowId r = workflowId) (wd_runs db)"

definition lease_held :: "workflow_row \<Rightarrow> string \<Rightarrow> time_ms \<Rightarrow> bool" where
  "lease_held workflow runId now \<longleftrightarrow>
     wf_leaseRunId workflow = Some runId \<and>
     (case wf_leaseExpiresAt workflow of None \<Rightarrow> False | Some t \<Rightarrow> now < t)"

text \<open>The policy in force: the run's own, narrowed by the current configuration and the stores
  that still exist.\<close>

definition bound_policy :: "workflow_row \<Rightarrow> run_row \<Rightarrow> wf_db \<Rightarrow> workflow_error + WorkflowLivePolicy" where
  "bound_policy workflow run db =
     res_bind (or_else WORKFLOW_CONFIGURATION_REQUIRED (configuration db workflow)) (\<lambda>current.
     res_bind (integration db workflow) (\<lambda>source.
     res_bind (live_policy current (ei_configuration source)) (\<lambda>livePolicy.
     let stores = live_stores (wf_orgId workflow) (wf_enterpriseKey workflow) db;
         live = livePolicy\<lparr>lp_stores := filter (\<lambda>name. name \<in> set stores) (lp_stores livePolicy)\<rparr> in
     res_bind (run_policy run) (\<lambda>previous. Inr (intersectWorkflowLivePolicy previous live)))))"

definition requireBinding ::
  "wf_env \<Rightarrow> Actor \<Rightarrow> workflow_row \<Rightarrow> WorkflowRunBinding \<Rightarrow> bool \<Rightarrow> wf_db \<Rightarrow> workflow_error + bound_run" where
  "requireBinding e actor workflow bd requireLease db =
     res_bind (getInstallation actor workflow (bd_installationId bd) False db) (\<lambda>install.
     res_bind (res_guard (wf_controlState workflow \<noteq> ctl_active \<or> wf_controlVersion workflow \<noteq> bd_controlVersion bd)
       WORKFLOW_CONTROL_REVOKED) (\<lambda>_.
     res_bind (res_guard (wf_assignedInstallationId workflow \<noteq> Some (bd_installationId bd) \<or>
       wf_assignmentEpoch workflow \<noteq> bd_assignmentEpoch bd \<or> il_state install \<noteq> ins_enabled)
       WORKFLOW_INSTALLATION_MISMATCH) (\<lambda>_.
     res_bind (or_else WORKFLOW_INSTALLATION_MISMATCH (find_run (ac_orgId actor) (wf_id workflow) (bd_runId bd) db)) (\<lambda>run.
     res_bind (res_guard (rn_installationId run \<noteq> bd_installationId bd \<or> rn_employeeId run \<noteq> ac_id actor \<or>
       rn_assignmentEpoch run \<noteq> bd_assignmentEpoch bd \<or> rn_finishedAt run \<noteq> None) WORKFLOW_INSTALLATION_MISMATCH) (\<lambda>_.
     res_bind (res_guard (requireLease \<and> \<not> lease_held workflow (rn_id run) (e_now e)) WORKFLOW_BUSY) (\<lambda>_.
     res_bind (bound_policy workflow run db) (\<lambda>policy.
     Inr \<lparr>bn_run = run, bn_snapshot = rn_snapshot run, bn_installation = install, bn_livePolicy = policy\<rparr>)))))))"

section \<open>Operations\<close>

record start_input =
  so_installationId :: string
  so_assignmentEpoch :: nat
  so_expectedConfigurationVersion :: nat
  so_expectedIntegrationVersion :: nat
  so_expectedControlVersion :: nat
  so_workflowPackageVersion :: string
  so_window :: WorkflowWindow
  so_mode :: RunMode
  so_backfillConfirmationDigest :: "string option"

datatype run_op =
    PrepareBackfill string nat WorkflowWindow string
  | StartRun start_input
  | ReleaseRun WorkflowRunBinding
  | RenewRun WorkflowRunBinding
  | ResumeRun WorkflowRunBinding
  | FinishRun WorkflowRunBinding WorkflowRunSummary
  | RecordSummary WorkflowRunBinding WorkflowRunSummary

datatype run_result =
    BackfillPrepared string string WorkflowWindow time_ms
  | RunLeased run_row time_ms
  | RunReleased string
  | RunRecorded run_row

definition runView :: "run_row \<Rightarrow> run_row" where
  "runView run = run\<lparr>rn_restrictivePolicy := None\<rparr>"

definition json_of_backfill :: "backfill_change \<Rightarrow> (string \<times> json) list" where
  "json_of_backfill c =
     [(''kind'', JStr ''backfill''), (''installationId'', JStr (bf_installationId c)),
      (''assignmentEpoch'', jnat (bf_assignmentEpoch c)), (''window'', json_of_window (bf_window c)),
      (''reason'', JStr (bf_reason c))]"

definition window_too_long :: "WorkflowWindow \<Rightarrow> bool" where
  "window_too_long w =
     (case (Date_parse (w_endDate w), Date_parse (w_startDate w)) of
        (Some a, Some b) \<Rightarrow> a - b > 365 * 86400000
      | _ \<Rightarrow> False)"

definition prepare_backfill ::
  "digest \<Rightarrow> wf_env \<Rightarrow> Actor \<Rightarrow> workflow_row \<Rightarrow> string \<Rightarrow> nat \<Rightarrow> WorkflowWindow \<Rightarrow> string \<Rightarrow> wf_db \<Rightarrow> run_result wtx" where
  "prepare_backfill sha e actor workflow installationId epoch window reason db =
     res_bind (requireReady e actor workflow installationId False db) (\<lambda>_.
     res_bind (res_guard (wf_assignedInstallationId workflow \<noteq> Some installationId \<or> wf_assignmentEpoch workflow \<noteq> epoch)
       WORKFLOW_INSTALLATION_MISMATCH) (\<lambda>_.
     res_bind (res_guard (iso_date (shanghai_day (e_now e)) \<le> w_endDate window \<or> window_too_long window)
       WORKFLOW_PERMISSION_DENIED) (\<lambda>_.
     res_bind (integration db workflow) (\<lambda>shared.
     let change = \<lparr>bf_installationId = installationId, bf_assignmentEpoch = epoch, bf_window = window, bf_reason = reason\<rparr>;
         previewId = e_newId e;
         confirmationDigest = hash sha (JObj [(''previewId'', JStr previewId), (''actor'', json_of_actor actor),
           (''change'', JObj (json_of_backfill change))]) in
     res_bind (create_preview
       \<lparr>pv_id = previewId, pv_orgId = ac_orgId actor, pv_enterpriseKey = wf_enterpriseKey workflow,
        pv_workflowType = wf_type workflow, pv_expectedVersion = wf_version workflow,
        pv_expectedIntegrationVersion = ei_version shared, pv_expectedControlVersion = wf_controlVersion workflow,
        pv_change = BackfillChange change, pv_confirmationDigest = confirmationDigest, pv_preparedBy = ac_id actor,
        pv_expiresAt = e_now e + 900000, pv_consumedAt = None\<rparr> db) (\<lambda>db1.
     Inr (BackfillPrepared previewId confirmationDigest window (e_now e + 900000),
          audit actor ''prepare_backfill'' (wf_id workflow) (json_of_backfill change) db1))))))"

definition parse_backfill :: "preview_change \<Rightarrow> backfill_change option" where
  "parse_backfill c = (case c of BackfillChange b \<Rightarrow> Some b | _ \<Rightarrow> None)"

definition find_backfill ::
  "wf_env \<Rightarrow> Actor \<Rightarrow> workflow_row \<Rightarrow> nat \<Rightarrow> string option \<Rightarrow> wf_db \<Rightarrow> preview_row option" where
  "find_backfill e actor workflow integrationVersion confirmationDigest db =
     find (\<lambda>p. pv_orgId p = ac_orgId actor \<and> pv_enterpriseKey p = wf_enterpriseKey workflow \<and>
        pv_workflowType p = wf_type workflow \<and> Some (pv_confirmationDigest p) = confirmationDigest \<and>
        pv_preparedBy p = ac_id actor \<and> pv_consumedAt p = None \<and> e_now e < pv_expiresAt p \<and>
        pv_expectedVersion p = wf_version workflow \<and> pv_expectedIntegrationVersion p = integrationVersion \<and>
        pv_expectedControlVersion p = wf_controlVersion workflow) (wd_previews db)"

text \<open>The window of a start: the scheduled one, or that of a confirmed backfill, whose preview is used up.\<close>

definition claim_window ::
  "digest \<Rightarrow> wf_env \<Rightarrow> Actor \<Rightarrow> workflow_row \<Rightarrow> nat \<Rightarrow> start_input \<Rightarrow> wf_db \<Rightarrow> workflow_error + wf_db" where
  "claim_window sha e actor workflow integrationVersion op db =
     (case so_mode op of
        mode_scheduled \<Rightarrow>
          res_bind (res_guard (hash sha (json_of_window (so_window op)) \<noteq>
            hash sha (json_of_window (scheduledWindow (wf_type workflow) (e_now e)))) WORKFLOW_PERMISSION_DENIED) (\<lambda>_. Inr db)
      | mode_backfill \<Rightarrow>
          res_bind (or_else WORKFLOW_PERMISSION_DENIED
            (find_backfill e actor workflow integrationVersion (so_backfillConfirmationDigest op) db)) (\<lambda>preview.
          res_bind (or_else WORKFLOW_PERMISSION_DENIED (parse_backfill (pv_change preview))) (\<lambda>change.
          res_bind (res_guard (bf_installationId change \<noteq> so_installationId op \<or>
            bf_assignmentEpoch change \<noteq> so_assignmentEpoch op \<or>
            hash sha (json_of_window (bf_window change)) \<noteq> hash sha (json_of_window (so_window op)))
            WORKFLOW_PERMISSION_DENIED) (\<lambda>_.
          Inr (consume_preview (pv_id preview) (e_now e) db)))))"

definition create_run :: "run_row \<Rightarrow> wf_db \<Rightarrow> workflow_error + wf_db" where
  "create_run row db =
     (if list_ex (\<lambda>r. rn_id r = rn_id row) (wd_runs db) then Inl UniqueViolation
      else Inr (db\<lparr>wd_runs := wd_runs db @ [row]\<rparr>))"

definition retention :: "time_ms \<Rightarrow> time_ms" where
  "retention now = now + int (lim_runRetentionDays WORKFLOW_LIMITS) * 86400000"

definition lease_until :: "time_ms \<Rightarrow> time_ms" where
  "lease_until now = now + int (lim_leaseSeconds WORKFLOW_LIMITS) * 1000"

definition new_run ::
  "wf_env \<Rightarrow> Actor \<Rightarrow> workflow_row \<Rightarrow> integration_row \<Rightarrow> WorkflowConfiguration \<Rightarrow> start_input \<Rightarrow> run_row" where
  "new_run e actor workflow source config op =
     \<lparr>rn_id = e_cuid e 0, rn_orgId = ac_orgId actor, rn_workflowId = wf_id workflow,
      rn_installationId = so_installationId op, rn_employeeId = ac_id actor,
      rn_configurationVersion = wf_version workflow, rn_integrationVersion = ei_version source,
      rn_controlVersion = wf_controlVersion workflow, rn_assignmentEpoch = wf_assignmentEpoch workflow,
      rn_workflowPackageVersion = so_workflowPackageVersion op, rn_startDate = w_startDate (so_window op),
      rn_endDate = w_endDate (so_window op), rn_mode = so_mode op,
      rn_snapshot = \<lparr>sn_workflowType = wf_type workflow, sn_window = so_window op,
        sn_integrationVersion = ei_version source, sn_configurationVersion = wf_version workflow,
        sn_workflowPackageVersion = so_workflowPackageVersion op, sn_integration = ei_configuration source,
        sn_configuration = config\<rparr>,
      rn_restrictivePolicy = None, rn_phase = ph_preparing, rn_status = st_running, rn_summary = None,
      rn_startedAt = e_now e, rn_renewedAt = e_now e, rn_finishedAt = None, rn_retainUntil = retention (e_now e)\<rparr>"

fun mode_text :: "RunMode \<Rightarrow> string" where
  "mode_text mode_scheduled = ''scheduled''"
| "mode_text mode_backfill = ''backfill''"

definition set_lease :: "workflow_row \<Rightarrow> string option \<Rightarrow> time_ms option \<Rightarrow> wf_db \<Rightarrow> wf_db" where
  "set_lease workflow runId expiresAt =
     update_workflow (wf_id workflow) (\<lambda>w. w\<lparr>wf_leaseRunId := runId, wf_leaseExpiresAt := expiresAt\<rparr>)"

definition start_run ::
  "digest \<Rightarrow> wf_env \<Rightarrow> Actor \<Rightarrow> AuthorizationSnapshot \<Rightarrow> workflow_row \<Rightarrow> start_input \<Rightarrow> wf_db \<Rightarrow> run_result wtx" where
  "start_run sha e actor auth workflow op db =
     res_bind (requireReady e actor workflow (so_installationId op) False db) (\<lambda>installation.
     res_bind (res_guard (wf_controlState workflow \<noteq> ctl_active \<or> wf_controlVersion workflow \<noteq> so_expectedControlVersion op)
       WORKFLOW_CONTROL_REVOKED) (\<lambda>_.
     res_bind (res_guard (wf_assignedInstallationId workflow \<noteq> Some (so_installationId op) \<or>
       wf_assignmentEpoch workflow \<noteq> so_assignmentEpoch op \<or> il_state installation \<noteq> ins_enabled)
       WORKFLOW_INSTALLATION_MISMATCH) (\<lambda>_.
     res_bind (integration db workflow) (\<lambda>source.
     res_bind (or_else WORKFLOW_CONFIGURATION_REQUIRED (configuration db workflow)) (\<lambda>config.
     res_bind (res_guard (wf_version workflow \<noteq> so_expectedConfigurationVersion op \<or>
       ei_version source \<noteq> so_expectedIntegrationVersion op) WORKFLOW_VERSION_CONFLICT) (\<lambda>_.
     res_bind (res_guard (\<not> supportsWorkflowPackageVersion (so_workflowPackageVersion op) \<or>
       il_workflowPackageVersion installation \<noteq> so_workflowPackageVersion op) WORKFLOW_VERSION_INCOMPATIBLE) (\<lambda>_.
     res_bind (validateConfiguration workflow config (Some (ei_configuration source)) db) (\<lambda>_.
     res_bind (requireRunRead auth workflow config) (\<lambda>_.
     res_bind (res_guard (lease_live workflow (e_now e)) WORKFLOW_BUSY) (\<lambda>_.
     res_bind (res_guard (unfinished_runs (ac_orgId actor) (wf_id workflow) db \<noteq> []) WORKFLOW_BUSY) (\<lambda>_.
     res_bind (claim_window sha e actor workflow (ei_version source) op db) (\<lambda>db1.
     let run = new_run e actor workflow source config op in
     res_bind (res_guard (sn_workflowType (rn_snapshot run) \<noteq> config_type config) SchemaError) (\<lambda>_.
     res_bind (create_run run db1) (\<lambda>db2.
     let leaseExpiresAt = lease_until (e_now e);
         db3 = set_lease workflow (Some (rn_id run)) (Some leaseExpiresAt) db2 in
     Inr (RunLeased (runView run) leaseExpiresAt,
          audit actor ''start'' (wf_id workflow) [(''runId'', JStr (rn_id run)),
            (''window'', json_of_window (so_window op)), (''mode'', JStr (mode_text (so_mode op)))] db3)))))))))))))))"

definition release_run :: "Actor \<Rightarrow> workflow_row \<Rightarrow> WorkflowRunBinding \<Rightarrow> wf_db \<Rightarrow> run_result wtx" where
  "release_run actor workflow bd db =
     (let run = find (\<lambda>r. rn_id r = bd_runId bd \<and> rn_orgId r = ac_orgId actor \<and> rn_workflowId r = wf_id workflow \<and>
            rn_employeeId r = ac_id actor \<and> rn_installationId r = bd_installationId bd \<and>
            rn_assignmentEpoch r = bd_assignmentEpoch bd) (wd_runs db) in
      res_bind (res_guard (run = None \<or> wf_assignedInstallationId workflow \<noteq> Some (bd_installationId bd) \<or>
        wf_assignmentEpoch workflow \<noteq> bd_assignmentEpoch bd \<or>
        (wf_leaseRunId workflow \<noteq> None \<and> wf_leaseRunId workflow \<noteq> Some (bd_runId bd)))
        WORKFLOW_INSTALLATION_MISMATCH) (\<lambda>_.
      Inr (RunReleased (bd_runId bd),
           audit actor ''release'' (wf_id workflow) [(''runId'', JStr (bd_runId bd))]
             (set_lease workflow None None db))))"

definition update_run :: "string \<Rightarrow> (run_row \<Rightarrow> run_row) \<Rightarrow> wf_db \<Rightarrow> wf_db" where
  "update_run runId data db = db\<lparr>wd_runs := update_where (\<lambda>r. rn_id r = runId) data (wd_runs db)\<rparr>"

text \<open>\<open>renew\<close> and \<open>resume\<close>; \<open>other_lease\<close> is the check that only \<open>resume\<close> needs.\<close>

definition other_lease :: "workflow_row \<Rightarrow> string \<Rightarrow> time_ms \<Rightarrow> bool" where
  "other_lease workflow runId now \<longleftrightarrow> lease_live workflow now \<and> wf_leaseRunId workflow \<noteq> Some runId"

definition renew_run ::
  "wf_env \<Rightarrow> Actor \<Rightarrow> AuthorizationSnapshot \<Rightarrow> workflow_row \<Rightarrow> WorkflowRunBinding \<Rightarrow> bool \<Rightarrow> wf_db \<Rightarrow> run_result wtx" where
  "renew_run e actor auth workflow bd resume db =
     res_bind (requireBinding e actor workflow bd (\<not> resume) db) (\<lambda>bound.
     res_bind (requireRunRead auth workflow (sn_configuration (bn_snapshot bound))) (\<lambda>_.
     res_bind (res_guard (resume \<and> other_lease workflow (bd_runId bd) (e_now e)) WORKFLOW_BUSY) (\<lambda>_.
     res_bind (res_guard (sn_workflowPackageVersion (bn_snapshot bound) \<noteq>
       il_workflowPackageVersion (bn_installation bound)) WORKFLOW_VERSION_INCOMPATIBLE) (\<lambda>_.
     let leaseExpiresAt = lease_until (e_now e);
         data = (\<lambda>r. r\<lparr>rn_renewedAt := e_now e, rn_controlVersion := wf_controlVersion workflow\<rparr>);
         db1 = set_lease workflow (Some (bd_runId bd)) (Some leaseExpiresAt) db in
     Inr (RunLeased (runView (data (bn_run bound))) leaseExpiresAt, update_run (bd_runId bd) data db1)))))"

definition observation_outside :: "WorkflowRunSnapshot \<Rightarrow> WorkflowObservation \<Rightarrow> bool" where
  "observation_outside snapshot ob \<longleftrightarrow>
     ob_storeName ob \<notin> set (config_storeNames (sn_configuration snapshot)) \<or>
     ob_date ob < w_startDate (sn_window snapshot) \<or> w_endDate (sn_window snapshot) < ob_date ob \<or>
     (case sn_configuration snapshot of DailyConfig c \<Rightarrow> ob_dataset ob \<notin> set (dc_datasets c) | _ \<Rightarrow> False)"

definition partition_present :: "Actor \<Rightarrow> workflow_row \<Rightarrow> WorkflowObservation \<Rightarrow> wf_db \<Rightarrow> bool" where
  "partition_present actor workflow ob db \<longleftrightarrow>
     list_ex (\<lambda>p. pt_orgId p = ac_orgId actor \<and> pt_enterpriseKey p = wf_enterpriseKey workflow \<and>
       pt_dataset p = dataset_text (ob_dataset ob) \<and> pt_storeName p = ob_storeName ob \<and>
       Some (pt_businessDate p) = parse_day (ob_date ob) \<and> 0 < pt_rowCount p) (fc_partitions (wd_facts db))"

definition check_observation ::
  "Actor \<Rightarrow> workflow_row \<Rightarrow> WorkflowRunSnapshot \<Rightarrow> wf_db \<Rightarrow> WorkflowObservation \<Rightarrow> workflow_error + unit" where
  "check_observation actor workflow snapshot db ob =
     res_bind (res_guard (observation_outside snapshot ob) WORKFLOW_PERMISSION_DENIED) (\<lambda>_.
     res_guard (ob_status ob = ob_observed_zero \<and> ob_dataset ob \<noteq> ds_delivery_ledger \<and>
       partition_present actor workflow ob db) WORKFLOW_SOURCE_MAPPING_CONFLICT)"

definition run_actions :: "string \<Rightarrow> string \<Rightarrow> string \<Rightarrow> wf_db \<Rightarrow> action_row list" where
  "run_actions orgId workflowId runId db =
     filter (\<lambda>a. at_orgId a = orgId \<and> at_workflowId a = workflowId \<and> at_runId a = runId) (wd_actions db)"

fun complete_run_only :: "WorkflowConfiguration \<Rightarrow> bool" where
  "complete_run_only (ReviewConfig _) = True"
| "complete_run_only _ = False"

definition check_cleanup :: "WorkflowRunSnapshot \<Rightarrow> WorkflowRunSummary \<Rightarrow> action_row list \<Rightarrow> workflow_error + unit" where
  "check_cleanup snapshot summary actions =
     res_bind (if sm_cleanup summary = cl_confirmed_files_cleaned
       then res_bind (res_guard (complete_run_only (sn_configuration snapshot) \<and> sm_status summary \<noteq> st_succeeded)
              WORKFLOW_ACTION_UNKNOWN) (\<lambda>_.
            res_guard (filter (\<lambda>a. at_state a = ac_confirmed) actions = []) WORKFLOW_ACTION_UNKNOWN)
       else Inr ()) (\<lambda>_.
     res_bind (res_guard (filter is_pending actions \<noteq> [] \<and>
       (sm_status summary = st_succeeded \<or> sm_cleanup summary = cl_confirmed_files_cleaned)) WORKFLOW_ACTION_UNKNOWN) (\<lambda>_.
     res_guard (sm_status summary = st_succeeded \<and> sm_unresolved summary \<noteq> []) WORKFLOW_ACTION_UNKNOWN))"

text \<open>\<open>finish\<close> and \<open>record_summary\<close>.\<close>

definition record_run ::
  "wf_env \<Rightarrow> Actor \<Rightarrow> AuthorizationSnapshot \<Rightarrow> workflow_row \<Rightarrow> WorkflowRunBinding \<Rightarrow> WorkflowRunSummary \<Rightarrow> bool \<Rightarrow> wf_db
     \<Rightarrow> run_result wtx" where
  "record_run e actor auth workflow bd summary finish db =
     res_bind (requireBinding e actor workflow bd True db) (\<lambda>bound.
     res_bind (requireRunRead auth workflow (sn_configuration (bn_snapshot bound))) (\<lambda>_.
     res_bind (res_forM (check_observation actor workflow (bn_snapshot bound) db) (sm_observations summary)) (\<lambda>_.
     res_bind (check_cleanup (bn_snapshot bound) summary
       (run_actions (ac_orgId actor) (wf_id workflow) (bd_runId bd) db)) (\<lambda>_.
     let data = (\<lambda>r. let r1 = r\<lparr>rn_summary := Some summary, rn_status := sm_status summary, rn_phase := sm_phase summary\<rparr> in
                 if finish then r1\<lparr>rn_finishedAt := Some (e_now e), rn_retainUntil := retention (e_now e)\<rparr> else r1);
         db1 = update_run (bd_runId bd) data db;
         db2 = (if finish then set_lease workflow None None db1 else db1) in
     Inr (RunRecorded (runView (data (bn_run bound))),
          audit actor (if finish then ''finish'' else ''record_summary'') (wf_id workflow)
            [(''runId'', JStr (bd_runId bd)), (''status'', JStr (run_status_text (sm_status summary)))] db2)))))"

fun needs_enabled_mode :: "run_op \<Rightarrow> bool" where
  "needs_enabled_mode (ReleaseRun _) = False"
| "needs_enabled_mode (FinishRun _ _) = False"
| "needs_enabled_mode (RecordSummary _ _) = False"
| "needs_enabled_mode _ = True"

fun run_branch ::
  "digest \<Rightarrow> wf_env \<Rightarrow> Actor \<Rightarrow> AuthorizationSnapshot \<Rightarrow> workflow_row \<Rightarrow> run_op \<Rightarrow> wf_db \<Rightarrow> run_result wtx" where
  "run_branch sha e actor auth w (PrepareBackfill i epoch window reason) db =
     prepare_backfill sha e actor w i epoch window reason db"
| "run_branch sha e actor auth w (StartRun op) db = start_run sha e actor auth w op db"
| "run_branch sha e actor auth w (ReleaseRun bd) db = release_run actor w bd db"
| "run_branch sha e actor auth w (RenewRun bd) db = renew_run e actor auth w bd False db"
| "run_branch sha e actor auth w (ResumeRun bd) db = renew_run e actor auth w bd True db"
| "run_branch sha e actor auth w (FinishRun bd s) db = record_run e actor auth w bd s True db"
| "run_branch sha e actor auth w (RecordSummary bd s) db = record_run e actor auth w bd s False db"

definition runOperation ::
  "digest \<Rightarrow> wf_env \<Rightarrow> Actor \<Rightarrow> AuthorizationSnapshot \<Rightarrow> workflow_row \<Rightarrow> run_op \<Rightarrow> wf_db \<Rightarrow> run_result wtx" where
  "runOperation sha e actor auth w op db =
     res_bind (res_guard (needs_enabled_mode op \<and> sn_mode auth \<noteq> ModeEnabled) WORKFLOW_PERMISSION_DENIED) (\<lambda>_.
     run_branch sha e actor auth w op db)"

end
