(* ===== verification/Workflow_Actions.thy ===== *)
theory Workflow_Actions
  imports Workflow_Runs
begin

text \<open>
  \<^verbatim>\<open>apps/api/src/enterprise-workflows/actions.ts\<close>: the authorization of an external action, its
  claim by deduplication keys, and the receipts that record what became of it. The long bodies
  of \<open>authorizeAction\<close> and \<open>actionOperation\<close> are split at their statements, in their order.
\<close>

section \<open>The history window of a weekly report\<close>

definition previousYear :: "day \<Rightarrow> day" where
  "previousYear v =
     (let month = MonthFromDay v; result = MakeDay (YearFromDay v - 1) month (DateFromDay v) in
      if MonthFromDay result \<noteq> month then MakeDay (YearFromDay result) (MonthFromDay result) 0 else result)"

definition last_month_end :: "day \<Rightarrow> day" where
  "last_month_end v =
     (let l = MakeDay (YearFromDay v) (MonthFromDay v + 1) 0 in
      if v \<noteq> l then MakeDay (YearFromDay l) (MonthFromDay l) 0 else l)"

definition monthly_trend_start :: "day \<Rightarrow> day" where
  "monthly_trend_start v =
     (let l = last_month_end v; f = MakeDay (YearFromDay l) (MonthFromDay l) 1 in
      MakeDay (YearFromDay f) (MonthFromDay f - 11) (DateFromDay f))"

definition history_start :: "day \<Rightarrow> day" where
  "history_start v =
     min (v - 363) (min (v - 727) (min (previousYear (v - 364)) (previousYear (monthly_trend_start v))))"

text \<open>An end date that is no date throws a \<open>RangeError\<close> in \<open>toISOString\<close>.\<close>

definition weeklyBusinessHistoryWindow :: "string \<Rightarrow> workflow_error + WorkflowWindow" where
  "weeklyBusinessHistoryWindow endDate =
     res_bind (or_else UncaughtError (parse_day endDate)) (\<lambda>v.
     Inr \<lparr>w_startDate = iso_date (history_start v), w_endDate = endDate\<rparr>)"

section \<open>Deduplication keys\<close>

definition sorted_stores :: "WorkflowActionIdentity \<Rightarrow> WorkflowActionIdentity" where
  "sorted_stores identity =
     (case identity of
        UploadAction v \<Rightarrow> UploadAction (v\<lparr>up_storeNames := sort (up_storeNames v)\<rparr>)
      | DownloadAction v \<Rightarrow> DownloadAction (v\<lparr>dl_storeNames := sort (dl_storeNames v)\<rparr>)
      | ReviewSyncAction v \<Rightarrow> ReviewSyncAction (v\<lparr>rs_storeNames := sort (rs_storeNames v)\<rparr>)
      | EmailAction v \<Rightarrow> EmailAction (v\<lparr>em_storeNames := sort (em_storeNames v)\<rparr>)
      | ReviewPublishAction v \<Rightarrow> ReviewPublishAction v)"

definition draft_key :: "digest \<Rightarrow> ReviewIdentity \<Rightarrow> string" where
  "draft_key sha r = hash sha (JArr [JStr ''review_drafts'', JStr (workflowSourceIdentityKey (ri_source r)),
     JStr (ri_feedbackId r), JStr (js_toLowerCase (ri_recipient r))])"

definition email_key :: "digest \<Rightarrow> EmailIdentity \<Rightarrow> string \<Rightarrow> string" where
  "email_key sha v r = hash sha (JArr [JStr ''email'', JStr (purpose_text (em_purpose v)),
     jstrs (sort (em_storeNames v)), json_of_window (em_window v), JStr (js_toLowerCase r), JNum (em_deliveryVersion v)])"

fun deduplicationKeys :: "digest \<Rightarrow> WorkflowActionIdentity \<Rightarrow> string \<Rightarrow> string \<Rightarrow> workflow_error + string list" where
  "deduplicationKeys sha (DownloadAction v) runId actionId =
     Inr [hash sha (JArr [JStr ''download'', JStr runId, JStr actionId, json_of_identity (sorted_stores (DownloadAction v))])]"
| "deduplicationKeys sha (ReviewPublishAction v) runId actionId =
     Inr [hash sha (JArr [JStr ''review_publish'', JStr (workflowSourceIdentityKey (rp_source v)),
       JStr (rp_feedbackId v), JStr ''customer_reply''])]"
| "deduplicationKeys sha (EmailAction v) runId actionId =
     (if em_purpose v = review_drafts
      then res_bind (or_else UncaughtError (em_reviewIdentities v)) (\<lambda>rs. Inr (sort (js_uniq (map (draft_key sha) rs))))
      else Inr (sort (map (email_key sha v) (em_recipients v))))"
| "deduplicationKeys sha (ReviewSyncAction v) runId actionId =
     Inr [hash sha (JArr [JStr ''review_sync'', JStr (workflowSourceIdentityKey (rs_source v)),
       jstrs (sort (rs_storeNames v)), json_of_window (rs_window v), JStr (rs_observedFactsHash v)])]"
| "deduplicationKeys sha (UploadAction v) runId actionId =
     Inr [hash sha (json_of_identity (sorted_stores (UploadAction v)))]"

section \<open>Authorization of an action\<close>

definition chosen :: "string list \<Rightarrow> string list \<Rightarrow> bool" where
  "chosen actual allowed \<longleftrightarrow> list_all (\<lambda>s. s \<in> set allowed) actual"

fun identity_window :: "WorkflowActionIdentity \<Rightarrow> WorkflowWindow option" where
  "identity_window (UploadAction v) = Some (up_window v)"
| "identity_window (DownloadAction v) = Some (dl_window v)"
| "identity_window (ReviewSyncAction v) = Some (rs_window v)"
| "identity_window (EmailAction v) = Some (em_window v)"
| "identity_window (ReviewPublishAction v) = None"

definition review_ignored :: "ReviewConfiguration \<Rightarrow> WorkflowSourceIdentity \<Rightarrow> string \<Rightarrow> bool" where
  "review_ignored c source feedbackId \<longleftrightarrow>
     list_ex (\<lambda>x. workflowSourceIdentityKey (ig_source x) = workflowSourceIdentityKey source \<and>
       ig_feedbackId x = feedbackId) (rc_ignoredReviewIdentities c)"

definition names_ignored :: "WorkflowConfiguration \<Rightarrow> WorkflowActionIdentity \<Rightarrow> bool" where
  "names_ignored config identity =
     (case config of
        ReviewConfig c \<Rightarrow>
          (case identity of
             ReviewPublishAction v \<Rightarrow> review_ignored c (rp_source v) (rp_feedbackId v)
           | EmailAction v \<Rightarrow>
               (case em_reviewIdentities v of
                  None \<Rightarrow> False
                | Some rs \<Rightarrow> list_ex (\<lambda>r. review_ignored c (ri_source r) (ri_feedbackId r)) rs)
           | _ \<Rightarrow> False)
      | _ \<Rightarrow> False)"

definition window_outside :: "WorkflowWindow \<Rightarrow> WorkflowWindow \<Rightarrow> bool" where
  "window_outside w limit \<longleftrightarrow> w_startDate w < w_startDate limit \<or> w_endDate limit < w_endDate w"

definition comparison_windows :: "WorkflowWindow \<Rightarrow> workflow_error + WorkflowWindow list" where
  "comparison_windows w =
     res_bind (or_else UncaughtError (parse_day (w_startDate w))) (\<lambda>a.
     res_bind (or_else UncaughtError (parse_day (w_endDate w))) (\<lambda>b.
     Inr (map (\<lambda>offset. \<lparr>w_startDate = iso_date (a + offset), w_endDate = iso_date (b + offset)\<rparr>) [0, -7, -364])))"

definition check_window ::
  "WorkflowRunSnapshot \<Rightarrow> WorkflowActionIdentity \<Rightarrow> workflow_error + unit" where
  "check_window snapshot identity =
     (case identity_window identity of
        None \<Rightarrow> Inr ()
      | Some w \<Rightarrow>
          if \<not> window_outside w (sn_window snapshot) then Inr ()
          else (case identity of
             DownloadAction v \<Rightarrow>
               if config_type (sn_configuration snapshot) \<noteq> WeeklyBusinessReport then Inl WORKFLOW_PERMISSION_DENIED
               else res_bind (if dl_dataset v = ds_business
                        then res_bind (weeklyBusinessHistoryWindow (w_endDate (sn_window snapshot))) (\<lambda>h. Inr [h])
                        else comparison_windows (sn_window snapshot)) (\<lambda>allowed.
                    res_guard (\<not> list_ex (\<lambda>a. w_startDate a \<le> w_startDate w \<and> w_endDate w \<le> w_endDate a) allowed)
                      WORKFLOW_PERMISSION_DENIED)
           | _ \<Rightarrow> Inl WORKFLOW_PERMISSION_DENIED))"

definition check_dataset ::
  "AuthorizationSnapshot \<Rightarrow> workflow_row \<Rightarrow> WorkflowConfiguration \<Rightarrow> WorkflowActionIdentity \<Rightarrow> workflow_error + unit" where
  "check_dataset auth workflow config identity =
     (case identity of
        UploadAction v \<Rightarrow>
          res_guard (case config of DailyConfig c \<Rightarrow> up_dataset v \<notin> set (dc_datasets c) | _ \<Rightarrow> True)
            WORKFLOW_PERMISSION_DENIED
      | DownloadAction v \<Rightarrow>
          res_bind (res_guard (config_type config \<noteq> WeeklyBusinessReport) WORKFLOW_PERMISSION_DENIED) (\<lambda>_.
          requireRead auth workflow (dl_storeNames v) [dataset_text (dl_dataset v)])
      | _ \<Rightarrow> Inr ())"

definition verifySource ::
  "EnterpriseIntegrationConfiguration \<Rightarrow> string list \<Rightarrow> WorkflowSourceIdentity \<Rightarrow> string option \<Rightarrow> workflow_error + unit" where
  "verifySource source_integration stores source store =
     (case find (\<lambda>m. workflowSourceIdentityKey (sm_source m) = workflowSourceIdentityKey source)
             (in_storeMappings source_integration) of
        None \<Rightarrow> Inl WORKFLOW_SOURCE_MAPPING_CONFLICT
      | Some mapping \<Rightarrow>
          res_guard (case store of
              Some s \<Rightarrow> if s = [] then sm_storeName mapping \<notin> set stores else sm_storeName mapping \<noteq> s
            | None \<Rightarrow> sm_storeName mapping \<notin> set stores) WORKFLOW_SOURCE_MAPPING_CONFLICT)"

fun channel_selected :: "WorkflowConfiguration \<Rightarrow> SourceChannel \<Rightarrow> bool" where
  "channel_selected (ReviewConfig c) ch \<longleftrightarrow> ch \<in> set (rc_channels c)"
| "channel_selected _ ch \<longleftrightarrow> False"

fun publication_allowed :: "WorkflowConfiguration \<Rightarrow> string \<Rightarrow> bool" where
  "publication_allowed (ReviewConfig c) store \<longleftrightarrow> rc_publicationEnabled c \<and> store \<in> set (rc_publicationStores c)"
| "publication_allowed _ store \<longleftrightarrow> False"

definition check_review :: "WorkflowRunSnapshot \<Rightarrow> WorkflowActionIdentity \<Rightarrow> workflow_error + unit" where
  "check_review snapshot identity =
     (let config = sn_configuration snapshot in
      case identity of
        ReviewPublishAction v \<Rightarrow>
          res_bind (res_guard (\<not> channel_selected config (si_channel (rp_source v))) WORKFLOW_PERMISSION_DENIED) (\<lambda>_.
          res_bind (verifySource (sn_integration snapshot) [rp_storeName v] (rp_source v) (Some (rp_storeName v))) (\<lambda>_.
          res_guard (\<not> publication_allowed config (rp_storeName v)) WORKFLOW_PERMISSION_DENIED))
      | ReviewSyncAction v \<Rightarrow>
          res_bind (res_guard (\<not> channel_selected config (si_channel (rs_source v))) WORKFLOW_PERMISSION_DENIED) (\<lambda>_.
          res_bind (res_guard (length (rs_storeNames v) \<noteq> 1) WORKFLOW_SOURCE_MAPPING_CONFLICT) (\<lambda>_.
          verifySource (sn_integration snapshot) (rs_storeNames v) (rs_source v) None))
      | _ \<Rightarrow> Inr ())"

definition purpose_mail :: "MailPurpose \<Rightarrow> WorkflowConfiguration \<Rightarrow> WorkflowMail option" where
  "purpose_mail purpose config =
     (case config of
        ReviewConfig c \<Rightarrow> if purpose = review_drafts then Some (rc_draftNotification c) else None
      | WeeklyConfig c \<Rightarrow> if purpose = weekly_report then Some (wc_delivery c) else None
      | DailyConfig _ \<Rightarrow> None)"

definition mail_admits :: "WorkflowMail option \<Rightarrow> EmailIdentity \<Rightarrow> bool" where
  "mail_admits mail v =
     (case mail of
        None \<Rightarrow> False
      | Some m \<Rightarrow> mail_enabled m \<and>
          Some (js_toLowerCase (em_sender v)) = map_option js_toLowerCase (mail_allowedSender m) \<and>
          chosen (map js_toLowerCase (em_recipients v)) (map js_toLowerCase (mail_recipients m)))"

definition missing_text :: "string option \<Rightarrow> bool" where
  "missing_text v \<longleftrightarrow> v = None \<or> v = Some []"

definition check_email :: "WorkflowRunSnapshot \<Rightarrow> WorkflowActionIntent \<Rightarrow> workflow_error + unit" where
  "check_email snapshot intent =
     (case ai_identity intent of
        EmailAction v \<Rightarrow>
          res_bind (res_guard (em_purpose v \<noteq> exception_mail \<and>
            \<not> mail_admits (purpose_mail (em_purpose v) (sn_configuration snapshot)) v) WORKFLOW_PERMISSION_DENIED) (\<lambda>_.
          res_bind (res_forM (\<lambda>review.
              res_bind (verifySource (sn_integration snapshot) (em_storeNames v) (ri_source review) None) (\<lambda>_.
              res_guard (\<not> channel_selected (sn_configuration snapshot) (si_channel (ri_source review)))
                WORKFLOW_PERMISSION_DENIED))
            (case em_reviewIdentities v of None \<Rightarrow> [] | Some rs \<Rightarrow> rs)) (\<lambda>_.
          res_guard (missing_text (ai_artifactHash intent) \<or> missing_text (ai_correlationMarker intent))
            WORKFLOW_PERMISSION_DENIED))
      | ReviewPublishAction _ \<Rightarrow>
          res_guard (missing_text (ai_artifactHash intent) \<or> missing_text (ai_correlationMarker intent))
            WORKFLOW_PERMISSION_DENIED
      | _ \<Rightarrow> Inr ())"

fun scope_covers :: "WorkflowAuthorizationScope \<Rightarrow> WorkflowActionIdentity \<Rightarrow> bool" where
  "scope_covers (UploadScope ds stores) (UploadAction v) \<longleftrightarrow>
     chosen (up_storeNames v) stores \<and> up_dataset v \<in> set ds"
| "scope_covers (DownloadScope ds stores) (DownloadAction v) \<longleftrightarrow>
     chosen (dl_storeNames v) stores \<and> dl_dataset v \<in> set ds"
| "scope_covers (ReviewSyncScope chs stores) (ReviewSyncAction v) \<longleftrightarrow>
     chosen (rs_storeNames v) stores \<and> si_channel (rs_source v) \<in> set chs"
| "scope_covers (ReviewPublishScope chs stores) (ReviewPublishAction v) \<longleftrightarrow>
     chosen [rp_storeName v] stores \<and> si_channel (rp_source v) \<in> set chs"
| "scope_covers (EmailScope purpose stores recipients sender version) (EmailAction v) \<longleftrightarrow>
     chosen (em_storeNames v) stores \<and> purpose = em_purpose v \<and>
     js_toLowerCase sender = js_toLowerCase (em_sender v) \<and> version = em_deliveryVersion v \<and>
     chosen (map js_toLowerCase (em_recipients v)) (map js_toLowerCase recipients)"
| "scope_covers _ _ \<longleftrightarrow> False"

definition authorizeAction ::
  "Actor \<Rightarrow> AuthorizationSnapshot \<Rightarrow> workflow_row \<Rightarrow> WorkflowRunSnapshot \<Rightarrow> WorkflowActionIntent
     \<Rightarrow> WorkflowLivePolicy \<Rightarrow> wf_db \<Rightarrow> workflow_error + unit" where
  "authorizeAction actor auth workflow snapshot intent livePolicy db =
     (let identity = ai_identity intent; config = sn_configuration snapshot in
     res_bind (res_guard (sn_mode auth \<noteq> ModeEnabled) WORKFLOW_PERMISSION_DENIED) (\<lambda>_.
     res_bind (res_guard (\<not> workflowLivePolicyAllows livePolicy identity (config_type config)) WORKFLOW_PERMISSION_DENIED) (\<lambda>_.
     res_bind (res_guard (names_ignored config identity) WORKFLOW_PERMISSION_DENIED) (\<lambda>_.
     res_bind (res_guard (\<not> chosen (action_stores identity) (config_storeNames config)) WORKFLOW_PERMISSION_DENIED) (\<lambda>_.
     res_bind (check_window snapshot identity) (\<lambda>_.
     res_bind (check_dataset auth workflow config identity) (\<lambda>_.
     res_bind (check_review snapshot identity) (\<lambda>_.
     res_bind (check_email snapshot intent) (\<lambda>_.
     res_guard (\<not> list_ex (\<lambda>a. scope_covers (wa_scope a) identity)
       (active_authorizations (ac_orgId actor) (wf_id workflow) db)) WORKFLOW_PERMISSION_DENIED)))))))))"

section \<open>Claiming an action\<close>

record claim_result =
  cr_actionId :: string
  cr_state :: ActionState
  cr_permitted :: bool
  cr_conflictActionIds :: "string list"
  cr_claimedItems :: nat
  cr_requestedItems :: nat
  cr_identityHash :: string
  cr_receipt :: "WorkflowActionReceipt option"

definition find_action :: "string \<Rightarrow> string \<Rightarrow> string \<Rightarrow> wf_db \<Rightarrow> action_row option" where
  "find_action orgId workflowId actionId db =
     find (\<lambda>a. at_orgId a = orgId \<and> at_workflowId a = workflowId \<and> at_actionId a = actionId) (wd_actions db)"

definition update_action :: "string \<Rightarrow> string \<Rightarrow> string \<Rightarrow> (action_row \<Rightarrow> action_row) \<Rightarrow> wf_db \<Rightarrow> wf_db" where
  "update_action orgId workflowId actionId data db = db\<lparr>wd_actions := update_where
     (\<lambda>a. at_orgId a = orgId \<and> at_workflowId a = workflowId \<and> at_actionId a = actionId) data (wd_actions db)\<rparr>"

definition create_action :: "action_row \<Rightarrow> wf_db \<Rightarrow> workflow_error + wf_db" where
  "create_action row db =
     (if list_ex (\<lambda>a. at_orgId a = at_orgId row \<and> at_workflowId a = at_workflowId row \<and>
           (at_actionId a = at_actionId row \<or> at_idempotencyKey a = at_idempotencyKey row)) (wd_actions db)
      then Inl UniqueViolation
      else Inr (db\<lparr>wd_actions := wd_actions db @ [row]\<rparr>))"

definition key_rows :: "string \<Rightarrow> string \<Rightarrow> string list \<Rightarrow> wf_db \<Rightarrow> dedup_row list" where
  "key_rows orgId workflowId keys db =
     filter (\<lambda>d. dd_orgId d = orgId \<and> dd_workflowId d = workflowId \<and> dd_key d \<in> set keys) (wd_dedup db)"

definition create_keys :: "string \<Rightarrow> string \<Rightarrow> string \<Rightarrow> string list \<Rightarrow> wf_db \<Rightarrow> workflow_error + wf_db" where
  "create_keys orgId workflowId actionId keys db =
     (if \<not> distinct keys \<or> key_rows orgId workflowId keys db \<noteq> [] then Inl UniqueViolation
      else Inr (db\<lparr>wd_dedup := wd_dedup db @ map (\<lambda>key.
        \<lparr>dd_orgId = orgId, dd_workflowId = workflowId, dd_key = key, dd_actionId = actionId\<rparr>) keys\<rparr>))"

definition failure_evidence :: "Evidence list" where
  "failure_evidence = [ev_request_rejected, ev_manual_resolution, ev_provider_readback]"

text \<open>A second claim under the same id needs a recorded failure that allows a retry.\<close>

definition reclaim_action ::
  "digest \<Rightarrow> wf_env \<Rightarrow> Actor \<Rightarrow> workflow_row \<Rightarrow> string \<Rightarrow> WorkflowActionIntent \<Rightarrow> string list \<Rightarrow> action_row \<Rightarrow> wf_db
     \<Rightarrow> workflow_error + wf_db" where
  "reclaim_action sha e actor workflow runId intent keys sameId db =
     res_bind (res_guard (at_state sameId \<noteq> ac_failed \<or> at_idempotencyKey sameId \<noteq> hash sha (jstrs keys))
       WORKFLOW_VERSION_CONFLICT) (\<lambda>_.
     res_bind (or_else SchemaError (at_receipt sameId)) (\<lambda>receipt.
     res_bind (res_guard (rt_state receipt \<noteq> rcp_failed \<or> rt_evidence receipt \<notin> set failure_evidence)
       WORKFLOW_ACTION_UNKNOWN) (\<lambda>_.
     Inr (update_action (ac_orgId actor) (wf_id workflow) (ai_actionId intent)
       (\<lambda>a. a\<lparr>at_runId := runId, at_state := ac_intent, at_identity := ai_identity intent,
              at_artifactHash := ai_artifactHash intent, at_correlationMarker := ai_correlationMarker intent,
              at_receipt := None, at_createdAt := e_now e, at_updatedAt := e_clock e\<rparr>) db))))"

definition new_action ::
  "digest \<Rightarrow> wf_env \<Rightarrow> Actor \<Rightarrow> workflow_row \<Rightarrow> string \<Rightarrow> WorkflowActionIntent \<Rightarrow> string list \<Rightarrow> action_row" where
  "new_action sha e actor workflow runId intent keys =
     \<lparr>at_orgId = ac_orgId actor, at_workflowId = wf_id workflow, at_actionId = ai_actionId intent, at_runId = runId,
      at_idempotencyKey = hash sha (jstrs keys), at_identity = ai_identity intent,
      at_artifactHash = ai_artifactHash intent, at_correlationMarker = ai_correlationMarker intent,
      at_state = ac_intent, at_receipt = None, at_createdAt = e_now e, at_updatedAt = e_clock e, at_confirmedAt = None\<rparr>"

definition refused_claim :: "digest \<Rightarrow> action_row \<Rightarrow> dedup_row list \<Rightarrow> string list \<Rightarrow> claim_result" where
  "refused_claim sha existing rows keys =
     \<lparr>cr_actionId = at_actionId existing, cr_state = at_state existing, cr_permitted = False,
      cr_conflictActionIds = js_uniq (map dd_actionId rows), cr_claimedItems = length rows,
      cr_requestedItems = length keys, cr_identityHash = hash sha (json_of_identity (at_identity existing)),
      cr_receipt = at_receipt existing\<rparr>"

definition claimAction ::
  "digest \<Rightarrow> wf_env \<Rightarrow> Actor \<Rightarrow> workflow_row \<Rightarrow> string \<Rightarrow> WorkflowActionIntent \<Rightarrow> wf_db \<Rightarrow> claim_result wtx" where
  "claimAction sha e actor workflow runId intent db =
     res_bind (deduplicationKeys sha (ai_identity intent) runId (ai_actionId intent)) (\<lambda>keys.
     case key_rows (ac_orgId actor) (wf_id workflow) keys db of
       first # others \<Rightarrow>
         res_bind (or_else RecordNotFound (find_action (ac_orgId actor) (wf_id workflow) (dd_actionId first) db)) (\<lambda>existing.
         Inr (refused_claim sha existing (first # others) keys, db))
     | [] \<Rightarrow>
         res_bind (case find_action (ac_orgId actor) (wf_id workflow) (ai_actionId intent) db of
             Some sameId \<Rightarrow> reclaim_action sha e actor workflow runId intent keys sameId db
           | None \<Rightarrow> create_action (new_action sha e actor workflow runId intent keys) db) (\<lambda>db1.
         res_bind (create_keys (ac_orgId actor) (wf_id workflow) (ai_actionId intent) keys db1) (\<lambda>db2.
         Inr (\<lparr>cr_actionId = ai_actionId intent, cr_state = ac_intent, cr_permitted = True,
               cr_conflictActionIds = [], cr_claimedItems = 0, cr_requestedItems = length keys,
               cr_identityHash = hash sha (json_of_identity (ai_identity intent)), cr_receipt = None\<rparr>, db2))))"

section \<open>Evidence of a receipt\<close>

text \<open>The aggregate over the ledger rows of an import batch; \<open>MIN\<close> and \<open>MAX\<close> skip null dates.\<close>

definition ledger_row_invalid :: "string list \<Rightarrow> string \<Rightarrow> ledger_fact \<Rightarrow> bool" where
  "ledger_row_invalid stores receiptId r \<longleftrightarrow>
     (case lg_storeName r of None \<Rightarrow> True | Some s \<Rightarrow> s \<notin> set stores) \<or>
     lg_receiptId r \<noteq> Some receiptId \<or> lg_purchaseDate r = None"

definition purchase_dates :: "ledger_fact list \<Rightarrow> string list" where
  "purchase_dates rows = sort (concat (map (\<lambda>r. case lg_purchaseDate r of None \<Rightarrow> [] | Some d \<Rightarrow> [d]) rows))"

definition batch_rows :: "Actor \<Rightarrow> batch_fact \<Rightarrow> wf_db \<Rightarrow> ledger_fact list" where
  "batch_rows actor batch db =
     filter (\<lambda>r. lg_orgId r = ac_orgId actor \<and> lg_importBatchId r = ib_id batch \<and>
       lg_sourceDocumentId r = ib_sourceDocumentId batch) (fc_ledger (wd_facts db))"

definition batch_unusable :: "UploadIdentity \<Rightarrow> batch_fact \<Rightarrow> bool" where
  "batch_unusable v batch \<longleftrightarrow>
     ib_documentChecksum batch \<noteq> up_sourceHash v \<or> ib_appliedAt batch = None \<or> ib_archivedAt batch \<noteq> None \<or>
     missing_text (ib_naturalKey batch) \<or> \<not> ib_documentActive batch \<or> ib_documentArchivedAt batch \<noteq> None"

definition fragment_outside :: "workflow_row \<Rightarrow> string list \<Rightarrow> scope_fact \<Rightarrow> bool" where
  "fragment_outside workflow stores s \<longleftrightarrow>
     rsc_enterpriseKey s \<noteq> wf_enterpriseKey workflow \<or>
     (case rsc_storeName s of None \<Rightarrow> True | Some n \<Rightarrow> n = [] \<or> n \<notin> set stores)"

definition batch_fragments :: "Actor \<Rightarrow> batch_fact \<Rightarrow> wf_db \<Rightarrow> resource_fact list" where
  "batch_fragments actor batch db =
     filter (\<lambda>r. rf_orgId r = ac_orgId actor \<and> rf_sourceDocumentId r = Some (ib_sourceDocumentId batch) \<and>
       rf_valid r \<and> rf_kind r = rk_source_fragment) (fc_resources (wd_facts db))"

definition verify_ledger_upload ::
  "Actor \<Rightarrow> workflow_row \<Rightarrow> UploadIdentity \<Rightarrow> string \<Rightarrow> wf_db \<Rightarrow> workflow_error + unit" where
  "verify_ledger_upload actor workflow v jobId db =
     res_bind (or_else WORKFLOW_ACTION_UNKNOWN
       (find (\<lambda>b. ib_orgId b = ac_orgId actor \<and> ib_id b = jobId \<and> ib_dataset b = ''delivery_ledger'' \<and> ib_applied b)
         (fc_batches (wd_facts db)))) (\<lambda>batch.
     res_bind (res_guard (batch_unusable v batch) WORKFLOW_ACTION_UNKNOWN) (\<lambda>_.
     let rows = batch_rows actor batch db;
         receiptId = (case ib_naturalKey batch of None \<Rightarrow> [] | Some k \<Rightarrow> k);
         dates = purchase_dates rows in
     res_bind (res_guard (length rows \<noteq> ib_appliedRowCount batch \<or> length rows < 1 \<or>
       filter (ledger_row_invalid (up_storeNames v) receiptId) rows \<noteq> [] \<or> dates = [] \<or>
       hd dates \<noteq> w_startDate (up_window v) \<or> last dates \<noteq> w_endDate (up_window v)) WORKFLOW_ACTION_UNKNOWN) (\<lambda>_.
     let resources = batch_fragments actor batch db in
     res_guard (resources = [] \<or> list_ex (\<lambda>r. rf_scopes r = [] \<or>
       list_ex (fragment_outside workflow (up_storeNames v)) (rf_scopes r)) resources) WORKFLOW_ACTION_UNKNOWN)))"

definition job_partitions :: "Actor \<Rightarrow> job_fact \<Rightarrow> wf_db \<Rightarrow> partition_fact list" where
  "job_partitions actor job db =
     filter (\<lambda>p. pt_orgId p = ac_orgId actor \<and> pt_publishedByJobId p = pj_id job) (fc_partitions (wd_facts db))"

definition verify_partition_upload ::
  "Actor \<Rightarrow> workflow_row \<Rightarrow> UploadIdentity \<Rightarrow> string \<Rightarrow> wf_db \<Rightarrow> workflow_error + unit" where
  "verify_partition_upload actor workflow v jobId db =
     res_bind (or_else WORKFLOW_ACTION_UNKNOWN
       (find (\<lambda>j. pj_orgId j = ac_orgId actor \<and> pj_id j = jobId \<and> pj_enterpriseKey j = wf_enterpriseKey workflow \<and>
          pj_dataset j = dataset_text (up_dataset v) \<and> pj_sourceChecksumSha256 j = up_sourceHash v \<and> pj_published j)
         (fc_jobs (wd_facts db)))) (\<lambda>job.
     res_bind (res_guard (iso_date (pj_sourceStartDate job) \<noteq> w_startDate (up_window v) \<or>
       iso_date (pj_sourceEndDate job) \<noteq> w_endDate (up_window v) \<or>
       (up_dataset v = ds_in_store_orders \<and> pj_orderScope job \<noteq> Some os_settled_only)) WORKFLOW_ACTION_UNKNOWN) (\<lambda>_.
     let partitions = job_partitions actor job db in
     res_guard (length partitions \<noteq> pj_partitionCount job \<or> partitions = [] \<or>
       list_ex (\<lambda>p. pt_storeName p \<notin> set (up_storeNames v) \<or>
         iso_date (pt_businessDate p) < w_startDate (up_window v) \<or>
         w_endDate (up_window v) < iso_date (pt_businessDate p)) partitions) WORKFLOW_ACTION_UNKNOWN))"

definition verifyServiceReceipt ::
  "Actor \<Rightarrow> workflow_row \<Rightarrow> WorkflowActionIdentity \<Rightarrow> WorkflowActionReceipt \<Rightarrow> wf_db \<Rightarrow> workflow_error + unit" where
  "verifyServiceReceipt actor workflow identity receipt db =
     (if rt_state receipt \<noteq> rcp_confirmed \<or> missing_text (rt_jobId receipt) then Inl WORKFLOW_ACTION_UNKNOWN
      else case (identity, rt_jobId receipt) of
        (UploadAction v, Some jobId) \<Rightarrow>
          if up_dataset v = ds_delivery_ledger then verify_ledger_upload actor workflow v jobId db
          else verify_partition_upload actor workflow v jobId db
      | _ \<Rightarrow> Inl WORKFLOW_ACTION_UNKNOWN)"

text \<open>The common check that a proof is neither older than the action nor from the future.\<close>

definition stale_proof :: "wf_env \<Rightarrow> action_row \<Rightarrow> string \<Rightarrow> bool" where
  "stale_proof e action observedAt \<longleftrightarrow>
     nan_less (Date_parse observedAt) (at_createdAt action - 60000) \<or>
     nan_greater (Date_parse observedAt) (e_now e + 60000)"

definition transfer_proof_ok :: "digest \<Rightarrow> wf_env \<Rightarrow> action_row \<Rightarrow> DownloadIdentity \<Rightarrow> WorkflowActionReceipt \<Rightarrow> LauncherTransfer \<Rightarrow> bool" where
  "transfer_proof_ok sha e action v receipt proof \<longleftrightarrow>
     rt_state receipt = rcp_confirmed \<and>
     lt_identityHash proof = hash sha (json_of_identity (at_identity action)) \<and>
     (missing_text (dl_manifestHash v) \<or> dl_manifestHash v = Some (lt_manifestHash proof)) \<and>
     Some (lt_resultHash proof) = rt_resultHash receipt \<and>
     launcherVersionAtLeast (Some (lt_launcherVersion proof)) ENTERPRISE_WORKFLOW_LAUNCHER_VERSION \<and>
     lt_verifiedAt proof = rt_verifiedAt receipt \<and> \<not> stale_proof e action (lt_verifiedAt proof) \<and>
     lt_fileCount proof = lt_partitionCount proof"

definition check_download_request ::
  "Actor \<Rightarrow> workflow_row \<Rightarrow> DownloadIdentity \<Rightarrow> LauncherTransfer \<Rightarrow> wf_db \<Rightarrow> workflow_error + unit" where
  "check_download_request actor workflow v proof db =
     (case lt_requestId proof of
        None \<Rightarrow> Inr ()
      | Some requestId \<Rightarrow>
          if requestId = [] then Inr ()
          else res_bind (or_else WORKFLOW_ACTION_UNKNOWN
            (find (\<lambda>r. dr_orgId r = ac_orgId actor \<and> dr_id r = requestId \<and> dr_requesterId r = ac_id actor \<and> dr_succeeded r)
              (fc_downloads (wd_facts db)))) (\<lambda>request.
          res_guard (dr_enterpriseKey request \<noteq> wf_enterpriseKey workflow \<or>
            dr_dataset request \<noteq> dataset_text (dl_dataset v) \<or>
            dr_startDate request \<noteq> w_startDate (dl_window v) \<or> dr_endDate request \<noteq> w_endDate (dl_window v) \<or>
            list_ex (\<lambda>s. s \<notin> set (dl_storeNames v)) (dr_manifestStores request) \<or>
            dr_partitionCount request \<noteq> lt_partitionCount proof \<or>
            nat_text (dr_totalRowCount request) \<noteq> lt_totalRowCount proof) WORKFLOW_ACTION_UNKNOWN))"

definition check_launcher_transfer ::
  "digest \<Rightarrow> wf_env \<Rightarrow> Actor \<Rightarrow> AuthorizationSnapshot \<Rightarrow> workflow_row \<Rightarrow> WorkflowRunBinding \<Rightarrow> action_row
     \<Rightarrow> WorkflowActionReceipt \<Rightarrow> wf_db \<Rightarrow> workflow_error + unit" where
  "check_launcher_transfer sha e actor auth workflow bd action receipt db =
     res_bind (requireBinding e actor workflow bd True db) (\<lambda>bound.
     res_bind (authorizeAction actor auth workflow (bn_snapshot bound)
       \<lparr>ai_actionId = at_actionId action, ai_identity = at_identity action, ai_artifactHash = None,
        ai_correlationMarker = None\<rparr> (bn_livePolicy bound) db) (\<lambda>_.
     case (at_identity action, rt_launcherTransfer receipt) of
       (DownloadAction v, Some proof) \<Rightarrow>
         res_bind (res_guard (\<not> transfer_proof_ok sha e action v receipt proof) WORKFLOW_ACTION_UNKNOWN) (\<lambda>_.
         check_download_request actor workflow v proof db)
     | _ \<Rightarrow> Inl WORKFLOW_ACTION_UNKNOWN))"

definition readback_proof_ok :: "digest \<Rightarrow> wf_env \<Rightarrow> action_row \<Rightarrow> ReviewSyncIdentity \<Rightarrow> WorkflowActionReceipt \<Rightarrow> SmedcReadback \<Rightarrow> bool" where
  "readback_proof_ok sha e action v receipt proof \<longleftrightarrow>
     rt_state receipt = rcp_confirmed \<and>
     rb_identityHash proof = hash sha (json_of_identity (at_identity action)) \<and>
     rb_observedFactsHash proof = rs_observedFactsHash v \<and> Some (rb_resultHash proof) = rt_resultHash receipt \<and>
     rb_observedAt proof = rt_verifiedAt receipt \<and> \<not> stale_proof e action (rb_observedAt proof) \<and>
     rb_reviewCount proof = rb_matchedCount proof \<and> rb_reviewCount proof = length (rb_recordIds proof)"

definition expected_source :: "WorkflowSourceIdentity \<Rightarrow> review_source" where
  "expected_source s = (if si_channel s = ch_meituan then src_meituan else src_dianping)"

definition readback_rows ::
  "Actor \<Rightarrow> workflow_row \<Rightarrow> ReviewSyncIdentity \<Rightarrow> SmedcReadback \<Rightarrow> day \<Rightarrow> day \<Rightarrow> wf_db \<Rightarrow> review_fact list" where
  "readback_rows actor workflow v proof a b db =
     filter (\<lambda>r. rv_orgId r = ac_orgId actor \<and> rv_enterpriseKey r = wf_enterpriseKey workflow \<and>
       rv_id r \<in> set (rb_recordIds proof) \<and> rv_storeName r \<in> set (rs_storeNames v) \<and>
       rv_source r = expected_source (rs_source v) \<and>
       a * msPerDay - 28800000 \<le> rv_reviewedAt r \<and> rv_reviewedAt r \<le> b * msPerDay + 86399999 - 28800000)
       (fc_reviews (wd_facts db))"

definition review_key :: "review_fact \<Rightarrow> string" where
  "review_key r = ''store-review:'' @ rv_id r"

definition review_resources :: "Actor \<Rightarrow> string \<Rightarrow> review_fact list \<Rightarrow> wf_db \<Rightarrow> resource_fact list" where
  "review_resources actor categoryId rows db =
     filter (\<lambda>r. rf_orgId r = ac_orgId actor \<and> rf_kind r = rk_store_review \<and> rf_valid r \<and>
       rf_categoryId r = categoryId \<and> rf_resourceKey r \<in> set (map review_key rows)) (fc_resources (wd_facts db))"

definition resource_misplaced :: "workflow_row \<Rightarrow> review_fact list \<Rightarrow> resource_fact \<Rightarrow> bool" where
  "resource_misplaced workflow rows r =
     (case rf_scopes r of
        [s] \<Rightarrow> rsc_enterpriseKey s \<noteq> wf_enterpriseKey workflow \<or> rsc_ownership s \<noteq> OwnStore \<or>
          rsc_storeName s \<noteq> map_of (rev (map (\<lambda>row. (review_key row, rv_storeName row)) rows)) (rf_resourceKey r)
      | _ \<Rightarrow> True)"

definition check_smedc_readback ::
  "digest \<Rightarrow> wf_env \<Rightarrow> Actor \<Rightarrow> AuthorizationSnapshot \<Rightarrow> workflow_row \<Rightarrow> action_row \<Rightarrow> WorkflowActionReceipt \<Rightarrow> wf_db
     \<Rightarrow> workflow_error + unit" where
  "check_smedc_readback sha e actor auth workflow action receipt db =
     (case (at_identity action, rt_smedcReadback receipt) of
        (ReviewSyncAction v, Some proof) \<Rightarrow>
          res_bind (res_guard (\<not> readback_proof_ok sha e action v receipt proof) WORKFLOW_ACTION_UNKNOWN) (\<lambda>_.
          res_bind (requireRead auth workflow (rs_storeNames v) [''store_reviews'']) (\<lambda>_.
          res_bind (or_else UncaughtError (parse_day (w_startDate (rs_window v)))) (\<lambda>a.
          res_bind (or_else UncaughtError (parse_day (w_endDate (rs_window v)))) (\<lambda>b.
          let rows = readback_rows actor workflow v proof a b db in
          res_bind (res_guard (length rows \<noteq> length (rb_recordIds proof)) WORKFLOW_ACTION_UNKNOWN) (\<lambda>_.
          res_bind (or_else UncaughtError (find (\<lambda>c. cat_key c = Some ''store_reviews'') (sn_categories auth))) (\<lambda>category.
          let resources = review_resources actor (cat_id category) rows db in
          res_guard (length resources \<noteq> length rows \<or> list_ex (resource_misplaced workflow rows) resources)
            WORKFLOW_ACTION_UNKNOWN))))))
      | _ \<Rightarrow> Inl WORKFLOW_ACTION_UNKNOWN)"

definition provider_outcome_ok :: "WorkflowActionIdentity \<Rightarrow> ReceiptState \<Rightarrow> ProviderOutcome \<Rightarrow> bool" where
  "provider_outcome_ok identity state outcome \<longleftrightarrow>
     (if state = rcp_confirmed
      then outcome = (case identity of EmailAction _ \<Rightarrow> out_sent | _ \<Rightarrow> out_published)
      else state = rcp_failed \<and> outcome = out_not_executed)"

definition check_provider_readback ::
  "digest \<Rightarrow> wf_env \<Rightarrow> action_row \<Rightarrow> WorkflowActionReceipt \<Rightarrow> workflow_error + unit" where
  "check_provider_readback sha e action receipt =
     (case rt_providerReadback receipt of
        None \<Rightarrow> Inl WORKFLOW_ACTION_UNKNOWN
      | Some proof \<Rightarrow>
          res_guard (\<not> is_external (at_identity action) \<or>
            pr_identityHash proof \<noteq> hash sha (json_of_identity (at_identity action)) \<or>
            Some (pr_artifactHash proof) \<noteq> at_artifactHash action \<or>
            Some (pr_correlationMarker proof) \<noteq> at_correlationMarker action \<or>
            Some (pr_providerReceiptId proof) \<noteq> rt_receiptId receipt \<or>
            stale_proof e action (pr_observedAt proof) \<or>
            \<not> provider_outcome_ok (at_identity action) (rt_state receipt) (pr_outcome proof)) WORKFLOW_ACTION_UNKNOWN)"

section \<open>Recording a receipt\<close>

definition check_evidence ::
  "digest \<Rightarrow> wf_env \<Rightarrow> Actor \<Rightarrow> AuthorizationSnapshot \<Rightarrow> workflow_row \<Rightarrow> WorkflowRunBinding \<Rightarrow> action_row
     \<Rightarrow> WorkflowActionReceipt \<Rightarrow> wf_db \<Rightarrow> workflow_error + unit" where
  "check_evidence sha e actor auth workflow bd action receipt db =
     res_bind (case rt_evidence receipt of
         ev_service_status \<Rightarrow> verifyServiceReceipt actor workflow (at_identity action) receipt db
       | ev_launcher_transfer \<Rightarrow> check_launcher_transfer sha e actor auth workflow bd action receipt db
       | ev_smedc_readback \<Rightarrow> check_smedc_readback sha e actor auth workflow action receipt db
       | ev_provider_readback \<Rightarrow> check_provider_readback sha e action receipt
       | _ \<Rightarrow> Inr ()) (\<lambda>_.
     res_bind (res_guard (rt_state receipt = rcp_failed \<and> rt_evidence receipt \<notin> set failure_evidence)
       WORKFLOW_ACTION_UNKNOWN) (\<lambda>_.
     res_bind (res_guard (rt_evidence receipt = ev_request_rejected \<and> rt_state receipt \<noteq> rcp_failed)
       WORKFLOW_ACTION_UNKNOWN) (\<lambda>_.
     res_guard (nan_greater (Date_parse (rt_verifiedAt receipt)) (e_now e + 60000)) WORKFLOW_ACTION_UNKNOWN)))"

fun verification_source :: "Evidence \<Rightarrow> string" where
  "verification_source ev_provider_readback = ''client_provider_readback''"
| "verification_source ev_launcher_transfer = ''client_launcher_transfer''"
| "verification_source ev_smedc_readback = ''client_smedc_readback''"
| "verification_source ev = evidence_text ev"

definition store_receipt ::
  "wf_env \<Rightarrow> Actor \<Rightarrow> workflow_row \<Rightarrow> string \<Rightarrow> WorkflowActionReceipt \<Rightarrow> wf_db \<Rightarrow> wf_db" where
  "store_receipt e actor workflow runId receipt db =
     (let db1 = update_action (ac_orgId actor) (wf_id workflow) (rt_actionId receipt)
            (\<lambda>a. a\<lparr>at_state := receipt_action_state (rt_state receipt), at_receipt := Some receipt,
                   at_confirmedAt := (if rt_state receipt = rcp_confirmed then Some (e_now e) else None),
                   at_updatedAt := e_clock e\<rparr>) db;
          db2 = (if rt_state receipt = rcp_failed
            then db1\<lparr>wd_dedup := delete_where (\<lambda>d. dd_orgId d = ac_orgId actor \<and> dd_workflowId d = wf_id workflow \<and>
                   dd_actionId d = rt_actionId receipt) (wd_dedup db1)\<rparr>
            else db1) in
      audit actor ''receipt'' (wf_id workflow)
        ([(''runId'', JStr runId), (''actionId'', JStr (rt_actionId receipt)),
          (''state'', JStr (receipt_state_text (rt_state receipt))),
          (''verificationSource'', JStr (verification_source (rt_evidence receipt)))] @
         (if missing_text (rt_reason receipt) then [] else opt_field ''reason'' JStr (rt_reason receipt))) db2)"

text \<open>The body of the loop over the receipts. \<open>resolve\<close> is \<open>op.kind === "resolve_unknown"\<close>.\<close>

definition record_receipt ::
  "digest \<Rightarrow> wf_env \<Rightarrow> Actor \<Rightarrow> AuthorizationSnapshot \<Rightarrow> workflow_row \<Rightarrow> WorkflowRunBinding \<Rightarrow> bool \<Rightarrow> bool
     \<Rightarrow> WorkflowActionReceipt \<Rightarrow> wf_db \<Rightarrow> workflow_error + wf_db" where
  "record_receipt sha e actor auth workflow bd resolve assigned receipt db =
     res_bind (or_else WORKFLOW_ACTION_UNKNOWN
       (find_action (ac_orgId actor) (wf_id workflow) (rt_actionId receipt) db)) (\<lambda>action.
     res_bind (res_guard (at_runId action \<noteq> bd_runId bd \<and> \<not> (resolve \<and> assigned \<and> at_state action = ac_unknown))
       WORKFLOW_ACTION_UNKNOWN) (\<lambda>_.
     if at_state action = ac_confirmed then
       res_bind (res_guard (rt_state receipt \<noteq> rcp_confirmed \<or>
         hash sha (json_of_optional json_of_receipt (at_receipt action)) \<noteq> hash sha (json_of_receipt receipt))
         WORKFLOW_ACTION_UNKNOWN) (\<lambda>_. Inr db)
     else
       res_bind (res_guard (resolve \<and> at_state action \<noteq> ac_unknown \<and> at_state action \<noteq> ac_intent)
         WORKFLOW_ACTION_UNKNOWN) (\<lambda>_.
       res_bind (res_guard (at_state action = ac_unknown \<and> rt_evidence receipt = ev_request_rejected)
         WORKFLOW_ACTION_UNKNOWN) (\<lambda>_.
       res_bind (check_evidence sha e actor auth workflow bd action receipt db) (\<lambda>_.
       Inr (store_receipt e actor workflow (bd_runId bd) receipt db))))))"

fun receipt_loop ::
  "digest \<Rightarrow> wf_env \<Rightarrow> Actor \<Rightarrow> AuthorizationSnapshot \<Rightarrow> workflow_row \<Rightarrow> WorkflowRunBinding \<Rightarrow> bool \<Rightarrow> bool
     \<Rightarrow> WorkflowActionReceipt list \<Rightarrow> wf_db \<Rightarrow> workflow_error + wf_db" where
  "receipt_loop sha e actor auth workflow bd resolve assigned [] db = Inr db"
| "receipt_loop sha e actor auth workflow bd resolve assigned (r # rs) db =
     res_bind (record_receipt sha e actor auth workflow bd resolve assigned r db)
       (receipt_loop sha e actor auth workflow bd resolve assigned rs)"

section \<open>Operations\<close>

datatype action_op =
    ActionGet "string list"
  | ActionIntents WorkflowRunBinding "WorkflowActionIntent list"
  | RecordReceipts WorkflowRunBinding "WorkflowActionReceipt list"
  | ResolveUnknown WorkflowRunBinding WorkflowActionReceipt

datatype action_result =
    ActionsFound "action_row list"
  | ActionsClaimed "claim_result list"
  | ReceiptsRecorded "WorkflowActionReceipt list"

definition get_actions :: "Actor \<Rightarrow> workflow_row \<Rightarrow> string list \<Rightarrow> wf_db \<Rightarrow> action_row list" where
  "get_actions actor workflow actionIds db =
     filter (\<lambda>a. at_orgId a = ac_orgId actor \<and> at_workflowId a = wf_id workflow \<and> at_actionId a \<in> set actionIds)
       (wd_actions db)"

definition mail_ready :: "wf_env \<Rightarrow> WorkflowReadinessCheck list \<Rightarrow> bool" where
  "mail_ready e checks \<longleftrightarrow>
     list_all (\<lambda>capability. list_ex (\<lambda>c. rk_capability c = capability \<and> rk_status c = rd_ready \<and>
       nan_greater (Date_parse (rk_checkedAt c)) (e_now e - 86400000)) checks) [cap_email_identity, cap_sent_mail_lookup]"

fun is_email :: "WorkflowActionIdentity \<Rightarrow> bool" where
  "is_email (EmailAction _) = True"
| "is_email _ = False"

definition check_intent ::
  "wf_env \<Rightarrow> Actor \<Rightarrow> AuthorizationSnapshot \<Rightarrow> workflow_row \<Rightarrow> bound_run \<Rightarrow> wf_db \<Rightarrow> WorkflowActionIntent \<Rightarrow> workflow_error + unit" where
  "check_intent e actor auth workflow bound db intent =
     res_bind (authorizeAction actor auth workflow (bn_snapshot bound) intent (bn_livePolicy bound) db) (\<lambda>_.
     res_guard (is_email (ai_identity intent) \<and> \<not> mail_ready e (il_readinessChecks (bn_installation bound)))
       WORKFLOW_SOURCE_UNAVAILABLE)"

fun claim_loop ::
  "digest \<Rightarrow> wf_env \<Rightarrow> Actor \<Rightarrow> workflow_row \<Rightarrow> string \<Rightarrow> WorkflowActionIntent list \<Rightarrow> wf_db \<Rightarrow> claim_result list wtx" where
  "claim_loop sha e actor workflow runId [] db = Inr ([], db)"
| "claim_loop sha e actor workflow runId (i # is) db =
     res_bind (claimAction sha e actor workflow runId i db) (\<lambda>(r, db1).
     res_bind (claim_loop sha e actor workflow runId is db1) (\<lambda>(rs, db2). Inr (r # rs, db2)))"

definition claim_actions ::
  "digest \<Rightarrow> wf_env \<Rightarrow> Actor \<Rightarrow> AuthorizationSnapshot \<Rightarrow> workflow_row \<Rightarrow> WorkflowRunBinding \<Rightarrow> WorkflowActionIntent list \<Rightarrow> wf_db
     \<Rightarrow> action_result wtx" where
  "claim_actions sha e actor auth workflow bd intents db =
     res_bind (requireBinding e actor workflow bd True db) (\<lambda>bound.
     res_bind (res_forM (check_intent e actor auth workflow bound db) intents) (\<lambda>_.
     res_bind (claim_loop sha e actor workflow (bd_runId bd) intents db) (\<lambda>(results, db1).
     Inr (ActionsClaimed results, audit actor ''intent'' (wf_id workflow)
       [(''runId'', JStr (bd_runId bd)), (''actionIds'', jstrs (map ai_actionId intents))] db1))))"

definition record_evidence ::
  "digest \<Rightarrow> wf_env \<Rightarrow> Actor \<Rightarrow> AuthorizationSnapshot \<Rightarrow> workflow_row \<Rightarrow> WorkflowRunBinding \<Rightarrow> bool
     \<Rightarrow> WorkflowActionReceipt list \<Rightarrow> wf_db \<Rightarrow> action_result wtx" where
  "record_evidence sha e actor auth workflow bd resolve receipts db =
     res_bind (or_else WORKFLOW_INSTALLATION_MISMATCH (find_run (ac_orgId actor) (wf_id workflow) (bd_runId bd) db)) (\<lambda>run.
     let original = (rn_employeeId run = ac_id actor \<and> rn_installationId run = bd_installationId bd \<and>
           rn_assignmentEpoch run = bd_assignmentEpoch bd);
         assigned = (wf_assignedInstallationId workflow = Some (bd_installationId bd) \<and>
           wf_assignmentEpoch workflow = bd_assignmentEpoch bd) in
     res_bind (res_guard (\<not> original \<and> \<not> assigned) WORKFLOW_INSTALLATION_MISMATCH) (\<lambda>_.
     res_bind (if assigned then res_bind (getInstallation actor workflow (bd_installationId bd) False db) (\<lambda>_. Inr ())
       else Inr ()) (\<lambda>_.
     res_bind (receipt_loop sha e actor auth workflow bd resolve assigned receipts db) (\<lambda>db1.
     Inr (ReceiptsRecorded receipts, db1)))))"

fun actionOperation ::
  "digest \<Rightarrow> wf_env \<Rightarrow> Actor \<Rightarrow> AuthorizationSnapshot \<Rightarrow> workflow_row \<Rightarrow> action_op \<Rightarrow> wf_db \<Rightarrow> action_result wtx" where
  "actionOperation sha e actor auth w (ActionGet ids) db = Inr (ActionsFound (get_actions actor w ids db), db)"
| "actionOperation sha e actor auth w (ActionIntents bd intents) db = claim_actions sha e actor auth w bd intents db"
| "actionOperation sha e actor auth w (RecordReceipts bd receipts) db =
     record_evidence sha e actor auth w bd False receipts db"
| "actionOperation sha e actor auth w (ResolveUnknown bd receipt) db =
     record_evidence sha e actor auth w bd True [receipt] db"

end
