(* ===== verification/Workflow_Migrations.thy ===== *)
theory Workflow_Migrations
  imports Workflow_Actions
begin

text \<open>
  \<^verbatim>\<open>apps/api/src/enterprise-workflows/migrations.ts\<close> with the migration schemas of
  \<^verbatim>\<open>packages/domain/src/enterprise-workflows.ts\<close>: a migration is previewed, extended page by page,
  sealed, and then advanced through its stages. Each operation is a definition of its own; the
  stages \<open>validated\<close> and \<open>imported\<close> work on one page per call.
\<close>

section \<open>Schemas\<close>

definition completedActionSchema :: "zod_formats \<Rightarrow> completed_action \<Rightarrow> bool" where
  "completedActionSchema z v \<longleftrightarrow>
     workflowHashSchema (ca_legacyKeyHash v) \<and> workflowActionIntentSchema z (ca_intent v) \<and>
     workflowActionReceiptSchema z (ca_receipt v) \<and>
     ai_actionId (ca_intent v) = rt_actionId (ca_receipt v) \<and> rt_state (ca_receipt v) = rcp_confirmed"

definition migrationUnresolvedSchema :: "zod_formats \<Rightarrow> migration_unresolved \<Rightarrow> bool" where
  "migrationUnresolvedSchema z v \<longleftrightarrow>
     workflowIdSchema (mu_sourceRef v) \<and> opt_all workflowHashSchema (mu_evidenceHash v) \<and>
     opt_all (workflowActionIntentSchema z) (mu_intent v) \<and> opt_all (workflowActionReceiptSchema z) (mu_receipt v) \<and>
     (mu_code v \<noteq> mg_unknown_action \<or>
      (case (mu_intent v, mu_receipt v) of
         (Some i, Some r) \<Rightarrow> rt_state r = rcp_unknown \<and> ai_actionId i = rt_actionId r
       | _ \<Rightarrow> False))"

fun recoveryScopeSchema :: "zod_formats \<Rightarrow> recovery_scope \<Rightarrow> bool" where
  "recoveryScopeSchema z (DatasetRecovery d stores w) \<longleftrightarrow> workflowStoresSchema stores \<and> workflowDateRangeSchema z w"
| "recoveryScopeSchema z (ReviewsRecovery s store w feedback) \<longleftrightarrow>
     workflowReviewSourceIdentitySchema s \<and> workflowNameSchema store \<and> workflowDateRangeSchema z w \<and>
     opt_all workflowNameSchema feedback"
| "recoveryScopeSchema z (ReportRecovery stores w) \<longleftrightarrow> workflowStoresSchema stores \<and> workflowDateRangeSchema z w"
| "recoveryScopeSchema z (UnknownRecovery reason) \<longleftrightarrow>
     reason \<in> set [''scope_not_preserved'', ''missing_local_evidence'', ''ambiguous_source_identity'']"

definition workflowRecoveryItemSchema :: "zod_formats \<Rightarrow> recovery_item \<Rightarrow> bool" where
  "workflowRecoveryItemSchema z v \<longleftrightarrow>
     workflowIdSchema (ry_itemId v) \<and> recoveryScopeSchema z (ry_scope v) \<and>
     opt_all workflowIdSchema (ry_evidenceRef v) \<and> opt_all workflowHashSchema (ry_evidenceHash v) \<and>
     opt_all (\<lambda>s. 1 \<le> length s \<and> length s \<le> 2000 \<and> 0 < length (js_trim s)) (ry_resolutionReason v) \<and>
     (ry_disposition v = rec_open \<or> ry_resolutionReason v \<noteq> None)"

definition recovery_items :: "migration_page_item \<Rightarrow> recovery_item list" where
  "recovery_items w = (case mp_recoveryItems w of None \<Rightarrow> [] | Some rs \<Rightarrow> rs)"

definition pageItemSchema :: "zod_formats \<Rightarrow> migration_page_item \<Rightarrow> bool" where
  "pageItemSchema z w \<longleftrightarrow>
     workflowIdSchema (mp_workflowId w) \<and>
     list_all (completedActionSchema z) (mp_completedActions w) \<and>
     length (mp_completedActions w) \<le> lim_summaryItems WORKFLOW_LIMITS \<and>
     opt_all (\<lambda>rs. list_all (workflowRecoveryItemSchema z) rs \<and> length rs \<le> lim_summaryItems WORKFLOW_LIMITS \<and>
       length (js_uniq (map ry_itemId rs)) = length rs) (mp_recoveryItems w) \<and>
     list_all (migrationUnresolvedSchema z) (mp_unresolved w) \<and>
     length (mp_unresolved w) \<le> lim_summaryItems WORKFLOW_LIMITS"

definition records :: "migration_chunk \<Rightarrow> nat" where
  "records chunk = foldl (\<lambda>n w. n + length (mp_completedActions w) + length (mp_unresolved w) + length (recovery_items w))
     0 chunk"

section \<open>JSON forms\<close>

fun migration_code_text :: "migration_code \<Rightarrow> string" where
  "migration_code_text mg_source_conflict = ''source_conflict''"
| "migration_code_text mg_missing_receipt = ''missing_receipt''"
| "migration_code_text mg_unknown_action = ''unknown_action''"
| "migration_code_text mg_missing_local_evidence = ''missing_local_evidence''"

fun recovery_kind_text :: "recovery_kind \<Rightarrow> string" where
  "recovery_kind_text rec_business = ''business''"
| "recovery_kind_text rec_evidence = ''evidence''"

fun disposition_text :: "recovery_disposition \<Rightarrow> string" where
  "disposition_text rec_open = ''open''"
| "disposition_text rec_waived = ''waived''"
| "disposition_text rec_resolved = ''resolved''"

definition json_of_completed :: "completed_action \<Rightarrow> json" where
  "json_of_completed v = JObj [(''legacyKeyHash'', JStr (ca_legacyKeyHash v)),
     (''intent'', json_of_intent (ca_intent v)), (''receipt'', json_of_receipt (ca_receipt v))]"

definition json_of_migration_unresolved :: "migration_unresolved \<Rightarrow> json" where
  "json_of_migration_unresolved v = JObj
     ([(''code'', JStr (migration_code_text (mu_code v))), (''sourceRef'', JStr (mu_sourceRef v))] @
      opt_field ''evidenceHash'' JStr (mu_evidenceHash v) @ opt_field ''intent'' json_of_intent (mu_intent v) @
      opt_field ''receipt'' json_of_receipt (mu_receipt v))"

fun json_of_recovery_scope :: "recovery_scope \<Rightarrow> json" where
  "json_of_recovery_scope (DatasetRecovery d stores w) = JObj
     [(''kind'', JStr ''dataset''), (''dataset'', JStr (dataset_text d)), (''storeNames'', jstrs stores),
      (''window'', json_of_window w)]"
| "json_of_recovery_scope (ReviewsRecovery s store w feedback) = JObj
     ([(''kind'', JStr ''reviews''), (''source'', json_of_source s), (''storeName'', JStr store),
       (''window'', json_of_window w)] @ opt_field ''feedbackId'' JStr feedback)"
| "json_of_recovery_scope (ReportRecovery stores w) = JObj
     [(''kind'', JStr ''report''), (''storeNames'', jstrs stores), (''window'', json_of_window w)]"
| "json_of_recovery_scope (UnknownRecovery reason) = JObj
     [(''kind'', JStr ''unknown_scope''), (''reason'', JStr reason)]"

definition json_of_recovery :: "recovery_item \<Rightarrow> json" where
  "json_of_recovery v = JObj
     ([(''itemId'', JStr (ry_itemId v)), (''kind'', JStr (recovery_kind_text (ry_kind v))),
       (''disposition'', JStr (disposition_text (ry_disposition v))), (''stage'', JStr (phase_text (ry_stage v))),
       (''scope'', json_of_recovery_scope (ry_scope v))] @
      opt_field ''evidenceRef'' JStr (ry_evidenceRef v) @ opt_field ''evidenceHash'' JStr (ry_evidenceHash v) @
      opt_field ''resolutionReason'' JStr (ry_resolutionReason v))"

definition page_members :: "migration_page_item \<Rightarrow> (string \<times> json) list" where
  "page_members w =
     [(''completedActions'', JArr (map json_of_completed (mp_completedActions w))),
      (''unresolved'', JArr (map json_of_migration_unresolved (mp_unresolved w)))] @
     opt_field ''recoveryItems'' (\<lambda>rs. JArr (map json_of_recovery rs)) (mp_recoveryItems w)"

definition json_of_chunk :: "migration_chunk \<Rightarrow> json" where
  "json_of_chunk chunk = JArr (map (\<lambda>w. JObj ((''workflowId'', JStr (mp_workflowId w)) # page_members w)) chunk)"

definition json_of_manifest :: "migration_manifest \<Rightarrow> json" where
  "json_of_manifest m = JObj
     [(''sourceSnapshotHash'', JStr (mm_sourceSnapshotHash m)), (''targetVersion'', jnat (mm_targetVersion m)),
      (''integration'', json_of_integration (mm_integration m)),
      (''workflows'', JArr (map (\<lambda>w. JObj
         ([(''workflowId'', JStr (mp_workflowId (mw_page w))),
           (''configuration'', json_of_configuration (mw_configuration w)),
           (''authorizations'', JArr (map json_of_scope (mw_authorizations w))),
           (''hostSnapshot'', json_of_host (mw_hostSnapshot w))] @ page_members (mw_page w))) (mm_workflows m)))]"

definition json_of_targets :: "migration_target list \<Rightarrow> json" where
  "json_of_targets ts = JArr (map (\<lambda>t. JObj
     [(''workflowId'', JStr (mt_workflowId t)), (''version'', jnat (mt_version t)),
      (''controlVersion'', jnat (mt_controlVersion t)), (''assignmentEpoch'', jnat (mt_assignmentEpoch t))]) ts)"

definition workflowMigrationChunkSchema :: "zod_formats \<Rightarrow> migration_chunk \<Rightarrow> bool" where
  "workflowMigrationChunkSchema z v \<longleftrightarrow>
     list_all (pageItemSchema z) v \<and> 1 \<le> length v \<and> length v \<le> 3 \<and>
     length (js_uniq (map mp_workflowId v)) = length v \<and>
     records v \<le> lim_summaryItems WORKFLOW_LIMITS \<and>
     workflowPayloadFits (json_of_chunk v) (lim_summaryBytes WORKFLOW_LIMITS)"

definition workflowMigrationManifestSchema :: "zod_formats \<Rightarrow> migration_manifest \<Rightarrow> bool" where
  "workflowMigrationManifestSchema z v \<longleftrightarrow>
     workflowHashSchema (mm_sourceSnapshotHash v) \<and> enterpriseIntegrationSchema (mm_integration v) \<and>
     list_all (\<lambda>w. pageItemSchema z (mw_page w) \<and> workflowConfigurationSchema z (mw_configuration w) \<and>
       list_all (workflowAuthorizationScopeSchema z) (mw_authorizations w) \<and> length (mw_authorizations w) \<le> 20 \<and>
       workflowHostSnapshotSchema z (mw_hostSnapshot w)) (mm_workflows v) \<and>
     1 \<le> length (mm_workflows v) \<and> length (mm_workflows v) \<le> 3 \<and>
     length (js_uniq (map (config_type \<circ> mw_configuration) (mm_workflows v))) = length (mm_workflows v) \<and>
     records (map mw_page (mm_workflows v)) \<le> lim_summaryItems WORKFLOW_LIMITS \<and>
     workflowPayloadFits (JArr (map (\<lambda>w. JObj (page_members (mw_page w))) (mm_workflows v)))
       (lim_summaryBytes WORKFLOW_LIMITS) \<and>
     workflowPayloadFits (json_of_manifest v) (lim_configBytes WORKFLOW_LIMITS)"

section \<open>Digests and order\<close>

definition digestStart :: string where
  "digestStart = replicate 64 CHR ''0''"

definition nextDigest :: "digest \<Rightarrow> string \<Rightarrow> nat \<Rightarrow> string \<Rightarrow> nat \<Rightarrow> string" where
  "nextDigest sha previous sequence chunk_digest n =
     hash sha (JArr [JStr previous, jnat sequence, JStr chunk_digest, jnat n])"

text \<open>\<open>localeCompare\<close> on the characters of an id: \<open>_\<close>, \<open>-\<close>, digits, then letters without regard to
  case; ids that differ only in case are ordered by their first difference, small letters first.\<close>

definition primary_weight :: "char \<Rightarrow> nat" where
  "primary_weight c =
     (let n = of_char c :: nat in
      if c = CHR ''_'' then 1 else if c = CHR ''-'' then 2 else if is_digit c then n - 45
      else if is_lower c then n - 84 else if is_upper c then n - 52 else 100 + n)"

definition locale_key :: "string \<Rightarrow> nat list" where
  "locale_key s = map primary_weight s @ [0] @ map (\<lambda>c. if is_upper c then 1 else 0) s"

text \<open>The public view of a migration has the rows of its manifest removed.\<close>

definition migrationView :: "migration_row \<Rightarrow> migration_row" where
  "migrationView row = row\<lparr>mg_manifest := (mg_manifest row)\<lparr>mm_workflows := map (\<lambda>w.
     w\<lparr>mw_page := (mw_page w)\<lparr>mp_completedActions := [], mp_unresolved := [],
        mp_recoveryItems := map_option (\<lambda>_. []) (mp_recoveryItems (mw_page w))\<rparr>\<rparr>)
     (mm_workflows (mg_manifest row))\<rparr>\<rparr>"

section \<open>Preview\<close>

definition find_migration :: "Actor \<Rightarrow> workflow_row \<Rightarrow> string \<Rightarrow> wf_db \<Rightarrow> migration_row option" where
  "find_migration actor workflow migrationId db =
     find (\<lambda>m. mg_id m = migrationId \<and> mg_orgId m = ac_orgId actor \<and> mg_enterpriseKey m = wf_enterpriseKey workflow)
       (wd_migrations db)"

definition lease_unexpired :: "workflow_row \<Rightarrow> time_ms \<Rightarrow> bool" where
  "lease_unexpired w now = (case wf_leaseExpiresAt w of None \<Rightarrow> False | Some t \<Rightarrow> now < t)"

text \<open>One target: the workflow of the item's type, created under the item's id when there is none.\<close>

definition migration_target_step ::
  "wf_env \<Rightarrow> Actor \<Rightarrow> workflow_row \<Rightarrow> EnterpriseIntegrationConfiguration \<Rightarrow> manifest_workflow \<Rightarrow> wf_db \<Rightarrow> migration_target wtx" where
  "migration_target_step e actor workflow source item db =
     (let i = mp_workflowId (mw_page item); config = mw_configuration item in
      res_bind (case find_workflow_type (ac_orgId actor) (wf_enterpriseKey workflow) (config_type config) db of
          Some w \<Rightarrow> Inr (w, db)
        | None \<Rightarrow>
            let w = new_workflow i (ac_orgId actor) (wf_enterpriseKey workflow) (config_type config) in
            res_bind (create_workflow w db) (\<lambda>db1. Inr (w, db1))) (\<lambda>(target, db1).
      res_bind (res_guard (wf_id target \<noteq> i \<or> wf_controlState target \<noteq> ctl_paused \<or> lease_unexpired target (e_now e))
        WORKFLOW_BUSY) (\<lambda>_.
      res_bind (validateConfiguration target config (Some source) db1) (\<lambda>_.
      res_bind (res_guard (list_ex (\<lambda>scope. list_ex (\<lambda>store. store \<notin> set (config_storeNames config))
        (scope_storeNames scope)) (mw_authorizations item)) WORKFLOW_PERMISSION_DENIED) (\<lambda>_.
      Inr (\<lparr>mt_workflowId = wf_id target, mt_version = wf_version target, mt_controlVersion = wf_controlVersion target,
            mt_assignmentEpoch = wf_assignmentEpoch target\<rparr>, db1))))))"

fun migration_target_loop ::
  "wf_env \<Rightarrow> Actor \<Rightarrow> workflow_row \<Rightarrow> EnterpriseIntegrationConfiguration \<Rightarrow> manifest_workflow list \<Rightarrow> wf_db
     \<Rightarrow> migration_target list wtx" where
  "migration_target_loop e actor workflow source [] db = Inr ([], db)"
| "migration_target_loop e actor workflow source (item # items) db =
     res_bind (migration_target_step e actor workflow source item db) (\<lambda>(t, db1).
     res_bind (migration_target_loop e actor workflow source items db1) (\<lambda>(ts, db2). Inr (t # ts, db2)))"

definition create_migration :: "migration_row \<Rightarrow> wf_db \<Rightarrow> workflow_error + wf_db" where
  "create_migration row db =
     (if list_ex (\<lambda>m. mg_id m = mg_id row \<or> (mg_orgId m = mg_orgId row \<and> mg_enterpriseKey m = mg_enterpriseKey row \<and>
           mg_sourceSnapshotHash m = mg_sourceSnapshotHash row \<and> mg_targetVersion m = mg_targetVersion row))
         (wd_migrations db)
      then Inl UniqueViolation
      else Inr (db\<lparr>wd_migrations := wd_migrations db @ [row]\<rparr>))"

definition create_chunk :: "chunk_row \<Rightarrow> wf_db \<Rightarrow> workflow_error + wf_db" where
  "create_chunk row db =
     (if list_ex (\<lambda>c. ck_orgId c = ck_orgId row \<and> ck_migrationId c = ck_migrationId row \<and> ck_sequence c = ck_sequence row)
         (wd_chunks db)
      then Inl UniqueViolation
      else Inr (db\<lparr>wd_chunks := wd_chunks db @ [row]\<rparr>))"

definition update_migration :: "string \<Rightarrow> (migration_row \<Rightarrow> migration_row) \<Rightarrow> wf_db \<Rightarrow> wf_db" where
  "update_migration migrationId data db =
     db\<lparr>wd_migrations := update_where (\<lambda>m. mg_id m = migrationId) data (wd_migrations db)\<rparr>"

definition new_chunk :: "Actor \<Rightarrow> string \<Rightarrow> nat \<Rightarrow> migration_chunk \<Rightarrow> string \<Rightarrow> chunk_row" where
  "new_chunk actor migrationId sequence chunk chunk_digest =
     \<lparr>ck_orgId = ac_orgId actor, ck_migrationId = migrationId, ck_sequence = sequence, ck_payload = chunk,
      ck_digest = chunk_digest, ck_recordCount = records chunk, ck_importedAt = None\<rparr>"

definition new_migration ::
  "digest \<Rightarrow> wf_env \<Rightarrow> Actor \<Rightarrow> workflow_row \<Rightarrow> migration_manifest \<Rightarrow> migration_target list \<Rightarrow> migration_chunk \<Rightarrow> migration_row" where
  "new_migration sha e actor workflow manifest targets chunk =
     \<lparr>mg_id = e_newId e, mg_orgId = ac_orgId actor, mg_enterpriseKey = wf_enterpriseKey workflow,
      mg_sourceSnapshotHash = mm_sourceSnapshotHash manifest, mg_targetVersion = mm_targetVersion manifest,
      mg_version = 1, mg_stage = stg_preview, mg_manifest = manifest, mg_targetVersions = targets,
      mg_confirmationDigest = hash sha (JObj [(''migrationId'', JStr (e_newId e)), (''manifest'', json_of_manifest manifest),
        (''targets'', json_of_targets targets), (''actor'', json_of_actor actor)]),
      mg_createdBy = ac_id actor, mg_createdAt = e_clock e, mg_sealedAt = None, mg_chunkCount = 1,
      mg_recordCount = records chunk,
      mg_chunksDigest = Some (nextDigest sha digestStart 0 (hash sha (json_of_chunk chunk)) (records chunk)),
      mg_validatedChunks = 0, mg_importedChunks = 0\<rparr>"

datatype migration_result =
    MigrationResult migration_row
  | MigrationPages migration_row "chunk_row list" "nat option"
  | MigrationProgress migration_row bool "nat option"

definition migration_preview ::
  "digest \<Rightarrow> zod_formats \<Rightarrow> wf_env \<Rightarrow> Actor \<Rightarrow> workflow_row \<Rightarrow> migration_manifest \<Rightarrow> wf_db \<Rightarrow> migration_result wtx" where
  "migration_preview sha z e actor workflow manifest db =
     (case find (\<lambda>m. mg_orgId m = ac_orgId actor \<and> mg_enterpriseKey m = wf_enterpriseKey workflow \<and>
             mg_sourceSnapshotHash m = mm_sourceSnapshotHash manifest \<and> mg_targetVersion m = mm_targetVersion manifest)
           (wd_migrations db) of
        Some prior \<Rightarrow>
          res_bind (res_guard (hash sha (json_of_manifest (mg_manifest prior)) \<noteq> hash sha (json_of_manifest manifest))
            WORKFLOW_VERSION_CONFLICT) (\<lambda>_. Inr (MigrationResult (migrationView prior), db))
      | None \<Rightarrow>
          res_bind (integration db workflow) (\<lambda>shared.
          res_bind (res_guard (ei_version shared \<noteq> mm_targetVersion manifest) WORKFLOW_VERSION_CONFLICT) (\<lambda>_.
          res_bind (validateStores workflow (map sm_storeName (in_storeMappings (mm_integration manifest))) db) (\<lambda>_.
          res_bind (migration_target_loop e actor workflow (mm_integration manifest)
            (sort_key (\<lambda>w. locale_key (mp_workflowId (mw_page w))) (mm_workflows manifest)) db) (\<lambda>(targets, db1).
          let chunk = map mw_page (mm_workflows manifest) in
          res_bind (res_guard (\<not> workflowMigrationChunkSchema z chunk) SchemaError) (\<lambda>_.
          let row = new_migration sha e actor workflow manifest targets chunk in
          res_bind (create_migration row db1) (\<lambda>db2.
          res_bind (create_chunk (new_chunk actor (mg_id row) 0 chunk (hash sha (json_of_chunk chunk))) db2) (\<lambda>db3.
          Inr (MigrationResult (migrationView row),
               audit actor ''migration_preview'' (wf_id workflow) [(''migrationId'', JStr (mg_id row)),
                 (''sourceSnapshotHash'', JStr (mm_sourceSnapshotHash manifest))] db3)))))))))"

section \<open>Pages\<close>

definition find_chunk :: "Actor \<Rightarrow> string \<Rightarrow> nat \<Rightarrow> wf_db \<Rightarrow> chunk_row option" where
  "find_chunk actor migrationId sequence db =
     find (\<lambda>c. ck_orgId c = ac_orgId actor \<and> ck_migrationId c = migrationId \<and> ck_sequence c = sequence) (wd_chunks db)"

definition migration_get :: "Actor \<Rightarrow> migration_row \<Rightarrow> nat \<Rightarrow> nat \<Rightarrow> wf_db \<Rightarrow> migration_result" where
  "migration_get actor row cursor limit db =
     (let chunks = take (limit + 1) (sort_key ck_sequence (filter (\<lambda>c. ck_orgId c = ac_orgId actor \<and>
            ck_migrationId c = mg_id row \<and> cursor \<le> ck_sequence c) (wd_chunks db))) in
      MigrationPages (migrationView row) (take limit chunks)
        (if limit < length chunks then Some (ck_sequence (chunks ! limit)) else None))"

definition append_conflict ::
  "digest \<Rightarrow> migration_row \<Rightarrow> nat \<Rightarrow> nat \<Rightarrow> migration_chunk \<Rightarrow> string \<Rightarrow> bool" where
  "append_conflict sha row expectedVersion sequence chunk chunkHash \<longleftrightarrow>
     mg_version row \<noteq> expectedVersion \<or> mg_sealedAt row \<noteq> None \<or> mg_stage row \<noteq> stg_preview \<or>
     sequence \<noteq> mg_chunkCount row \<or> hash sha (json_of_chunk chunk) \<noteq> chunkHash \<or>
     list_ex (\<lambda>w. \<not> list_ex (\<lambda>t. mt_workflowId t = mp_workflowId w) (mg_targetVersions row)) chunk"

definition migration_append ::
  "digest \<Rightarrow> Actor \<Rightarrow> migration_row \<Rightarrow> nat \<Rightarrow> nat \<Rightarrow> migration_chunk \<Rightarrow> string \<Rightarrow> wf_db \<Rightarrow> migration_result wtx" where
  "migration_append sha actor row expectedVersion sequence chunk chunkHash db =
     (let repeated = (case find_chunk actor (mg_id row) sequence db of
            None \<Rightarrow> False
          | Some c \<Rightarrow> ck_digest c = chunkHash \<and> hash sha (json_of_chunk chunk) = ck_digest c) in
      if repeated then Inr (MigrationResult (migrationView row), db)
      else
        res_bind (res_guard (append_conflict sha row expectedVersion sequence chunk chunkHash) WORKFLOW_VERSION_CONFLICT) (\<lambda>_.
        res_bind (create_chunk (new_chunk actor (mg_id row) sequence chunk chunkHash) db) (\<lambda>db1.
        let data = (\<lambda>m. m\<lparr>mg_chunkCount := mg_chunkCount m + 1, mg_recordCount := mg_recordCount m + records chunk,
              mg_chunksDigest := Some (nextDigest sha (case mg_chunksDigest row of None \<Rightarrow> digestStart | Some d \<Rightarrow> d)
                sequence chunkHash (records chunk)),
              mg_version := mg_version m + 1\<rparr>) in
        Inr (MigrationResult (migrationView (data row)), update_migration (mg_id row) data db1))))"

definition seal_digest :: "digest \<Rightarrow> migration_row \<Rightarrow> string" where
  "seal_digest sha row = hash sha (JObj
     [(''migrationId'', JStr (mg_id row)), (''sourceSnapshotHash'', JStr (mg_sourceSnapshotHash row)),
      (''targetVersions'', json_of_targets (mg_targetVersions row)),
      (''chunksDigest'', json_of_optional JStr (mg_chunksDigest row)), (''chunkCount'', jnat (mg_chunkCount row)),
      (''recordCount'', jnat (mg_recordCount row))])"

definition migration_seal ::
  "digest \<Rightarrow> wf_env \<Rightarrow> migration_row \<Rightarrow> nat \<Rightarrow> nat \<Rightarrow> nat \<Rightarrow> string \<Rightarrow> wf_db \<Rightarrow> migration_result wtx" where
  "migration_seal sha e row expectedVersion chunkCount recordCount chunksDigest db =
     res_bind (res_guard (mg_version row \<noteq> expectedVersion \<or> mg_stage row \<noteq> stg_preview \<or> mg_sealedAt row \<noteq> None \<or>
       mg_chunkCount row \<noteq> chunkCount \<or> mg_recordCount row \<noteq> recordCount \<or> mg_chunksDigest row \<noteq> Some chunksDigest)
       WORKFLOW_VERSION_CONFLICT) (\<lambda>_.
     let data = (\<lambda>m. m\<lparr>mg_sealedAt := Some (e_now e), mg_confirmationDigest := seal_digest sha row,
           mg_version := mg_version m + 1\<rparr>) in
     Inr (MigrationResult (migrationView (data row)), update_migration (mg_id row) data db))"

section \<open>Stages\<close>

fun stage_index :: "MigrationStage \<Rightarrow> nat" where
  "stage_index stg_preview = 0"
| "stage_index stg_validated = 1"
| "stage_index stg_imported = 2"
| "stage_index stg_host_switched = 3"
| "stage_index stg_verified = 4"

fun stage_text :: "MigrationStage \<Rightarrow> string" where
  "stage_text stg_preview = ''preview''"
| "stage_text stg_validated = ''validated''"
| "stage_text stg_imported = ''imported''"
| "stage_text stg_host_switched = ''host_switched''"
| "stage_text stg_verified = ''verified''"

definition page_blocked :: "digest \<Rightarrow> chunk_row \<Rightarrow> bool" where
  "page_blocked sha page \<longleftrightarrow>
     hash sha (json_of_chunk (ck_payload page)) \<noteq> ck_digest page \<or> records (ck_payload page) \<noteq> ck_recordCount page \<or>
     list_ex (\<lambda>w. list_ex (\<lambda>u. mu_code u = mg_source_conflict \<or> mu_code u = mg_missing_receipt) (mp_unresolved w))
       (ck_payload page)"

definition progress_log :: "Actor \<Rightarrow> workflow_row \<Rightarrow> string \<Rightarrow> migration_row \<Rightarrow> nat \<Rightarrow> bool \<Rightarrow> wf_db \<Rightarrow> wf_db" where
  "progress_log actor workflow action row sequence isComplete =
     audit actor action (wf_id workflow) [(''migrationId'', JStr (mg_id row)), (''sequence'', jnat sequence),
       (''complete'', JBool isComplete)]"

definition migration_validate ::
  "digest \<Rightarrow> Actor \<Rightarrow> workflow_row \<Rightarrow> migration_row \<Rightarrow> wf_db \<Rightarrow> migration_result wtx" where
  "migration_validate sha actor workflow row db =
     res_bind (or_else RecordNotFound (find_chunk actor (mg_id row) (mg_validatedChunks row) db)) (\<lambda>page.
     res_bind (res_guard (page_blocked sha page) WORKFLOW_SOURCE_MAPPING_CONFLICT) (\<lambda>_.
     let isComplete = (mg_validatedChunks row + 1 = mg_chunkCount row);
         data = (\<lambda>m. m\<lparr>mg_validatedChunks := mg_validatedChunks m + 1, mg_version := mg_version m + 1,
           mg_stage := (if isComplete then stg_validated else mg_stage m)\<rparr>);
         changed = data row in
     Inr (MigrationProgress (migrationView changed) isComplete (if isComplete then None else Some (mg_validatedChunks changed)),
          progress_log actor workflow ''migration_validate'' row (ck_sequence page) isComplete
            (update_migration (mg_id row) data db))))"

text \<open>The targets must be as they were previewed, or as the first imported page left them.\<close>

definition check_target :: "wf_env \<Rightarrow> migration_row \<Rightarrow> wf_db \<Rightarrow> migration_target \<Rightarrow> workflow_error + unit" where
  "check_target e row db t =
     (let moved = (if mg_importedChunks row = 0 then 0 else 1) in
      res_bind (or_else RecordNotFound (find (\<lambda>w. wf_id w = mt_workflowId t) (wd_workflows db))) (\<lambda>current.
      res_guard (wf_version current \<noteq> mt_version t + moved \<or> wf_controlVersion current \<noteq> mt_controlVersion t + moved \<or>
        wf_controlState current \<noteq> ctl_paused \<or> lease_unexpired current (e_now e)) WORKFLOW_VERSION_CONFLICT))"

definition revoke_all :: "wf_env \<Rightarrow> Actor \<Rightarrow> string \<Rightarrow> wf_db \<Rightarrow> wf_db" where
  "revoke_all e actor workflowId db = db\<lparr>wd_authorizations := update_where
     (\<lambda>a. wa_orgId a = ac_orgId actor \<and> wa_workflowId a = workflowId \<and> wa_revokedAt a = None)
     (\<lambda>a. a\<lparr>wa_revokedAt := Some (e_now e), wa_revokedBy := Some (ac_id actor)\<rparr>) (wd_authorizations db)\<rparr>"

text \<open>The configuration of one workflow, with the first page. The lookup \<open>targets.find(...)!\<close> throws
  when the item is no target. \<open>n\<close> counts the keys drawn.\<close>

fun import_configurations ::
  "wf_env \<Rightarrow> Actor \<Rightarrow> migration_target list \<Rightarrow> nat \<Rightarrow> manifest_workflow list \<Rightarrow> wf_db \<Rightarrow> workflow_error + wf_db" where
  "import_configurations e actor targets n [] db = Inr db"
| "import_configurations e actor targets n (item # items) db =
     (let i = mp_workflowId (mw_page item) in
      res_bind (or_else UncaughtError (find (\<lambda>t. mt_workflowId t = i) targets)) (\<lambda>target.
      res_bind (create_configuration
        \<lparr>cv_orgId = ac_orgId actor, cv_workflowId = i, cv_version = mt_version target + 1,
         cv_configuration = mw_configuration item, cv_createdBy = ac_id actor\<rparr> db) (\<lambda>db1.
      res_bind (grant_loop e actor i (mt_version target + 1) (mt_controlVersion target + 1) n (mw_authorizations item)
        (revoke_all e actor i db1)) (\<lambda>db2.
      import_configurations e actor targets (n + length (mw_authorizations item)) items
        (update_workflow i (\<lambda>w. w\<lparr>wf_version := wf_version w + 1, wf_controlVersion := wf_controlVersion w + 1,
           wf_controlState := ctl_paused\<rparr>) db2)))))"

definition import_integration :: "Actor \<Rightarrow> workflow_row \<Rightarrow> EnterpriseIntegrationConfiguration \<Rightarrow> wf_db \<Rightarrow> wf_db" where
  "import_integration actor workflow source db = db\<lparr>wd_integrations := update_where
     (\<lambda>i. ei_orgId i = ac_orgId actor \<and> ei_enterpriseKey i = wf_enterpriseKey workflow)
     (\<lambda>i. i\<lparr>ei_version := ei_version i + 1, ei_configuration := source, ei_updatedBy := ac_id actor\<rparr>) (wd_integrations db)\<rparr>"

record imported_record =
  im_intent :: WorkflowActionIntent
  im_receipt :: WorkflowActionReceipt
  im_legacyKeyHash :: "string option"

definition imported_records :: "migration_page_item \<Rightarrow> imported_record list" where
  "imported_records item =
     map (\<lambda>a. \<lparr>im_intent = ca_intent a, im_receipt = ca_receipt a, im_legacyKeyHash = Some (ca_legacyKeyHash a)\<rparr>)
       (mp_completedActions item) @
     concat (map (\<lambda>u. case (mu_intent u, mu_receipt u) of
         (Some i, Some r) \<Rightarrow> [\<lparr>im_intent = i, im_receipt = r, im_legacyKeyHash = None\<rparr>]
       | _ \<Rightarrow> []) (filter (\<lambda>u. mu_code u = mg_unknown_action) (mp_unresolved item)))"

definition imported_action ::
  "digest \<Rightarrow> wf_env \<Rightarrow> Actor \<Rightarrow> string \<Rightarrow> string \<Rightarrow> imported_record \<Rightarrow> string list \<Rightarrow> action_row" where
  "imported_action sha e actor workflowId runId r keys =
     \<lparr>at_orgId = ac_orgId actor, at_workflowId = workflowId, at_actionId = ai_actionId (im_intent r), at_runId = runId,
      at_idempotencyKey = hash sha (jstrs keys), at_identity = ai_identity (im_intent r),
      at_artifactHash = ai_artifactHash (im_intent r), at_correlationMarker = ai_correlationMarker (im_intent r),
      at_state = receipt_action_state (rt_state (im_receipt r)), at_receipt = Some (im_receipt r),
      at_createdAt = e_clock e, at_updatedAt = e_clock e,
      at_confirmedAt = (if rt_state (im_receipt r) = rcp_confirmed then Date_parse (rt_verifiedAt (im_receipt r)) else None)\<rparr>"

definition legacy_keys :: "digest \<Rightarrow> imported_record \<Rightarrow> string list" where
  "legacy_keys sha r =
     (if missing_text (im_legacyKeyHash r) then []
      else [hash sha (JArr [JStr ''legacy'', json_of_optional JStr (im_legacyKeyHash r)])])"

definition import_record ::
  "digest \<Rightarrow> wf_env \<Rightarrow> Actor \<Rightarrow> string \<Rightarrow> string \<Rightarrow> imported_record \<Rightarrow> wf_db \<Rightarrow> workflow_error + wf_db" where
  "import_record sha e actor runId workflowId r db =
     res_bind (deduplicationKeys sha (ai_identity (im_intent r)) runId (ai_actionId (im_intent r))) (\<lambda>keys.
     case find_action (ac_orgId actor) workflowId (ai_actionId (im_intent r)) db of
       Some existing \<Rightarrow>
         res_bind (res_guard (at_idempotencyKey existing \<noteq> hash sha (jstrs keys) \<or>
           hash sha (json_of_optional json_of_receipt (at_receipt existing)) \<noteq> hash sha (json_of_receipt (im_receipt r)))
           WORKFLOW_VERSION_CONFLICT) (\<lambda>_. Inr db)
     | None \<Rightarrow>
         res_bind (create_action (imported_action sha e actor workflowId runId r keys) db) (\<lambda>db1.
         create_keys (ac_orgId actor) workflowId (ai_actionId (im_intent r)) (keys @ legacy_keys sha r) db1))"

fun import_record_loop ::
  "digest \<Rightarrow> wf_env \<Rightarrow> Actor \<Rightarrow> string \<Rightarrow> string \<Rightarrow> imported_record list \<Rightarrow> wf_db \<Rightarrow> workflow_error + wf_db" where
  "import_record_loop sha e actor runId workflowId [] db = Inr db"
| "import_record_loop sha e actor runId workflowId (r # rs) db =
     res_bind (import_record sha e actor runId workflowId r db) (import_record_loop sha e actor runId workflowId rs)"

fun import_page :: "digest \<Rightarrow> wf_env \<Rightarrow> Actor \<Rightarrow> string \<Rightarrow> migration_chunk \<Rightarrow> wf_db \<Rightarrow> workflow_error + wf_db" where
  "import_page sha e actor runId [] db = Inr db"
| "import_page sha e actor runId (item # items) db =
     res_bind (import_record_loop sha e actor runId (mp_workflowId item) (imported_records item) db)
       (import_page sha e actor runId items)"

definition mark_imported :: "wf_env \<Rightarrow> Actor \<Rightarrow> string \<Rightarrow> nat \<Rightarrow> wf_db \<Rightarrow> wf_db" where
  "mark_imported e actor migrationId sequence db = db\<lparr>wd_chunks := update_where
     (\<lambda>c. ck_orgId c = ac_orgId actor \<and> ck_migrationId c = migrationId \<and> ck_sequence c = sequence)
     (\<lambda>c. c\<lparr>ck_importedAt := Some (e_now e)\<rparr>) (wd_chunks db)\<rparr>"

definition migration_import ::
  "digest \<Rightarrow> wf_env \<Rightarrow> Actor \<Rightarrow> workflow_row \<Rightarrow> migration_row \<Rightarrow> wf_db \<Rightarrow> migration_result wtx" where
  "migration_import sha e actor workflow row db =
     res_bind (integration db workflow) (\<lambda>shared.
     res_bind (res_guard (ei_version shared \<noteq> mg_targetVersion row + (if mg_importedChunks row = 0 then 0 else 1))
       WORKFLOW_VERSION_CONFLICT) (\<lambda>_.
     res_bind (res_forM (check_target e row db) (mg_targetVersions row)) (\<lambda>_.
     res_bind (if mg_importedChunks row = 0
       then res_bind (import_configurations e actor (mg_targetVersions row) 0 (mm_workflows (mg_manifest row)) db) (\<lambda>db1.
            Inr (import_integration actor workflow (mm_integration (mg_manifest row)) db1))
       else Inr db) (\<lambda>db1.
     res_bind (or_else RecordNotFound (find_chunk actor (mg_id row) (mg_importedChunks row) db1)) (\<lambda>page.
     res_bind (import_page sha e actor (''migration_'' @ mg_id row) (ck_payload page) db1) (\<lambda>db2.
     let isComplete = (mg_importedChunks row + 1 = mg_chunkCount row);
         data = (\<lambda>m. m\<lparr>mg_importedChunks := mg_importedChunks m + 1, mg_version := mg_version m + 1,
           mg_stage := (if isComplete then stg_imported else mg_stage m)\<rparr>);
         changed = data row in
     Inr (MigrationProgress (migrationView changed) isComplete (if isComplete then None else Some (mg_importedChunks changed)),
          progress_log actor workflow ''migration_import'' row (ck_sequence page) isComplete
            (update_migration (mg_id row) data (mark_imported e actor (mg_id row) (ck_sequence page) db2)))))))))"

definition check_host ::
  "Actor \<Rightarrow> migration_row \<Rightarrow> MigrationStage \<Rightarrow> wf_db \<Rightarrow> migration_target \<Rightarrow> workflow_error + unit" where
  "check_host actor row stage db t =
     res_bind (or_else RecordNotFound (find (\<lambda>w. wf_id w = mt_workflowId t) (wd_workflows db))) (\<lambda>current.
     res_bind (res_guard (missing_text (wf_assignedInstallationId current) \<or>
       wf_assignmentEpoch current \<le> mt_assignmentEpoch t) WORKFLOW_INSTALLATION_MISMATCH) (\<lambda>_.
     res_bind (or_else WORKFLOW_SOURCE_UNAVAILABLE (case wf_assignedInstallationId current of
         None \<Rightarrow> None
       | Some i \<Rightarrow> find_installation (ac_orgId actor) (mt_workflowId t) i db)) (\<lambda>installation.
     res_bind (or_else WORKFLOW_SOURCE_UNAVAILABLE (il_hostSnapshot installation)) (\<lambda>host.
     res_bind (res_guard (stage = stg_verified \<and> il_firstRunVerification installation \<noteq> fr_verified)
       WORKFLOW_SOURCE_UNAVAILABLE) (\<lambda>_.
     res_guard (nan_less (Date_parse (hs_verifiedAt host)) (mg_createdAt row - 60000)) WORKFLOW_SOURCE_UNAVAILABLE)))))"

definition migration_stage ::
  "Actor \<Rightarrow> workflow_row \<Rightarrow> migration_row \<Rightarrow> MigrationStage \<Rightarrow> wf_db \<Rightarrow> migration_result wtx" where
  "migration_stage actor workflow row stage db =
     res_bind (res_forM (check_host actor row stage db) (mg_targetVersions row)) (\<lambda>_.
     let data = (\<lambda>m. m\<lparr>mg_stage := stage, mg_version := mg_version m + 1\<rparr>) in
     Inr (MigrationResult (migrationView (data row)),
          audit actor (''migration_'' @ stage_text stage) (wf_id workflow) [(''migrationId'', JStr (mg_id row))]
            (update_migration (mg_id row) data db)))"

definition migration_advance ::
  "digest \<Rightarrow> wf_env \<Rightarrow> Actor \<Rightarrow> workflow_row \<Rightarrow> migration_row \<Rightarrow> string \<Rightarrow> nat \<Rightarrow> MigrationStage \<Rightarrow> string \<Rightarrow> wf_db
     \<Rightarrow> migration_result wtx" where
  "migration_advance sha e actor workflow row sourceSnapshotHash expectedVersion stage confirmationDigest db =
     res_bind (res_guard (sourceSnapshotHash \<noteq> mg_sourceSnapshotHash row \<or> confirmationDigest \<noteq> mg_confirmationDigest row)
       WORKFLOW_VERSION_CONFLICT) (\<lambda>_.
     if mg_stage row = stage then Inr (MigrationResult (migrationView row), db)
     else
       res_bind (res_guard (mg_version row \<noteq> expectedVersion \<or> mg_sealedAt row = None) WORKFLOW_VERSION_CONFLICT) (\<lambda>_.
       res_bind (res_guard (stage_index stage \<noteq> stage_index (mg_stage row) + 1) WORKFLOW_VERSION_CONFLICT) (\<lambda>_.
       case stage of
         stg_validated \<Rightarrow> migration_validate sha actor workflow row db
       | stg_imported \<Rightarrow> migration_import sha e actor workflow row db
       | _ \<Rightarrow> migration_stage actor workflow row stage db)))"

section \<open>Dispatch\<close>

datatype migration_op =
    MigrationPreview migration_manifest
  | MigrationGet string "nat option"
  | MigrationAppend string nat nat migration_chunk string
  | MigrationSeal string nat nat nat string
  | MigrationAdvance string string nat MigrationStage string

fun migration_op_id :: "migration_op \<Rightarrow> string" where
  "migration_op_id (MigrationGet i _) = i"
| "migration_op_id (MigrationAppend i _ _ _ _) = i"
| "migration_op_id (MigrationSeal i _ _ _ _) = i"
| "migration_op_id (MigrationAdvance i _ _ _ _) = i"
| "migration_op_id (MigrationPreview _) = []"

definition locked_migration :: "Actor \<Rightarrow> workflow_row \<Rightarrow> string \<Rightarrow> wf_db \<Rightarrow> workflow_error + migration_row" where
  "locked_migration actor workflow migrationId db =
     res_bind (or_else WORKFLOW_CONFIGURATION_REQUIRED (find_migration actor workflow migrationId db)) (\<lambda>row.
     res_bind (res_guard (\<not> list_ex (\<lambda>item. mp_workflowId (mw_page item) = wf_id workflow) (mm_workflows (mg_manifest row)))
       WORKFLOW_CONFIGURATION_REQUIRED) (\<lambda>_. Inr row))"

definition migrationOperation ::
  "digest \<Rightarrow> zod_formats \<Rightarrow> wf_env \<Rightarrow> Actor \<Rightarrow> workflow_row \<Rightarrow> migration_op \<Rightarrow> wf_db \<Rightarrow> migration_result wtx" where
  "migrationOperation sha z e actor workflow op db =
     (case op of
        MigrationPreview manifest \<Rightarrow> migration_preview sha z e actor workflow manifest db
      | _ \<Rightarrow>
          res_bind (locked_migration actor workflow (migration_op_id op) db) (\<lambda>row.
          case op of
            MigrationAppend _ expectedVersion sequence chunk chunkHash \<Rightarrow>
              migration_append sha actor row expectedVersion sequence chunk chunkHash db
          | MigrationSeal _ expectedVersion chunkCount recordCount chunksDigest \<Rightarrow>
              migration_seal sha e row expectedVersion chunkCount recordCount chunksDigest db
          | MigrationAdvance _ sourceSnapshotHash expectedVersion stage confirmationDigest \<Rightarrow>
              migration_advance sha e actor workflow row sourceSnapshotHash expectedVersion stage confirmationDigest db
          | MigrationGet _ cursor \<Rightarrow>
              Inr (migration_get actor row (case cursor of None \<Rightarrow> 0 | Some c \<Rightarrow> c) 1 db, db)
          | MigrationPreview _ \<Rightarrow> Inl WORKFLOW_PERMISSION_DENIED))"

end
