(* ===== verification/Workflow_Service.thy ===== *)
theory Workflow_Service
  imports Workflow_Migrations
begin

text \<open>
  \<^verbatim>\<open>apps/api/src/enterprise-workflows/service.ts\<close> with the input schemas of
  \<^verbatim>\<open>packages/mcp-contract/src/enterprise-workflows.ts\<close> and the error mapping of \<^verbatim>\<open>routes.ts\<close>: the tools
  of the workflow service, each one transaction, and the retention job.
\<close>

section \<open>Recognized cadences\<close>

fun ws_words :: "string \<Rightarrow> string list" where
  "ws_words [] = [[]]"
| "ws_words (c # cs) =
     (if is_ws c then (case cs of
          [] \<Rightarrow> [[], []]
        | d # _ \<Rightarrow> if is_ws d then ws_words cs else [] # ws_words cs)
      else case ws_words cs of [] \<Rightarrow> [[c]] | w # ws \<Rightarrow> (c # w) # ws)"

text \<open>The helper \<open>list\<close>: the number of distinct values of a comma-separated list within bounds.\<close>

definition value_list :: "string option \<Rightarrow> nat \<Rightarrow> nat \<Rightarrow> nat option" where
  "value_list v upper lower_bound =
     (case v of
        None \<Rightarrow> None
      | Some s \<Rightarrow>
          if s \<noteq> [] \<and> list_all all_digits (str_split CHR '','' s) then
            let values = map number_value (str_split CHR '','' s) in
            if length (js_uniq values) = length values \<and> list_all (\<lambda>n. lower_bound \<le> n \<and> n \<le> upper) values
            then Some (length values) else None
          else None)"

definition cron_field :: "string \<Rightarrow> nat \<Rightarrow> bool" where
  "cron_field f upper \<longleftrightarrow> f = ''*'' \<or> value_list (Some f) upper 0 \<noteq> None"

definition cron_days :: "WorkflowType \<Rightarrow> string \<Rightarrow> nat option" where
  "cron_days t f =
     (if t = WeeklyBusinessReport
      then (if length f = 1 \<and> list_all is_digit f \<and> number_value f \<le> 7 then Some 7 else None)
      else if f = ''*'' then Some 1 else None)"

definition WEEKDAYS :: "string list" where
  "WEEKDAYS = [''SU'', ''MO'', ''TU'', ''WE'', ''TH'', ''FR'', ''SA'']"

definition rrule_days :: "WorkflowType \<Rightarrow> string list list \<Rightarrow> nat option" where
  "rrule_days t parts =
     (let allowed = [''FREQ'', ''BYHOUR'', ''BYMINUTE'', ''BYSECOND'', ''BYDAY'', ''BYSETPOS''] in
      if list_ex (\<lambda>p. length p \<noteq> 2 \<or> hd p \<notin> set allowed) parts \<or> length (js_uniq (map hd parts)) \<noteq> length parts then None
      else
        let rule = map_of (map (\<lambda>p. (p ! 0, p ! 1)) parts);
            days = map_option (str_split CHR '','') (rule ''BYDAY'');
            allDays = (map_option length days = Some 7) in
        case (value_list (rule ''BYHOUR'') 23 0, value_list (rule ''BYMINUTE'') 59 0,
              if rule ''BYSECOND'' = None then Some 1 else value_list (rule ''BYSECOND'') 59 0) of
          (Some hours, Some minutes, Some seconds) \<Rightarrow>
            if rule ''BYSETPOS'' \<noteq> None \<and> value_list (rule ''BYSETPOS'') (hours * minutes * seconds) 1 = None then None
            else if (case days of None \<Rightarrow> False
                     | Some ds \<Rightarrow> length (js_uniq ds) \<noteq> length ds \<or> list_ex (\<lambda>d. d \<notin> set WEEKDAYS) ds) then None
            else if t = WeeklyBusinessReport
            then (if rule ''FREQ'' = Some ''WEEKLY'' \<and> map_option length days = Some 1 then Some 7 else None)
            else if (rule ''FREQ'' = Some ''DAILY'' \<and> (days = None \<or> allDays)) \<or>
                    (rule ''FREQ'' = Some ''WEEKLY'' \<and> allDays \<and> rule ''BYSETPOS'' = None)
            then Some 1 else None
        | _ \<Rightarrow> None)"

definition confirmedCycleDays :: "WorkflowType \<Rightarrow> string \<Rightarrow> nat option" where
  "confirmedCycleDays t schedule =
     (case ws_words (js_trim schedule) of
        [minute, hour, day, month, weekday] \<Rightarrow>
          if cron_field minute 59 \<and> cron_field hour 23 \<and> day = ''*'' \<and> month = ''*'' then cron_days t weekday
          else if take 6 schedule = ''RRULE:''
          then rrule_days t (map (str_split CHR ''='') (str_split CHR '';'' (drop 6 schedule)))
          else None
      | _ \<Rightarrow>
          if take 6 schedule = ''RRULE:''
          then rrule_days t (map (str_split CHR ''='') (str_split CHR '';'' (drop 6 schedule)))
          else None)"

section \<open>Retention\<close>

definition run_expired :: "time_ms \<Rightarrow> run_row \<Rightarrow> bool" where
  "run_expired now r \<longleftrightarrow> rn_retainUntil r < now \<and> rn_finishedAt r \<noteq> None"

definition pruneRetention :: "time_ms \<Rightarrow> wf_db \<Rightarrow> nat \<times> wf_db" where
  "pruneRetention now db =
     (let expired = take 100 (filter (run_expired now) (wd_runs db)) in
      (length expired,
       db\<lparr>wd_runs := delete_where (\<lambda>r. rn_id r \<in> set (map rn_id expired) \<and> run_expired now r) (wd_runs db)\<rparr>))"

section \<open>Input schemas\<close>

definition intentBatch :: "zod_formats \<Rightarrow> WorkflowActionIntent list \<Rightarrow> bool" where
  "intentBatch z v \<longleftrightarrow>
     list_all (workflowActionIntentSchema z) v \<and> 1 \<le> length v \<and> length v \<le> lim_summaryItems WORKFLOW_LIMITS \<and>
     length (js_uniq (map ai_actionId v)) = length v \<and>
     workflowPayloadFits (JArr (map json_of_intent v)) (lim_summaryBytes WORKFLOW_LIMITS)"

definition receiptBatch :: "zod_formats \<Rightarrow> WorkflowActionReceipt list \<Rightarrow> bool" where
  "receiptBatch z v \<longleftrightarrow>
     list_all (workflowActionReceiptSchema z) v \<and> 1 \<le> length v \<and> length v \<le> lim_summaryItems WORKFLOW_LIMITS \<and>
     workflowPayloadFits (JArr (map json_of_receipt v)) (lim_summaryBytes WORKFLOW_LIMITS)"

definition bindingSchema :: "WorkflowRunBinding \<Rightarrow> bool" where
  "bindingSchema b \<longleftrightarrow> workflowIdSchema (bd_installationId b) \<and> workflowIdSchema (bd_runId b)"

fun installOperationSchema :: "zod_formats \<Rightarrow> install_op \<Rightarrow> bool" where
  "installOperationSchema z (Register v) \<longleftrightarrow> workflowInstallationSchema z v"
| "installOperationSchema z (RecordChecks i checks v) \<longleftrightarrow>
     workflowIdSchema i \<and> list_all (workflowReadinessCheckSchema z) checks \<and>
     length checks \<le> lim_summaryItems WORKFLOW_LIMITS"
| "installOperationSchema z (RecordHost i h) \<longleftrightarrow> workflowIdSchema i \<and> workflowHostSnapshotSchema z h"
| "installOperationSchema z (SetState i n state reason) \<longleftrightarrow>
     workflowIdSchema i \<and> state \<in> set [ins_paused, ins_enabled, ins_revoked] \<and>
     1 \<le> length reason \<and> length reason \<le> 2000"
| "installOperationSchema z (PrepareTakeover i epoch paused) \<longleftrightarrow> workflowIdSchema i"
| "installOperationSchema z (Takeover i epoch p d) \<longleftrightarrow> workflowIdSchema i \<and> workflowIdSchema p \<and> workflowHashSchema d"

fun migrationOperationSchema :: "zod_formats \<Rightarrow> migration_op \<Rightarrow> bool" where
  "migrationOperationSchema z (MigrationPreview m) \<longleftrightarrow> workflowMigrationManifestSchema z m"
| "migrationOperationSchema z (MigrationGet i cursor) \<longleftrightarrow> workflowIdSchema i"
| "migrationOperationSchema z (MigrationAppend i n s chunk h) \<longleftrightarrow>
     workflowIdSchema i \<and> workflowMigrationChunkSchema z chunk \<and> workflowHashSchema h"
| "migrationOperationSchema z (MigrationSeal i n chunks recs d) \<longleftrightarrow>
     workflowIdSchema i \<and> 1 \<le> chunks \<and> workflowHashSchema d"
| "migrationOperationSchema z (MigrationAdvance i h n stage d) \<longleftrightarrow>
     workflowIdSchema i \<and> workflowHashSchema h \<and> stage \<noteq> stg_preview \<and> workflowHashSchema d"

fun runOperationSchema :: "zod_formats \<Rightarrow> run_op \<Rightarrow> bool" where
  "runOperationSchema z (PrepareBackfill i epoch w reason) \<longleftrightarrow>
     workflowIdSchema i \<and> workflowDateRangeSchema z w \<and>
     1 \<le> length (js_trim reason) \<and> length (js_trim reason) \<le> 2000 \<and> reason = js_trim reason"
| "runOperationSchema z (StartRun op) \<longleftrightarrow>
     workflowIdSchema (so_installationId op) \<and> version_format (so_workflowPackageVersion op) \<and>
     workflowDateRangeSchema z (so_window op) \<and> opt_all workflowHashSchema (so_backfillConfirmationDigest op) \<and>
     (so_mode op = mode_backfill \<longleftrightarrow> so_backfillConfirmationDigest op \<noteq> None)"
| "runOperationSchema z (ReleaseRun bd) \<longleftrightarrow> bindingSchema bd"
| "runOperationSchema z (RenewRun bd) \<longleftrightarrow> bindingSchema bd"
| "runOperationSchema z (ResumeRun bd) \<longleftrightarrow> bindingSchema bd"
| "runOperationSchema z (FinishRun bd s) \<longleftrightarrow>
     bindingSchema bd \<and> workflowRunSummarySchema z s \<and> sm_status s \<noteq> st_running \<and> sm_phase s = ph_finished"
| "runOperationSchema z (RecordSummary bd s) \<longleftrightarrow> bindingSchema bd \<and> workflowRunSummarySchema z s"

fun actionOperationSchema :: "zod_formats \<Rightarrow> action_op \<Rightarrow> bool" where
  "actionOperationSchema z (ActionGet ids) \<longleftrightarrow>
     list_all workflowIdSchema ids \<and> 1 \<le> length ids \<and> length ids \<le> lim_summaryItems WORKFLOW_LIMITS"
| "actionOperationSchema z (ActionIntents bd intents) \<longleftrightarrow> bindingSchema bd \<and> intentBatch z intents"
| "actionOperationSchema z (RecordReceipts bd receipts) \<longleftrightarrow> bindingSchema bd \<and> receiptBatch z receipts"
| "actionOperationSchema z (ResolveUnknown bd receipt) \<longleftrightarrow>
     bindingSchema bd \<and> workflowActionReceiptSchema z receipt \<and> rt_state receipt \<noteq> rcp_unknown \<and>
     rt_evidence receipt \<in> {ev_service_status, ev_launcher_transfer, ev_provider_readback, ev_smedc_readback,
       ev_manual_resolution}"

section \<open>Pages\<close>

text \<open>Rows by ascending key after the cursor, one more than the limit to see whether a page follows.\<close>

definition ascending_page :: "('r \<Rightarrow> string) \<Rightarrow> nat \<Rightarrow> string option \<Rightarrow> 'r list \<Rightarrow> 'r list \<times> string option" where
  "ascending_page key limit cursor rows =
     (let found = take (limit + 1) (sort_key key
            (filter (\<lambda>r. case cursor of None \<Rightarrow> True | Some c \<Rightarrow> c = [] \<or> c < key r) rows)) in
      (take limit found, if limit < length found then Some (key (found ! (limit - 1))) else None))"

section \<open>Status\<close>

record status_input =
  gs_workflowId :: string
  gs_runId :: "string option"
  gs_limit :: "nat option"
  gs_cursor :: "string option"
  gs_actionCursor :: "string option"
  gs_migrationCursor :: "string option"

definition statusSchema :: "status_input \<Rightarrow> bool" where
  "statusSchema v \<longleftrightarrow>
     workflowIdSchema (gs_workflowId v) \<and> opt_all workflowIdSchema (gs_runId v) \<and>
     opt_all (\<lambda>n. 1 \<le> n \<and> n \<le> 100) (gs_limit v) \<and> opt_all workflowIdSchema (gs_cursor v) \<and>
     opt_all workflowIdSchema (gs_actionCursor v) \<and> opt_all workflowIdSchema (gs_migrationCursor v)"

definition page_limit :: "nat option \<Rightarrow> nat" where
  "page_limit l = (case l of None \<Rightarrow> 25 | Some n \<Rightarrow> n)"

text \<open>Rows by descending key before the cursor.\<close>

definition descending_page :: "('r \<Rightarrow> string) \<Rightarrow> nat \<Rightarrow> 'r list \<Rightarrow> 'r list \<times> string option" where
  "descending_page key limit rows =
     (let found = take (limit + 1) (rev (sort_key key rows)) in
      (take limit found, if limit < length found then Some (key (found ! (limit - 1))) else None))"

text \<open>The spread of the cursor replaces the filter by run.\<close>

definition run_listed :: "time_ms \<Rightarrow> status_input \<Rightarrow> run_row \<Rightarrow> bool" where
  "run_listed now inp r \<longleftrightarrow>
     (rn_finishedAt r = None \<or> now \<le> rn_retainUntil r) \<and>
     (case gs_cursor inp of
        Some c \<Rightarrow> rn_id r < c
      | None \<Rightarrow> (case gs_runId inp of None \<Rightarrow> True | Some i \<Rightarrow> rn_id r = i))"

definition latest_scheduled :: "Actor \<Rightarrow> workflow_row \<Rightarrow> installation_row \<Rightarrow> wf_db \<Rightarrow> run_row option" where
  "latest_scheduled actor workflow installation db =
     (case rev (sort_key rn_startedAt (filter (\<lambda>r. rn_orgId r = ac_orgId actor \<and> rn_workflowId r = wf_id workflow \<and>
            rn_mode r = mode_scheduled \<and> rn_installationId r = il_installationId installation \<and>
            rn_assignmentEpoch r = wf_assignmentEpoch workflow \<and> rn_controlVersion r = wf_controlVersion workflow \<and>
            rn_configurationVersion r = wf_version workflow) (wd_runs db))) of
        [] \<Rightarrow> None
      | r # _ \<Rightarrow> Some r)"

definition possible_missed_window :: "wf_env \<Rightarrow> Actor \<Rightarrow> workflow_row \<Rightarrow> wf_db \<Rightarrow> bool" where
  "possible_missed_window e actor workflow db =
     (case wf_assignedInstallationId workflow of
        None \<Rightarrow> False
      | Some i \<Rightarrow>
          (case find_installation (ac_orgId actor) (wf_id workflow) i db of
             None \<Rightarrow> False
           | Some installation \<Rightarrow>
               (case il_hostSnapshot installation of
                  None \<Rightarrow> False
                | Some host \<Rightarrow>
                    wf_controlState workflow = ctl_active \<and> i \<noteq> [] \<and> il_state installation = ins_enabled \<and>
                    hs_state host = host_enabled \<and>
                    (case confirmedCycleDays (wf_type workflow) (hs_cron host) of
                       None \<Rightarrow> False
                     | Some cycleDays \<Rightarrow>
                         (case latest_scheduled actor workflow installation db of
                            None \<Rightarrow> False
                          | Some latest \<Rightarrow>
                              nan_at_most (Date_parse (hs_verifiedAt host)) (rn_startedAt latest) \<and>
                              rn_endDate latest < w_endDate (scheduledWindow (wf_type workflow)
                                (e_now e - int cycleDays * 86400000)))))))"

record status_view =
  ss_view :: workflow_view
  ss_observedAt :: time_ms
  ss_expectedWindow :: WorkflowWindow
  ss_possibleMissedWindow :: bool
  ss_pendingActions :: "action_row list \<times> string option"
  ss_runActions :: "(action_row list \<times> string option) option"
  ss_migrations :: "migration_row list \<times> string option"
  ss_installations :: "installation_row list"
  ss_runs :: "run_row list \<times> string option"

definition migrationSummaries ::
  "Actor \<Rightarrow> workflow_row \<Rightarrow> string option \<Rightarrow> nat \<Rightarrow> wf_db \<Rightarrow> migration_row list \<times> string option" where
  "migrationSummaries actor workflow cursor limit db =
     descending_page mg_id limit (filter (\<lambda>m. mg_orgId m = ac_orgId actor \<and> mg_enterpriseKey m = wf_enterpriseKey workflow \<and>
       wf_id workflow \<in> set (map (mp_workflowId \<circ> mw_page) (mm_workflows (mg_manifest m))) \<and>
       (case cursor of None \<Rightarrow> True | Some c \<Rightarrow> mg_id m < c)) (wd_migrations db))"

definition workflow_status :: "wf_env \<Rightarrow> Actor \<Rightarrow> workflow_row \<Rightarrow> status_input \<Rightarrow> wf_db \<Rightarrow> workflow_error + status_view" where
  "workflow_status e actor workflow inp db =
     (let limit = page_limit (gs_limit inp); org = ac_orgId actor; wid = wf_id workflow in
      res_bind (view workflow db) (\<lambda>v. Inr
       \<lparr>ss_view = v, ss_observedAt = e_now e, ss_expectedWindow = scheduledWindow (wf_type workflow) (e_now e),
        ss_possibleMissedWindow = possible_missed_window e actor workflow db,
        ss_pendingActions = ascending_page at_actionId limit (gs_actionCursor inp) (pending_actions org wid db),
        ss_runActions = map_option (\<lambda>i. ascending_page at_actionId limit (gs_actionCursor inp) (run_actions org wid i db))
          (gs_runId inp),
        ss_migrations = migrationSummaries actor workflow (gs_migrationCursor inp) limit db,
        ss_installations = take 100 (rev (sort_key il_updatedAt
          (filter (\<lambda>i. il_orgId i = org \<and> il_workflowId i = wid) (wd_installations db)))),
        ss_runs = (let (rs, c) = descending_page rn_id limit (filter (\<lambda>r. rn_orgId r = org \<and> rn_workflowId r = wid \<and>
            run_listed (e_now e) inp r) (wd_runs db)) in (map runView rs, c))\<rparr>))"

section \<open>The tools\<close>

record list_input =
  ls_enterpriseKey :: "string option"
  ls_limit :: "nat option"
  ls_cursor :: "string option"

datatype wf_call =
    ListWorkflows list_input
  | PrepareChange prepare_input
  | GetWorkflow string WorkflowType
  | SaveChange save_input
  | ManageInstallation string install_op
  | ManageMigration string migration_op
  | ManageRun string run_op
  | CheckActions string WorkflowRunBinding "WorkflowActionIntent list"
  | RecordAction string action_op
  | GetStatus status_input

datatype wf_result =
    WorkflowList "workflow_view list" "string option" bool
  | ChangePrepared prepared_preview
  | WorkflowShown workflow_view
  | InstallationManaged install_result
  | MigrationManaged migration_result
  | RunManaged run_result
  | ActionsAllowed
  | ActionRecorded action_result
  | StatusShown status_view

fun inputSchema :: "zod_formats \<Rightarrow> wf_call \<Rightarrow> bool" where
  "inputSchema z (ListWorkflows i) \<longleftrightarrow>
     opt_all workflowEnterpriseKeySchema (ls_enterpriseKey i) \<and> opt_all (\<lambda>n. 1 \<le> n \<and> n \<le> 100) (ls_limit i) \<and>
     opt_all workflowIdSchema (ls_cursor i)"
| "inputSchema z (PrepareChange i) \<longleftrightarrow> workflowEnterpriseKeySchema (pi_enterpriseKey i) \<and> workflowChangeSchema z (pi_change i)"
| "inputSchema z (GetWorkflow ek t) \<longleftrightarrow> workflowEnterpriseKeySchema ek"
| "inputSchema z (SaveChange i) \<longleftrightarrow>
     workflowEnterpriseKeySchema (si_enterpriseKey i) \<and> workflowIdSchema (si_previewId i) \<and>
     workflowHashSchema (si_confirmationDigest i)"
| "inputSchema z (ManageInstallation w op) \<longleftrightarrow> workflowIdSchema w \<and> installOperationSchema z op"
| "inputSchema z (ManageMigration w op) \<longleftrightarrow> workflowIdSchema w \<and> migrationOperationSchema z op"
| "inputSchema z (ManageRun w op) \<longleftrightarrow> workflowIdSchema w \<and> runOperationSchema z op"
| "inputSchema z (CheckActions w bd intents) \<longleftrightarrow> workflowIdSchema w \<and> bindingSchema bd \<and> intentBatch z intents"
| "inputSchema z (RecordAction w op) \<longleftrightarrow> workflowIdSchema w \<and> actionOperationSchema z op"
| "inputSchema z (GetStatus i) \<longleftrightarrow> statusSchema i"

definition list_workflows :: "Actor \<Rightarrow> list_input \<Rightarrow> wf_db \<Rightarrow> workflow_error + wf_result" where
  "list_workflows actor inp db =
     (let mine = filter (\<lambda>w. wf_orgId w = ac_orgId actor \<and>
            (case ls_enterpriseKey inp of None \<Rightarrow> True | Some k \<Rightarrow> wf_enterpriseKey w = k)) (wd_workflows db);
          (rows, nextCursor) = ascending_page wf_id (page_limit (ls_limit inp)) (ls_cursor inp) mine in
      res_bind (res_mapM (\<lambda>w. view w db) rows) (\<lambda>vs.
      Inr (WorkflowList vs nextCursor (count_where (\<lambda>w. 0 < wf_version w) mine = 0))))"

fun run_tool ::
  "digest \<Rightarrow> zod_formats \<Rightarrow> wf_env \<Rightarrow> Actor \<Rightarrow> wf_call \<Rightarrow> AuthorizationSnapshot \<Rightarrow> wf_db \<Rightarrow> wf_result wtx" where
  "run_tool sha z e actor (ListWorkflows inp) auth db =
     res_bind (list_workflows actor inp db) (\<lambda>r. Inr (r, db))"
| "run_tool sha z e actor (PrepareChange inp) auth db =
     res_bind (ensureWorkflow e actor (pi_enterpriseKey inp) (pi_workflowType inp) db) (\<lambda>(w, db1).
     res_bind (lockWorkflow actor (wf_id w) db1) (\<lambda>workflow.
     res_bind (prepareChange sha e actor workflow inp db1) (\<lambda>(r, db2). Inr (ChangePrepared r, db2))))"
| "run_tool sha z e actor (GetWorkflow ek t) auth db =
     res_bind (or_else WORKFLOW_CONFIGURATION_REQUIRED (find_workflow_type (ac_orgId actor) ek t db)) (\<lambda>found.
     res_bind (lockWorkflow actor (wf_id found) db) (\<lambda>workflow.
     res_bind (view workflow db) (\<lambda>v. Inr (WorkflowShown v, db))))"
| "run_tool sha z e actor (SaveChange inp) auth db =
     res_bind (or_else WORKFLOW_CONFIGURATION_REQUIRED
       (find_workflow_type (ac_orgId actor) (si_enterpriseKey inp) (si_workflowType inp) db)) (\<lambda>found.
     res_bind (lockWorkflow actor (wf_id found) db) (\<lambda>workflow.
     res_bind (saveChange sha e actor workflow inp db) (\<lambda>(v, db1). Inr (WorkflowShown v, db1))))"
| "run_tool sha z e actor (ManageInstallation i op) auth db =
     res_bind (lockWorkflow actor i db) (\<lambda>workflow.
     res_bind (installOperation sha e actor workflow op db) (\<lambda>(r, db1). Inr (InstallationManaged r, db1)))"
| "run_tool sha z e actor (ManageMigration i op) auth db =
     res_bind (lockWorkflow actor i db) (\<lambda>workflow.
     res_bind (migrationOperation sha z e actor workflow op db) (\<lambda>(r, db1). Inr (MigrationManaged r, db1)))"
| "run_tool sha z e actor (ManageRun i op) auth db =
     res_bind (lockWorkflow actor i db) (\<lambda>workflow.
     res_bind (runOperation sha e actor auth workflow op db) (\<lambda>(r, db1). Inr (RunManaged r, db1)))"
| "run_tool sha z e actor (CheckActions i bd intents) auth db =
     res_bind (lockWorkflow actor i db) (\<lambda>workflow.
     res_bind (requireBinding e actor workflow bd True db) (\<lambda>bound.
     res_bind (res_forM (\<lambda>intent. authorizeAction actor auth workflow (bn_snapshot bound) intent (bn_livePolicy bound) db)
       intents) (\<lambda>_. Inr (ActionsAllowed, db))))"
| "run_tool sha z e actor (RecordAction i op) auth db =
     res_bind (lockWorkflow actor i db) (\<lambda>workflow.
     res_bind (actionOperation sha e actor auth workflow op db) (\<lambda>(r, db1). Inr (ActionRecorded r, db1)))"
| "run_tool sha z e actor (GetStatus inp) auth db =
     res_bind (lockWorkflow actor (gs_workflowId inp) db) (\<lambda>workflow.
     res_bind (workflow_status e actor workflow inp db) (\<lambda>v. Inr (StatusShown v, db)))"

definition execute ::
  "digest \<Rightarrow> zod_formats \<Rightarrow> wf_env \<Rightarrow> Actor \<Rightarrow> wf_call \<Rightarrow> wf_db \<Rightarrow> wf_result wtx" where
  "execute sha z e actor call db =
     transaction actor (\<lambda>auth db.
       res_bind (res_guard (\<not> inputSchema z call) SchemaError) (\<lambda>_. run_tool sha z e actor call auth db)) db"

text \<open>The status code of the HTTP route for a failed call; \<open>None\<close> is an error that is rethrown.\<close>

fun error_status :: "workflow_error \<Rightarrow> nat option" where
  "error_status WORKFLOW_ADMIN_REQUIRED = Some 403"
| "error_status WORKFLOW_PERMISSION_DENIED = Some 403"
| "error_status WORKFLOW_CONFIGURATION_REQUIRED = Some 404"
| "error_status WORKFLOW_SOURCE_MAPPING_CONFLICT = Some 409"
| "error_status WORKFLOW_VERSION_CONFLICT = Some 409"
| "error_status WORKFLOW_VERSION_INCOMPATIBLE = Some 409"
| "error_status WORKFLOW_INSTALLATION_MISMATCH = Some 409"
| "error_status WORKFLOW_SOURCE_UNAVAILABLE = Some 409"
| "error_status WORKFLOW_BUSY = Some 409"
| "error_status WORKFLOW_CONTROL_REVOKED = Some 409"
| "error_status WORKFLOW_ACTION_UNKNOWN = Some 409"
| "error_status UniqueViolation = Some 409"
| "error_status RecordNotFound = None"
| "error_status SchemaError = None"
| "error_status UncaughtError = None"

end
