(* ===== verification/Workflow_Protocol.thy ===== *)
theory Workflow_Protocol
  imports Workflow_Service
begin

text \<open>
  What the workflow services promise of their shared state, as an abstract machine. \<open>coord\<close> is
  the part of the database that coordinates installations, runs and actions; \<open>protocol_step\<close> are
  the changes it may undergo, each with the condition under which it is allowed. \<open>coord_inv\<close> holds
  of the empty state and is kept by every step. The argument \<open>F\<close> is the set of actions whose
  failure a step may record: only the recording of a failure gives deduplication keys back.
\<close>

section \<open>The coordinating state\<close>

record coord =
  co_workflows :: "workflow_row list"
  co_runs :: "run_row list"
  co_actions :: "action_row list"
  co_dedup :: "dedup_row list"

definition coord_of :: "wf_db \<Rightarrow> coord" where
  "coord_of db = \<lparr>co_workflows = wd_workflows db, co_runs = wd_runs db, co_actions = wd_actions db, co_dedup = wd_dedup db\<rparr>"

type_synonym action_name = "string \<times> string \<times> string"

definition action_name :: "action_row \<Rightarrow> action_name" where
  "action_name a = (at_orgId a, at_workflowId a, at_actionId a)"

definition dedup_name :: "dedup_row \<Rightarrow> action_name" where
  "dedup_name d = (dd_orgId d, dd_workflowId d, dd_actionId d)"

definition dedup_key :: "dedup_row \<Rightarrow> string \<times> string \<times> string" where
  "dedup_key d = (dd_orgId d, dd_workflowId d, dd_key d)"

section \<open>Steps\<close>

text \<open>A change of a workflow row that leaves assignment and lease alone.\<close>

definition same_assignment :: "workflow_row \<Rightarrow> workflow_row \<Rightarrow> bool" where
  "same_assignment w w' \<longleftrightarrow>
     wf_id w' = wf_id w \<and> wf_orgId w' = wf_orgId w \<and> wf_enterpriseKey w' = wf_enterpriseKey w \<and> wf_type w' = wf_type w \<and>
     wf_assignmentEpoch w' = wf_assignmentEpoch w \<and> wf_assignedInstallationId w' = wf_assignedInstallationId w \<and>
     wf_leaseRunId w' = wf_leaseRunId w \<and> wf_leaseExpiresAt w' = wf_leaseExpiresAt w"

text \<open>A change of a run row that leaves its binding alone.\<close>

definition same_binding :: "run_row \<Rightarrow> run_row \<Rightarrow> bool" where
  "same_binding r r' \<longleftrightarrow>
     rn_id r' = rn_id r \<and> rn_orgId r' = rn_orgId r \<and> rn_workflowId r' = rn_workflowId r \<and>
     rn_installationId r' = rn_installationId r \<and> rn_employeeId r' = rn_employeeId r \<and>
     rn_assignmentEpoch r' = rn_assignmentEpoch r \<and> rn_finishedAt r' = rn_finishedAt r"

definition owned_run :: "workflow_row \<Rightarrow> run_row \<Rightarrow> bool" where
  "owned_run w r \<longleftrightarrow> rn_orgId r = wf_orgId w \<and> rn_workflowId r = wf_id w \<and> rn_finishedAt r = None"

definition assigned_run :: "workflow_row \<Rightarrow> run_row \<Rightarrow> bool" where
  "assigned_run w r \<longleftrightarrow> owned_run w r \<and> wf_assignedInstallationId w = Some (rn_installationId r) \<and>
     rn_assignmentEpoch r = wf_assignmentEpoch w"

definition with_lease :: "string option \<Rightarrow> time_ms option \<Rightarrow> workflow_row \<Rightarrow> workflow_row" where
  "with_lease r t w = w\<lparr>wf_leaseRunId := r, wf_leaseExpiresAt := t\<rparr>"

definition map_workflow :: "string \<Rightarrow> (workflow_row \<Rightarrow> workflow_row) \<Rightarrow> coord \<Rightarrow> coord" where
  "map_workflow i d c = c\<lparr>co_workflows := update_where (\<lambda>w. wf_id w = i) d (co_workflows c)\<rparr>"

definition add_keys :: "action_name \<Rightarrow> string list \<Rightarrow> coord \<Rightarrow> coord" where
  "add_keys n keys c = c\<lparr>co_dedup := co_dedup c @ map (\<lambda>key.
     \<lparr>dd_orgId = fst n, dd_workflowId = fst (snd n), dd_key = key, dd_actionId = snd (snd n)\<rparr>) keys\<rparr>"

definition keys_free :: "action_name \<Rightarrow> string list \<Rightarrow> coord \<Rightarrow> bool" where
  "keys_free n keys c \<longleftrightarrow> distinct keys \<and>
     (\<forall>d\<in>set (co_dedup c). dd_orgId d = fst n \<longrightarrow> dd_workflowId d = fst (snd n) \<longrightarrow> dd_key d \<notin> set keys)"

inductive protocol_step :: "action_name set \<Rightarrow> coord \<Rightarrow> coord \<Rightarrow> bool" for F where
  control: "(\<And>w. same_assignment w (d w)) \<Longrightarrow> protocol_step F c (map_workflow i d c)"
| create: "i \<notin> wf_id ` set (co_workflows c) \<Longrightarrow>
    protocol_step F c (c\<lparr>co_workflows := co_workflows c @ [new_workflow i orgId ek t]\<rparr>)"
| annotate: "(\<And>r. r \<in> set (co_runs c) \<Longrightarrow> p r \<Longrightarrow> same_binding r (d r)) \<Longrightarrow>
    protocol_step F c (c\<lparr>co_runs := update_where p d (co_runs c)\<rparr>)"
| start: "w \<in> set (co_workflows c) \<Longrightarrow> assigned_run w r \<Longrightarrow> rn_id r \<notin> rn_id ` set (co_runs c) \<Longrightarrow>
    \<not> (\<exists>r'\<in>set (co_runs c). owned_run w r') \<Longrightarrow>
    protocol_step F c (map_workflow (wf_id w) (with_lease (Some (rn_id r)) t) (c\<lparr>co_runs := co_runs c @ [r]\<rparr>))"
| lease: "w \<in> set (co_workflows c) \<Longrightarrow> r \<in> set (co_runs c) \<Longrightarrow> assigned_run w r \<Longrightarrow>
    protocol_step F c (map_workflow (wf_id w) (with_lease (Some (rn_id r)) t) c)"
| release: "protocol_step F c (map_workflow i (with_lease None None) c)"
| finish: "w \<in> set (co_workflows c) \<Longrightarrow> r \<in> set (co_runs c) \<Longrightarrow> owned_run w r \<Longrightarrow>
    (\<And>r. rn_id (d r) = rn_id r \<and> rn_orgId (d r) = rn_orgId r \<and> rn_workflowId (d r) = rn_workflowId r \<and>
       rn_finishedAt (d r) \<noteq> None) \<Longrightarrow>
    protocol_step F c (map_workflow (wf_id w) (with_lease None None)
      (c\<lparr>co_runs := update_where (\<lambda>r'. rn_id r' = rn_id r) d (co_runs c)\<rparr>))"
| reassign: "w \<in> set (co_workflows c) \<Longrightarrow>
    protocol_step F c
      (map_workflow (wf_id w) (\<lambda>w. w\<lparr>wf_assignedInstallationId := Some i, wf_assignmentEpoch := wf_assignmentEpoch w + 1,
           wf_leaseRunId := None, wf_leaseExpiresAt := None\<rparr>)
        (c\<lparr>co_runs := update_where (owned_run w)
             (\<lambda>r. r\<lparr>rn_installationId := i, rn_employeeId := emp, rn_assignmentEpoch := wf_assignmentEpoch w + 1,
                rn_controlVersion := cv\<rparr>) (co_runs c),
           co_actions := update_where (\<lambda>a. at_orgId a = wf_orgId w \<and> at_workflowId a = wf_id w \<and> at_state a = ac_intent)
             (\<lambda>a. a\<lparr>at_state := ac_unknown, at_updatedAt := clk\<rparr>) (co_actions c)\<rparr>))"
| claim: "action_name a \<notin> action_name ` set (co_actions c) \<Longrightarrow> keys_free (action_name a) keys c \<Longrightarrow>
    protocol_step F c (add_keys (action_name a) keys (c\<lparr>co_actions := co_actions c @ [a]\<rparr>))"
| reclaim: "a \<in> set (co_actions c) \<Longrightarrow> at_state a = ac_failed \<Longrightarrow> keys_free (action_name a) keys c \<Longrightarrow>
    (\<And>a. action_name (d a) = action_name a \<and> at_state (d a) = ac_intent) \<Longrightarrow>
    protocol_step F c (add_keys (action_name a) keys
      (c\<lparr>co_actions := update_where (\<lambda>b. action_name b = action_name a) d (co_actions c)\<rparr>))"
| settle: "a \<in> set (co_actions c) \<Longrightarrow> at_state a \<noteq> ac_confirmed \<Longrightarrow>
    (\<And>a. action_name (d a) = action_name a \<and> at_state (d a) \<noteq> ac_failed) \<Longrightarrow>
    protocol_step F c (c\<lparr>co_actions := update_where (\<lambda>b. action_name b = action_name a) d (co_actions c)\<rparr>)"
| fail: "a \<in> set (co_actions c) \<Longrightarrow> at_state a \<noteq> ac_confirmed \<Longrightarrow> action_name a \<in> F \<Longrightarrow>
    (\<And>a. action_name (d a) = action_name a \<and> at_state (d a) = ac_failed) \<Longrightarrow>
    protocol_step F c (c\<lparr>co_actions := update_where (\<lambda>b. action_name b = action_name a) d (co_actions c),
      co_dedup := delete_where (\<lambda>k. dedup_name k = action_name a) (co_dedup c)\<rparr>)"
| prune: "(\<And>r. p r \<Longrightarrow> rn_finishedAt r \<noteq> None) \<Longrightarrow>
    protocol_step F c (c\<lparr>co_runs := delete_where p (co_runs c)\<rparr>)"

lemma protocol_mono: "protocol_step F c c' \<Longrightarrow> F \<subseteq> G \<Longrightarrow> protocol_step G c c'"
proof (induction rule: protocol_step.induct)
  case (fail a c d)
  then show ?case by (intro protocol_step.fail) auto
qed (rule protocol_step.intros; assumption)+

section \<open>The invariant\<close>

text \<open>
  An unfinished run belongs to the current assignment of its workflow, a workflow has at most one
  unfinished run, and a lease names the unfinished run of its workflow.
\<close>

definition run_inv :: "workflow_row list \<Rightarrow> run_row list \<Rightarrow> bool" where
  "run_inv ws rs \<longleftrightarrow>
     (\<forall>r\<in>set rs. rn_finishedAt r = None \<longrightarrow> (\<exists>w\<in>set ws. assigned_run w r)) \<and>
     (\<forall>r\<in>set rs. \<forall>r'\<in>set rs. rn_finishedAt r = None \<longrightarrow> rn_finishedAt r' = None \<longrightarrow>
        rn_workflowId r = rn_workflowId r' \<longrightarrow> r = r') \<and>
     (\<forall>w\<in>set ws. \<forall>i. wf_leaseRunId w = Some i \<longrightarrow> (\<exists>r\<in>set rs. rn_id r = i \<and> owned_run w r))"

definition key_inv :: "action_row list \<Rightarrow> dedup_row list \<Rightarrow> bool" where
  "key_inv as ds \<longleftrightarrow>
     distinct (map action_name as) \<and> distinct (map dedup_key ds) \<and>
     (\<forall>k\<in>set ds. dedup_name k \<in> action_name ` set as)"

definition coord_inv :: "coord \<Rightarrow> bool" where
  "coord_inv c \<longleftrightarrow>
     distinct (map wf_id (co_workflows c)) \<and> distinct (map rn_id (co_runs c)) \<and>
     run_inv (co_workflows c) (co_runs c) \<and> key_inv (co_actions c) (co_dedup c)"

lemma run_inv_unique:
  "run_inv ws rs \<Longrightarrow> r \<in> set rs \<Longrightarrow> r' \<in> set rs \<Longrightarrow> rn_finishedAt r = None \<Longrightarrow> rn_finishedAt r' = None \<Longrightarrow>
     rn_workflowId r = rn_workflowId r' \<Longrightarrow> r = r'"
  unfolding run_inv_def by blast

lemma run_inv_assigned:
  assumes "run_inv ws rs" "r \<in> set rs" "rn_finishedAt r = None"
  obtains w where "w \<in> set ws" "assigned_run w r"
  using assms unfolding run_inv_def by blast

lemma run_inv_lease:
  assumes "run_inv ws rs" "w \<in> set ws" "wf_leaseRunId w = Some i"
  obtains r where "r \<in> set rs" "rn_id r = i" "owned_run w r"
  using assms unfolding run_inv_def by blast

lemma distinct_same: "distinct (map f xs) \<Longrightarrow> x \<in> set xs \<Longrightarrow> y \<in> set xs \<Longrightarrow> f x = f y \<Longrightarrow> x = y"
  by (auto simp: distinct_map dest: inj_onD)

subsection \<open>Workflows and runs\<close>

lemma same_assignment_runs:
  assumes "same_assignment w w'"
  shows "owned_run w' r \<longleftrightarrow> owned_run w r" "assigned_run w' r \<longleftrightarrow> assigned_run w r"
    "wf_leaseRunId w' = wf_leaseRunId w"
  using assms by (auto simp: same_assignment_def owned_run_def assigned_run_def)

lemma same_binding_runs:
  assumes "same_binding r r'"
  shows "owned_run w r' \<longleftrightarrow> owned_run w r" "assigned_run w r' \<longleftrightarrow> assigned_run w r" "rn_id r' = rn_id r"
    "rn_finishedAt r' = rn_finishedAt r" "rn_workflowId r' = rn_workflowId r"
  using assms by (auto simp: same_binding_def owned_run_def assigned_run_def)

lemma with_lease_runs [simp]:
  "owned_run (with_lease l t w) r \<longleftrightarrow> owned_run w r" "assigned_run (with_lease l t w) r \<longleftrightarrow> assigned_run w r"
  "wf_leaseRunId (with_lease l t w) = l" "wf_id (with_lease l t w) = wf_id w"
  by (simp_all add: owned_run_def assigned_run_def with_lease_def)

lemma run_invI:
  assumes "\<And>r. r \<in> set rs \<Longrightarrow> rn_finishedAt r = None \<Longrightarrow> \<exists>w\<in>set ws. assigned_run w r"
    and "\<And>r r'. r \<in> set rs \<Longrightarrow> r' \<in> set rs \<Longrightarrow> rn_finishedAt r = None \<Longrightarrow> rn_finishedAt r' = None \<Longrightarrow>
      rn_workflowId r = rn_workflowId r' \<Longrightarrow> r = r'"
    and "\<And>w i. w \<in> set ws \<Longrightarrow> wf_leaseRunId w = Some i \<Longrightarrow> \<exists>r\<in>set rs. rn_id r = i \<and> owned_run w r"
  shows "run_inv ws rs"
  unfolding run_inv_def using assms by blast

lemma run_inv_map:
  assumes "run_inv ws rs"
    and "\<And>w r. w \<in> set ws \<Longrightarrow> assigned_run (f w) r = assigned_run w r"
    and "\<And>w i. w \<in> set ws \<Longrightarrow> wf_leaseRunId (f w) = Some i \<Longrightarrow> \<exists>r\<in>set rs. rn_id r = i \<and> owned_run (f w) r"
  shows "run_inv (map f ws) rs"
proof (rule run_invI)
  fix r
  assume "r \<in> set rs" "rn_finishedAt r = None"
  then obtain w where "w \<in> set ws" "assigned_run w r"
    by (rule run_inv_assigned [OF assms(1)])
  then show "\<exists>w\<in>set (map f ws). assigned_run w r"
    using assms(2) by auto
next
  fix w i
  assume "w \<in> set (map f ws)" "wf_leaseRunId w = Some i"
  then show "\<exists>r\<in>set rs. rn_id r = i \<and> owned_run w r"
    using assms(3) by auto
qed (rule run_inv_unique [OF assms(1)])

lemma run_inv_workflows:
  assumes "run_inv ws rs" "\<And>w. w \<in> set ws \<Longrightarrow> same_assignment w (f w)"
  shows "run_inv (map f ws) rs"
proof (rule run_inv_map [OF assms(1)])
  fix w i
  assume w: "w \<in> set ws" "wf_leaseRunId (f w) = Some i"
  then obtain r where "r \<in> set rs" "rn_id r = i" "owned_run w r"
    using run_inv_lease [OF assms(1)] same_assignment_runs(3) [OF assms(2)] by metis
  then show "\<exists>r\<in>set rs. rn_id r = i \<and> owned_run (f w) r"
    using same_assignment_runs(1) [OF assms(2) [OF w(1)]] by auto
qed (use same_assignment_runs(2) [OF assms(2)] in simp)

lemma run_inv_runs:
  assumes "run_inv ws rs" "\<And>r. r \<in> set rs \<Longrightarrow> same_binding r (f r)"
  shows "run_inv ws (map f rs)"
proof -
  have 1: "\<exists>w\<in>set ws. assigned_run w (f r)" if "r \<in> set rs" "rn_finishedAt (f r) = None" for r
    using that assms(2) [OF that(1)] run_inv_assigned [OF assms(1) that(1)] by (metis same_binding_runs(2,4))
  have 2: "f r = f r'" if "r \<in> set rs" "r' \<in> set rs" "rn_finishedAt (f r) = None" "rn_finishedAt (f r') = None"
    "rn_workflowId (f r) = rn_workflowId (f r')" for r r'
    using that assms run_inv_unique [OF assms(1) that(1,2)] by (metis same_binding_runs(4,5))
  have 3: "\<exists>r\<in>set rs. rn_id (f r) = i \<and> owned_run w (f r)" if "w \<in> set ws" "wf_leaseRunId w = Some i" for w i
    using run_inv_lease [OF assms(1) that] assms(2) by (metis same_binding_runs(1,3))
  show ?thesis
    unfolding run_inv_def using 1 2 3 by auto
qed

lemma run_inv_lease_set:
  assumes "run_inv ws rs" "\<And>w i. w \<in> set ws \<Longrightarrow> p w \<Longrightarrow> l = Some i \<Longrightarrow> \<exists>r\<in>set rs. rn_id r = i \<and> owned_run w r"
  shows "run_inv (update_where p (with_lease l t) ws) rs"
  unfolding update_where_def
proof (rule run_inv_map [OF assms(1)])
  fix w i
  assume "w \<in> set ws" "wf_leaseRunId (if p w then with_lease l t w else w) = Some i"
  then show "\<exists>r\<in>set rs. rn_id r = i \<and> owned_run (if p w then with_lease l t w else w) r"
    using assms(2) [of w i] run_inv_lease [OF assms(1), of w i] by (cases "p w") auto
qed simp

lemma run_inv_create_workflow:
  assumes "run_inv ws rs" "wf_leaseRunId w = None"
  shows "run_inv (ws @ [w]) rs"
  using assms unfolding run_inv_def by (auto simp del: split_paired_All)

lemma run_inv_create_run:
  assumes "run_inv ws rs" "w \<in> set ws" "assigned_run w r" "\<not> (\<exists>r'\<in>set rs. owned_run w r')"
    "distinct (map wf_id ws)"
  shows "run_inv ws (rs @ [r])"
proof -
  have alone: "rn_workflowId r' \<noteq> rn_workflowId r" if r': "r' \<in> set rs" "rn_finishedAt r' = None" for r'
  proof
    assume same: "rn_workflowId r' = rn_workflowId r"
    obtain w' where w': "w' \<in> set ws" "assigned_run w' r'"
      by (rule run_inv_assigned [OF assms(1) r'])
    then have "wf_id w' = wf_id w"
      using same assms(3) by (simp add: assigned_run_def owned_run_def)
    then have "w' = w"
      using distinct_same [OF assms(5) w'(1) assms(2)] by simp
    then show False
      using w'(2) assms(4) r'(1) by (auto simp: assigned_run_def)
  qed
  have "\<exists>w\<in>set ws. assigned_run w r'" if "r' \<in> set (rs @ [r])" "rn_finishedAt r' = None" for r'
    using that assms(2,3) run_inv_assigned [OF assms(1)] by auto
  moreover have "a = b" if "a \<in> set (rs @ [r])" "b \<in> set (rs @ [r])" "rn_finishedAt a = None" "rn_finishedAt b = None"
    "rn_workflowId a = rn_workflowId b" for a b
  proof (cases "a = r \<or> b = r")
    case True
    then show ?thesis using that alone [of a] alone [of b] by fastforce
  next
    case False
    then show ?thesis using that run_inv_unique [OF assms(1)] by auto
  qed
  moreover have "\<exists>r'\<in>set (rs @ [r]). rn_id r' = i \<and> owned_run w' r'" if "w' \<in> set ws" "wf_leaseRunId w' = Some i" for w' i
    using run_inv_lease [OF assms(1) that] by auto
  ultimately show ?thesis
    unfolding run_inv_def by blast
qed

lemma run_inv_finish:
  assumes inv: "run_inv ws rs" and "w \<in> set ws" "r \<in> set rs" "owned_run w r"
    and dist: "distinct (map wf_id ws)" "distinct (map rn_id rs)"
    and d: "\<And>r. rn_id (d r) = rn_id r \<and> rn_orgId (d r) = rn_orgId r \<and> rn_workflowId (d r) = rn_workflowId r \<and>
      rn_finishedAt (d r) \<noteq> None"
  shows "run_inv (update_where (\<lambda>w'. wf_id w' = wf_id w) (with_lease None None) ws)
    (update_where (\<lambda>r'. rn_id r' = rn_id r) d rs)" (is "run_inv ?ws ?rs")
proof (rule run_invI)
  have old: "r' \<in> set rs" if r': "r' \<in> set ?rs" "rn_finishedAt r' = None" for r'
  proof -
    obtain r0 where r0: "r0 \<in> set rs" "r' = (if rn_id r0 = rn_id r then d r0 else r0)"
      using r'(1) unfolding mem_update_where by blast
    then have "r' = r0"
      using r'(2) d [of r0] by (metis (full_types))
    with r0 show ?thesis by simp
  qed
  show "\<exists>w\<in>set ?ws. assigned_run w r'" if r': "r' \<in> set ?rs" "rn_finishedAt r' = None" for r'
  proof -
    obtain w' where "w' \<in> set ws" "assigned_run w' r'"
      by (rule run_inv_assigned [OF inv old [OF r'] r'(2)])
    then have "(if wf_id w' = wf_id w then with_lease None None w' else w') \<in> set ?ws"
        "assigned_run (if wf_id w' = wf_id w then with_lease None None w' else w') r'"
      unfolding mem_update_where by auto
    then show ?thesis by blast
  qed
  show "a = b" if "a \<in> set ?rs" "b \<in> set ?rs" "rn_finishedAt a = None" "rn_finishedAt b = None"
    "rn_workflowId a = rn_workflowId b" for a b
    using run_inv_unique [OF inv old [OF that(1,3)] old [OF that(2,4)]] that(3-5) by simp
  show "\<exists>r'\<in>set ?rs. rn_id r' = i \<and> owned_run w' r'" if w': "w' \<in> set ?ws" "wf_leaseRunId w' = Some i" for w' i
  proof -
    have mem: "w' \<in> set ws" and other: "wf_id w' \<noteq> wf_id w"
      using w' by (force simp: mem_update_where split: if_split_asm dest: arg_cong [of _ _ wf_leaseRunId])+
    obtain r2 where r2: "r2 \<in> set rs" "rn_id r2 = i" "owned_run w' r2"
      by (rule run_inv_lease [OF inv mem w'(2)])
    have "rn_id r2 \<noteq> rn_id r"
      using distinct_same [OF dist(2) r2(1) assms(3)] r2(3) assms(4) other by (auto simp: owned_run_def)
    with r2 show ?thesis
      by (auto intro: update_where_keeps)
  qed
qed

lemma run_inv_prune:
  assumes "run_inv ws rs" "\<And>r. p r \<Longrightarrow> rn_finishedAt r \<noteq> None"
  shows "run_inv ws (delete_where p rs)"
proof (rule run_invI)
  show "\<exists>r\<in>set (delete_where p rs). rn_id r = i \<and> owned_run w r" if w: "w \<in> set ws" "wf_leaseRunId w = Some i" for w i
  proof -
    obtain r where r: "r \<in> set rs" "rn_id r = i" "owned_run w r"
      by (rule run_inv_lease [OF assms(1) w])
    then have "\<not> p r"
      using assms(2) [of r] by (auto simp: owned_run_def)
    with r show ?thesis
      by (auto simp: set_delete_where)
  qed
  show "\<exists>w\<in>set ws. assigned_run w r" if r: "r \<in> set (delete_where p rs)" "rn_finishedAt r = None" for r
  proof -
    have "r \<in> set rs"
      using r(1) by (simp add: set_delete_where)
    then obtain w where "w \<in> set ws" "assigned_run w r"
      by (rule run_inv_assigned [OF assms(1) _ r(2)])
    then show ?thesis by blast
  qed
  show "r = r'" if "r \<in> set (delete_where p rs)" "r' \<in> set (delete_where p rs)" "rn_finishedAt r = None"
    "rn_finishedAt r' = None" "rn_workflowId r = rn_workflowId r'" for r r'
    using run_inv_unique [OF assms(1) _ _ that(3-5)] that(1,2) by (simp add: set_delete_where)
qed

lemma run_inv_reassign:
  assumes inv: "run_inv ws rs" and "w \<in> set ws" and dist: "distinct (map wf_id ws)"
    and g: "\<And>r. owned_run w r \<Longrightarrow> rn_id (g r) = rn_id r \<and> assigned_run (f w) (g r)"
    and f: "wf_id (f w) = wf_id w" "wf_leaseRunId (f w) = None"
  shows "run_inv (update_where (\<lambda>w'. wf_id w' = wf_id w) f ws) (update_where (owned_run w) g rs)"
    (is "run_inv ?ws ?rs")
proof (rule run_invI)
  have self: "w' = w" if "w' \<in> set ws" "wf_id w' = wf_id w" for w'
    using distinct_same [OF dist that(1) assms(2) that(2)] .
  have wf: "rn_workflowId (g r) = wf_id w" "rn_finishedAt (g r) = None" if "owned_run w r" for r
    using g [OF that] f(1) by (simp_all add: assigned_run_def owned_run_def)
  have open_iff: "rn_finishedAt (if owned_run w r then g r else r) = None \<longleftrightarrow> rn_finishedAt r = None"
      "rn_workflowId (if owned_run w r then g r else r) = rn_workflowId r" for r
    using wf [of r] by (auto simp: owned_run_def)
  show "\<exists>w\<in>set ?ws. assigned_run w r'" if r': "r' \<in> set ?rs" "rn_finishedAt r' = None" for r'
  proof -
    obtain r where r: "r \<in> set rs" "r' = (if owned_run w r then g r else r)"
      using r'(1) unfolding mem_update_where by blast
    then have "rn_finishedAt r = None"
      using r'(2) open_iff(1) by simp
    then obtain w' where w': "w' \<in> set ws" "assigned_run w' r"
      using run_inv_assigned [OF inv r(1)] by blast
    show ?thesis
    proof (cases "owned_run w r")
      case True
      then have "f w \<in> set ?ws" "assigned_run (f w) r'"
        using assms(2) g r(2) by (auto simp: set_update_where)
      then show ?thesis by blast
    next
      case False
      then have "wf_id w' \<noteq> wf_id w"
        using self w' by (auto simp: assigned_run_def)
      then show ?thesis
        using w' r(2) False by (auto intro: update_where_keeps)
    qed
  qed
  show "a' = b'" if ab: "a' \<in> set ?rs" "b' \<in> set ?rs" "rn_finishedAt a' = None" "rn_finishedAt b' = None"
    "rn_workflowId a' = rn_workflowId b'" for a' b'
  proof -
    obtain a b where "a \<in> set rs" "a' = (if owned_run w a then g a else a)"
      and "b \<in> set rs" "b' = (if owned_run w b then g b else b)"
      using ab(1,2) unfolding mem_update_where by blast
    then show ?thesis
      using run_inv_unique [OF inv, of a b] ab(3-5) open_iff by metis
  qed
  show "\<exists>r'\<in>set ?rs. rn_id r' = i \<and> owned_run w' r'" if w': "w' \<in> set ?ws" "wf_leaseRunId w' = Some i" for w' i
  proof -
    obtain w0 where w0: "w0 \<in> set ws" "w' = (if wf_id w0 = wf_id w then f w0 else w0)"
      using w'(1) unfolding mem_update_where by blast
    have "wf_id w0 \<noteq> wf_id w"
      using w0 self [OF w0(1)] f(2) w'(2) by (metis option.discI)
    then have "w' = w0" by (simp add: w0)
    then obtain r where r: "r \<in> set rs" "rn_id r = i" "owned_run w' r"
      using run_inv_lease [OF inv w0(1)] w'(2) by metis
    then have "\<not> owned_run w r"
      using \<open>w' = w0\<close> \<open>wf_id w0 \<noteq> wf_id w\<close> by (auto simp: owned_run_def)
    with r show ?thesis
      by (auto intro: update_where_keeps)
  qed
qed

subsection \<open>Actions and keys\<close>

lemma dedup_key_added:
  "dedup_key \<lparr>dd_orgId = fst n, dd_workflowId = fst (snd n), dd_key = key, dd_actionId = snd (snd n)\<rparr> = (fst n, fst (snd n), key)"
  "dedup_name \<lparr>dd_orgId = fst n, dd_workflowId = fst (snd n), dd_key = key, dd_actionId = snd (snd n)\<rparr> = n"
  by (simp_all add: dedup_key_def dedup_name_def)

lemma key_inv_add:
  assumes "key_inv as (co_dedup c)" "keys_free n keys c" "n \<in> action_name ` set as"
  shows "key_inv as (co_dedup (add_keys n keys c))"
proof -
  have "distinct (map (\<lambda>k. (fst n, fst (snd n), k)) keys)"
    using assms(2) by (auto simp: keys_free_def distinct_map intro: inj_onI)
  moreover have "(fst n, fst (snd n), k) \<notin> dedup_key ` set (co_dedup c)" if "k \<in> set keys" for k
    using assms(2) that unfolding keys_free_def dedup_key_def image_iff by auto
  ultimately show ?thesis
    using assms(1,3) unfolding key_inv_def add_keys_def
    by (auto simp: dedup_key_added o_def)
qed

lemma key_inv_actions:
  assumes "key_inv as ds" "map action_name as' = map action_name as @ ns" "distinct ns" "set ns \<inter> action_name ` set as = {}"
  shows "key_inv as' ds"
proof -
  have "action_name ` set as' = action_name ` set as \<union> set ns"
    using assms(2) by (metis set_append set_map)
  then show ?thesis
    using assms unfolding key_inv_def by auto
qed

lemma key_inv_delete: "key_inv as ds \<Longrightarrow> key_inv as (delete_where p ds)"
  unfolding key_inv_def by (auto simp: set_delete_where distinct_map_delete)

section \<open>Every step keeps the invariant\<close>

lemma map_workflow_parts [simp]:
  "co_workflows (map_workflow i d c) = update_where (\<lambda>w. wf_id w = i) d (co_workflows c)"
  "co_runs (map_workflow i d c) = co_runs c" "co_actions (map_workflow i d c) = co_actions c"
  "co_dedup (map_workflow i d c) = co_dedup c"
  by (simp_all add: map_workflow_def)

lemma add_keys_parts [simp]:
  "co_workflows (add_keys n keys c) = co_workflows c" "co_runs (add_keys n keys c) = co_runs c"
  "co_actions (add_keys n keys c) = co_actions c"
  by (simp_all add: add_keys_def)

lemma coord_inv_empty: "coord_inv \<lparr>co_workflows = [], co_runs = [], co_actions = [], co_dedup = []\<rparr>"
  by (simp add: coord_inv_def run_inv_def key_inv_def)

lemma update_where_cong:
  "(\<And>r. r \<in> set rows \<Longrightarrow> w r = w' r) \<Longrightarrow> update_where w d rows = update_where w' d rows"
  by (simp add: update_where_def)

lemma coord_inv_runs:
  assumes "coord_inv c" "map rn_id rs = map rn_id (co_runs c)" "run_inv ws rs"
    "map wf_id ws = map wf_id (co_workflows c)"
  shows "coord_inv (c\<lparr>co_workflows := ws, co_runs := rs\<rparr>)"
  using assms by (simp add: coord_inv_def)

lemma coord_inv_step:
  assumes "protocol_step F c c'" "coord_inv c"
  shows "coord_inv c'"
proof -
  note parts = assms(2) [unfolded coord_inv_def]
  have run: "run_inv (co_workflows c) (co_runs c)" and key: "key_inv (co_actions c) (co_dedup c)"
    and dw: "distinct (map wf_id (co_workflows c))" and dr: "distinct (map rn_id (co_runs c))"
    using parts by simp_all
  from assms(1) show ?thesis
  proof cases
    case (control d i)
    have "run_inv (update_where (\<lambda>w. wf_id w = i) d (co_workflows c)) (co_runs c)"
      unfolding update_where_def by (rule run_inv_workflows [OF run]) (simp add: control(2), simp add: same_assignment_def)
    with control key dw dr show ?thesis
      by (simp add: coord_inv_def same_assignment_def)
  next
    case (create i orgId ek t)
    with key dw dr show ?thesis
      by (simp add: coord_inv_def run_inv_create_workflow [OF run] new_workflow_def)
  next
    case (annotate p d)
    have "run_inv (co_workflows c) (update_where p d (co_runs c))"
      unfolding update_where_def by (rule run_inv_runs [OF run]) (simp add: annotate(2), simp add: same_binding_def)
    moreover have "map rn_id (update_where p d (co_runs c)) = map rn_id (co_runs c)"
      using annotate(2) by (auto simp: update_where_def same_binding_def)
    ultimately show ?thesis
      using annotate(1) key dw dr by (simp add: coord_inv_def)
  next
    case (start w r t)
    have "run_inv (update_where (\<lambda>x. wf_id x = wf_id w) (with_lease (Some (rn_id r)) t) (co_workflows c)) (co_runs c @ [r])"
    proof (rule run_inv_lease_set)
      show "run_inv (co_workflows c) (co_runs c @ [r])"
        by (rule run_inv_create_run [OF run start(2,3) _ dw]) (use start(5) in simp)
      show "\<exists>r'\<in>set (co_runs c @ [r]). rn_id r' = j \<and> owned_run x r'"
        if "x \<in> set (co_workflows c)" "wf_id x = wf_id w" "Some (rn_id r) = Some j" for x j
        using distinct_same [OF dw that(1) start(2) that(2)] that(3) start(3) by (simp add: assigned_run_def)
    qed
    with start key dw dr show ?thesis
      by (simp add: coord_inv_def)
  next
    case (lease w r t)
    have "run_inv (update_where (\<lambda>x. wf_id x = wf_id w) (with_lease (Some (rn_id r)) t) (co_workflows c)) (co_runs c)"
    proof (rule run_inv_lease_set [OF run])
      show "\<exists>r'\<in>set (co_runs c). rn_id r' = j \<and> owned_run x r'"
        if "x \<in> set (co_workflows c)" "wf_id x = wf_id w" "Some (rn_id r) = Some j" for x j
        using distinct_same [OF dw that(1) lease(2) that(2)] that(3) lease(3,4) by (auto simp: assigned_run_def)
    qed
    with lease key dw dr show ?thesis
      by (simp add: coord_inv_def)
  next
    case (release i)
    have "run_inv (update_where (\<lambda>w. wf_id w = i) (with_lease None None) (co_workflows c)) (co_runs c)"
      by (rule run_inv_lease_set [OF run]) simp
    with release key dw dr show ?thesis
      by (simp add: coord_inv_def)
  next
    case (finish w r d)
    have "run_inv (update_where (\<lambda>w'. wf_id w' = wf_id w) (with_lease None None) (co_workflows c))
        (update_where (\<lambda>r'. rn_id r' = rn_id r) d (co_runs c))"
      by (rule run_inv_finish [OF run finish(2-4) dw dr finish(5)])
    with finish key dw dr show ?thesis
      by (simp add: coord_inv_def)
  next
    case (reassign w i clk cv emp)
    let ?f = "\<lambda>w. w\<lparr>wf_assignedInstallationId := Some i, wf_assignmentEpoch := wf_assignmentEpoch w + 1,
        wf_leaseRunId := None, wf_leaseExpiresAt := None\<rparr>"
    let ?g = "\<lambda>r. r\<lparr>rn_installationId := i, rn_employeeId := emp, rn_assignmentEpoch := wf_assignmentEpoch w + 1,
        rn_controlVersion := cv\<rparr>"
    let ?as = "update_where (\<lambda>a. at_orgId a = wf_orgId w \<and> at_workflowId a = wf_id w \<and> at_state a = ac_intent)
      (\<lambda>a. a\<lparr>at_state := ac_unknown, at_updatedAt := clk\<rparr>) (co_actions c)"
    have "run_inv (update_where (\<lambda>x. wf_id x = wf_id w) ?f (co_workflows c)) (update_where (owned_run w) ?g (co_runs c))"
      by (rule run_inv_reassign [OF run reassign(2) dw]) (simp_all add: assigned_run_def owned_run_def)
    moreover have "key_inv ?as (co_dedup c)"
      by (rule key_inv_actions [OF key, where ns = "[]"]) (simp_all add: action_name_def)
    ultimately show ?thesis
      using reassign(1) dw dr by (simp add: coord_inv_def)
  next
    case (claim a keys)
    have "key_inv (co_actions c @ [a]) (co_dedup c)"
      by (rule key_inv_actions [OF key, where ns = "[action_name a]"]) (use claim(2) in simp_all)
    then have "key_inv (co_actions c @ [a]) (co_dedup (add_keys (action_name a) keys (c\<lparr>co_actions := co_actions c @ [a]\<rparr>)))"
      by (intro key_inv_add) (use claim(3) in \<open>simp_all add: keys_free_def\<close>)
    with claim run dw dr show ?thesis
      by (simp add: coord_inv_def)
  next
    case (reclaim a keys d)
    let ?as = "update_where (\<lambda>b. action_name b = action_name a) d (co_actions c)"
    have names: "map action_name ?as = map action_name (co_actions c)"
      using reclaim(5) by simp
    have "key_inv ?as (co_dedup c)"
      by (rule key_inv_actions [OF key, where ns = "[]"]) (use names in simp_all)
    moreover have "action_name a \<in> action_name ` set ?as"
      using names reclaim(2) by (metis image_eqI set_map)
    ultimately have "key_inv ?as (co_dedup (add_keys (action_name a) keys (c\<lparr>co_actions := ?as\<rparr>)))"
      by (intro key_inv_add) (use reclaim(4) in \<open>simp_all add: keys_free_def\<close>)
    with reclaim run dw dr show ?thesis
      by (simp add: coord_inv_def)
  next
    case (settle a d)
    have "key_inv (update_where (\<lambda>b. action_name b = action_name a) d (co_actions c)) (co_dedup c)"
      by (rule key_inv_actions [OF key, where ns = "[]"]) (use settle(4) in simp_all)
    with settle run dw dr show ?thesis
      by (simp add: coord_inv_def)
  next
    case (fail a d)
    have "key_inv (update_where (\<lambda>b. action_name b = action_name a) d (co_actions c)) (co_dedup c)"
      by (rule key_inv_actions [OF key, where ns = "[]"]) (use fail(5) in simp_all)
    with fail run dw dr show ?thesis
      by (simp add: coord_inv_def key_inv_delete)
  next
    case (prune p)
    with key dw dr show ?thesis
      by (simp add: coord_inv_def run_inv_prune [OF run] distinct_map_delete)
  qed
qed

section \<open>What steps never undo\<close>

text \<open>
  \<open>fenced i n\<close>: the workflow \<open>i\<close> has left the assignment epoch \<open>n\<close>. \<open>settled n rc\<close>: the action \<open>n\<close>
  is confirmed by the receipt \<open>rc\<close>. \<open>holds n key\<close>: the action \<open>n\<close> holds a deduplication key.
\<close>

definition fenced :: "string \<Rightarrow> nat \<Rightarrow> coord \<Rightarrow> bool" where
  "fenced i n c \<longleftrightarrow> (\<exists>w\<in>set (co_workflows c). wf_id w = i \<and> n < wf_assignmentEpoch w)"

definition settled :: "action_name \<Rightarrow> WorkflowActionReceipt option \<Rightarrow> coord \<Rightarrow> bool" where
  "settled n rc c \<longleftrightarrow> (\<exists>a\<in>set (co_actions c). action_name a = n \<and> at_state a = ac_confirmed \<and> at_receipt a = rc)"

definition holds :: "action_name \<Rightarrow> string \<Rightarrow> coord \<Rightarrow> bool" where
  "holds n key c \<longleftrightarrow> (\<exists>d\<in>set (co_dedup c). dedup_name d = n \<and> dd_key d = key)"

lemma fenced_update:
  assumes "fenced i n c" "\<And>w. wf_id (f w) = wf_id w \<and> wf_assignmentEpoch w \<le> wf_assignmentEpoch (f w)"
    "co_workflows c' = update_where p f (co_workflows c)"
  shows "fenced i n c'"
proof -
  obtain w where w: "w \<in> set (co_workflows c)" "wf_id w = i" "n < wf_assignmentEpoch w"
    using assms(1) unfolding fenced_def by blast
  have "(if p w then f w else w) \<in> set (co_workflows c')"
    using w(1) assms(3) by (auto simp: mem_update_where)
  moreover have "wf_id (if p w then f w else w) = i" "n < wf_assignmentEpoch (if p w then f w else w)"
    using w(2,3) assms(2) [of w] by auto
  ultimately show ?thesis
    unfolding fenced_def by blast
qed

lemma fenced_step: "protocol_step F c c' \<Longrightarrow> fenced i n c \<Longrightarrow> fenced i n c'"
proof (induction rule: protocol_step.induct)
  case (control d j c)
  then show ?case
    by (intro fenced_update [OF control(2), where f = d]) (simp_all add: same_assignment_def)
next
  case (reassign w c j clk cv emp)
  then show ?case
    by (intro fenced_update [OF reassign(2)]) simp_all
qed (rule fenced_update [where f = "with_lease _ _"], assumption, simp add: with_lease_def, simp add: map_workflow_def; fail
  | force simp: fenced_def)+

lemma settled_update:
  assumes "settled n rc c" "\<And>a. a \<in> set (co_actions c) \<Longrightarrow> at_state a = ac_confirmed \<Longrightarrow> \<not> p a"
    "co_actions c' = update_where p f (co_actions c)"
  shows "settled n rc c'"
  using assms unfolding settled_def by (metis update_where_keeps)

lemma settled_step:
  assumes "protocol_step F c c'" "coord_inv c" "settled n rc c"
  shows "settled n rc c'"
proof -
  have same: "action_name b \<noteq> action_name a"
    if "a \<in> set (co_actions c)" "at_state a \<noteq> ac_confirmed" "b \<in> set (co_actions c)" "at_state b = ac_confirmed" for a b
    using assms(2) that distinct_same [of action_name "co_actions c" b a] by (auto simp: coord_inv_def key_inv_def)
  from assms(1) show ?thesis
  proof cases
    case (reclaim a keys d)
    show ?thesis
      by (rule settled_update [OF assms(3)]) (use same reclaim in auto)
  next
    case (settle a d)
    show ?thesis
      by (rule settled_update [OF assms(3)]) (use same settle in auto)
  next
    case (fail a d)
    show ?thesis
      by (rule settled_update [OF assms(3)]) (use same fail in auto)
  next
    case (reassign w i clk cv emp)
    show ?thesis
      by (rule settled_update [OF assms(3)]) (use reassign in auto)
  qed (use assms(3) in \<open>auto simp: settled_def\<close>)
qed

lemma holds_step:
  assumes "protocol_step F c c'" "holds n key c" "n \<notin> F"
  shows "holds n key c'"
  using assms(1)
proof cases
  case (fail a d)
  then show ?thesis
    using assms(2,3) by (auto simp: holds_def set_delete_where)
qed (use assms(2) in \<open>auto simp: holds_def add_keys_def\<close>)

text \<open>A step that adds a key does so when no other action of the workflow holds it.\<close>

lemma holder_unique:
  assumes "coord_inv c" "holds n key c" "holds m key c" "fst n = fst m" "fst (snd n) = fst (snd m)"
  shows "n = m"
proof -
  obtain d e where de: "d \<in> set (co_dedup c)" "dedup_name d = n" "dd_key d = key"
    "e \<in> set (co_dedup c)" "dedup_name e = m" "dd_key e = key"
    using assms(2,3) unfolding holds_def by blast
  then have "dedup_key d = dedup_key e"
    using assms(4,5) by (auto simp: dedup_key_def dedup_name_def)
  then have "d = e"
    using assms(1) de distinct_same [of dedup_key "co_dedup c" d e] by (simp add: coord_inv_def key_inv_def)
  with de show ?thesis by simp
qed

end
