(* ===== verification/Workflow_Engine.thy ===== *)
theory Workflow_Engine
  imports Workflow_Protocol
begin

text \<open>
  The services refine the protocol: a successful call changes the coordinating part of the
  database by a sequence of protocol steps. One lemma per operation, in the order of the
  service files; the last one composes them for \<open>execute\<close>. A failed call changes nothing.
\<close>

named_theorems coord_simps \<open>the coordinating part of an updated database\<close>

abbreviation protocol :: "action_name set \<Rightarrow> coord \<Rightarrow> coord \<Rightarrow> bool" where
  "protocol F \<equiv> (protocol_step F)\<^sup>*\<^sup>*"

lemma protocol_one: "protocol_step F c c' \<Longrightarrow> protocol F c c'"
  by (rule r_into_rtranclp)

lemma protocol_trans: "protocol F a b \<Longrightarrow> protocol F b c \<Longrightarrow> protocol F a c"
  by (rule rtranclp_trans)

lemma protocol_weaken: "protocol F c c' \<Longrightarrow> F \<subseteq> G \<Longrightarrow> protocol G c c'"
  by (induction rule: rtranclp_induct) (auto intro: protocol_mono rtranclp.rtrancl_into_rtrancl)

lemma res_bindE:
  assumes "res_bind m f = Inr y"
  obtains x where "m = Inr x" "f x = Inr y"
  using assms by (cases m) simp_all

section \<open>The coordinating part of an updated database\<close>

lemma coord_of_fields [coord_simps]:
  "coord_of (db\<lparr>wd_integrations := a\<rparr>) = coord_of db"
  "coord_of (db\<lparr>wd_configurations := b\<rparr>) = coord_of db"
  "coord_of (db\<lparr>wd_previews := c\<rparr>) = coord_of db"
  "coord_of (db\<lparr>wd_authorizations := d\<rparr>) = coord_of db"
  "coord_of (db\<lparr>wd_installations := f\<rparr>) = coord_of db"
  "coord_of (db\<lparr>wd_migrations := g\<rparr>) = coord_of db"
  "coord_of (db\<lparr>wd_chunks := h\<rparr>) = coord_of db"
  "coord_of (db\<lparr>wd_facts := i\<rparr>) = coord_of db"
  "coord_of (db\<lparr>wd_workflows := ws\<rparr>) = (coord_of db)\<lparr>co_workflows := ws\<rparr>"
  "coord_of (db\<lparr>wd_runs := rs\<rparr>) = (coord_of db)\<lparr>co_runs := rs\<rparr>"
  "coord_of (db\<lparr>wd_actions := as\<rparr>) = (coord_of db)\<lparr>co_actions := as\<rparr>"
  "coord_of (db\<lparr>wd_dedup := ds\<rparr>) = (coord_of db)\<lparr>co_dedup := ds\<rparr>"
  by (simp_all add: coord_of_def)

lemma coord_of_parts [simp]:
  "co_workflows (coord_of db) = wd_workflows db" "co_runs (coord_of db) = wd_runs db"
  "co_actions (coord_of db) = wd_actions db" "co_dedup (coord_of db) = wd_dedup db"
  by (simp_all add: coord_of_def)

lemma coord_of_audit [coord_simps]: "coord_of (audit actor k t m db) = coord_of db"
  by (simp add: audit_def coord_of_def)

lemma coord_of_consume [coord_simps]: "coord_of (consume_preview i now db) = coord_of db"
  by (simp add: consume_preview_def coord_of_def)

lemma coord_of_update_workflow [coord_simps]:
  "coord_of (update_workflow i d db) = map_workflow i d (coord_of db)"
  by (simp add: update_workflow_def map_workflow_def coord_of_def)

lemma coord_of_installation [coord_simps]: "coord_of (update_installation e o' w i d db) = coord_of db"
  by (simp add: update_installation_def coord_simps)

lemma coord_of_order_scope [coord_simps]: "coord_of (activateOrderScope w db) = coord_of db"
  by (auto simp: activateOrderScope_def coord_simps split: option.split WorkflowConfiguration.split)

lemma coord_of_set_lease [coord_simps]:
  "coord_of (set_lease w l t db) = map_workflow (wf_id w) (with_lease l t) (coord_of db)"
  by (simp add: set_lease_def coord_simps with_lease_def [abs_def])

lemma coord_of_update_run [coord_simps]:
  "coord_of (update_run i d db) = (coord_of db)\<lparr>co_runs := update_where (\<lambda>r. rn_id r = i) d (wd_runs db)\<rparr>"
  by (simp add: update_run_def coord_simps)

lemma coord_of_update_migration [coord_simps]: "coord_of (update_migration i d db) = coord_of db"
  by (simp add: update_migration_def coord_simps)

lemma coord_of_create_preview: "create_preview p db = Inr db' \<Longrightarrow> coord_of db' = coord_of db"
  by (auto simp: create_preview_def coord_simps split: if_split_asm)

lemma coord_of_create_configuration: "create_configuration p db = Inr db' \<Longrightarrow> coord_of db' = coord_of db"
  by (auto simp: create_configuration_def coord_simps split: if_split_asm)

lemma coord_of_create_authorization: "create_authorization p db = Inr db' \<Longrightarrow> coord_of db' = coord_of db"
  by (auto simp: create_authorization_def coord_simps split: if_split_asm)

lemma coord_of_create_migration: "create_migration p db = Inr db' \<Longrightarrow> coord_of db' = coord_of db"
  by (auto simp: create_migration_def coord_simps split: if_split_asm)

lemma coord_of_create_chunk: "create_chunk p db = Inr db' \<Longrightarrow> coord_of db' = coord_of db"
  by (auto simp: create_chunk_def coord_simps split: if_split_asm)

lemmas coord_of_create = coord_of_create_preview coord_of_create_configuration coord_of_create_authorization
  coord_of_create_migration coord_of_create_chunk

lemma coord_of_grant_loop: "grant_loop e actor i v c n scopes db = Inr db' \<Longrightarrow> coord_of db' = coord_of db"
  by (induction scopes arbitrary: n db) (auto simp: res_simps dest!: coord_of_create_authorization)

section \<open>Locked workflows\<close>

definition locked :: "Actor \<Rightarrow> workflow_row \<Rightarrow> wf_db \<Rightarrow> bool" where
  "locked actor w db \<longleftrightarrow> w \<in> set (wd_workflows db) \<and> wf_orgId w = ac_orgId actor"

lemma lockWorkflow_locked: "lockWorkflow actor i db = Inr w \<Longrightarrow> locked actor w db \<and> wf_id w = i"
  by (auto simp: lockWorkflow_def find_workflow_def res_simps locked_def dest!: find_SomeD)

section \<open>Configuration\<close>

lemma control_step:
  assumes "\<And>w. same_assignment w (d w)"
  shows "protocol F (coord_of db) (coord_of (update_workflow i d db))"
  unfolding coord_simps by (rule protocol_one [OF protocol_step.control [OF assms]])

lemma create_workflow_step:
  assumes "create_workflow (new_workflow i o' k t) db = Inr db'"
  shows "protocol F (coord_of db) (coord_of db')"
proof -
  have "i \<notin> wf_id ` set (wd_workflows db)"
    using assms by (auto simp: create_workflow_def list_ex_iff new_workflow_def split: if_split_asm)
  then have "protocol_step F (coord_of db) ((coord_of db)\<lparr>co_workflows := co_workflows (coord_of db) @ [new_workflow i o' k t]\<rparr>)"
    by (intro protocol_step.create) simp
  then show ?thesis
    using assms by (auto simp: create_workflow_def coord_simps split: if_split_asm)
qed

lemma ensureWorkflow_step:
  assumes "ensureWorkflow e actor k t db = Inr (w, db')"
  shows "protocol F (coord_of db) (coord_of db')"
proof -
  have up: "coord_of (upsert_integration actor k db) = coord_of db"
    by (simp add: upsert_integration_def coord_simps)
  show ?thesis
    using assms create_workflow_step [where db = "upsert_integration actor k db" and F = F] up
    by (auto simp: ensureWorkflow_def Let_def res_simps split: option.split_asm)
qed

lemma prepareChange_coord: "prepareChange sha e actor w inp db = Inr (r, db') \<Longrightarrow> coord_of db' = coord_of db"
  by (auto simp: prepareChange_def Let_def res_simps coord_simps dest!: coord_of_create)

lemma restrict_loop_step: "restrict_loop p runs db = Inr db' \<Longrightarrow> protocol F (coord_of db) (coord_of db')"
proof (induction runs arbitrary: db)
  case (Cons run runs)
  then obtain q where q: "restrict_loop p runs (db\<lparr>wd_runs := update_where (\<lambda>r. rn_id r = rn_id run)
       (\<lambda>r. r\<lparr>rn_restrictivePolicy := Some (intersectWorkflowLivePolicy q p)\<rparr>) (wd_runs db)\<rparr>) = Inr db'"
    by (auto simp: res_simps)
  have "protocol_step F (coord_of db) ((coord_of db)\<lparr>co_runs := update_where (\<lambda>r. rn_id r = rn_id run)
       (\<lambda>r. r\<lparr>rn_restrictivePolicy := Some (intersectWorkflowLivePolicy q p)\<rparr>) (co_runs (coord_of db))\<rparr>)"
    by (rule protocol_step.annotate) (simp add: same_binding_def)
  with Cons.IH [OF q] show ?case
    by (simp add: coord_simps converse_rtranclp_into_rtranclp)
qed simp

lemma restrictRuns_step:
  assumes "restrictRuns sha w a b c d db = Inr db'"
  shows "protocol F (coord_of db) (coord_of db')"
proof -
  have "protocol F (coord_of db) (coord_of (update_workflow (wf_id w) (\<lambda>w. w\<lparr>wf_controlVersion := wf_controlVersion w + 1\<rparr>) db))"
    by (rule control_step) (simp add: same_assignment_def)
  then show ?thesis
    using assms restrict_loop_step
    by (fastforce simp: restrictRuns_def Let_def res_simps split: if_split_asm intro: protocol_trans)
qed

lemma restrict_dependents_step:
  "restrict_dependents sha a b ws db = Inr db' \<Longrightarrow> protocol F (coord_of db) (coord_of db')"
proof (induction ws arbitrary: db)
  case (Cons w ws)
  then obtain db1 where "(case configuration db w of None \<Rightarrow> Inr db | Some c \<Rightarrow> restrictRuns sha w c c a b db) = Inr db1"
    "restrict_dependents sha a b ws db1 = Inr db'"
    by (auto simp: res_simps)
  then show ?case
    using Cons.IH [of db1] restrictRuns_step [of sha w _ _ a b db db1 F] protocol_trans [of F "coord_of db" "coord_of db1"]
    by (cases "configuration db w") auto
qed simp

lemma save_configuration_step:
  assumes "save_configuration sha actor w shared c db = Inr db'"
  shows "protocol F (coord_of db) (coord_of db')"
proof -
  obtain db1 db2 row where "protocol F (coord_of db) (coord_of db1)"
    and db2: "create_configuration row db1 = Inr db2"
    and db': "db' = update_workflow (wf_id w) (\<lambda>w. w\<lparr>wf_version := wf_version w + 1\<rparr>) db2"
    using assms restrictRuns_step by (fastforce simp: save_configuration_def res_simps split: option.split_asm)
  moreover have "protocol F (coord_of db2) (coord_of db')"
    unfolding db' by (rule control_step) (simp add: same_assignment_def)
  ultimately show ?thesis
    using coord_of_create(2) [OF db2] by (metis protocol_trans)
qed

lemma save_integration_step:
  "save_integration sha actor w shared c db = Inr db' \<Longrightarrow> protocol F (coord_of db) (coord_of db')"
  by (auto simp: save_integration_def Let_def res_simps coord_simps dest: restrict_dependents_step)

lemma save_authorization_step:
  assumes "save_authorization e actor w grant revoke db = Inr db'"
  shows "protocol F (coord_of db) (coord_of db')"
proof -
  obtain db2 where db2: "coord_of db2 = coord_of db"
    and db': "db' = update_workflow (wf_id w) (\<lambda>w. w\<lparr>wf_controlVersion := wf_controlVersion w + 1\<rparr>) db2"
    using assms by (auto simp: save_authorization_def Let_def res_simps coord_simps dest!: coord_of_grant_loop
      split: if_split_asm)
  have "protocol F (coord_of db2) (coord_of db')"
    unfolding db' by (rule control_step) (simp add: same_assignment_def)
  with db2 show ?thesis by simp
qed

lemma save_control_step:
  assumes "save_control w shared state db = Inr db'"
  shows "protocol F (coord_of db) (coord_of db')"
proof -
  have db': "db' = update_workflow (wf_id w)
      (\<lambda>w. w\<lparr>wf_controlState := state, wf_controlVersion := wf_controlVersion w + 1\<rparr>) db"
    using assms by (auto simp: save_control_def res_simps)
  show ?thesis
    unfolding db' by (rule control_step) (simp add: same_assignment_def)
qed

lemma apply_change_step: "apply_change sha e actor w shared change db = Inr db' \<Longrightarrow> protocol F (coord_of db) (coord_of db')"
  by (cases change) (auto simp: apply_change_def intro: save_configuration_step save_integration_step
    save_authorization_step save_control_step)

lemma saveChange_step:
  assumes "saveChange sha e actor w inp db = Inr (v, db')"
  shows "protocol F (coord_of db) (coord_of db')"
proof -
  obtain shared change db1 where "apply_change sha e actor w shared change db = Inr db1" "coord_of db' = coord_of db1"
    using assms by (auto simp: saveChange_def Let_def res_simps coord_simps)
  then show ?thesis
    using apply_change_step by metis
qed

section \<open>Installations\<close>

lemma register_coord: "register_installation sha e actor w v db = Inr (r, db') \<Longrightarrow> coord_of db' = coord_of db"
  by (auto simp: register_installation_def Let_def coord_simps split: option.split_asm if_split_asm)

lemma record_installation_coord:
  "record_installation e actor w kind old d db = Inr (r, db') \<Longrightarrow> coord_of db' = coord_of db"
  by (auto simp: record_installation_def coord_simps)

lemma record_checks_coord: "record_checks e actor w i cs v db = Inr (r, db') \<Longrightarrow> coord_of db' = coord_of db"
  by (auto simp: record_checks_def res_simps dest: record_installation_coord)

lemma record_host_coord: "record_host e actor w i h db = Inr (r, db') \<Longrightarrow> coord_of db' = coord_of db"
  by (auto simp: record_host_def res_simps dest: record_installation_coord)

lemma set_state_coord: "set_state e actor w i n state db = Inr (r, db') \<Longrightarrow> coord_of db' = coord_of db"
  by (auto simp: set_state_def res_simps coord_simps dest!: record_installation_coord split: if_split_asm)

lemma prepare_takeover_coord: "prepare_takeover sha e actor w i n p db = Inr (r, db') \<Longrightarrow> coord_of db' = coord_of db"
  by (auto simp: prepare_takeover_def Let_def res_simps dest: coord_of_create)

lemma coord_of_revoke_assigned [coord_simps]: "coord_of (revoke_assigned e actor w i db) = coord_of db"
  by (simp add: revoke_assigned_def coord_simps split: option.split)

lemma reassign_step:
  assumes "locked actor w db"
  shows "protocol_step F (coord_of db) (coord_of (reassign e actor w i db))"
proof -
  have owned: "(\<lambda>r. rn_orgId r = ac_orgId actor \<and> rn_workflowId r = wf_id w \<and> rn_finishedAt r = None) = owned_run w"
    using assms by (simp add: locked_def owned_run_def fun_eq_iff)
  have "w \<in> set (co_workflows (coord_of db))"
    using assms by (simp add: locked_def)
  from protocol_step.reassign [OF this, of F i "e_clock e" "wf_controlVersion w" "ac_id actor"]
  show ?thesis
    using assms unfolding reassign_def Let_def
    by (simp add: coord_simps owned map_workflow_def coord_of_def locked_def update_workflow_def)
qed

lemma takeover_step:
  assumes "takeover sha e actor w i n p d db = Inr (r, db')" "locked actor w db"
  shows "protocol_step F (coord_of db) (coord_of db')"
proof -
  have "coord_of db' = coord_of (reassign e actor w i (revoke_assigned e actor w i db))"
    using assms(1) by (auto simp: takeover_def Let_def res_simps coord_simps)
  moreover have "locked actor w (revoke_assigned e actor w i db)"
    using assms(2) coord_of_parts(1) [of db] coord_of_parts(1) [of "revoke_assigned e actor w i db"]
    by (simp add: locked_def coord_of_revoke_assigned)
  ultimately show ?thesis
    using reassign_step coord_of_revoke_assigned by metis
qed

lemma installOperation_step:
  assumes "installOperation sha e actor w op db = Inr (r, db')" "locked actor w db"
  shows "protocol F (coord_of db) (coord_of db')"
proof (cases op)
  case (Takeover i n p d)
  then show ?thesis
    using assms takeover_step by (auto intro: protocol_one)
qed (use assms register_coord record_checks_coord record_host_coord set_state_coord prepare_takeover_coord
  in \<open>auto simp: rtranclp.rtrancl_refl dest!: sym [of "coord_of _"]\<close>)

section \<open>Runs\<close>

lemma requireBinding_Inr:
  assumes "requireBinding e actor w bd lease db = Inr bound" "locked actor w db"
  shows "bn_run bound \<in> set (wd_runs db)" "rn_id (bn_run bound) = bd_runId bd" "assigned_run w (bn_run bound)"
    "bn_snapshot bound = rn_snapshot (bn_run bound)"
  using assms
  by (auto simp: requireBinding_def res_simps find_run_def assigned_run_def owned_run_def locked_def dest!: find_SomeD)

lemma prepare_backfill_coord: "prepare_backfill sha e actor w i n v reason db = Inr (r, db') \<Longrightarrow> coord_of db' = coord_of db"
  by (auto simp: prepare_backfill_def Let_def res_simps coord_simps dest: coord_of_create)

lemma claim_window_coord: "claim_window sha e actor w v op db = Inr db' \<Longrightarrow> coord_of db' = coord_of db"
  by (auto simp: claim_window_def res_simps coord_simps split: RunMode.split_asm)

lemma start_run_step:
  assumes "start_run sha e actor auth w op db = Inr (r, db')" "locked actor w db"
  shows "protocol_step F (coord_of db) (coord_of db')"
proof -
  obtain source config db1 where assigned: "wf_assignedInstallationId w = Some (so_installationId op)"
    and free: "unfinished_runs (ac_orgId actor) (wf_id w) db = []"
    and db1: "coord_of db1 = coord_of db"
    and create: "create_run (new_run e actor w source config op) db1 = Inr (db1\<lparr>wd_runs := wd_runs db1 @ [new_run e actor w source config op]\<rparr>)"
    and db': "coord_of db' = coord_of (set_lease w (Some (rn_id (new_run e actor w source config op))) (Some (lease_until (e_now e)))
      (db1\<lparr>wd_runs := wd_runs db1 @ [new_run e actor w source config op]\<rparr>))"
    using assms(1)
    by (fastforce simp: start_run_def Let_def res_simps coord_simps create_run_def dest: claim_window_coord split: if_split_asm)
  let ?run = "new_run e actor w source config op"
  have runs: "wd_runs db1 = wd_runs db"
    using db1 by (simp add: coord_of_def)
  have "protocol_step F (coord_of db)
      (map_workflow (wf_id w) (with_lease (Some (rn_id ?run)) (Some (lease_until (e_now e))))
        ((coord_of db)\<lparr>co_runs := co_runs (coord_of db) @ [?run]\<rparr>))"
  proof (rule protocol_step.start)
    show "w \<in> set (co_workflows (coord_of db))"
      using assms(2) by (simp add: locked_def)
    show "assigned_run w ?run"
      using assigned assms(2) by (simp add: assigned_run_def owned_run_def new_run_def locked_def)
    show "rn_id ?run \<notin> rn_id ` set (co_runs (coord_of db))"
      using create runs by (auto simp: create_run_def list_ex_iff split: if_split_asm)
    show "\<not> (\<exists>r'\<in>set (co_runs (coord_of db)). owned_run w r')"
      using free assms(2) by (auto simp: unfinished_runs_def filter_empty_conv owned_run_def locked_def)
  qed
  then show ?thesis
    by (simp add: db' coord_simps db1 runs)
qed

lemma release_run_step:
  "release_run actor w bd db = Inr (r, db') \<Longrightarrow> protocol_step F (coord_of db) (coord_of db')"
  by (auto simp: release_run_def Let_def res_simps coord_simps intro: protocol_step.release)

lemma annotate_step:
  assumes "\<And>r. same_binding r (d r)"
  shows "protocol F c (c\<lparr>co_runs := update_where p d (co_runs c)\<rparr>)"
  by (rule protocol_one [OF protocol_step.annotate]) (rule assms)

lemma renew_run_step:
  assumes "renew_run e actor auth w bd resume db = Inr (r, db')" "locked actor w db"
  shows "protocol F (coord_of db) (coord_of db')"
proof -
  obtain bound where bound: "requireBinding e actor w bd (\<not> resume) db = Inr bound"
    and db': "db' = update_run (bd_runId bd) (\<lambda>r. r\<lparr>rn_renewedAt := e_now e, rn_controlVersion := wf_controlVersion w\<rparr>)
      (set_lease w (Some (bd_runId bd)) (Some (lease_until (e_now e))) db)"
    using assms(1) by (auto simp: renew_run_def Let_def res_simps)
  note run = requireBinding_Inr [OF bound assms(2)]
  have "protocol_step F (coord_of db)
      (map_workflow (wf_id w) (with_lease (Some (rn_id (bn_run bound))) (Some (lease_until (e_now e)))) (coord_of db))"
    by (rule protocol_step.lease) (use run assms(2) in \<open>simp_all add: locked_def\<close>)
  then have "protocol F (coord_of db) (coord_of (set_lease w (Some (bd_runId bd)) (Some (lease_until (e_now e))) db))"
    by (simp add: coord_simps run(2) r_into_rtranclp)
  moreover have "protocol F (coord_of (set_lease w (Some (bd_runId bd)) (Some (lease_until (e_now e))) db)) (coord_of db')"
    unfolding db' coord_of_update_run coord_of_parts [symmetric] by (rule annotate_step) (simp add: same_binding_def)
  ultimately show ?thesis
    by (rule protocol_trans)
qed

lemma record_run_step:
  assumes "record_run e actor auth w bd s finish db = Inr (r, db')" "locked actor w db"
  shows "protocol F (coord_of db) (coord_of db')"
proof -
  let ?d = "\<lambda>r. let r1 = r\<lparr>rn_summary := Some s, rn_status := sm_status s, rn_phase := sm_phase s\<rparr> in
    if finish then r1\<lparr>rn_finishedAt := Some (e_now e), rn_retainUntil := retention (e_now e)\<rparr> else r1"
  obtain bound where bound: "requireBinding e actor w bd True db = Inr bound"
    and db': "coord_of db' = coord_of (if finish then set_lease w None None (update_run (bd_runId bd) ?d db)
      else update_run (bd_runId bd) ?d db)"
    using assms(1) by (auto simp: record_run_def Let_def res_simps coord_simps split: if_split_asm)
  note run = requireBinding_Inr [OF bound assms(2)]
  show ?thesis
  proof (cases finish)
    case True
    have "protocol_step F (coord_of db) (map_workflow (wf_id w) (with_lease None None)
        ((coord_of db)\<lparr>co_runs := update_where (\<lambda>r'. rn_id r' = rn_id (bn_run bound)) ?d (co_runs (coord_of db))\<rparr>))"
      by (rule protocol_step.finish) (use run assms(2) True in \<open>auto simp: locked_def assigned_run_def Let_def\<close>)
    then show ?thesis
      using True by (simp add: db' coord_simps run(2) r_into_rtranclp)
  next
    case False
    have "protocol F (coord_of db) (coord_of (update_run (bd_runId bd) ?d db))"
      unfolding coord_of_update_run coord_of_parts [symmetric]
      by (rule annotate_step) (use False in \<open>simp add: same_binding_def Let_def\<close>)
    then show ?thesis
      using False by (simp add: db')
  qed
qed

lemma runOperation_step:
  assumes "runOperation sha e actor auth w op db = Inr (r, db')" "locked actor w db"
  shows "protocol F (coord_of db) (coord_of db')"
proof -
  have run: "run_branch sha e actor auth w op db = Inr (r, db')"
    using assms(1) by (auto simp: runOperation_def res_simps)
  show ?thesis
  proof (cases op)
    case (PrepareBackfill i n v reason)
    then show ?thesis
      using run prepare_backfill_coord by (metis rtranclp.rtrancl_refl run_branch.simps(1))
  qed (use run assms(2) start_run_step release_run_step renew_run_step record_run_step in \<open>auto intro: r_into_rtranclp\<close>)
qed

section \<open>Actions\<close>

lemma find_action_Some:
  "find_action o' w i db = Some a \<Longrightarrow> a \<in> set (wd_actions db) \<and> action_name a = (o', w, i)"
  by (auto simp: find_action_def action_name_def dest!: find_SomeD)

lemma find_action_None:
  "find_action o' w i db = None \<Longrightarrow> (o', w, i) \<notin> action_name ` set (wd_actions db)"
  by (auto simp: find_action_def action_name_def find_None_iff)

lemma coord_of_update_action [coord_simps]:
  "coord_of (update_action o' w i d db) =
     (coord_of db)\<lparr>co_actions := update_where (\<lambda>a. action_name a = (o', w, i)) d (wd_actions db)\<rparr>"
  by (simp add: update_action_def coord_simps action_name_def)

lemma dedup_of_update_action: "wd_dedup (update_action o' w i d db) = wd_dedup db"
  by (simp add: update_action_def)

lemma create_action_Inr:
  "create_action a db = Inr db' \<Longrightarrow> coord_of db' = (coord_of db)\<lparr>co_actions := wd_actions db @ [a]\<rparr>"
  by (auto simp: create_action_def coord_simps split: if_split_asm)

lemma create_keys_Inr:
  assumes "create_keys o' w i keys db = Inr db'"
  shows "coord_of db' = add_keys (o', w, i) keys (coord_of db)" "keys_free (o', w, i) keys (coord_of db)"
  using assms by (auto simp: create_keys_def coord_simps add_keys_def keys_free_def key_rows_def filter_empty_conv
    split: if_split_asm)

lemma claim_step:
  assumes "find_action o' w i db = None" "action_name a = (o', w, i)"
    "create_action a db = Inr db1" "create_keys o' w i keys db1 = Inr db2"
  shows "protocol_step F (coord_of db) (coord_of db2)"
proof -
  note db1 = create_action_Inr [OF assms(3)] and db2 = create_keys_Inr [OF assms(4)]
  have "protocol_step F (coord_of db) (add_keys (action_name a) keys
      ((coord_of db)\<lparr>co_actions := co_actions (coord_of db) @ [a]\<rparr>))"
    by (rule protocol_step.claim)
      (use find_action_None [OF assms(1)] assms(2) db1 db2(2) in \<open>simp_all add: keys_free_def\<close>)
  then show ?thesis
    using db1 db2(1) assms(2) by simp
qed

lemma reclaim_step:
  assumes "find_action (ac_orgId actor) (wf_id w) (ai_actionId intent) db = Some a"
    "reclaim_action sha e actor w runId intent keys' a db = Inr db1"
    "create_keys (ac_orgId actor) (wf_id w) (ai_actionId intent) keys db1 = Inr db2"
  shows "protocol_step F (coord_of db) (coord_of db2)"
proof -
  let ?n = "(ac_orgId actor, wf_id w, ai_actionId intent)"
  let ?d = "\<lambda>a. a\<lparr>at_runId := runId, at_state := ac_intent, at_identity := ai_identity intent,
      at_artifactHash := ai_artifactHash intent, at_correlationMarker := ai_correlationMarker intent,
      at_receipt := None, at_createdAt := e_now e, at_updatedAt := e_clock e\<rparr>"
  note a = find_action_Some [OF assms(1)] and db2 = create_keys_Inr [OF assms(3)]
  have failed: "at_state a = ac_failed"
    and db1: "coord_of db1 = (coord_of db)\<lparr>co_actions := update_where (\<lambda>b. action_name b = ?n) ?d (wd_actions db)\<rparr>"
    using assms(2) by (auto simp: reclaim_action_def res_simps coord_simps)
  have "protocol_step F (coord_of db) (add_keys (action_name a) keys
      ((coord_of db)\<lparr>co_actions := update_where (\<lambda>b. action_name b = action_name a) ?d (co_actions (coord_of db))\<rparr>))"
    by (rule protocol_step.reclaim)
      (use a failed db1 db2(2) in \<open>simp_all add: keys_free_def, simp add: action_name_def\<close>)
  then show ?thesis
    using a db1 db2(1) by simp
qed

lemma claimAction_step:
  assumes "claimAction sha e actor w runId intent db = Inr (r, db')"
  shows "protocol F (coord_of db) (coord_of db')"
proof -
  obtain keys where keys: "deduplicationKeys sha (ai_identity intent) runId (ai_actionId intent) = Inr keys"
    using assms by (auto simp: claimAction_def res_simps)
  show ?thesis
  proof (cases "key_rows (ac_orgId actor) (wf_id w) keys db")
    case (Cons d ds)
    then have "db' = db"
      using assms keys by (auto simp: claimAction_def res_simps)
    then show ?thesis by simp
  next
    case Nil
    then obtain db1 where db1: "(case find_action (ac_orgId actor) (wf_id w) (ai_actionId intent) db of
          Some a \<Rightarrow> reclaim_action sha e actor w runId intent keys a db
        | None \<Rightarrow> create_action (new_action sha e actor w runId intent keys) db) = Inr db1"
      and db2: "create_keys (ac_orgId actor) (wf_id w) (ai_actionId intent) keys db1 = Inr db'"
      using assms keys by (auto simp: claimAction_def res_simps)
    show ?thesis
    proof (cases "find_action (ac_orgId actor) (wf_id w) (ai_actionId intent) db")
      case None
      with db1 have "create_action (new_action sha e actor w runId intent keys) db = Inr db1"
        by simp
      from claim_step [OF None _ this db2] show ?thesis
        by (intro protocol_one) (simp add: new_action_def action_name_def)
    next
      case (Some a)
      with db1 have "reclaim_action sha e actor w runId intent keys a db = Inr db1"
        by simp
      from reclaim_step [OF Some this db2] show ?thesis
        by (rule protocol_one)
    qed
  qed
qed

lemma claim_loop_step:
  "claim_loop sha e actor w runId is db = Inr (rs, db') \<Longrightarrow> protocol F (coord_of db) (coord_of db')"
proof (induction "is" arbitrary: db rs)
  case (Cons i "is")
  then obtain r rs1 db1 where "claimAction sha e actor w runId i db = Inr (r, db1)"
    "claim_loop sha e actor w runId is db1 = Inr (rs1, db')"
    by (auto simp: res_simps)
  then show ?case
    using Cons.IH [of db1] claimAction_step protocol_trans by metis
qed simp

text \<open>The names whose failure a batch of receipts records.\<close>

definition failed_names :: "Actor \<Rightarrow> string \<Rightarrow> WorkflowActionReceipt list \<Rightarrow> action_name set" where
  "failed_names actor w receipts =
     (\<lambda>r. (ac_orgId actor, w, rt_actionId r)) ` set (filter (\<lambda>r. rt_state r = rcp_failed) receipts)"

lemma dedup_name_iff: "dedup_name d = (o', w, i) \<longleftrightarrow> dd_orgId d = o' \<and> dd_workflowId d = w \<and> dd_actionId d = i"
  by (auto simp: dedup_name_def)

lemma store_receipt_step:
  assumes "find_action (ac_orgId actor) (wf_id w) (rt_actionId r) db = Some a" "at_state a \<noteq> ac_confirmed"
  shows "protocol_step (failed_names actor (wf_id w) [r]) (coord_of db) (coord_of (store_receipt e actor w runId r db))"
proof -
  let ?d = "\<lambda>a. a\<lparr>at_state := receipt_action_state (rt_state r), at_receipt := Some r,
      at_confirmedAt := (if rt_state r = rcp_confirmed then Some (e_now e) else None), at_updatedAt := e_clock e\<rparr>"
  note a = find_action_Some [OF assms(1)]
  have names: "action_name (?d b) = action_name b" for b
    by (simp add: action_name_def)
  show ?thesis
  proof (cases "rt_state r = rcp_failed")
    case True
    have "protocol_step (failed_names actor (wf_id w) [r]) (coord_of db)
      ((coord_of db)\<lparr>co_actions := update_where (\<lambda>b. action_name b = action_name a) ?d (co_actions (coord_of db)),
        co_dedup := delete_where (\<lambda>k. dedup_name k = action_name a) (co_dedup (coord_of db))\<rparr>)"
      by (rule protocol_step.fail) (use a assms(2) True names in \<open>simp_all add: failed_names_def\<close>)
    then show ?thesis
      using a True by (simp add: store_receipt_def Let_def coord_simps dedup_name_iff dedup_of_update_action)
  next
    case False
    then have "receipt_action_state (rt_state r) \<noteq> ac_failed"
      by (cases "rt_state r") simp_all
    then have "protocol_step (failed_names actor (wf_id w) [r]) (coord_of db)
      ((coord_of db)\<lparr>co_actions := update_where (\<lambda>b. action_name b = action_name a) ?d (co_actions (coord_of db))\<rparr>)"
      by (intro protocol_step.settle) (use a assms(2) names in simp_all)
    then show ?thesis
      using a False by (simp add: store_receipt_def Let_def coord_simps)
  qed
qed

lemma record_receipt_step:
  assumes "record_receipt sha e actor auth w bd resolve assigned r db = Inr db'"
  shows "protocol (failed_names actor (wf_id w) [r]) (coord_of db) (coord_of db')"
proof -
  obtain a where a: "find_action (ac_orgId actor) (wf_id w) (rt_actionId r) db = Some a"
    and "db' = db \<or> at_state a \<noteq> ac_confirmed \<and> db' = store_receipt e actor w (bd_runId bd) r db"
    using assms by (auto simp: record_receipt_def res_simps split: if_split_asm)
  then show ?thesis
    using store_receipt_step [OF a] by (auto intro: protocol_one)
qed

lemma receipt_loop_step:
  "receipt_loop sha e actor auth w bd resolve assigned rs db = Inr db' \<Longrightarrow>
     protocol (failed_names actor (wf_id w) rs) (coord_of db) (coord_of db')"
proof (induction rs arbitrary: db)
  case (Cons r rs)
  then obtain db1 where db1: "record_receipt sha e actor auth w bd resolve assigned r db = Inr db1"
    and rest: "receipt_loop sha e actor auth w bd resolve assigned rs db1 = Inr db'"
    by (auto simp: res_simps)
  have sub: "failed_names actor (wf_id w) [r] \<subseteq> failed_names actor (wf_id w) (r # rs)"
    "failed_names actor (wf_id w) rs \<subseteq> failed_names actor (wf_id w) (r # rs)"
    by (auto simp: failed_names_def)
  show ?case
    using protocol_weaken [OF record_receipt_step [OF db1] sub(1)] protocol_weaken [OF Cons.IH [OF rest] sub(2)]
    by (rule protocol_trans)
qed simp

fun op_failures :: "Actor \<Rightarrow> string \<Rightarrow> action_op \<Rightarrow> action_name set" where
  "op_failures actor w (RecordReceipts bd rs) = failed_names actor w rs"
| "op_failures actor w (ResolveUnknown bd r) = failed_names actor w [r]"
| "op_failures actor w _ = {}"

lemma record_evidence_step:
  "record_evidence sha e actor auth w bd resolve rs db = Inr (r, db') \<Longrightarrow>
     protocol (failed_names actor (wf_id w) rs) (coord_of db) (coord_of db')"
  by (auto simp: record_evidence_def Let_def res_simps dest: receipt_loop_step)

lemma claim_actions_step:
  "claim_actions sha e actor auth w bd is db = Inr (r, db') \<Longrightarrow> protocol F (coord_of db) (coord_of db')"
  by (auto simp: claim_actions_def res_simps coord_simps dest: claim_loop_step)

lemma actionOperation_step:
  assumes "actionOperation sha e actor auth w op db = Inr (r, db')"
  shows "protocol (op_failures actor (wf_id w) op) (coord_of db) (coord_of db')"
proof (cases op)
  case (ActionIntents bd "is")
  then show ?thesis
    using assms claim_actions_step by simp
qed (use assms record_evidence_step in auto)

section \<open>Migrations\<close>

lemma migration_target_step_step:
  "migration_target_step e actor w source item db = Inr (t, db') \<Longrightarrow> protocol F (coord_of db) (coord_of db')"
  by (auto simp: migration_target_step_def Let_def res_simps split: option.split_asm dest: create_workflow_step)

lemma migration_target_loop_step:
  "migration_target_loop e actor w source items db = Inr (ts, db') \<Longrightarrow> protocol F (coord_of db) (coord_of db')"
proof (induction items arbitrary: db ts)
  case (Cons item items)
  then obtain t ts1 db1 where "migration_target_step e actor w source item db = Inr (t, db1)"
    "migration_target_loop e actor w source items db1 = Inr (ts1, db')"
    by (auto simp: res_simps)
  then show ?case
    using Cons.IH [of db1] migration_target_step_step protocol_trans by metis
qed simp

lemma migration_preview_step:
  assumes "migration_preview sha z e actor w m db = Inr (r, db')"
  shows "protocol F (coord_of db) (coord_of db')"
proof (cases "find (\<lambda>ma. mg_orgId ma = ac_orgId actor \<and> mg_enterpriseKey ma = wf_enterpriseKey w \<and>
    mg_sourceSnapshotHash ma = mm_sourceSnapshotHash m \<and> mg_targetVersion ma = mm_targetVersion m) (wd_migrations db)")
  case (Some prior)
  then have "db' = db"
    using assms by (auto simp: migration_preview_def res_simps)
  then show ?thesis by simp
next
  case None
  then obtain ts db1 where "migration_target_loop e actor w (mm_integration m)
      (sort_key (\<lambda>w. locale_key (mp_workflowId (mw_page w))) (mm_workflows m)) db = Inr (ts, db1)"
    and "coord_of db' = coord_of db1"
    using assms unfolding migration_preview_def Let_def
    by (simp, elim res_bindE)
      (clarsimp simp: coord_simps elim!: res_bindE, drule coord_of_create_migration, drule coord_of_create_chunk,
       rule that, assumption, simp add: coord_simps)
  then show ?thesis
    using migration_target_loop_step by metis
qed

lemma migration_append_coord: "migration_append sha actor row v n c h db = Inr (r, db') \<Longrightarrow> coord_of db' = coord_of db"
  by (auto simp: migration_append_def Let_def res_simps coord_simps split: if_split_asm dest!: coord_of_create_chunk)

lemma migration_seal_coord: "migration_seal sha e row v n k d db = Inr (r, db') \<Longrightarrow> coord_of db' = coord_of db"
  by (auto simp: migration_seal_def Let_def res_simps coord_simps)

lemma coord_of_progress [coord_simps]: "coord_of (progress_log actor w a row n c db) = coord_of db"
  by (simp add: progress_log_def coord_simps)

lemma migration_validate_coord: "migration_validate sha actor w row db = Inr (r, db') \<Longrightarrow> coord_of db' = coord_of db"
  by (auto simp: migration_validate_def Let_def res_simps coord_simps)

lemma migration_stage_coord: "migration_stage actor w row stage db = Inr (r, db') \<Longrightarrow> coord_of db' = coord_of db"
  by (auto simp: migration_stage_def Let_def res_simps coord_simps)

lemma coord_of_import_helpers [coord_simps]:
  "coord_of (revoke_all e actor i db) = coord_of db"
  "coord_of (import_integration actor w source db) = coord_of db"
  "coord_of (mark_imported e actor i n db) = coord_of db"
  by (simp_all add: revoke_all_def import_integration_def mark_imported_def coord_simps)

lemma import_configurations_step:
  "import_configurations e actor targets n items db = Inr db' \<Longrightarrow> protocol F (coord_of db) (coord_of db')"
proof (induction items arbitrary: db n)
  case (Cons item items)
  let ?d = "\<lambda>w. w\<lparr>wf_version := wf_version w + 1, wf_controlVersion := wf_controlVersion w + 1, wf_controlState := ctl_paused\<rparr>"
  let ?i = "mp_workflowId (mw_page item)"
  obtain db2 n1 where db2: "coord_of db2 = coord_of db"
    and rest: "import_configurations e actor targets n1 items (update_workflow ?i ?d db2) = Inr db'"
    using Cons.prems by (auto simp: Let_def res_simps coord_simps dest!: coord_of_grant_loop coord_of_create_configuration)
  have "protocol F (coord_of db2) (coord_of (update_workflow ?i ?d db2))"
    by (rule control_step) (simp add: same_assignment_def)
  from this [unfolded db2] Cons.IH [OF rest] show ?case
    by (rule protocol_trans)
qed simp

lemma import_record_step:
  assumes "import_record sha e actor runId wid r db = Inr db'"
  shows "protocol F (coord_of db) (coord_of db')"
proof -
  obtain keys where keys: "deduplicationKeys sha (ai_identity (im_intent r)) runId (ai_actionId (im_intent r)) = Inr keys"
    using assms by (auto simp: import_record_def res_simps)
  show ?thesis
  proof (cases "find_action (ac_orgId actor) wid (ai_actionId (im_intent r)) db")
    case None
    then obtain db1 where "create_action (imported_action sha e actor wid runId r keys) db = Inr db1"
      "create_keys (ac_orgId actor) wid (ai_actionId (im_intent r)) (keys @ legacy_keys sha r) db1 = Inr db'"
      using assms keys by (auto simp: import_record_def res_simps)
    from claim_step [OF None _ this] show ?thesis
      by (intro protocol_one) (simp add: imported_action_def action_name_def)
  next
    case (Some a)
    then have "db' = db"
      using assms keys by (auto simp: import_record_def res_simps)
    then show ?thesis by simp
  qed
qed

lemma import_record_loop_step:
  "import_record_loop sha e actor runId wid rs db = Inr db' \<Longrightarrow> protocol F (coord_of db) (coord_of db')"
proof (induction rs arbitrary: db)
  case (Cons r rs)
  then obtain db1 where "import_record sha e actor runId wid r db = Inr db1"
    "import_record_loop sha e actor runId wid rs db1 = Inr db'"
    by (auto simp: res_simps)
  then show ?case
    using Cons.IH [of db1] import_record_step protocol_trans by metis
qed simp

lemma import_page_step: "import_page sha e actor runId items db = Inr db' \<Longrightarrow> protocol F (coord_of db) (coord_of db')"
proof (induction items arbitrary: db)
  case (Cons item items)
  then obtain db1 where "import_record_loop sha e actor runId (mp_workflowId item) (imported_records item) db = Inr db1"
    "import_page sha e actor runId items db1 = Inr db'"
    by (auto simp: res_simps)
  then show ?case
    using Cons.IH [of db1] import_record_loop_step protocol_trans by metis
qed simp

lemma migration_import_step:
  assumes "migration_import sha e actor w row db = Inr (r, db')"
  shows "protocol F (coord_of db) (coord_of db')"
proof (cases "mg_importedChunks row = 0")
  case True
  show ?thesis
    using assms unfolding migration_import_def Let_def if_P [OF True]
    by (elim res_bindE, clarsimp simp: coord_simps elim!: res_bindE)
      (drule import_configurations_step [where F = F], drule import_page_step [where F = F],
       simp add: coord_simps protocol_trans)
next
  case False
  show ?thesis
    using assms unfolding migration_import_def Let_def if_not_P [OF False]
    by (elim res_bindE, clarsimp simp: coord_simps) (drule import_page_step [where F = F], simp add: coord_simps)
qed

lemma migration_advance_step:
  assumes "migration_advance sha e actor w row h v stage d db = Inr (r, db')"
  shows "protocol F (coord_of db) (coord_of db')"
  using assms migration_import_step migration_validate_coord migration_stage_coord
  unfolding migration_advance_def
  by (cases stage) (auto simp: res_simps rtranclp.rtrancl_refl split: if_split_asm)

lemma migrationOperation_step:
  assumes "migrationOperation sha z e actor w op db = Inr (r, db')"
  shows "protocol F (coord_of db) (coord_of db')"
proof (cases op)
  case (MigrationPreview m)
  then show ?thesis
    using assms migration_preview_step by (auto simp: migrationOperation_def)
next
  case (MigrationAdvance i h v stage d)
  then show ?thesis
    using assms migration_advance_step by (auto simp: migrationOperation_def res_simps)
qed (use assms migration_append_coord migration_seal_coord in \<open>auto simp: migrationOperation_def res_simps\<close>)

section \<open>The tools\<close>

fun call_failures :: "Actor \<Rightarrow> wf_call \<Rightarrow> action_name set" where
  "call_failures actor (RecordAction i op) = op_failures actor i op"
| "call_failures actor _ = {}"

lemma run_tool_step:
  assumes "run_tool sha z e actor call auth db = Inr (r, db')"
  shows "protocol (call_failures actor call) (coord_of db) (coord_of db')"
proof (cases call)
  case (PrepareChange inp)
  then obtain w db1 where "ensureWorkflow e actor (pi_enterpriseKey inp) (pi_workflowType inp) db = Inr (w, db1)"
    and "coord_of db' = coord_of db1"
    using assms by (auto simp: res_simps dest: prepareChange_coord)
  then show ?thesis
    using ensureWorkflow_step by metis
next
  case (SaveChange inp)
  then show ?thesis
    using assms saveChange_step by (auto simp: res_simps)
next
  case (ManageInstallation i op)
  then show ?thesis
    using assms installOperation_step lockWorkflow_locked by (fastforce simp: res_simps)
next
  case (ManageMigration i op)
  then show ?thesis
    using assms migrationOperation_step by (fastforce simp: res_simps)
next
  case (ManageRun i op)
  then show ?thesis
    using assms runOperation_step lockWorkflow_locked by (fastforce simp: res_simps)
next
  case (RecordAction i op)
  then obtain w x where w: "lockWorkflow actor i db = Inr w" and op: "actionOperation sha e actor auth w op db = Inr (x, db')"
    using assms by (auto simp: res_simps)
  have "wf_id w = i"
    using lockWorkflow_locked [OF w] by simp
  then show ?thesis
    using RecordAction actionOperation_step [OF op] by simp
qed (use assms in \<open>auto simp: res_simps\<close>)

lemma execute_step:
  assumes "execute sha z e actor call db = Inr (r, db')"
  shows "protocol (call_failures actor call) (coord_of db) (coord_of db')"
  using assms run_tool_step by (auto simp: execute_def transaction_def res_simps)

lemma pruneRetention_step:
  "pruneRetention now db = (n, db') \<Longrightarrow> protocol_step F (coord_of db) (coord_of db')"
  by (auto simp: pruneRetention_def Let_def coord_simps run_expired_def simp flip: coord_of_parts
    intro!: protocol_step.prune)

end
