(* ===== verification/Workflow_Safety.thy ===== *)
theory Workflow_Safety
  imports Workflow_Engine
begin

text \<open>
  What holds of the workflow services at every point of every history: histories are sequences
  of successful calls, of retention runs and of changes other components make to their own
  tables. Invariants and stable facts of the protocol carry over by the refinement.
\<close>

section \<open>Histories\<close>

inductive wf_step :: "digest \<Rightarrow> zod_formats \<Rightarrow> action_name set \<Rightarrow> wf_db \<Rightarrow> wf_db \<Rightarrow> bool" for sha z F where
  step_call: "execute sha z e actor call db = Inr (r, db') \<Longrightarrow> call_failures actor call \<subseteq> F \<Longrightarrow> wf_step sha z F db db'"
| step_prune: "pruneRetention now db = (n, db') \<Longrightarrow> wf_step sha z F db db'"
| step_facts: "wf_step sha z F db (db\<lparr>wd_facts := f\<rparr>)"

abbreviation wf_steps :: "digest \<Rightarrow> zod_formats \<Rightarrow> action_name set \<Rightarrow> wf_db \<Rightarrow> wf_db \<Rightarrow> bool" where
  "wf_steps sha z F \<equiv> (wf_step sha z F)\<^sup>*\<^sup>*"

definition empty_db :: "wf_facts \<Rightarrow> wf_db" where
  "empty_db f = \<lparr>wd_facts = f, wd_integrations = [], wd_workflows = [], wd_configurations = [], wd_previews = [],
     wd_authorizations = [], wd_installations = [], wd_runs = [], wd_actions = [], wd_dedup = [],
     wd_migrations = [], wd_chunks = [], wd_audit = []\<rparr>"

definition reachable :: "digest \<Rightarrow> zod_formats \<Rightarrow> wf_db \<Rightarrow> bool" where
  "reachable sha z db \<longleftrightarrow> (\<exists>f. wf_steps sha z UNIV (empty_db f) db)"

lemma wf_step_protocol: "wf_step sha z F db db' \<Longrightarrow> protocol F (coord_of db) (coord_of db')"
proof (induction rule: wf_step.induct)
  case (step_call e actor call db r db')
  then show ?case
    by (blast intro: protocol_weaken execute_step)
next
  case (step_prune now db n db')
  then show ?case
    by (blast intro: protocol_one pruneRetention_step)
qed (simp add: coord_simps)

lemma wf_steps_protocol: "wf_steps sha z F db db' \<Longrightarrow> protocol F (coord_of db) (coord_of db')"
  by (induction rule: rtranclp_induct) (auto intro: protocol_trans wf_step_protocol)

text \<open>
  C4: the services implement the abstract protocol of runs, leases, actions and deduplication
  keys: every history of tool calls, prunings and changes of the surrounding facts is, seen
  through \<open>coord_of\<close>, a history of protocol steps that records no failures but those in \<open>F\<close>.
\<close>
theorem services_refine_protocol:
  assumes "wf_steps sha z F db db'"
  shows "protocol F (coord_of db) (coord_of db')"
  by (rule wf_steps_protocol [OF assms])

lemma wf_step_mono: "wf_step sha z F db db' \<Longrightarrow> F \<subseteq> G \<Longrightarrow> wf_step sha z G db db'"
  by (induction rule: wf_step.induct) (auto intro: wf_step.intros)

lemma wf_steps_mono: "wf_steps sha z F db db' \<Longrightarrow> wf_steps sha z UNIV db db'"
  by (induction rule: rtranclp_induct) (auto intro: wf_step_mono rtranclp.rtrancl_into_rtrancl)

section \<open>The protocol's facts hold of the services\<close>

interpretation protocol_invariant: stable "protocol_step UNIV" coord_inv
  by unfold_locales (rule coord_inv_step)

interpretation protocol_fence: stable "protocol_step UNIV" "fenced i n" for i n
  by unfold_locales (rule fenced_step)

interpretation protocol_settled: stable "protocol_step UNIV" "\<lambda>c. coord_inv c \<and> settled n rc c" for n rc
  by unfold_locales (auto intro: coord_inv_step settled_step)

interpretation protocol_holds: stable "protocol_step (- {n})" "holds n key" for n key
  by unfold_locales (rule holds_step, assumption+, simp)

lemma steps_inv: "wf_steps sha z F db db' \<Longrightarrow> coord_inv (coord_of db) \<Longrightarrow> coord_inv (coord_of db')"
  using protocol_invariant.reach_keeps [OF wf_steps_protocol] wf_steps_mono by blast

lemma reachable_inv:
  assumes "reachable sha z db"
  shows "coord_inv (coord_of db)"
proof -
  obtain f where "wf_steps sha z UNIV (empty_db f) db"
    using assms by (auto simp: reachable_def)
  then show ?thesis
    by (rule steps_inv) (use coord_inv_empty in \<open>simp add: empty_db_def coord_of_def\<close>)
qed

lemma steps_fenced: "wf_steps sha z F db db' \<Longrightarrow> fenced i n (coord_of db) \<Longrightarrow> fenced i n (coord_of db')"
  using protocol_fence.reach_keeps [OF wf_steps_protocol] wf_steps_mono by blast

lemma steps_settled:
  "wf_steps sha z F db db' \<Longrightarrow> coord_inv (coord_of db) \<Longrightarrow> settled n rc (coord_of db) \<Longrightarrow> settled n rc (coord_of db')"
  using protocol_settled.reach_keeps [OF wf_steps_protocol] wf_steps_mono by blast

lemma steps_holds:
  assumes "wf_steps sha z F db db'" "n \<notin> F" "holds n key (coord_of db)"
  shows "holds n key (coord_of db')"
  using protocol_holds.reach_keeps [OF protocol_weaken [OF wf_steps_protocol [OF assms(1)]]] assms(2,3) by blast

section \<open>Runs and leases\<close>

text \<open>
  C13: a workflow never has two unfinished runs: in every reachable state, two unfinished runs of
  one workflow are the same run.
\<close>
theorem one_unfinished_run:
  assumes "reachable sha z db" "r \<in> set (wd_runs db)" "r' \<in> set (wd_runs db)"
    and "rn_finishedAt r = None" "rn_finishedAt r' = None" "rn_workflowId r = rn_workflowId r'"
  shows "r = r'"
  using run_inv_unique [of "wd_workflows db" "wd_runs db" r r'] reachable_inv [OF assms(1)] assms(2-)
  by (simp add: coord_inv_def)

text \<open>
  C14: a lease always names an unfinished run of its workflow, and that run belongs to the
  installation and the assignment epoch the workflow has now: no sequence of starts, renewals,
  takeovers, finishes and prunings leaves a lease behind.
\<close>
theorem lease_names_assigned_run:
  assumes "reachable sha z db" "w \<in> set (wd_workflows db)" "wf_leaseRunId w = Some i"
  shows "\<exists>r\<in>set (wd_runs db). rn_id r = i \<and> rn_workflowId r = wf_id w \<and> rn_finishedAt r = None \<and>
    wf_assignedInstallationId w = Some (rn_installationId r) \<and> rn_assignmentEpoch r = wf_assignmentEpoch w"
proof -
  have inv: "run_inv (wd_workflows db) (wd_runs db)" and dist: "distinct (map wf_id (wd_workflows db))"
    using reachable_inv [OF assms(1)] by (simp_all add: coord_inv_def)
  obtain r where r: "r \<in> set (wd_runs db)" "rn_id r = i" "owned_run w r"
    by (rule run_inv_lease [OF inv assms(2,3)])
  then have "rn_finishedAt r = None"
    by (simp add: owned_run_def)
  then obtain w' where w': "w' \<in> set (wd_workflows db)" "assigned_run w' r"
    by (rule run_inv_assigned [OF inv r(1)])
  then have "w' = w"
    using distinct_same [OF dist w'(1) assms(2)] r(3) by (simp add: assigned_run_def owned_run_def)
  with w' r show ?thesis
    by (auto simp: assigned_run_def owned_run_def)
qed

section \<open>Fencing\<close>

text \<open>The binding of a call that acts for a run.\<close>

fun leased_binding :: "wf_call \<Rightarrow> (string \<times> WorkflowRunBinding) option" where
  "leased_binding (ManageRun i (RenewRun bd)) = Some (i, bd)"
| "leased_binding (ManageRun i (ResumeRun bd)) = Some (i, bd)"
| "leased_binding (ManageRun i (ReleaseRun bd)) = Some (i, bd)"
| "leased_binding (ManageRun i (FinishRun bd s)) = Some (i, bd)"
| "leased_binding (ManageRun i (RecordSummary bd s)) = Some (i, bd)"
| "leased_binding (CheckActions i bd is) = Some (i, bd)"
| "leased_binding (RecordAction i (ActionIntents bd is)) = Some (i, bd)"
| "leased_binding _ = None"

lemma requireBinding_epoch:
  "requireBinding e actor w bd lease db = Inr bound \<Longrightarrow> bd_assignmentEpoch bd = wf_assignmentEpoch w"
  by (auto simp: requireBinding_def res_simps)

lemma fenced_lock:
  assumes "lockWorkflow actor i db = Inr w" "coord_inv (coord_of db)" "fenced i n (coord_of db)"
  shows "n < wf_assignmentEpoch w"
proof -
  have w: "w \<in> set (wd_workflows db)" "wf_id w = i"
    using lockWorkflow_locked [OF assms(1)] by (auto simp: locked_def)
  obtain w' where "w' \<in> set (wd_workflows db)" "wf_id w' = i" "n < wf_assignmentEpoch w'"
    using assms(3) by (auto simp: fenced_def)
  then show ?thesis
    using distinct_same [of wf_id "wd_workflows db" w w'] w assms(2) by (simp add: coord_inv_def)
qed

lemma leased_binding_epoch:
  assumes "leased_binding call = Some (i, bd)" "execute sha z e actor call db = Inr (r, db')"
  obtains w where "lockWorkflow actor i db = Inr w" "bd_assignmentEpoch bd = wf_assignmentEpoch w"
proof -
  obtain auth where "run_tool sha z e actor call auth db = Inr (r, db')"
    using assms(2) by (auto simp: execute_def transaction_def res_simps)
  with assms(1) have "\<exists>w. lockWorkflow actor i db = Inr w \<and> bd_assignmentEpoch bd = wf_assignmentEpoch w"
    by (cases call rule: leased_binding.cases)
      (auto simp: res_simps runOperation_def renew_run_def record_run_def release_run_def claim_actions_def Let_def
        dest!: requireBinding_epoch)
  then show ?thesis
    using that by blast
qed


section \<open>Actions\<close>

lemma settled_find:
  assumes "coord_inv (coord_of db)" "settled (o', w, i) rc (coord_of db)"
  obtains a where "find_action o' w i db = Some a" "at_state a = ac_confirmed" "at_receipt a = rc"
proof -
  have dist: "distinct (map action_name (wd_actions db))"
    using assms(1) by (simp add: coord_inv_def key_inv_def)
  obtain a where a: "a \<in> set (wd_actions db)" "action_name a = (o', w, i)" "at_state a = ac_confirmed" "at_receipt a = rc"
    using assms(2) by (auto simp: settled_def)
  have "find_action o' w i db = find (\<lambda>b. action_name b = action_name a) (wd_actions db)"
    unfolding find_action_def a(2) by (simp add: action_name_def)
  with find_unique [OF dist a(1)] a show ?thesis
    using that by simp
qed

text \<open>
  C8: a confirmed action is final. However the history goes on, later claims, receipts,
  resolutions and migrations included, the action stays confirmed with the receipt it was
  confirmed by.
\<close>
theorem confirmed_action_final:
  assumes "reachable sha z db" "find_action orgId workflowId actionId db = Some a" "at_state a = ac_confirmed"
    and "wf_steps sha z UNIV db db'"
  shows "\<exists>a'. find_action orgId workflowId actionId db' = Some a' \<and> at_state a' = ac_confirmed \<and> at_receipt a' = at_receipt a"
proof -
  have "settled (orgId, workflowId, actionId) (at_receipt a) (coord_of db)"
    using find_action_Some [OF assms(2)] assms(3) by (auto simp: settled_def)
  then have "settled (orgId, workflowId, actionId) (at_receipt a) (coord_of db')"
    using steps_settled [OF assms(4)] reachable_inv [OF assms(1)] by blast
  then show ?thesis
    using settled_find [of db'] steps_inv [OF assms(4)] reachable_inv [OF assms(1)] by metis
qed

end
