(* ===== verification/Workflow_Approval.thy ===== *)
theory Workflow_Approval
  imports Workflow_Safety
begin

text \<open>
  The approvals of the workflow services: previews are used once, and a migration moves through
  its stages one at a time, over pages that are fixed when it is sealed. As for the protocol,
  one lemma per operation says what it does to the tables concerned.
\<close>

named_theorems aux_simps \<open>the previews, migrations and pages of an updated database\<close>

section \<open>Steps of a migration\<close>

record ledger =
  lr_previews :: "preview_row list"
  lr_migrations :: "migration_row list"
  lr_chunks :: "chunk_row list"

definition ledger_of :: "wf_db \<Rightarrow> ledger" where
  "ledger_of db = \<lparr>lr_previews = wd_previews db, lr_migrations = wd_migrations db, lr_chunks = wd_chunks db\<rparr>"

definition map_migration :: "string \<Rightarrow> (migration_row \<Rightarrow> migration_row) \<Rightarrow> ledger \<Rightarrow> ledger" where
  "map_migration i d l = l\<lparr>lr_migrations := update_where (\<lambda>m. mg_id m = i) d (lr_migrations l)\<rparr>"

text \<open>What a step does to its migration: \<open>next_state m m'\<close>.\<close>

datatype migration_event = ev_append | ev_seal | ev_validate | ev_import | ev_stage

fun next_state :: "migration_event \<Rightarrow> migration_row \<Rightarrow> migration_row \<Rightarrow> bool" where
  "next_state ev_append m m' \<longleftrightarrow> mg_sealedAt m = None \<and> mg_stage m = stg_preview \<and> mg_sealedAt m' = None \<and>
     mg_stage m' = stg_preview \<and> mg_chunkCount m' = mg_chunkCount m + 1 \<and>
     mg_validatedChunks m' = mg_validatedChunks m \<and> mg_importedChunks m' = mg_importedChunks m"
| "next_state ev_seal m m' \<longleftrightarrow> mg_sealedAt m = None \<and> mg_stage m = stg_preview \<and> mg_sealedAt m' \<noteq> None \<and>
     mg_stage m' = stg_preview \<and> mg_chunkCount m' = mg_chunkCount m \<and>
     mg_validatedChunks m' = mg_validatedChunks m \<and> mg_importedChunks m' = mg_importedChunks m"
| "next_state ev_validate m m' \<longleftrightarrow> mg_sealedAt m \<noteq> None \<and> mg_stage m = stg_preview \<and> mg_sealedAt m' = mg_sealedAt m \<and>
     mg_chunkCount m' = mg_chunkCount m \<and> mg_validatedChunks m' = mg_validatedChunks m + 1 \<and>
     mg_importedChunks m' = mg_importedChunks m \<and>
     mg_stage m' = (if mg_validatedChunks m' = mg_chunkCount m then stg_validated else stg_preview)"
| "next_state ev_import m m' \<longleftrightarrow> mg_sealedAt m \<noteq> None \<and> mg_stage m = stg_validated \<and> mg_sealedAt m' = mg_sealedAt m \<and>
     mg_chunkCount m' = mg_chunkCount m \<and> mg_validatedChunks m' = mg_validatedChunks m \<and>
     mg_importedChunks m' = mg_importedChunks m + 1 \<and>
     mg_stage m' = (if mg_importedChunks m' = mg_chunkCount m then stg_imported else stg_validated)"
| "next_state ev_stage m m' \<longleftrightarrow> mg_sealedAt m \<noteq> None \<and> mg_sealedAt m' = mg_sealedAt m \<and>
     mg_chunkCount m' = mg_chunkCount m \<and> mg_validatedChunks m' = mg_validatedChunks m \<and>
     mg_importedChunks m' = mg_importedChunks m \<and>
     ((mg_stage m = stg_imported \<and> mg_stage m' = stg_host_switched) \<or>
      (mg_stage m = stg_host_switched \<and> mg_stage m' = stg_verified))"

definition same_page :: "chunk_row \<Rightarrow> chunk_row \<Rightarrow> bool" where
  "same_page c c' \<longleftrightarrow> ck_orgId c' = ck_orgId c \<and> ck_migrationId c' = ck_migrationId c \<and> ck_sequence c' = ck_sequence c \<and>
     ck_payload c' = ck_payload c \<and> ck_digest c' = ck_digest c \<and> ck_recordCount c' = ck_recordCount c"

inductive ledger_step :: "ledger \<Rightarrow> ledger \<Rightarrow> bool" where
  prepare: "pv_id p \<notin> pv_id ` set (lr_previews l) \<Longrightarrow> pv_consumedAt p = None \<Longrightarrow>
    ledger_step l (l\<lparr>lr_previews := lr_previews l @ [p]\<rparr>)"
| consume: "ledger_step l (l\<lparr>lr_previews := update_where (\<lambda>p. pv_id p = i) (\<lambda>p. p\<lparr>pv_consumedAt := Some now\<rparr>) (lr_previews l)\<rparr>)"
| preview: "mg_id m \<notin> mg_id ` set (lr_migrations l) \<Longrightarrow> mg_sealedAt m = None \<Longrightarrow> mg_stage m = stg_preview \<Longrightarrow>
    mg_chunkCount m = 1 \<Longrightarrow> mg_validatedChunks m = 0 \<Longrightarrow> mg_importedChunks m = 0 \<Longrightarrow> ck_migrationId c = mg_id m \<Longrightarrow>
    ledger_step l (l\<lparr>lr_migrations := lr_migrations l @ [m], lr_chunks := lr_chunks l @ [c]\<rparr>)"
| append: "m \<in> set (lr_migrations l) \<Longrightarrow> next_state ev_append m (d m) \<Longrightarrow> (\<And>m. mg_id (d m) = mg_id m) \<Longrightarrow>
    ck_migrationId c = mg_id m \<Longrightarrow>
    ledger_step l (map_migration (mg_id m) d (l\<lparr>lr_chunks := lr_chunks l @ [c]\<rparr>))"
| advance: "m \<in> set (lr_migrations l) \<Longrightarrow> next_state ev m (d m) \<Longrightarrow> ev \<noteq> ev_append \<Longrightarrow> (\<And>m. mg_id (d m) = mg_id m) \<Longrightarrow>
    ledger_step l (map_migration (mg_id m) d l)"
| mark: "(\<And>c. same_page c (f c)) \<Longrightarrow> ledger_step l (l\<lparr>lr_chunks := update_where p f (lr_chunks l)\<rparr>)"

abbreviation ledger_steps :: "ledger \<Rightarrow> ledger \<Rightarrow> bool" where
  "ledger_steps \<equiv> ledger_step\<^sup>*\<^sup>*"

section \<open>The invariant and what steps keep\<close>

definition migration_ok :: "migration_row \<Rightarrow> bool" where
  "migration_ok m \<longleftrightarrow>
     (case mg_stage m of
        stg_preview \<Rightarrow> mg_validatedChunks m < mg_chunkCount m \<and> mg_importedChunks m = 0 \<and>
          (mg_sealedAt m = None \<longrightarrow> mg_validatedChunks m = 0)
      | stg_validated \<Rightarrow> mg_sealedAt m \<noteq> None \<and> mg_validatedChunks m = mg_chunkCount m \<and> mg_importedChunks m < mg_chunkCount m
      | _ \<Rightarrow> mg_sealedAt m \<noteq> None \<and> mg_validatedChunks m = mg_chunkCount m \<and> mg_importedChunks m = mg_chunkCount m)"

definition ledger_inv :: "ledger \<Rightarrow> bool" where
  "ledger_inv l \<longleftrightarrow> distinct (map pv_id (lr_previews l)) \<and> distinct (map mg_id (lr_migrations l)) \<and>
     (\<forall>m\<in>set (lr_migrations l). migration_ok m)"

lemma next_state_ok: "next_state ev m m' \<Longrightarrow> migration_ok m \<Longrightarrow> migration_ok m'"
  by (cases ev; cases "mg_stage m") (auto simp: migration_ok_def split: if_split_asm)

lemma next_state_stage:
  "next_state ev m m' \<Longrightarrow> stage_index (mg_stage m) \<le> stage_index (mg_stage m') \<and>
     stage_index (mg_stage m') \<le> stage_index (mg_stage m) + 1"
  by (cases ev) (auto split: if_split_asm)

lemma next_state_sealed:
  "next_state ev m m' \<Longrightarrow> mg_sealedAt m \<noteq> None \<Longrightarrow> mg_sealedAt m' = mg_sealedAt m \<and> mg_chunkCount m' = mg_chunkCount m \<and> ev \<noteq> ev_append"
  by (cases ev) auto

lemma map_migration_parts [simp]:
  "lr_previews (map_migration i d l) = lr_previews l"
  "lr_migrations (map_migration i d l) = update_where (\<lambda>m. mg_id m = i) d (lr_migrations l)"
  "lr_chunks (map_migration i d l) = lr_chunks l"
  by (simp_all add: map_migration_def)

lemma ok_update:
  assumes "\<forall>m\<in>set ms. migration_ok m" "distinct (map mg_id ms)" "m \<in> set ms" "next_state ev m (d m)"
  shows "\<forall>m'\<in>set (update_where (\<lambda>x. mg_id x = mg_id m) d ms). migration_ok m'"
proof
  fix m'
  assume "m' \<in> set (update_where (\<lambda>x. mg_id x = mg_id m) d ms)"
  then obtain m0 where m0: "m0 \<in> set ms" "m' = (if mg_id m0 = mg_id m then d m0 else m0)"
    unfolding mem_update_where by blast
  show "migration_ok m'"
  proof (cases "mg_id m0 = mg_id m")
    case True
    then have "m0 = m"
      using distinct_same [OF assms(2) m0(1) assms(3)] by simp
    then show ?thesis
      using m0 True assms(1,3) next_state_ok [OF assms(4)] by simp
  next
    case False
    then show ?thesis
      using m0 assms(1) by simp
  qed
qed

lemma ledger_inv_step:
  assumes "ledger_step l l'" "ledger_inv l"
  shows "ledger_inv l'"
proof -
  have ok: "\<forall>m\<in>set (lr_migrations l). migration_ok m" and dist: "distinct (map mg_id (lr_migrations l))"
    using assms(2) by (simp_all add: ledger_inv_def)
  from assms(1) show ?thesis
  proof cases
    case (preview m c)
    then have "migration_ok m"
      by (simp add: migration_ok_def)
    with preview assms(2) show ?thesis
      by (simp add: ledger_inv_def)
  next
    case (append m d c)
    with ok_update [where d = d, OF ok dist append(2,3)] assms(2) show ?thesis
      by (simp add: ledger_inv_def)
  next
    case (advance m ev d)
    with ok_update [where d = d, OF ok dist advance(2,3)] assms(2) show ?thesis
      by (simp add: ledger_inv_def)
  qed (use assms(2) in \<open>simp_all add: ledger_inv_def\<close>)
qed

definition consumed :: "string \<Rightarrow> ledger \<Rightarrow> bool" where
  "consumed i l \<longleftrightarrow> (\<exists>p\<in>set (lr_previews l). pv_id p = i \<and> pv_consumedAt p \<noteq> None)"

lemma consumed_step:
  assumes "ledger_step l l'" "consumed i l"
  shows "consumed i l'"
  using assms(1)
proof cases
  case (consume j now)
  obtain p where p: "p \<in> set (lr_previews l)" "pv_id p = i" "pv_consumedAt p \<noteq> None"
    using assms(2) by (auto simp: consumed_def)
  let ?p = "if pv_id p = j then p\<lparr>pv_consumedAt := Some now\<rparr> else p"
  have "?p \<in> set (lr_previews l')"
    using p(1) consume by (auto simp: mem_update_where)
  moreover have "pv_id ?p = i" "pv_consumedAt ?p \<noteq> None"
    using p by auto
  ultimately show ?thesis
    unfolding consumed_def by blast
qed (use assms(2) in \<open>auto simp: consumed_def\<close>)

text \<open>The pages of a migration; \<open>sealed i n ps\<close>: it is sealed with \<open>n\<close> pages, which are \<open>ps\<close>.\<close>

definition page_content :: "chunk_row \<Rightarrow> string \<times> nat \<times> migration_chunk \<times> string \<times> nat" where
  "page_content c = (ck_orgId c, ck_sequence c, ck_payload c, ck_digest c, ck_recordCount c)"

definition pages_of :: "string \<Rightarrow> chunk_row list \<Rightarrow> (string \<times> nat \<times> migration_chunk \<times> string \<times> nat) list" where
  "pages_of i cs = map page_content (filter (\<lambda>c. ck_migrationId c = i) cs)"

definition sealed :: "string \<Rightarrow> nat \<Rightarrow> (string \<times> nat \<times> migration_chunk \<times> string \<times> nat) list \<Rightarrow> ledger \<Rightarrow> bool" where
  "sealed i n ps l \<longleftrightarrow>
     (\<exists>m\<in>set (lr_migrations l). mg_id m = i \<and> mg_sealedAt m \<noteq> None \<and> mg_chunkCount m = n) \<and> pages_of i (lr_chunks l) = ps"

lemma pages_of_mark:
  assumes "\<And>c. same_page c (f c)"
  shows "pages_of i (update_where p f cs) = pages_of i cs"
  using assms by (induction cs) (auto simp: pages_of_def update_where_def page_content_def same_page_def)

lemma sealed_update:
  assumes "distinct (map mg_id ms)" "m \<in> set ms" "next_state ev m (d m)" "\<And>m. mg_id (d m) = mg_id m"
    and "s \<in> set ms" "mg_sealedAt s \<noteq> None"
  shows "\<exists>s'\<in>set (update_where (\<lambda>x. mg_id x = mg_id m) d ms). mg_id s' = mg_id s \<and> mg_sealedAt s' \<noteq> None \<and>
    mg_chunkCount s' = mg_chunkCount s"
proof (cases "mg_id s = mg_id m")
  case True
  then have "s = m"
    using distinct_same [OF assms(1,5,2)] by simp
  then have "d s \<in> set (update_where (\<lambda>x. mg_id x = mg_id m) d ms)" "mg_sealedAt (d s) \<noteq> None" "mg_chunkCount (d s) = mg_chunkCount s"
    using next_state_sealed [OF assms(3)] assms(2,6) by (auto simp: mem_update_where)
  with assms(4) show ?thesis by blast
next
  case False
  with assms(5,6) show ?thesis
    by (blast intro: update_where_keeps)
qed

lemma sealed_step:
  assumes "ledger_step l l'" "ledger_inv l" "sealed i n ps l"
  shows "sealed i n ps l'"
proof -
  have dist: "distinct (map mg_id (lr_migrations l))"
    using assms(2) by (simp add: ledger_inv_def)
  obtain s where s: "s \<in> set (lr_migrations l)" "mg_id s = i" "mg_sealedAt s \<noteq> None" "mg_chunkCount s = n"
    and ps: "pages_of i (lr_chunks l) = ps"
    using assms(3) by (auto simp: sealed_def)
  from assms(1) show ?thesis
  proof cases
    case (preview m c)
    then have "ck_migrationId c \<noteq> i"
      using s(1,2) by auto
    with preview s ps show ?thesis
      by (auto simp: sealed_def pages_of_def)
  next
    case (append m d c)
    then have "m \<noteq> s"
      using s(3) by auto
    then have "ck_migrationId c \<noteq> i"
      using distinct_same [OF dist append(2) s(1)] s(2) append(5) by auto
    moreover have "\<exists>s'\<in>set (lr_migrations l'). mg_id s' = i \<and> mg_sealedAt s' \<noteq> None \<and> mg_chunkCount s' = n"
      using sealed_update [where d = d, OF dist append(2-4) s(1,3)] s(2,4) append(1) by simp
    ultimately show ?thesis
      using append(1) ps by (simp add: sealed_def pages_of_def)
  next
    case (advance m ev d)
    have "\<exists>s'\<in>set (lr_migrations l'). mg_id s' = i \<and> mg_sealedAt s' \<noteq> None \<and> mg_chunkCount s' = n"
      using sealed_update [where d = d, OF dist advance(2,3,5) s(1,3)] s(2,4) advance(1) by simp
    then show ?thesis
      using advance(1) ps by (simp add: sealed_def)
  next
    case (mark f p)
    then show ?thesis
      using s ps pages_of_mark [OF mark(2)] by (auto simp: sealed_def)
  qed (use assms(3) in \<open>auto simp: sealed_def\<close>)
qed

section \<open>Services that leave approvals alone\<close>

lemma ledger_of_fields [aux_simps]:
  "ledger_of (db\<lparr>wd_integrations := a\<rparr>) = ledger_of db"
  "ledger_of (db\<lparr>wd_configurations := b\<rparr>) = ledger_of db"
  "ledger_of (db\<lparr>wd_authorizations := d\<rparr>) = ledger_of db"
  "ledger_of (db\<lparr>wd_installations := f\<rparr>) = ledger_of db"
  "ledger_of (db\<lparr>wd_facts := i\<rparr>) = ledger_of db"
  "ledger_of (db\<lparr>wd_workflows := ws\<rparr>) = ledger_of db"
  "ledger_of (db\<lparr>wd_runs := rs\<rparr>) = ledger_of db"
  "ledger_of (db\<lparr>wd_actions := as\<rparr>) = ledger_of db"
  "ledger_of (db\<lparr>wd_dedup := ds\<rparr>) = ledger_of db"
  "ledger_of (db\<lparr>wd_previews := ps\<rparr>) = (ledger_of db)\<lparr>lr_previews := ps\<rparr>"
  "ledger_of (db\<lparr>wd_migrations := ms\<rparr>) = (ledger_of db)\<lparr>lr_migrations := ms\<rparr>"
  "ledger_of (db\<lparr>wd_chunks := cs\<rparr>) = (ledger_of db)\<lparr>lr_chunks := cs\<rparr>"
  by (simp_all add: ledger_of_def)

lemma ledger_of_parts [simp]:
  "lr_previews (ledger_of db) = wd_previews db" "lr_migrations (ledger_of db) = wd_migrations db"
  "lr_chunks (ledger_of db) = wd_chunks db"
  by (simp_all add: ledger_of_def)

lemma ledger_of_audit [aux_simps]: "ledger_of (audit actor k t m db) = ledger_of db"
  by (simp add: audit_def ledger_of_def)

lemma ledger_of_updates [aux_simps]:
  "ledger_of (update_workflow i d db) = ledger_of db"
  "ledger_of (update_installation e o' wid i di db) = ledger_of db"
  "ledger_of (set_lease w l t db) = ledger_of db"
  "ledger_of (update_run i dr db) = ledger_of db"
  "ledger_of (update_action o' wid i da db) = ledger_of db"
  "ledger_of (revoke_all e actor i db) = ledger_of db"
  "ledger_of (import_integration actor w source db) = ledger_of db"
  "ledger_of (progress_log actor w kd row n c db) = ledger_of db"
  "ledger_of (reassign e actor w i db) = ledger_of db"
  by (simp_all add: update_workflow_def update_installation_def set_lease_def update_run_def update_action_def revoke_all_def
      import_integration_def progress_log_def reassign_def Let_def aux_simps)

lemma ledger_of_order_scope [aux_simps]: "ledger_of (activateOrderScope w db) = ledger_of db"
  by (auto simp: activateOrderScope_def aux_simps split: option.split WorkflowConfiguration.split)

lemma ledger_of_revoke_assigned [aux_simps]: "ledger_of (revoke_assigned e actor w i db) = ledger_of db"
  by (simp add: revoke_assigned_def aux_simps split: option.split)

lemma ledger_of_update_migration [aux_simps]:
  "ledger_of (update_migration i d db) = map_migration i d (ledger_of db)"
  by (simp add: update_migration_def map_migration_def aux_simps)

lemma ledger_of_create:
  "create_workflow w db = Inr db' \<Longrightarrow> ledger_of db' = ledger_of db"
  "create_configuration c db = Inr db' \<Longrightarrow> ledger_of db' = ledger_of db"
  "create_authorization a db = Inr db' \<Longrightarrow> ledger_of db' = ledger_of db"
  "create_run r db = Inr db' \<Longrightarrow> ledger_of db' = ledger_of db"
  "create_action act db = Inr db' \<Longrightarrow> ledger_of db' = ledger_of db"
  "create_keys o' wid i keys db = Inr db' \<Longrightarrow> ledger_of db' = ledger_of db"
  by (auto simp: create_workflow_def create_configuration_def create_authorization_def create_run_def create_action_def
      create_keys_def aux_simps split: if_split_asm)

lemma ledger_of_grant_loop: "grant_loop e actor i v c n scopes db = Inr db' \<Longrightarrow> ledger_of db' = ledger_of db"
  by (induction scopes arbitrary: n db) (auto simp: res_simps dest!: ledger_of_create)

lemma ledger_of_ensureWorkflow: "ensureWorkflow e actor k t db = Inr (w, db') \<Longrightarrow> ledger_of db' = ledger_of db"
  by (auto simp: ensureWorkflow_def upsert_integration_def Let_def res_simps aux_simps
      split: option.split_asm if_split_asm dest!: ledger_of_create)

lemma ledger_of_restrict_loop: "restrict_loop p runs db = Inr db' \<Longrightarrow> ledger_of db' = ledger_of db"
  by (induction runs arbitrary: db) (auto simp: res_simps aux_simps)

lemma ledger_of_restrictRuns: "restrictRuns sha w a b c d db = Inr db' \<Longrightarrow> ledger_of db' = ledger_of db"
  by (auto simp: restrictRuns_def Let_def res_simps aux_simps split: if_split_asm dest!: ledger_of_restrict_loop)

lemma ledger_of_restrict_dependents: "restrict_dependents sha a b ws db = Inr db' \<Longrightarrow> ledger_of db' = ledger_of db"
proof (induction ws arbitrary: db)
  case (Cons w ws)
  then show ?case
    by (auto simp: res_simps split: option.split_asm dest!: ledger_of_restrictRuns)
qed simp

lemma ledger_of_apply_change: "apply_change sha e actor w shared change db = Inr db' \<Longrightarrow> ledger_of db' = ledger_of db"
  by (cases change)
    (auto simp: apply_change_def save_configuration_def save_integration_def save_authorization_def save_control_def Let_def
      res_simps aux_simps split: option.split_asm if_split_asm
      dest!: ledger_of_create ledger_of_restrictRuns ledger_of_restrict_dependents ledger_of_grant_loop)

lemma ledger_of_claimAction:
  assumes "claimAction sha e actor w runId i db = Inr (r, db')"
  shows "ledger_of db' = ledger_of db"
proof -
  obtain keys where keys: "deduplicationKeys sha (ai_identity i) runId (ai_actionId i) = Inr keys"
    using assms by (auto simp: claimAction_def res_simps)
  show ?thesis
  proof (cases "key_rows (ac_orgId actor) (wf_id w) keys db")
    case (Cons d ds)
    then show ?thesis
      using assms keys by (auto simp: claimAction_def res_simps)
  next
    case Nil
    then obtain db1 where "(case find_action (ac_orgId actor) (wf_id w) (ai_actionId i) db of
          Some a \<Rightarrow> reclaim_action sha e actor w runId i keys a db
        | None \<Rightarrow> create_action (new_action sha e actor w runId i keys) db) = Inr db1"
      and "ledger_of db' = ledger_of db1"
      using assms keys by (auto simp: claimAction_def res_simps dest!: ledger_of_create(6))
    then show ?thesis
      by (auto simp: reclaim_action_def res_simps aux_simps split: option.split_asm dest!: ledger_of_create(5))
  qed
qed

lemma ledger_of_claim_loop: "claim_loop sha e actor w runId is db = Inr (rs, db') \<Longrightarrow> ledger_of db' = ledger_of db"
  by (induction "is" arbitrary: db rs) (auto simp: res_simps dest!: ledger_of_claimAction)

lemma ledger_of_store_receipt: "ledger_of (store_receipt e actor w runId r db) = ledger_of db"
  by (simp add: store_receipt_def Let_def aux_simps)

lemma ledger_of_record_receipt:
  "record_receipt sha e actor auth w bd resolve assigned r db = Inr db' \<Longrightarrow> ledger_of db' = ledger_of db"
  by (auto simp: res_simps record_receipt_def ledger_of_store_receipt split: if_split_asm)

lemma ledger_of_receipt_loop:
  "receipt_loop sha e actor auth w bd resolve assigned rs db = Inr db' \<Longrightarrow> ledger_of db' = ledger_of db"
  by (induction rs arbitrary: db) (auto simp: res_simps dest!: ledger_of_record_receipt)

lemma ledger_of_record_evidence:
  "record_evidence sha e actor auth w bd resolve rs db = Inr (r, db') \<Longrightarrow> ledger_of db' = ledger_of db"
  by (auto simp: record_evidence_def Let_def res_simps dest!: ledger_of_receipt_loop)

lemma ledger_of_actionOperation: "actionOperation sha e actor auth w op db = Inr (r, db') \<Longrightarrow> ledger_of db' = ledger_of db"
  by (cases op) (auto simp: claim_actions_def res_simps aux_simps dest!: ledger_of_claim_loop ledger_of_record_evidence)

lemma ledger_of_import_records:
  "import_record_loop sha e actor runId wid rs db = Inr db' \<Longrightarrow> ledger_of db' = ledger_of db"
  by (induction rs arbitrary: db)
    (auto simp: res_simps import_record_def split: option.split_asm dest!: ledger_of_create)

lemma ledger_of_import_page: "import_page sha e actor runId items db = Inr db' \<Longrightarrow> ledger_of db' = ledger_of db"
  by (induction items arbitrary: db) (auto simp: res_simps dest!: ledger_of_import_records)

lemma ledger_of_import_configurations:
  "import_configurations e actor targets n items db = Inr db' \<Longrightarrow> ledger_of db' = ledger_of db"
  by (induction items arbitrary: db n) (auto simp: Let_def res_simps aux_simps dest!: ledger_of_create ledger_of_grant_loop)

lemma ledger_of_target_loop:
  "migration_target_loop e actor w source items db = Inr (ts, db') \<Longrightarrow> ledger_of db' = ledger_of db"
  by (induction items arbitrary: db ts)
    (auto simp: res_simps migration_target_step_def Let_def split: option.split_asm dest!: ledger_of_create)

section \<open>Previews\<close>

lemma create_preview_step:
  assumes "create_preview p db = Inr db'" "pv_consumedAt p = None"
  shows "ledger_steps (ledger_of db) (ledger_of db')"
proof -
  have "pv_id p \<notin> pv_id ` set (lr_previews (ledger_of db))"
    using assms(1) by (auto simp: create_preview_def list_ex_iff split: if_split_asm)
  from ledger_step.prepare [OF this assms(2)] show ?thesis
    using assms(1) by (auto simp: create_preview_def aux_simps split: if_split_asm)
qed

lemma consume_preview_step: "ledger_step (ledger_of db) (ledger_of (consume_preview i now db))"
  using ledger_step.consume [of "ledger_of db" i now] by (simp add: consume_preview_def aux_simps)

lemma consume_preview_after: "ledger_of db1 = ledger_of db \<Longrightarrow> ledger_steps (ledger_of db) (ledger_of (consume_preview i now db1))"
  using consume_preview_step [of db1] by (simp add: r_into_rtranclp)

lemma prepareChange_ledger:
  "prepareChange sha e actor w inp db = Inr (r, db') \<Longrightarrow> ledger_steps (ledger_of db) (ledger_of db')"
  by (auto simp: prepareChange_def Let_def res_simps aux_simps dest!: create_preview_step)

lemma saveChange_ledger:
  assumes "saveChange sha e actor w inp db = Inr (v, db')"
  obtains p db1 where "find_preview e actor w (si_previewId inp) (si_confirmationDigest inp) (si_expected inp) db = Some p"
    "ledger_of db1 = ledger_of db" "ledger_of db' = ledger_of (consume_preview (pv_id p) (e_now e) db1)"
  using assms by (auto simp: saveChange_def Let_def res_simps aux_simps dest!: ledger_of_apply_change)

lemma takeover_ledger:
  assumes "takeover sha e actor w i n pid d db = Inr (r, db')"
  obtains p db1 x where "find_preview e actor w pid d x db = Some p"
    "ledger_of db1 = ledger_of db" "ledger_of db' = ledger_of (consume_preview (pv_id p) (e_now e) db1)"
proof -
  let ?base = "update_installation e (ac_orgId actor) (wf_id w) i
           (\<lambda>i. i\<lparr>il_state := (if wf_controlState w = ctl_active then ins_enabled else ins_paused)\<rparr>)
           (reassign e actor w i (revoke_assigned e actor w i db))"
  let ?db1 = "if wf_controlState w = ctl_active then activateOrderScope w ?base else ?base"
  have "ledger_of ?db1 = ledger_of db"
    by (simp add: aux_simps)
  moreover obtain p x where "find_preview e actor w pid d x db = Some p"
    "ledger_of db' = ledger_of (consume_preview (pv_id p) (e_now e) ?db1)"
    using assms by (auto simp: takeover_def Let_def res_simps aux_simps)
  ultimately show ?thesis
    using that by blast
qed

lemma ledger_of_record_installation:
  "record_installation e actor w kind old d db = Inr (r, db') \<Longrightarrow> ledger_of db' = ledger_of db"
  by (auto simp: record_installation_def aux_simps)

lemma ledger_of_install:
  "record_checks e actor w i cs v db = Inr (r, db') \<Longrightarrow> ledger_of db' = ledger_of db"
  "record_host e actor w i h db = Inr (r, db') \<Longrightarrow> ledger_of db' = ledger_of db"
  "set_state e actor w i n state db = Inr (r, db') \<Longrightarrow> ledger_of db' = ledger_of db"
  by (auto simp: record_checks_def record_host_def set_state_def res_simps aux_simps split: if_split_asm
      dest!: ledger_of_record_installation)

lemma installOperation_ledger:
  assumes "installOperation sha e actor w op db = Inr (r, db')"
  shows "ledger_steps (ledger_of db) (ledger_of db')"
proof (cases op)
  case (Register v)
  then show ?thesis
    using assms by (auto simp: register_installation_def Let_def aux_simps split: option.split_asm if_split_asm)
next
  case (PrepareTakeover i n p)
  then show ?thesis
    using assms by (auto simp: prepare_takeover_def Let_def res_simps dest!: create_preview_step)
next
  case (Takeover i n pid d)
  then show ?thesis
    using assms by (auto elim!: takeover_ledger intro: consume_preview_after)
qed (use assms ledger_of_install in auto)

lemma claim_window_ledger:
  "claim_window sha e actor w v op db = Inr db' \<Longrightarrow> ledger_steps (ledger_of db) (ledger_of db')"
  by (auto simp: claim_window_def res_simps split: RunMode.split_asm intro: consume_preview_after)

lemma runOperation_ledger:
  assumes "runOperation sha e actor auth w op db = Inr (r, db')"
  shows "ledger_steps (ledger_of db) (ledger_of db')"
proof -
  have run: "run_branch sha e actor auth w op db = Inr (r, db')"
    using assms by (auto simp: runOperation_def res_simps)
  show ?thesis
  proof (cases op)
    case (PrepareBackfill i n v reason)
    then show ?thesis
      using run by (auto simp: prepare_backfill_def Let_def res_simps aux_simps dest!: create_preview_step)
  next
    case (StartRun inp)
    then obtain v db1 where "claim_window sha e actor w v inp db = Inr db1" "ledger_of db' = ledger_of db1"
      using run by (auto simp: start_run_def Let_def res_simps aux_simps dest!: ledger_of_create)
    then show ?thesis
      using claim_window_ledger by metis
  qed (use run in \<open>auto simp: release_run_def renew_run_def record_run_def Let_def res_simps aux_simps split: if_split_asm\<close>)
qed

section \<open>Migrations\<close>

lemma create_migration_Inr:
  "create_migration m db = Inr db' \<Longrightarrow> mg_id m \<notin> mg_id ` set (wd_migrations db) \<and>
     ledger_of db' = (ledger_of db)\<lparr>lr_migrations := wd_migrations db @ [m]\<rparr>"
  by (auto simp: create_migration_def list_ex_iff aux_simps split: if_split_asm)

lemma create_chunk_Inr:
  "create_chunk c db = Inr db' \<Longrightarrow> ledger_of db' = (ledger_of db)\<lparr>lr_chunks := wd_chunks db @ [c]\<rparr>"
  by (auto simp: create_chunk_def aux_simps split: if_split_asm)

lemma preview_rows_step:
  assumes "create_migration (new_migration sha e actor w m targets chunk) db = Inr db1"
    "create_chunk (new_chunk actor (mg_id (new_migration sha e actor w m targets chunk)) n chunk h) db1 = Inr db2"
  shows "ledger_step (ledger_of db) (ledger_of db2)"
proof -
  let ?row = "new_migration sha e actor w m targets chunk" and ?c = "new_chunk actor (e_newId e) n chunk h"
  have id: "mg_id ?row = e_newId e"
    by (simp add: new_migration_def)
  note c1 = create_migration_Inr [OF assms(1)] and c2 = create_chunk_Inr [OF assms(2)]
  have "ledger_step (ledger_of db) ((ledger_of db)\<lparr>lr_migrations := lr_migrations (ledger_of db) @ [?row],
      lr_chunks := lr_chunks (ledger_of db) @ [?c]\<rparr>)"
    by (rule ledger_step.preview) (use c1 in \<open>simp_all add: new_migration_def new_chunk_def\<close>)
  moreover have "wd_chunks db1 = wd_chunks db"
    using c1 by (simp flip: ledger_of_parts)
  ultimately show ?thesis
    using c1 c2 by (simp add: id)
qed

lemma migration_preview_ledger:
  assumes "migration_preview sha z e actor w m db = Inr (r, db')"
  shows "ledger_steps (ledger_of db) (ledger_of db')"
proof (cases "find (\<lambda>ma. mg_orgId ma = ac_orgId actor \<and> mg_enterpriseKey ma = wf_enterpriseKey w \<and>
    mg_sourceSnapshotHash ma = mm_sourceSnapshotHash m \<and> mg_targetVersion ma = mm_targetVersion m) (wd_migrations db)")
  case (Some prior)
  then have "db' = db"
    using assms by (auto simp: migration_preview_def res_simps)
  then show ?thesis by simp
next
  case None
  show ?thesis
    using assms unfolding migration_preview_def Let_def None
    by (simp, elim res_bindE)
      (clarsimp simp: aux_simps elim!: res_bindE, drule ledger_of_target_loop, drule (1) preview_rows_step, simp)
qed

lemma ledger_advance:
  assumes "row \<in> set (wd_migrations db)" "next_state ev row (d row)" "ev \<noteq> ev_append" "\<And>m. mg_id (d m) = mg_id m"
  shows "ledger_step (ledger_of db) (ledger_of (update_migration (mg_id row) d db))"
  using ledger_step.advance [of row "ledger_of db" ev d] assms by (simp add: aux_simps)

lemma migration_append_ledger:
  assumes "migration_append sha actor row v n chunk h db = Inr (r, db')" "row \<in> set (wd_migrations db)"
  shows "ledger_steps (ledger_of db) (ledger_of db')"
proof -
  let ?d = "\<lambda>m. m\<lparr>mg_chunkCount := mg_chunkCount m + 1, mg_recordCount := mg_recordCount m + records chunk,
              mg_chunksDigest := Some (nextDigest sha (case mg_chunksDigest row of None \<Rightarrow> digestStart | Some d \<Rightarrow> d)
                n h (records chunk)), mg_version := mg_version m + 1\<rparr>"
  show ?thesis
  proof (cases "db' = db")
    case False
    then obtain db1 where conflict: "\<not> append_conflict sha row v n chunk h"
      and db1: "create_chunk (new_chunk actor (mg_id row) n chunk h) db = Inr db1"
      and db': "db' = update_migration (mg_id row) ?d db1"
      using assms(1) by (auto simp: migration_append_def Let_def res_simps split: if_split_asm)
    have "ledger_step (ledger_of db) (map_migration (mg_id row) ?d
        ((ledger_of db)\<lparr>lr_chunks := lr_chunks (ledger_of db) @ [new_chunk actor (mg_id row) n chunk h]\<rparr>))"
      by (rule ledger_step.append) (use conflict assms(2) in \<open>simp_all add: append_conflict_def new_chunk_def\<close>)
    then show ?thesis
      using create_chunk_Inr [OF db1] by (simp add: db' aux_simps r_into_rtranclp)
  qed simp
qed

lemma migration_seal_ledger:
  assumes "migration_seal sha e row v k n d db = Inr (r, db')" "row \<in> set (wd_migrations db)"
  shows "ledger_steps (ledger_of db) (ledger_of db')"
  using assms(1) assms(2)
  by (auto simp: migration_seal_def Let_def res_simps intro!: r_into_rtranclp ledger_advance [where ev = ev_seal])

lemma migration_validate_ledger:
  assumes "migration_validate sha actor w row db = Inr (r, db')" "row \<in> set (wd_migrations db)"
    "mg_sealedAt row \<noteq> None" "mg_stage row = stg_preview"
  shows "ledger_steps (ledger_of db) (ledger_of db')"
  using assms
  by (auto simp: migration_validate_def Let_def res_simps aux_simps ledger_of_update_migration [symmetric]
      simp del: ledger_of_update_migration intro!: r_into_rtranclp ledger_advance [where ev = ev_validate])

lemma ledger_of_mark: "ledger_step (ledger_of db) (ledger_of (mark_imported e actor i n db))"
  using ledger_step.mark [of "\<lambda>c. c\<lparr>ck_importedAt := Some (e_now e)\<rparr>" "ledger_of db"]
  by (simp add: mark_imported_def aux_simps same_page_def)

lemma import_rows_step:
  assumes "ledger_of db2 = ledger_of db" "row \<in> set (wd_migrations db)" "next_state ev_import row (d row)"
    "\<And>m. mg_id (d m) = mg_id m"
  shows "ledger_steps (ledger_of db) (ledger_of (update_migration (mg_id row) d (mark_imported e actor i n db2)))"
proof -
  have "wd_migrations db2 = wd_migrations db"
    using assms(1) by (metis ledger_of_parts(2))
  then have "wd_migrations (mark_imported e actor i n db2) = wd_migrations db"
    by (simp add: mark_imported_def)
  then have "ledger_step (ledger_of (mark_imported e actor i n db2))
      (ledger_of (update_migration (mg_id row) d (mark_imported e actor i n db2)))"
    using assms(2-4) by (intro ledger_advance [where ev = ev_import]) simp_all
  with ledger_of_mark [of db2 e actor i n] assms(1) show ?thesis
    by (simp add: converse_rtranclp_into_rtranclp)
qed

lemma migration_import_ledger:
  assumes "migration_import sha e actor w row db = Inr (r, db')" "row \<in> set (wd_migrations db)"
    "mg_sealedAt row \<noteq> None" "mg_stage row = stg_validated"
  shows "ledger_steps (ledger_of db) (ledger_of db')"
proof -
  let ?d = "\<lambda>m. m\<lparr>mg_importedChunks := mg_importedChunks m + 1, mg_version := mg_version m + 1,
           mg_stage := (if mg_importedChunks row + 1 = mg_chunkCount row then stg_imported else mg_stage m)\<rparr>"
  have "\<exists>db2 n. ledger_of db2 = ledger_of db \<and>
      ledger_of db' = ledger_of (update_migration (mg_id row) ?d (mark_imported e actor (mg_id row) n db2))"
  proof (cases "mg_importedChunks row = 0")
    case True
    show ?thesis
      using assms(1) unfolding migration_import_def Let_def if_P [OF True]
      by (elim res_bindE, clarsimp simp: ledger_of_updates(8) elim!: res_bindE)
        (drule ledger_of_import_configurations, drule ledger_of_import_page, simp add: ledger_of_updates(7), blast)
  next
    case False
    show ?thesis
      using assms(1) unfolding migration_import_def Let_def if_not_P [OF False]
      by (elim res_bindE, clarsimp simp: ledger_of_updates(8)) (drule ledger_of_import_page, blast)
  qed
  then obtain db2 n where "ledger_of db2 = ledger_of db"
      "ledger_of db' = ledger_of (update_migration (mg_id row) ?d (mark_imported e actor (mg_id row) n db2))"
    by blast
  then show ?thesis
    using import_rows_step [of db2 db row ?d] assms(2-4) by simp
qed

lemma migration_stage_ledger:
  assumes "migration_stage actor w row stage db = Inr (r, db')" "row \<in> set (wd_migrations db)"
    "mg_sealedAt row \<noteq> None" "stage_index stage = stage_index (mg_stage row) + 1" "stage \<noteq> stg_validated" "stage \<noteq> stg_imported"
  shows "ledger_steps (ledger_of db) (ledger_of db')"
proof -
  let ?d = "\<lambda>m. m\<lparr>mg_stage := stage, mg_version := mg_version m + 1\<rparr>"
  have "ledger_of db' = ledger_of (update_migration (mg_id row) ?d db)"
    using assms(1) by (auto simp: migration_stage_def Let_def res_simps ledger_of_audit)
  moreover have "next_state ev_stage row (?d row)"
    using assms(3-6) by (cases stage; cases "mg_stage row") simp_all
  ultimately show ?thesis
    using ledger_advance [of row db ev_stage ?d] assms(2) by (simp add: r_into_rtranclp)
qed

lemma migration_advance_ledger:
  assumes "migration_advance sha e actor w row h v stage d db = Inr (r, db')" "row \<in> set (wd_migrations db)"
  shows "ledger_steps (ledger_of db) (ledger_of db')"
proof (cases "mg_stage row = stage")
  case True
  then have "db' = db"
    using assms(1) by (auto simp: migration_advance_def res_simps)
  then show ?thesis by simp
next
  case False
  then have sealed: "mg_sealedAt row \<noteq> None" and idx: "stage_index stage = stage_index (mg_stage row) + 1"
    and op: "(case stage of
         stg_validated \<Rightarrow> migration_validate sha actor w row db
       | stg_imported \<Rightarrow> migration_import sha e actor w row db
       | _ \<Rightarrow> migration_stage actor w row stage db) = Inr (r, db')"
    using assms(1) by (auto simp: migration_advance_def res_simps)
  show ?thesis
  proof (cases stage)
    case stg_validated
    then have "mg_stage row = stg_preview"
      using idx by (cases "mg_stage row") simp_all
    with stg_validated op assms(2) sealed show ?thesis
      by (simp add: migration_validate_ledger)
  next
    case stg_imported
    then have "mg_stage row = stg_validated"
      using idx by (cases "mg_stage row") simp_all
    with stg_imported op assms(2) sealed show ?thesis
      by (simp add: migration_import_ledger)
  qed (use op assms(2) sealed idx migration_stage_ledger [of actor w row stage db r db'] in simp_all)
qed

lemma locked_migration_mem: "locked_migration actor w i db = Inr row \<Longrightarrow> row \<in> set (wd_migrations db) \<and> mg_id row = i"
  by (auto simp: locked_migration_def find_migration_def res_simps dest!: find_SomeD)

lemma migrationOperation_ledger:
  assumes "migrationOperation sha z e actor w op db = Inr (r, db')"
  shows "ledger_steps (ledger_of db) (ledger_of db')"
proof (cases op)
  case (MigrationPreview m)
  then show ?thesis
    using assms migration_preview_ledger by (auto simp: migrationOperation_def)
qed (use assms migration_append_ledger migration_seal_ledger migration_advance_ledger
    in \<open>auto simp: migrationOperation_def res_simps dest!: locked_migration_mem\<close>)

section \<open>The tools\<close>

lemma run_tool_ledger:
  assumes "run_tool sha z e actor call auth db = Inr (r, db')"
  shows "ledger_steps (ledger_of db) (ledger_of db')"
proof (cases call)
  case (PrepareChange inp)
  then show ?thesis
    using assms by (auto simp: res_simps dest!: ledger_of_ensureWorkflow prepareChange_ledger)
next
  case (SaveChange inp)
  then show ?thesis
    using assms by (auto simp: res_simps elim!: saveChange_ledger intro: consume_preview_after)
next
  case (ManageInstallation i op)
  then show ?thesis
    using assms by (auto simp: res_simps dest!: installOperation_ledger)
next
  case (ManageMigration i op)
  then show ?thesis
    using assms by (auto simp: res_simps dest!: migrationOperation_ledger)
next
  case (ManageRun i op)
  then show ?thesis
    using assms by (auto simp: res_simps dest!: runOperation_ledger)
next
  case (RecordAction i op)
  then show ?thesis
    using assms by (auto simp: res_simps dest!: ledger_of_actionOperation)
qed (use assms in \<open>auto simp: res_simps\<close>)

lemma wf_step_ledger: "wf_step sha z F db db' \<Longrightarrow> ledger_steps (ledger_of db) (ledger_of db')"
  by (induction rule: wf_step.induct)
    (auto simp: execute_def transaction_def pruneRetention_def Let_def res_simps aux_simps dest!: run_tool_ledger)

section \<open>Single use of previews\<close>

text \<open>The preview a call uses up.\<close>

fun used_preview :: "wf_call \<Rightarrow> string option" where
  "used_preview (SaveChange inp) = Some (si_previewId inp)"
| "used_preview (ManageInstallation i (Takeover j n p d)) = Some p"
| "used_preview _ = None"

definition approved :: "string \<Rightarrow> wf_db \<Rightarrow> bool" where
  "approved i db \<longleftrightarrow> ledger_inv (ledger_of db) \<and> consumed i (ledger_of db)"

definition uses :: "digest \<Rightarrow> zod_formats \<Rightarrow> string \<Rightarrow> wf_db \<Rightarrow> wf_db \<Rightarrow> bool" where
  "uses sha z i db db' \<longleftrightarrow> ledger_inv (ledger_of db) \<and>
     (\<exists>e actor call r. used_preview call = Some i \<and> execute sha z e actor call db = Inr (r, db'))"

lemma ledger_inv_steps: "ledger_steps l l' \<Longrightarrow> ledger_inv l \<Longrightarrow> ledger_inv l'"
  by (induction rule: rtranclp_induct) (auto intro: ledger_inv_step)

lemma consumed_steps: "ledger_steps l l' \<Longrightarrow> consumed i l \<Longrightarrow> consumed i l'"
  by (induction rule: rtranclp_induct) (auto intro: consumed_step)

lemma used_preview_open:
  assumes "execute sha z e actor call db = Inr (r, db')" "used_preview call = Some i"
  obtains p db1 where "p \<in> set (wd_previews db)" "pv_id p = i" "pv_consumedAt p = None"
    "ledger_of db1 = ledger_of db" "ledger_of db' = ledger_of (consume_preview i (e_now e) db1)"
proof -
  obtain auth where run: "run_tool sha z e actor call auth db = Inr (r, db')"
    using assms(1) by (auto simp: execute_def transaction_def res_simps)
  have find: "p \<in> set (wd_previews db) \<and> pv_id p = j \<and> pv_consumedAt p = None"
    if "find_preview e actor w j d x db = Some p" for w j d x p
    using that by (auto simp: find_preview_def dest!: find_SomeD)
  show ?thesis
  proof (cases call)
    case (SaveChange inp)
    then obtain w v where "saveChange sha e actor w inp db = Inr (v, db')"
      using run by (auto simp: res_simps)
    then obtain p db1 where p: "find_preview e actor w (si_previewId inp) (si_confirmationDigest inp) (si_expected inp) db = Some p"
      and "ledger_of db1 = ledger_of db" "ledger_of db' = ledger_of (consume_preview (pv_id p) (e_now e) db1)"
      by (rule saveChange_ledger)
    with that [of p db1] find [OF p] SaveChange assms(2) show ?thesis
      by simp
  next
    case (ManageInstallation k op)
    then obtain j n d where op: "op = Takeover j n i d"
      using assms(2) by (cases op) auto
    then obtain w x where "takeover sha e actor w j n i d db = Inr (x, db')"
      using run ManageInstallation by (auto simp: res_simps)
    then obtain p db1 y where p: "find_preview e actor w i d y db = Some p"
      and "ledger_of db1 = ledger_of db" "ledger_of db' = ledger_of (consume_preview (pv_id p) (e_now e) db1)"
      by (rule takeover_ledger)
    with that [of p db1] find [OF p] show ?thesis
      by simp
  qed (use assms(2) in auto)
qed

lemma uses_closes:
  assumes "uses sha z i db db'"
  shows "approved i db'"
proof -
  obtain e actor call r where call: "execute sha z e actor call db = Inr (r, db')" "used_preview call = Some i"
    and inv: "ledger_inv (ledger_of db)"
    using assms by (auto simp: uses_def)
  obtain p db1 where p: "p \<in> set (wd_previews db)" "pv_id p = i"
    and db1: "ledger_of db1 = ledger_of db" and db': "ledger_of db' = ledger_of (consume_preview i (e_now e) db1)"
    by (rule used_preview_open [OF call])
  have same: "wd_previews db1 = wd_previews db"
    using db1 by (metis ledger_of_parts(1))
  have "p\<lparr>pv_consumedAt := Some (e_now e)\<rparr> \<in> set (lr_previews (ledger_of db'))"
    using p same unfolding db' by (auto simp: consume_preview_def mem_update_where)
  then have "consumed i (ledger_of db')"
    using p(2) unfolding consumed_def by (intro bexI) auto
  moreover have "ledger_inv (ledger_of db')"
    using ledger_inv_step [OF consume_preview_step [of db1 i "e_now e"]] inv db1 db' by simp
  ultimately show ?thesis
    by (simp add: approved_def)
qed

lemma approved_refuses: "approved i db \<Longrightarrow> \<not> uses sha z i db db'"
proof
  assume i: "approved i db" and "uses sha z i db db'"
  then obtain e actor call r where call: "execute sha z e actor call db = Inr (r, db')" "used_preview call = Some i"
    by (auto simp: uses_def)
  obtain p where p: "p \<in> set (wd_previews db)" "pv_id p = i" "pv_consumedAt p = None"
    by (rule used_preview_open [OF call])
  obtain q where q: "q \<in> set (wd_previews db)" "pv_id q = i" "pv_consumedAt q \<noteq> None"
    using i by (auto simp: approved_def consumed_def)
  have "p = q"
    using distinct_same [of pv_id "wd_previews db" p q] p q i by (simp add: approved_def ledger_inv_def)
  with p q show False by simp
qed

interpretation preview: single_use "wf_step sha z UNIV" "approved i" "uses sha z i" for sha z i
proof unfold_locales
  show "approved i t" if "wf_step sha z UNIV s t" "approved i s" for s t
    using that ledger_inv_steps [OF wf_step_ledger] consumed_steps [OF wf_step_ledger] by (auto simp: approved_def)
qed (auto intro: uses_closes dest: approved_refuses)

interpretation ledger_invariant: stable "wf_step sha z UNIV" "\<lambda>db. ledger_inv (ledger_of db)" for sha z
  by unfold_locales (rule ledger_inv_steps [OF wf_step_ledger])

interpretation sealed_pages: stable "wf_step sha z UNIV" "\<lambda>db. ledger_inv (ledger_of db) \<and> sealed i n ps (ledger_of db)"
  for sha z i n ps
proof unfold_locales
  fix s t
  assume "wf_step sha z UNIV s t" "ledger_inv (ledger_of s) \<and> sealed i n ps (ledger_of s)"
  from wf_step_ledger [OF this(1)] this(2) show "ledger_inv (ledger_of t) \<and> sealed i n ps (ledger_of t)"
    by (induction rule: rtranclp_induct) (auto intro: ledger_inv_step sealed_step)
qed

lemma reachable_ledger:
  assumes "reachable sha z db"
  shows "ledger_inv (ledger_of db)"
proof -
  obtain f where "wf_steps sha z UNIV (empty_db f) db"
    using assms by (auto simp: reachable_def)
  then show ?thesis
    by (rule ledger_invariant.reach_keeps) (simp add: empty_db_def ledger_of_def ledger_inv_def)
qed

text \<open>
  C9: an approval is used once. After a prepared change was saved or a prepared takeover was
  carried out, no later call can use the same preview again, whoever makes it, with whatever
  digest and at whatever time.
\<close>
theorem preview_used_once:
  assumes "reachable sha z db" "used_preview call = Some i" "execute sha z e actor call db = Inr (r, db1)"
    and "wf_steps sha z UNIV db1 db2" "used_preview call' = Some i"
  shows "\<not> is_ok (execute sha z e' actor' call' db2)"
proof
  assume "is_ok (execute sha z e' actor' call' db2)"
  then obtain r' db3 where later: "execute sha z e' actor' call' db2 = Inr (r', db3)"
    by (auto simp: is_ok_iff)
  have "uses sha z i db db1"
    using assms(1-3) reachable_ledger by (auto simp: uses_def)
  then have "\<not> uses sha z i db2 db3"
    using preview.claimed_once assms(4) by blast
  moreover have "ledger_inv (ledger_of db2)"
    using ledger_invariant.reach_keeps [OF assms(4)] uses_closes [OF \<open>uses sha z i db db1\<close>] by (simp add: approved_def)
  ultimately show False
    using later assms(5) by (auto simp: uses_def)
qed

section \<open>Stages and pages of migrations\<close>


text \<open>
  C22: sealing fixes the pages: after a migration was sealed no page is added to it, removed from
  it or changed, whatever calls follow; only the mark that a page was imported is set.
\<close>
theorem sealed_pages_fixed:
  assumes "reachable sha z db" "m \<in> set (wd_migrations db)" "mg_sealedAt m \<noteq> None" "wf_steps sha z UNIV db db'"
  shows "pages_of (mg_id m) (wd_chunks db') = pages_of (mg_id m) (wd_chunks db)"
proof -
  have "sealed (mg_id m) (mg_chunkCount m) (pages_of (mg_id m) (wd_chunks db)) (ledger_of db)"
    using assms(2,3) by (auto simp: sealed_def)
  then have "sealed (mg_id m) (mg_chunkCount m) (pages_of (mg_id m) (wd_chunks db)) (ledger_of db')"
    using sealed_pages.reach_keeps [OF assms(4)] reachable_ledger [OF assms(1)] by blast
  then show ?thesis
    by (simp add: sealed_def)
qed

end
