(* ===== verification/Workflow_Claims.thy ===== *)
theory Workflow_Claims
  imports Workflow_Safety
begin

text \<open>
  The claims of external actions: a permitted claim takes its deduplication keys, a held key
  refuses every other claim, and a claim is only permitted under a live lease, the policy in
  force and an active authorization.
\<close>

section \<open>Claims and keys\<close>

lemma add_keys_holds:
  assumes "key \<in> set keys"
  shows "holds n key (add_keys n keys c)"
  unfolding holds_def
proof (rule bexI)
  show "dedup_name \<lparr>dd_orgId = fst n, dd_workflowId = fst (snd n), dd_key = key, dd_actionId = snd (snd n)\<rparr> = n \<and>
      dd_key \<lparr>dd_orgId = fst n, dd_workflowId = fst (snd n), dd_key = key, dd_actionId = snd (snd n)\<rparr> = key"
    by (simp add: dedup_key_added)
qed (use assms in \<open>simp add: add_keys_def\<close>)

lemma claimAction_holds:
  assumes "claimAction sha e actor w runId intent db = Inr (r, db')" "cr_permitted r"
    and "deduplicationKeys sha (ai_identity intent) runId (ai_actionId intent) = Inr keys" "key \<in> set keys"
  shows "holds (ac_orgId actor, wf_id w, ai_actionId intent) key (coord_of db')"
proof (cases "key_rows (ac_orgId actor) (wf_id w) keys db")
  case Nil
  with assms(1,3) obtain db1 where "create_keys (ac_orgId actor) (wf_id w) (ai_actionId intent) keys db1 = Inr db'"
    by (auto simp: claimAction_def res_simps)
  then show ?thesis
    using create_keys_Inr(1) add_keys_holds [OF assms(4)] by metis
next
  case (Cons d ds)
  with assms show ?thesis
    by (auto simp: claimAction_def res_simps refused_claim_def)
qed

lemma claimAction_refused:
  assumes "claimAction sha e actor w runId intent db = Inr (r, db')"
    and "deduplicationKeys sha (ai_identity intent) runId (ai_actionId intent) = Inr keys" "key \<in> set keys"
    and "holds (ac_orgId actor, wf_id w, n) key (coord_of db)"
  shows "\<not> cr_permitted r \<and> n \<in> set (cr_conflictActionIds r)"
proof -
  obtain d where "d \<in> set (wd_dedup db)" "dd_orgId d = ac_orgId actor" "dd_workflowId d = wf_id w" "dd_key d = key"
    and n: "dd_actionId d = n"
    using assms(4) by (auto simp: holds_def dedup_name_def)
  then have d: "d \<in> set (key_rows (ac_orgId actor) (wf_id w) keys db)"
    using assms(3) by (simp add: key_rows_def)
  then obtain f fs where rows: "key_rows (ac_orgId actor) (wf_id w) keys db = f # fs"
    by (cases "key_rows (ac_orgId actor) (wf_id w) keys db") auto
  with assms(1,2) obtain a where r: "r = refused_claim sha a (f # fs) keys"
    by (auto simp: claimAction_def res_simps)
  have "n \<in> set (js_uniq (map dd_actionId (f # fs)))"
    using d n unfolding rows set_js_uniq by auto
  then show ?thesis
    unfolding r refused_claim_def by simp
qed

lemma claim_loop_nth:
  assumes "claim_loop sha e actor w runId is db = Inr (rs, db')" "j < length is"
  obtains d d' where "protocol {} (coord_of db) (coord_of d)" "claimAction sha e actor w runId (is ! j) d = Inr (rs ! j, d')"
    "protocol {} (coord_of d') (coord_of db')"
  using assms
proof (induction "is" arbitrary: db rs j thesis)
  case (Cons i "is")
  obtain r rs1 db1 where first: "claimAction sha e actor w runId i db = Inr (r, db1)"
    and rest: "claim_loop sha e actor w runId is db1 = Inr (rs1, db')" and rs: "rs = r # rs1"
    using Cons.prems(2) by (auto simp: res_simps)
  show ?case
  proof (cases j)
    case 0
    with first rs show ?thesis
      using Cons.prems(1) [of db db1] claim_loop_step [OF rest] by simp
  next
    case (Suc k)
    then have "k < length is"
      using Cons.prems(3) by simp
    from Cons.IH [OF _ rest this] obtain d d' where "protocol {} (coord_of db1) (coord_of d)"
      "claimAction sha e actor w runId (is ! k) d = Inr (rs1 ! k, d')" "protocol {} (coord_of d') (coord_of db')"
      by blast
    with Suc rs show ?thesis
      using Cons.prems(1) [of d d'] protocol_trans [OF claimAction_step [OF first]] by simp
  qed
qed simp

lemma protocol_holds: "protocol {} c c' \<Longrightarrow> holds n key c \<Longrightarrow> holds n key c'"
  using protocol_holds.reach_keeps [OF protocol_weaken] by blast

lemma execute_intents:
  assumes "execute sha z e actor (RecordAction i (ActionIntents bd is)) db = Inr (r, db')"
  obtains w auth bound rs db1 where "locked actor w db" "wf_id w = i" "load_snapshot actor db = Inr auth"
    "lockWorkflow actor i db = Inr w" "requireBinding e actor w bd True db = Inr bound"
    "\<And>intent. intent \<in> set is \<Longrightarrow> check_intent e actor auth w bound db intent = Inr ()"
    "claim_loop sha e actor w (bd_runId bd) is db = Inr (rs, db1)" "coord_of db' = coord_of db1"
    "r = ActionRecorded (ActionsClaimed rs)"
  using assms lockWorkflow_locked
  by (auto simp: execute_def transaction_def claim_actions_def res_simps coord_simps)

lemma execute_claims:
  assumes "execute sha z e actor (RecordAction i (ActionIntents bd is)) db = Inr (ActionRecorded (ActionsClaimed rs), db')"
  obtains w d where "wf_id w = i" "claim_loop sha e actor w (bd_runId bd) is db = Inr (rs, d)" "coord_of db' = coord_of d"
  by (rule execute_intents [OF assms]) (simp add: that)

text \<open>
  C2: no external action is permitted twice. A permitted claim of one intent takes its
  deduplication keys; until the failure of that action is recorded, every later claim in the
  same workflow that shares a key is refused, whoever makes it and under whatever action id,
  and the refusal names the action that holds the key.
\<close>
theorem claimed_key_exclusive:
  assumes first: "execute sha z e actor (RecordAction i (ActionIntents bd is)) db = Inr (ActionRecorded (ActionsClaimed rs), db1)"
    "j < length is" "cr_permitted (rs ! j)"
    "deduplicationKeys sha (ai_identity (is ! j)) (bd_runId bd) (ai_actionId (is ! j)) = Inr keys" "key \<in> set keys"
    and between: "wf_steps sha z F db1 db2" "(ac_orgId actor, i, ai_actionId (is ! j)) \<notin> F"
    and second: "execute sha z e' actor' (RecordAction i (ActionIntents bd' is')) db2 = Inr (ActionRecorded (ActionsClaimed rs'), db3)"
    "ac_orgId actor' = ac_orgId actor" "k < length is'"
    "deduplicationKeys sha (ai_identity (is' ! k)) (bd_runId bd') (ai_actionId (is' ! k)) = Inr keys'" "key \<in> set keys'"
  shows "\<not> cr_permitted (rs' ! k) \<and> ai_actionId (is ! j) \<in> set (cr_conflictActionIds (rs' ! k))"
proof -
  let ?n = "(ac_orgId actor, i, ai_actionId (is ! j))"
  obtain w d1 where w: "wf_id w = i" and loop: "claim_loop sha e actor w (bd_runId bd) is db = Inr (rs, d1)"
    and d1: "coord_of db1 = coord_of d1"
    by (rule execute_claims [OF first(1)])
  obtain c c' where c: "claimAction sha e actor w (bd_runId bd) (is ! j) c = Inr (rs ! j, c')"
    and c': "protocol {} (coord_of c') (coord_of d1)"
    by (rule claim_loop_nth [OF loop first(2)])
  have "holds ?n key (coord_of c')"
    using claimAction_holds [OF c first(3-5)] w by simp
  then have "holds ?n key (coord_of db1)"
    using protocol_holds [OF c'] d1 by simp
  then have held: "holds ?n key (coord_of db2)"
    by (rule steps_holds [OF between])
  obtain w' d2 where w': "wf_id w' = i" and loop': "claim_loop sha e' actor' w' (bd_runId bd') is' db2 = Inr (rs', d2)"
    by (rule execute_claims [OF second(1)])
  obtain b b' where b: "protocol {} (coord_of db2) (coord_of b)"
    "claimAction sha e' actor' w' (bd_runId bd') (is' ! k) b = Inr (rs' ! k, b')"
    by (rule claim_loop_nth [OF loop' second(3)])
  have "holds (ac_orgId actor', wf_id w', ai_actionId (is ! j)) key (coord_of b)"
    using protocol_holds [OF b(1) held] second(2) w' by simp
  from claimAction_refused [OF b(2) second(4,5) this] show ?thesis .
qed

section \<open>What a claim needs\<close>

lemma requireBinding_state:
  assumes "requireBinding e actor w bd True db = Inr bound"
  shows "wf_controlState w = ctl_active" "lease_held w (bd_runId bd) (e_now e)" "rn_employeeId (bn_run bound) = ac_id actor"
    "bound_policy w (bn_run bound) db = Inr (bn_livePolicy bound)"
  using assms by (auto simp: requireBinding_def res_simps find_run_def dest!: find_SomeD)

lemma authorizeAction_Inr:
  assumes "authorizeAction actor auth w snapshot intent policy db = Inr ()"
  shows "sn_mode auth = ModeEnabled" "workflowLivePolicyAllows policy (ai_identity intent) (config_type (sn_configuration snapshot))"
    "\<exists>a. a \<in> set (active_authorizations (ac_orgId actor) (wf_id w) db) \<and> scope_covers (wa_scope a) (ai_identity intent)"
  using assms by (auto simp: authorizeAction_def Let_def res_simps list_ex_iff)

text \<open>
  C15: what a successful claim rests on: the workflow is active, the caller is the employee of an
  unfinished run of the current assignment that holds a live lease, and every claimed intent is
  covered by an authorization that is not revoked and allowed by the policy in force for that
  run.
\<close>
theorem claim_needs_lease_and_authorization:
  assumes "execute sha z e actor (RecordAction i (ActionIntents bd is)) db = Inr (r, db')" "intent \<in> set is"
  shows "\<exists>w run policy a. w \<in> set (wd_workflows db) \<and> wf_id w = i \<and> wf_controlState w = ctl_active \<and>
    lease_held w (bd_runId bd) (e_now e) \<and> run \<in> set (wd_runs db) \<and> rn_id run = bd_runId bd \<and> assigned_run w run \<and>
    rn_employeeId run = ac_id actor \<and> bound_policy w run db = Inr policy \<and>
    workflowLivePolicyAllows policy (ai_identity intent) (config_type (sn_configuration (rn_snapshot run))) \<and>
    a \<in> set (wd_authorizations db) \<and> wa_revokedAt a = None \<and> wa_workflowId a = i \<and>
    scope_covers (wa_scope a) (ai_identity intent)"
proof -
  obtain w auth bound rs db1 where w: "locked actor w db" "wf_id w = i"
    and bound: "requireBinding e actor w bd True db = Inr bound"
    and checked: "\<And>intent. intent \<in> set is \<Longrightarrow> check_intent e actor auth w bound db intent = Inr ()"
    by (rule execute_intents [OF assms(1)]) (rule that)
  have "authorizeAction actor auth w (bn_snapshot bound) intent (bn_livePolicy bound) db = Inr ()"
    using checked [OF assms(2)] by (auto simp: check_intent_def res_simps)
  note auth = authorizeAction_Inr [OF this]
  obtain a where "a \<in> set (wd_authorizations db)" "wa_revokedAt a = None" "wa_workflowId a = i"
    "scope_covers (wa_scope a) (ai_identity intent)"
    using auth(3) w(2) by (auto simp: active_authorizations_def)
  then show ?thesis
    using requireBinding_state [OF bound] requireBinding_Inr [OF bound w(1)] auth(2) w
    by (intro exI [of _ w] exI [of _ "bn_run bound"] exI [of _ "bn_livePolicy bound"] exI [of _ a]) (simp add: locked_def)
qed

section \<open>The policy in force\<close>

lemma allows_fewer_stores:
  assumes "workflowLivePolicyAllows (p\<lparr>lp_stores := ss\<rparr>) i t" "set ss \<subseteq> set (lp_stores p)"
  shows "workflowLivePolicyAllows p i t \<and> set (action_stores i) \<subseteq> set ss"
proof -
  have "sourceAllowed (p\<lparr>lp_stores := ss\<rparr>) st source f = sourceAllowed p st source f" for st source f
    by (simp add: sourceAllowed_def split: option.split)
  then have "dataset_check (p\<lparr>lp_stores := ss\<rparr>) i = dataset_check p i" "identity_check (p\<lparr>lp_stores := ss\<rparr>) i = identity_check p i"
    by (cases i; simp cong: option.case_cong)+
  with assms show ?thesis
    by (auto simp: workflowLivePolicyAllows_def Let_def list_ex_iff split: if_split_asm)
qed

lemma bound_policy_within:
  assumes "bound_policy w run db = Inr policy" "workflowLivePolicyAllows policy i t"
  obtains c source p q where "configuration db w = Some c" "integration db w = Inr source"
    "live_policy c (ei_configuration source) = Inr p" "workflowLivePolicyAllows p i t"
    "set (action_stores i) \<subseteq> set (live_stores (wf_orgId w) (wf_enterpriseKey w) db)"
    "run_policy run = Inr q" "workflowLivePolicyAllows q i t"
proof -
  let ?live = "\<lambda>p. p\<lparr>lp_stores := filter (\<lambda>name. name \<in> set (live_stores (wf_orgId w) (wf_enterpriseKey w) db)) (lp_stores p)\<rparr>"
  obtain c source p q where parts: "configuration db w = Some c" "integration db w = Inr source"
      "live_policy c (ei_configuration source) = Inr p" "run_policy run = Inr q"
    and policy: "policy = intersectWorkflowLivePolicy q (?live p)"
    using assms(1) by (auto simp: bound_policy_def Let_def res_simps)
  have "workflowLivePolicyAllows q i t \<and> workflowLivePolicyAllows (?live p) i t"
    using assms(2) unfolding policy by (rule intersect_narrows)
  moreover from this have "workflowLivePolicyAllows p i t \<and>
      set (action_stores i) \<subseteq> set (filter (\<lambda>name. name \<in> set (live_stores (wf_orgId w) (wf_enterpriseKey w) db)) (lp_stores p))"
    by (intro allows_fewer_stores) auto
  ultimately show ?thesis
    using that [OF parts(1-3) _ _ parts(4)] by auto
qed


section \<open>Restriction of unfinished runs\<close>

lemma update_where_hits: "r \<in> set rows \<Longrightarrow> p r \<Longrightarrow> d r \<in> set (update_where p d rows)"
  unfolding mem_update_where by (rule bexI [of _ r]) simp_all

lemma runs_of_update_workflow [simp]: "wd_runs (update_workflow i d db) = wd_runs db"
  by (simp add: update_workflow_def)

lemma restrict_loop_runs:
  assumes "restrict_loop next' runs db = Inr db'" "distinct (map rn_id runs)" "set runs \<subseteq> set (wd_runs db)"
    "distinct (map rn_id (wd_runs db))" "r' \<in> set (wd_runs db')"
  shows "\<exists>r\<in>set (wd_runs db). (r \<notin> set runs \<and> r' = r) \<or>
    (r \<in> set runs \<and> (\<exists>q. run_policy r = Inr q \<and> r' = r\<lparr>rn_restrictivePolicy := Some (intersectWorkflowLivePolicy q next')\<rparr>))"
  using assms
proof (induction runs arbitrary: db)
  case (Cons run runs)
  obtain q where q: "run_policy run = Inr q"
    and rest: "restrict_loop next' runs (db\<lparr>wd_runs := update_where (\<lambda>r. rn_id r = rn_id run)
       (\<lambda>r. r\<lparr>rn_restrictivePolicy := Some (intersectWorkflowLivePolicy q next')\<rparr>) (wd_runs db)\<rparr>) = Inr db'"
      (is "restrict_loop next' runs ?db1 = _")
    using Cons.prems(1) by (auto simp: res_simps)
  have "x \<in> set (wd_runs ?db1)" if x: "x \<in> set runs" for x
  proof -
    have "rn_id x \<noteq> rn_id run"
      using Cons.prems(2) x by (metis distinct.simps(2) image_eqI list.map(2) set_map)
    moreover have "x \<in> set (wd_runs db)"
      using Cons.prems(3) x by auto
    ultimately show ?thesis
      by (simp add: update_where_keeps)
  qed
  then have "set runs \<subseteq> set (wd_runs ?db1)"
    by blast
  then obtain r1 where r1: "r1 \<in> set (wd_runs ?db1)" and r': "(r1 \<notin> set runs \<and> r' = r1) \<or>
      (r1 \<in> set runs \<and> (\<exists>q. run_policy r1 = Inr q \<and> r' = r1\<lparr>rn_restrictivePolicy := Some (intersectWorkflowLivePolicy q next')\<rparr>))"
    using Cons.IH [OF rest] Cons.prems(2,4,5) by auto
  obtain r0 where r0: "r0 \<in> set (wd_runs db)"
      "r1 = (if rn_id r0 = rn_id run then r0\<lparr>rn_restrictivePolicy := Some (intersectWorkflowLivePolicy q next')\<rparr> else r0)"
    using r1 by (auto simp: mem_update_where)
  show ?case
  proof (cases "rn_id r0 = rn_id run")
    case True
    then have "r0 = run"
      using distinct_same [OF Cons.prems(4) r0(1)] Cons.prems(3) by simp
    moreover have "rn_id r1 = rn_id run"
      using r0(2) True by simp
    then have "r1 \<notin> set runs"
      using Cons.prems(2) by (metis distinct.simps(2) image_eqI list.map(2) set_map)
    ultimately show ?thesis
      using r' r0 q True by auto
  next
    case False
    then show ?thesis
      using r0 r' by (intro bexI [of _ r0]) auto
  qed
qed simp

text \<open>
  C10: a change of configuration or integration that takes reach away takes it away from the
  unfinished runs as well: after \<open>restrictRuns\<close>, whatever the policy of an unfinished run of the
  workflow allows is allowed by the new policy and was allowed to that run before.
\<close>
theorem restrictRuns_narrows_unfinished:
  assumes "restrictRuns sha w before after oldSource newSource db = Inr db'" "distinct (map rn_id (wd_runs db))"
    and "live_policy before oldSource = Inr old" "live_policy after newSource = Inr new"
    and "hash sha (json_of_policy old) \<noteq> hash sha (json_of_policy (intersectWorkflowLivePolicy old new))"
    and "r' \<in> set (wd_runs db')" "rn_orgId r' = wf_orgId w" "rn_workflowId r' = wf_id w" "rn_finishedAt r' = None"
    and "run_policy r' = Inr q'" "workflowLivePolicyAllows q' i t"
  shows "workflowLivePolicyAllows new i t \<and>
    (\<exists>r\<in>set (wd_runs db). rn_id r = rn_id r' \<and> (\<exists>q. run_policy r = Inr q \<and> workflowLivePolicyAllows q i t))"
proof -
  let ?db1 = "update_workflow (wf_id w) (\<lambda>w. w\<lparr>wf_controlVersion := wf_controlVersion w + 1\<rparr>) db"
  let ?runs = "unfinished_runs (wf_orgId w) (wf_id w) ?db1"
  have "restrict_loop new ?runs ?db1 = Inr db'"
    using assms(1,3-5) by (auto simp: restrictRuns_def Let_def res_simps)
  from restrict_loop_runs [OF this _ _ _ assms(6)] obtain r where r: "r \<in> set (wd_runs db)"
    "(r \<notin> set ?runs \<and> r' = r) \<or>
     (r \<in> set ?runs \<and> (\<exists>q. run_policy r = Inr q \<and> r' = r\<lparr>rn_restrictivePolicy := Some (intersectWorkflowLivePolicy q new)\<rparr>))"
    using assms(2) by (auto simp: unfinished_runs_def distinct_map_filter)
  have "r \<in> set ?runs"
    using r assms(7-9) by (auto simp: unfinished_runs_def)
  then obtain q where q: "run_policy r = Inr q" "r' = r\<lparr>rn_restrictivePolicy := Some (intersectWorkflowLivePolicy q new)\<rparr>"
    using r(2) by blast
  then have "q' = intersectWorkflowLivePolicy q new"
    using assms(10) by (auto simp: run_policy_def res_simps)
  then have "workflowLivePolicyAllows q i t \<and> workflowLivePolicyAllows new i t"
    using assms(11) intersect_narrows by blast
  with q r(1) show ?thesis
    by auto
qed

section \<open>Receipts after a failure\<close>

text \<open>
  A confirmation that arrives after the failure of its action was recorded confirms the
  action but takes no deduplication key: the keys the failure gave back stay free, so another
  claim of the same effect can be permitted although the effect is confirmed.
\<close>
theorem late_confirmation_takes_no_key:
  assumes "record_receipt sha e actor auth w bd resolve assigned receipt db = Inr db'"
    and "find_action (ac_orgId actor) (wf_id w) (rt_actionId receipt) db = Some a"
    and "at_state a = ac_failed" "rt_state receipt = rcp_confirmed"
  shows "(\<exists>b\<in>set (wd_actions db'). action_name b = action_name a \<and> at_state b = ac_confirmed) \<and> wd_dedup db' = wd_dedup db"
proof -
  have db': "db' = store_receipt e actor w (bd_runId bd) receipt db"
    using assms by (auto simp: record_receipt_def res_simps)
  note a = find_action_Some [OF assms(2)]
  let ?b = "a\<lparr>at_state := ac_confirmed, at_receipt := Some receipt, at_confirmedAt := Some (e_now e), at_updatedAt := e_clock e\<rparr>"
  have "coord_of db' = (coord_of db)\<lparr>co_actions := update_where (\<lambda>b. action_name b = action_name a)
      (\<lambda>a. a\<lparr>at_state := ac_confirmed, at_receipt := Some receipt, at_confirmedAt := Some (e_now e), at_updatedAt := e_clock e\<rparr>)
      (wd_actions db)\<rparr>"
    using a assms(4) unfolding db' by (simp add: store_receipt_def Let_def coord_simps)
  then have "wd_actions db' = update_where (\<lambda>b. action_name b = action_name a)
      (\<lambda>a. a\<lparr>at_state := ac_confirmed, at_receipt := Some receipt, at_confirmedAt := Some (e_now e), at_updatedAt := e_clock e\<rparr>)
      (wd_actions db)" "wd_dedup db' = wd_dedup db"
    by (simp_all flip: coord_of_parts)
  moreover from this(1) have "?b \<in> set (wd_actions db')"
    using a update_where_hits [of a "wd_actions db" "\<lambda>b. action_name b = action_name a"] by simp
  moreover have "action_name ?b = action_name a"
    by (simp add: action_name_def)
  ultimately show ?thesis
    by (intro conjI bexI [of _ ?b]) simp_all
qed

section \<open>Callers\<close>

text \<open>
  Only an enabled administrator of the organization can call the workflow services: for
  anyone else every tool fails before its body runs, and nothing changes.
\<close>
theorem execute_requires_admin:
  assumes "\<nexists>f. f \<in> set (fc_employees (wd_facts db)) \<and> ef_id f = ac_id actor \<and> ef_orgId f = ac_orgId actor \<and>
    ef_role f = RoleAdmin \<and> \<not> ef_disabled f"
  shows "execute sha z e actor call db = Inl WORKFLOW_ADMIN_REQUIRED"
proof -
  have "find (\<lambda>f. ef_id f = ac_id actor \<and> ef_orgId f = ac_orgId actor \<and> ef_role f = RoleAdmin \<and> \<not> ef_disabled f)
      (fc_employees (wd_facts db)) = None"
    unfolding find_None_iff using assms by blast
  then show ?thesis
    by (simp add: execute_def transaction_def load_snapshot_def)
qed

end
