(* ===== verification/Workflow_Windows.thy ===== *)
theory Workflow_Windows
  imports Workflow_Service
begin

text \<open>
  Dates and pages of the workflow services: the scheduled window of a workflow, the history
  window of a weekly report, and the pages a client reads by following cursors.
\<close>

section \<open>Scheduled windows\<close>

text \<open>
  C40: the scheduled window of a weekly report is always the last complete calendar week in
  China: seven days from a Monday to a Sunday, ended before the current day and less than a week
  before it.
\<close>
theorem weekly_window_is_last_week:
  "\<exists>m. scheduledWindow WeeklyBusinessReport now = \<lparr>w_startDate = iso_date m, w_endDate = iso_date (m + 6)\<rparr> \<and>
     WeekDay m = 1 \<and> m + 6 < shanghai_day now \<and> shanghai_day now \<le> m + 13"
proof -
  define today where "today = shanghai_day now"
  define m where "m = today - (WeekDay today + 6) mod 7 - 7"
  have m6: "today - (WeekDay today + 6) mod 7 - 1 = m + 6"
    by (simp add: m_def)
  have "WeekDay m = 1" "m + 6 < today" "today \<le> m + 13"
    unfolding m_def WeekDay_def by presburger+
  moreover have "scheduledWindow WeeklyBusinessReport now = \<lparr>w_startDate = iso_date m, w_endDate = iso_date (m + 6)\<rparr>"
    using m6 by (simp add: scheduledWindow_def Let_def flip: today_def) (simp add: m_def algebra_simps)
  ultimately show ?thesis
    by (auto simp: today_def)
qed

section \<open>History windows\<close>

lemma month_table_inverse:
  "list_all (\<lambda>m. list_all (\<lambda>dt. month_of leap (month_start leap m + dt - 1) = m) [1..month_length leap m] \<and>
     month_start leap m + month_length leap m \<le> (if leap then 366 else 365) \<and> 0 \<le> month_start leap m) [0..11]"
  by (cases leap; simp; code_simp)

lemma month_inverse:
  assumes "0 \<le> m" "m \<le> 11" "1 \<le> dt" "dt \<le> month_length leap m"
  shows "month_of leap (month_start leap m + dt - 1) = m"
    "month_start leap m + dt - 1 < (if leap then 366 else 365)" "0 \<le> month_start leap m + dt - 1"
proof -
  have "m \<in> set [0..11]" "dt \<in> set [1..month_length leap m]"
    using assms by simp_all
  with month_table_inverse [of leap] show "month_of leap (month_start leap m + dt - 1) = m"
      "month_start leap m + dt - 1 < (if leap then 366 else 365)" "0 \<le> month_start leap m + dt - 1"
    using assms(3,4) unfolding list_all_iff by fastforce+
qed

lemma parts_of_MakeDay:
  assumes "0 \<le> m" "m \<le> 11" "1 \<le> dt" "dt \<le> month_length (leap_year y) m"
  shows "YearFromDay (MakeDay y m dt) = y" "MonthFromDay (MakeDay y m dt) = m" "DateFromDay (MakeDay y m dt) = dt"
proof -
  note inv = month_inverse [OF assms]
  have d: "MakeDay y m dt = DayFromYear y + (month_start (leap_year y) m + dt - 1)"
    using assms(1,2) by (simp add: MakeDay_def)
  show y: "YearFromDay (MakeDay y m dt) = y"
    by (rule YearFromDay_unique) (use inv(2,3) DayFromYear_succ [of y] d in auto)
  have n: "day_in_year (MakeDay y m dt) = month_start (leap_year y) m + dt - 1"
    unfolding day_in_year_def y by (simp add: d)
  show m: "MonthFromDay (MakeDay y m dt) = m"
    by (simp only: MonthFromDay_eq y n inv(1))
  show "DateFromDay (MakeDay y m dt) = dt"
    unfolding DateFromDay_def m y n by simp
qed

lemma month_lengths:
  "list_all (\<lambda>m. month_length True m \<le> month_length False m \<or> (m = 1 \<and> month_length True m = 29)) [0..11]"
  "month_length False 1 = 28" "month_start leap 2 = 59 + (if leap then 1 else 0)" "month_start leap 1 = 31"
  by (code_simp, simp_all add: month_length_def month_start_def)

lemma month_length_other:
  assumes "0 \<le> m" "m \<le> 11" "dt \<le> month_length l m" "\<not> dt \<le> month_length l' m"
  shows "m = 1 \<and> dt = 29 \<and> \<not> l'"
proof -
  have "m \<in> set [0..11]"
    using assms(1,2) by simp
  moreover have "list_all (\<lambda>m. month_length False m \<le> month_length True m) [0..11]"
    by code_simp
  ultimately have "month_length True m \<le> month_length False m \<or> (m = 1 \<and> month_length True m = 29)"
    "month_length False m \<le> month_length True m"
    using month_lengths(1) unfolding list_all_iff by blast+
  then show ?thesis
    using month_lengths(2) assms(3,4) by (cases l; cases l') auto
qed

text \<open>
  The year shift of the history window keeps month and date and clamps to the end of the
  month: the 29th of February becomes the 28th of the common year before, and every other date
  is the same date one year earlier.
\<close>
theorem previousYear_clamps:
  "YearFromDay (previousYear v) = YearFromDay v - 1 \<and> MonthFromDay (previousYear v) = MonthFromDay v \<and>
   DateFromDay (previousYear v) = min (DateFromDay v) (month_length (leap_year (YearFromDay v - 1)) (MonthFromDay v))"
proof (cases "DateFromDay v \<le> month_length (leap_year (YearFromDay v - 1)) (MonthFromDay v)")
  case True
  note parts = parts_of_MakeDay [OF MonthFromDay_range DateFromDay_range(1) True]
  then have "previousYear v = MakeDay (YearFromDay v - 1) (MonthFromDay v) (DateFromDay v)"
    by (simp add: previousYear_def Let_def)
  with parts True show ?thesis
    by simp
next
  case False
  let ?y = "YearFromDay v - 1"
  have feb: "MonthFromDay v = 1" "DateFromDay v = 29" "\<not> leap_year ?y"
    using month_length_other [OF MonthFromDay_range DateFromDay_range(2) False] by simp_all
  have "MakeDay ?y 1 29 = MakeDay ?y 2 1"
    using feb(3) by (simp add: MakeDay_def month_lengths(3,4))
  moreover have march: "YearFromDay (MakeDay ?y 2 1) = ?y" "MonthFromDay (MakeDay ?y 2 1) = 2"
    by (rule parts_of_MakeDay; simp add: month_length_def)+
  ultimately have "previousYear v = MakeDay ?y 2 0"
    by (simp add: previousYear_def Let_def feb)
  also have "\<dots> = MakeDay ?y 1 28"
    using feb(3) by (simp add: MakeDay_def month_lengths(3,4))
  finally have p: "previousYear v = MakeDay ?y 1 28" .
  have "YearFromDay (previousYear v) = ?y" "MonthFromDay (previousYear v) = 1" "DateFromDay (previousYear v) = 28"
    unfolding p by (rule parts_of_MakeDay; simp add: feb(3) month_lengths(2))+
  with feb show ?thesis
    by (simp add: month_lengths(2))
qed

section \<open>Pages\<close>

text \<open>What a client reads that follows the cursors, with at most \<open>n\<close> further pages.\<close>

fun follow_pages :: "nat \<Rightarrow> ('r \<Rightarrow> string) \<Rightarrow> nat \<Rightarrow> string option \<Rightarrow> 'r list \<Rightarrow> 'r list option" where
  "follow_pages n key limit cursor rows =
     (case ascending_page key limit cursor rows of
        (page, None) \<Rightarrow> Some page
      | (page, Some c) \<Rightarrow>
          (case n of
             0 \<Rightarrow> None
           | Suc m \<Rightarrow> map_option ((@) page) (follow_pages m key limit (Some c) rows)))"

declare follow_pages.simps [simp del]

definition after_cursor :: "('r \<Rightarrow> string) \<Rightarrow> string option \<Rightarrow> 'r \<Rightarrow> bool" where
  "after_cursor key cursor r \<longleftrightarrow> (case cursor of None \<Rightarrow> True | Some c \<Rightarrow> c = [] \<or> c < key r)"

definition rest_rows :: "('r \<Rightarrow> string) \<Rightarrow> string option \<Rightarrow> 'r list \<Rightarrow> 'r list" where
  "rest_rows key cursor rows = sort_key key (filter (after_cursor key cursor) rows)"

lemma ascending_page_rest:
  "ascending_page key limit cursor rows =
     (take limit (rest_rows key cursor rows),
      if limit < length (rest_rows key cursor rows) then Some (key (rest_rows key cursor rows ! (limit - 1))) else None)"
  if "0 < limit"
  using that
  by (auto simp: ascending_page_def Let_def rest_rows_def after_cursor_def [abs_def] min_def nth_append)

lemma strictly_sorted:
  assumes "distinct (map key rows)"
  shows "sorted_wrt (\<lambda>a b. key a < key b) (rest_rows key cursor rows)"
proof -
  let ?xs = "rest_rows key cursor rows"
  have "distinct (map key ?xs)"
    using assms by (auto simp: rest_rows_def distinct_map intro: inj_on_subset)
  moreover have "sorted (map key ?xs)"
    by (simp add: rest_rows_def)
  ultimately have "sorted_wrt (<) (map key ?xs)"
    by (simp add: strict_sorted_iff)
  then show ?thesis
    by (simp add: sorted_wrt_map)
qed

lemma filter_after_nth:
  assumes "sorted_wrt (\<lambda>a b. key a < key b) xs" "0 < l" "l \<le> length xs"
  shows "filter (\<lambda>r. (key (xs ! (l - 1)) :: string) < key r) xs = drop l xs"
proof -
  have low: "\<not> key (xs ! (l - 1)) < key r" if r: "r \<in> set (take l xs)" for r
  proof -
    obtain j where "j < l" "r = xs ! j"
      using r assms(3) by (auto simp: in_set_conv_nth)
    then show ?thesis
      using sorted_wrt_nth_less [OF assms(1), of j "l - 1"] assms(2,3) by (cases "j = l - 1") force+
  qed
  have high: "key (xs ! (l - 1)) < key r" if r: "r \<in> set (drop l xs)" for r
  proof -
    obtain j where "j < length xs - l" "r = xs ! (l + j)"
      using r by (auto simp: in_set_conv_nth)
    then show ?thesis
      using sorted_wrt_nth_less [OF assms(1), of "l - 1" "l + j"] assms(2) by simp
  qed
  have "filter (\<lambda>r. key (xs ! (l - 1)) < key r) (take l xs @ drop l xs) = drop l xs"
    using low high by (simp add: filter_empty_conv del: append_take_drop_id)
  then show ?thesis by simp
qed

lemma next_rows:
  assumes "distinct (map key rows)" "\<And>r. r \<in> set rows \<Longrightarrow> key r \<noteq> []" "0 < limit"
    "limit < length (rest_rows key cursor rows)" (is "limit < length ?xs")
  shows "rest_rows key (Some (key (?xs ! (limit - 1)))) rows = drop limit ?xs"
proof -
  let ?c = "key (?xs ! (limit - 1))"
  have mem: "?xs ! (limit - 1) \<in> set rows" and above: "after_cursor key cursor (?xs ! (limit - 1))"
    using nth_mem [of "limit - 1" ?xs] assms(3,4) by (auto simp: rest_rows_def)
  have "filter (after_cursor key (Some ?c)) rows = filter (\<lambda>r. ?c < key r) (filter (after_cursor key cursor) rows)"
    using above assms(2) [OF mem] by (auto simp: after_cursor_def intro!: filter_cong split: option.split_asm)
  then have "rest_rows key (Some ?c) rows = filter (\<lambda>r. ?c < key r) ?xs"
    by (simp add: rest_rows_def filter_sort)
  also have "\<dots> = drop limit ?xs"
    by (rule filter_after_nth [OF strictly_sorted [OF assms(1)] assms(3)]) (use assms(4) in simp)
  finally show ?thesis .
qed

lemma follow_pages_rest:
  assumes "distinct (map key rows)" "\<And>r. r \<in> set rows \<Longrightarrow> key r \<noteq> []" "0 < limit" "length (rest_rows key cursor rows) \<le> n"
  shows "follow_pages n key limit cursor rows = Some (rest_rows key cursor rows)"
  using assms(4)
proof (induction n arbitrary: cursor)
  case 0
  then show ?case
    using assms(3) by (simp add: follow_pages.simps [of 0] ascending_page_rest)
next
  case (Suc n)
  let ?xs = "rest_rows key cursor rows"
  show ?case
  proof (cases "limit < length ?xs")
    case True
    note rest = next_rows [OF assms(1-3) True]
    have "length (drop limit ?xs) \<le> n"
      using Suc.prems assms(3) by simp
    then have "length (rest_rows key (Some (key (?xs ! (limit - 1)))) rows) \<le> n"
      by (simp only: rest)
    from Suc.IH [OF this] show ?thesis
      using True assms(3) by (simp add: follow_pages.simps [of "Suc n"] ascending_page_rest rest [unfolded One_nat_def])
  next
    case False
    then show ?thesis
      using assms(3) by (simp add: follow_pages.simps [of "Suc n"] ascending_page_rest)
  qed
qed

text \<open>
  C23: a client that follows the cursors of a list reads every row exactly once, in ascending
  order of its key, and is done after at most as many pages as there are rows: no row is
  skipped, repeated or lost between pages, whatever the page size.
\<close>
theorem pages_cover_every_row:
  assumes "distinct (map key rows)" "\<nexists>r. r \<in> set rows \<and> key r = []" "0 < limit" "length rows \<le> n"
  shows "follow_pages n key limit None rows = Some (sort_key key rows)"
proof -
  have all: "filter (after_cursor key None) rows = rows"
    by (simp add: after_cursor_def)
  have "follow_pages n key limit None rows = Some (rest_rows key None rows)"
    by (rule follow_pages_rest) (use assms in \<open>auto simp: rest_rows_def all\<close>)
  then show ?thesis
    by (simp add: rest_rows_def all)
qed

text \<open>The rows of a page of 2 and of 3, and the one that follows.\<close>

theorem pages_cover_every_row_witness:
  "follow_pages 3 id 2 None [''c'', ''a'', ''b''] = Some [''a'', ''b'', ''c'']"
proof -
  have "follow_pages 3 id 2 None [''c'', ''a'', ''b''] = Some (sort_key id [''c'', ''a'', ''b''])"
    by (rule pages_cover_every_row) (simp_all add: ex_in_conv [symmetric] disj_imp)
  then show ?thesis
    by (simp add: less_char_def)
qed

end
