(* ===== verification/Workflow_Examples.thy ===== *)
theory Workflow_Examples
  imports Workflow_Approval Workflow_Claims Workflow_Windows
begin

text \<open>
  The life of one weekly workflow, as concrete states of the database: \<open>ex_call1\<close> to \<open>ex_call11\<close>
  evaluate the calls that prepare and save its configuration, an authorization and its
  activation, register an installation, record its checks, take the workflow over and start the
  run of the week. The digest is a constant, which is a legal instance: no property rests on what
  the digest function returns.
\<close>

section \<open>Inputs\<close>

definition ex_hash :: string where
  "ex_hash = replicate 64 CHR ''a''"

definition ex_sha :: digest where
  "ex_sha = (\<lambda>s. ex_hash)"

definition ex_actor :: Actor where
  "ex_actor = \<lparr>ac_id = ''a'', ac_orgId = ''o'', ac_rest = []\<rparr>"

definition ex_facts :: wf_facts where
  "ex_facts =
     \<lparr>fc_employees = [\<lparr>ef_orgId = ''o'', ef_id = ''a'', ef_role = RoleAdmin, ef_disabled = False, ef_clearance = js_num 3\<rparr>],
      fc_states = [\<lparr>sf_orgId = ''o'', sf_mode = ModeEnabled, sf_version = 1\<rparr>],
      fc_categories = map (\<lambda>k. \<lparr>cf_orgId = ''o'', cf_id = k, cf_key = Some k, cf_kind = KindFixed,
        cf_confidentialityLevel = Some (js_num 0), cf_allowGroup = False, cf_allowStore = True, cf_dimensionIds = []\<rparr>)
        [''business'', ''dishes''],
      fc_grants = [\<lparr>gf_orgId = ''o'', gf_id = ''g'', gf_employeeId = ''a'', gf_enterpriseKey = ''k'', gf_ownership = OwnStore,
        gf_allStores = True, gf_categoryIds = [''business'', ''dishes''], gf_stores = [], gf_dimensions = []\<rparr>],
      fc_enterprises = [(''o'', ''k'')],
      fc_stores = [\<lparr>bst_orgId = ''o'', bst_enterpriseKey = ''k'', bst_name = ''n'', bst_retired = False\<rparr>],
      fc_resources = [], fc_batches = [], fc_ledger = [], fc_jobs = [], fc_partitions = [], fc_downloads = [], fc_reviews = []\<rparr>"

text \<open>The 7th of January 2026, a Wednesday, one minute past midnight UTC.\<close>

definition ex_now :: time_ms where
  "ex_now = 20460 * 86400000 + 60000"

definition ex_env :: "string \<Rightarrow> wf_env" where
  "ex_env i = \<lparr>e_now = ex_now, e_clock = ex_now, e_newId = i, e_cuid = (\<lambda>n. i)\<rparr>"

definition ex_weekly :: WorkflowConfiguration where
  "ex_weekly = WeeklyConfig \<lparr>wc_storeNames = [''n''], wc_groups = [],
     wc_delivery = \<lparr>mail_enabled = True, mail_recipients = [''r@m''], mail_allowedSender = Some ''s@m''\<rparr>\<rparr>"

definition ex_versions :: "nat \<Rightarrow> nat \<Rightarrow> expected_versions" where
  "ex_versions v c = \<lparr>ex_expectedVersion = v, ex_expectedIntegrationVersion = 0, ex_expectedControlVersion = c\<rparr>"

definition ex_prepare :: "nat \<Rightarrow> nat \<Rightarrow> WorkflowChange \<Rightarrow> wf_call" where
  "ex_prepare v c change = PrepareChange \<lparr>pi_enterpriseKey = ''k'', pi_workflowType = WeeklyBusinessReport,
     pi_expected = ex_versions v c, pi_change = change\<rparr>"

definition ex_save :: "nat \<Rightarrow> nat \<Rightarrow> string \<Rightarrow> wf_call" where
  "ex_save v c i = SaveChange \<lparr>si_enterpriseKey = ''k'', si_workflowType = WeeklyBusinessReport,
     si_expected = ex_versions v c, si_previewId = i, si_confirmationDigest = ex_hash\<rparr>"

definition ex_checks :: "WorkflowReadinessCheck list" where
  "ex_checks = map (\<lambda>c. \<lparr>rk_capability = c, rk_status = rd_ready, rk_nextStep = [], rk_checkedAt = ''2026-01-07T00:00:00Z'',
     rk_sampleStatus = None\<rparr>) (required_capabilities WeeklyBusinessReport @ [cap_email_identity, cap_sent_mail_lookup])"

definition ex_host :: WorkflowHostSnapshot where
  "ex_host = \<lparr>hs_taskId = ''t'', hs_projectRef = ''p'', hs_cron = ''0 1 * * 1'', hs_model = ''m'', hs_reasoningEffort = ''low'',
     hs_state = host_enabled, hs_verifiedAt = ''2026-01-07T00:00:00Z''\<rparr>"

definition ex_window :: WorkflowWindow where
  "ex_window = \<lparr>w_startDate = ''2025-12-29'', w_endDate = ''2026-01-04''\<rparr>"

definition ex_start :: wf_call where
  "ex_start = ManageRun ''w'' (StartRun \<lparr>so_installationId = ''i'', so_assignmentEpoch = 1, so_expectedConfigurationVersion = 1,
     so_expectedIntegrationVersion = 0, so_expectedControlVersion = 2, so_workflowPackageVersion = ''1.0.0'', so_window = ex_window,
     so_mode = mode_scheduled, so_backfillConfirmationDigest = None\<rparr>)"

definition ex_binding :: WorkflowRunBinding where
  "ex_binding = \<lparr>bd_installationId = ''i'', bd_runId = ''r'', bd_assignmentEpoch = 1, bd_controlVersion = 2\<rparr>"

definition ex_intent :: "string \<Rightarrow> WorkflowActionIntent" where
  "ex_intent i = \<lparr>ai_actionId = i, ai_identity = EmailAction \<lparr>em_storeNames = [''n''], em_window = ex_window, em_purpose = weekly_report,
     em_recipients = [''r@m''], em_sender = ''s@m'', em_deliveryVersion = js_num 1, em_reviewIdentities = None\<rparr>,
     ai_artifactHash = Some ex_hash, ai_correlationMarker = Some ''c''\<rparr>"

definition ex_receipt :: WorkflowActionReceipt where
  "ex_receipt = \<lparr>rt_actionId = ''x'', rt_state = rcp_confirmed, rt_evidence = ev_manual_resolution, rt_receiptId = Some ''z'',
     rt_jobId = None, rt_resultHash = None, rt_reason = Some ''seen'', rt_verifiedAt = ''2026-01-07T00:00:00Z'',
     rt_launcherTransfer = None, rt_smedcReadback = None, rt_providerReadback = None\<rparr>"

section \<open>States\<close>

definition ex_workflow :: "nat \<Rightarrow> nat \<Rightarrow> ControlState \<Rightarrow> workflow_row" where
  "ex_workflow v c state = \<lparr>wf_id = ''w'', wf_orgId = ''o'', wf_enterpriseKey = ''k'', wf_type = WeeklyBusinessReport,
     wf_version = v, wf_controlVersion = c, wf_controlState = state, wf_assignmentEpoch = 0,
     wf_assignedInstallationId = None, wf_leaseRunId = None, wf_leaseExpiresAt = None\<rparr>"

definition ex_assigned :: "string option \<Rightarrow> workflow_row" where
  "ex_assigned run = (ex_workflow 1 2 ctl_active)\<lparr>wf_assignmentEpoch := 1, wf_assignedInstallationId := Some ''i'',
     wf_leaseRunId := run, wf_leaseExpiresAt := map_option (\<lambda>_. ex_now + 120000) run\<rparr>"

definition ex_preview :: "string \<Rightarrow> nat \<Rightarrow> nat \<Rightarrow> preview_change \<Rightarrow> bool \<Rightarrow> preview_row" where
  "ex_preview i v c change used = \<lparr>pv_id = i, pv_orgId = ''o'', pv_enterpriseKey = ''k'', pv_workflowType = WeeklyBusinessReport,
     pv_expectedVersion = v, pv_expectedIntegrationVersion = 0, pv_expectedControlVersion = c, pv_change = change,
     pv_confirmationDigest = ex_hash, pv_preparedBy = ''a'', pv_expiresAt = ex_now + 900000,
     pv_consumedAt = (if used then Some ex_now else None)\<rparr>"

definition ex_configured :: configuration_row where
  "ex_configured = \<lparr>cv_orgId = ''o'', cv_workflowId = ''w'', cv_version = 1, cv_configuration = ex_weekly, cv_createdBy = ''a''\<rparr>"

definition ex_db ::
  "workflow_row \<Rightarrow> configuration_row list \<Rightarrow> preview_row list \<Rightarrow> authorization_row list \<Rightarrow> installation_row list
     \<Rightarrow> run_row list \<Rightarrow> action_row list \<Rightarrow> dedup_row list \<Rightarrow> audit_row list \<Rightarrow> wf_db" where
  "ex_db w cs ps as is rs acts ds au = \<lparr>wd_facts = ex_facts,
     wd_integrations = [\<lparr>ei_orgId = ''o'', ei_enterpriseKey = ''k'', ei_version = 0, ei_configuration = empty_integration,
       ei_orderScopeRequired = False, ei_updatedBy = ''a''\<rparr>],
     wd_workflows = [w], wd_configurations = cs, wd_previews = ps, wd_authorizations = as, wd_installations = is,
     wd_runs = rs, wd_actions = acts, wd_dedup = ds, wd_migrations = [], wd_chunks = [], wd_audit = au\<rparr>"

lemma hash_ex [simp]: "hash ex_sha v = ex_hash"
  by (simp add: hash_def ex_sha_def)

lemma ex_hash_ok [simp]: "workflowHashSchema ex_hash"
  by (simp add: workflowHashSchema_def ex_hash_def is_hex_char_def is_digit_def list_all_length)

lemma res_bind_weak: "m = m' \<Longrightarrow> res_bind m f = res_bind m' f"
  by simp

lemma ex_actor_simps [simp]: "ac_id ex_actor = ''a''" "ac_orgId ex_actor = ''o''"
  by (simp_all add: ex_actor_def)

lemma ex_env_simps [simp]:
  "e_now (ex_env i) = ex_now" "e_clock (ex_env i) = ex_now" "e_newId (ex_env i) = i" "e_cuid (ex_env i) n = i"
  by (simp_all add: ex_env_def)

lemma ex_facts_simps [simp]:
  "fc_enterprises ex_facts = [(''o'', ''k'')]"
  "fc_stores ex_facts = [\<lparr>bst_orgId = ''o'', bst_enterpriseKey = ''k'', bst_name = ''n'', bst_retired = False\<rparr>]"
  by (simp_all add: ex_facts_def)

definition ex_auth :: AuthorizationSnapshot where
  "ex_auth =
     \<lparr>sn_orgId = ''o'', sn_employeeId = ''a'', sn_role = RoleAdmin, sn_disabled = False, sn_clearance = js_num 3,
      sn_mode = ModeEnabled, sn_authorizationVersion = nat_text 1,
      sn_categories = map (\<lambda>k. \<lparr>cat_id = k, cat_key = Some k, cat_kind = KindFixed, cat_confidentialityLevel = Some (js_num 0),
        cat_ownerships = [OwnStore], cat_requiredDimensionIds = []\<rparr>) [''business'', ''dishes''],
      sn_grants = [\<lparr>gr_id = ''g'', gr_orgId = ''o'', gr_enterpriseKey = ''k'', gr_categoryIds = [''business'', ''dishes''],
        gr_ownership = OwnStore, gr_stores = Some SelAll, gr_dimensions = []\<rparr>]\<rparr>"

lemma execute_ex:
  assumes "wd_facts db = ex_facts"
  shows "execute ex_sha ex_formats e ex_actor call db =
    res_bind (res_guard (\<not> inputSchema ex_formats call) SchemaError) (\<lambda>_. run_tool ex_sha ex_formats e ex_actor call ex_auth db)"
proof -
  have "load_snapshot ex_actor db = Inr ex_auth"
    using assms by (simp add: load_snapshot_def Let_def ex_facts_def toBusinessCategoryRule_def loadBusinessGrants_def
        toBusinessGrant_def ex_auth_def)
  then show ?thesis
    by (simp add: execute_def transaction_def)
qed

lemmas schema_eval = workflowIdSchema_def is_id_char_def is_lower_def is_upper_def is_digit_def
  workflowEnterpriseKeySchema_def

lemma ex_weekly_case [simp]:
  "case_WorkflowConfiguration f g h ex_weekly = h \<lparr>wc_storeNames = [''n''], wc_groups = [],
     wc_delivery = \<lparr>mail_enabled = True, mail_recipients = [''r@m''], mail_allowedSender = Some ''s@m''\<rparr>\<rparr>"
  by (simp add: ex_weekly_def)

lemma ex_weekly_ok [simp]:
  "workflowConfigurationSchema ex_formats ex_weekly" "config_type ex_weekly = WeeklyBusinessReport"
  "config_storeNames ex_weekly = [''n'']"
  by (simp_all add: ex_weekly_def workflowConfigurationSchema_def configuration_issues_def
      workflowMailSchema_def workflowRecipientsSchema_def json_of_mail_def json_config_base_def ex_formats_def scalar_eval text_eval)

lemmas base_eval = lockWorkflow_def find_workflow_def find_workflow_type_def integration_def configuration_def audit_def Let_def
  checkVersions_def ex_versions_def create_preview_def ex_db_def ex_workflow_def ex_preview_def
  schema_eval scalar_eval prepareChange_def validate_change_def validateConfiguration_def validateStores_def live_stores_def
  prepared_change_def

lemma ex_call1:
  "\<exists>r a. execute ex_sha ex_formats (ex_env ''w'') ex_actor (ex_prepare 0 0 (ConfigurationChange ex_weekly)) (empty_db ex_facts) =
     Inr (r, ex_db (ex_workflow 0 0 ctl_paused) [] [ex_preview ''w'' 0 0 (PlainChange (ConfigurationChange ex_weekly)) False]
       [] [] [] [] [] a)"
  by (simp add: ex_prepare_def execute_ex empty_db_def base_eval ensureWorkflow_def upsert_integration_def create_workflow_def
      new_workflow_def cong: res_bind_weak)

abbreviation ex_config_preview :: "bool \<Rightarrow> preview_row" where
  "ex_config_preview \<equiv> ex_preview ''w'' 0 0 (PlainChange (ConfigurationChange ex_weekly))"

definition ex_scope :: WorkflowAuthorizationScope where
  "ex_scope = EmailScope weekly_report [''n''] [''r@m''] ''s@m'' (js_num 1)"

abbreviation ex_scope_preview :: "bool \<Rightarrow> preview_row" where
  "ex_scope_preview \<equiv> ex_preview ''p2'' 1 0 (PlainChange (AuthorizationChange [ex_scope] []))"

abbreviation ex_control_preview :: "bool \<Rightarrow> preview_row" where
  "ex_control_preview \<equiv> ex_preview ''p3'' 1 1 (PlainChange (ControlChange ctl_active ''go''))"

definition ex_granted :: authorization_row where
  "ex_granted = \<lparr>wa_id = ''s2'', wa_orgId = ''o'', wa_workflowId = ''w'', wa_scope = ex_scope, wa_configurationVersion = 1,
     wa_controlVersion = 1, wa_grantedBy = ''a'', wa_grantedAt = ex_now, wa_revokedBy = None, wa_revokedAt = None\<rparr>"

lemma ex_scope_ok [simp]: "workflowAuthorizationScopeSchema ex_formats ex_scope" "scope_storeNames ex_scope = [''n'']"
  by (simp_all add: ex_scope_def workflowRecipientsSchema_def workflowVersionSchema_def ex_formats_def scalar_eval js_num_def)

lemmas save_eval = ex_save_def saveChange_def find_preview_def check_impact_def apply_change_def consume_preview_def
  update_where_def view_def active_authorizations_def update_workflow_def

lemma ex_call2:
  "\<exists>r a. execute ex_sha ex_formats (ex_env ''s1'') ex_actor (ex_save 0 0 ''w'')
       (ex_db (ex_workflow 0 0 ctl_paused) [] [ex_config_preview False] [] [] [] [] [] au) =
     Inr (r, ex_db (ex_workflow 1 0 ctl_paused) [ex_configured] [ex_config_preview True] [] [] [] [] [] a)"
  by (simp add: execute_ex base_eval save_eval save_configuration_def create_configuration_def ex_configured_def
      cong: res_bind_weak)

lemma ex_call3:
  "\<exists>r a. execute ex_sha ex_formats (ex_env ''p2'') ex_actor (ex_prepare 1 0 (AuthorizationChange [ex_scope] []))
       (ex_db (ex_workflow 1 0 ctl_paused) [ex_configured] [ex_config_preview True] [] [] [] [] [] au) =
     Inr (r, ex_db (ex_workflow 1 0 ctl_paused) [ex_configured] [ex_config_preview True, ex_scope_preview False] [] [] [] [] [] a)"
  by (simp add: ex_prepare_def execute_ex base_eval ensureWorkflow_def upsert_integration_def cong: res_bind_weak)

lemma ex_call4:
  "\<exists>r a. execute ex_sha ex_formats (ex_env ''s2'') ex_actor (ex_save 1 0 ''p2'')
       (ex_db (ex_workflow 1 0 ctl_paused) [ex_configured] [ex_config_preview True, ex_scope_preview False] [] [] [] [] [] au) =
     Inr (r, ex_db (ex_workflow 1 1 ctl_paused) [ex_configured] [ex_config_preview True, ex_scope_preview True] [ex_granted]
       [] [] [] [] a)"
  by (simp add: execute_ex base_eval save_eval save_authorization_def create_authorization_def ex_granted_def ex_configured_def
      cong: res_bind_weak)

lemma ex_call5:
  "\<exists>r a. execute ex_sha ex_formats (ex_env ''p3'') ex_actor (ex_prepare 1 1 (ControlChange ctl_active ''go''))
       (ex_db (ex_workflow 1 1 ctl_paused) [ex_configured] [ex_config_preview True, ex_scope_preview True] [ex_granted]
         [] [] [] [] au) =
     Inr (r, ex_db (ex_workflow 1 1 ctl_paused) [ex_configured] [ex_config_preview True, ex_scope_preview True,
       ex_control_preview False] [ex_granted] [] [] [] [] a)"
  by (simp add: ex_prepare_def execute_ex base_eval ensureWorkflow_def upsert_integration_def cong: res_bind_weak)

lemma ex_call6:
  "\<exists>r a. execute ex_sha ex_formats (ex_env ''s3'') ex_actor (ex_save 1 1 ''p3'')
       (ex_db (ex_workflow 1 1 ctl_paused) [ex_configured] [ex_config_preview True, ex_scope_preview True,
         ex_control_preview False] [ex_granted] [] [] [] [] au) =
     Inr (r, ex_db (ex_workflow 1 2 ctl_active) [ex_configured] [ex_config_preview True, ex_scope_preview True,
       ex_control_preview True] [ex_granted] [] [] [] [] a)"
  by (simp add: execute_ex base_eval save_eval save_control_def ex_configured_def ex_granted_def cong: res_bind_weak)

definition ex_installation :: WorkflowInstallation where
  "ex_installation = \<lparr>wi_installationId = ''i'', wi_deviceAlias = ''d'', wi_launcherVersion = ''0.16.0'',
     wi_workflowPackageVersion = ''1.0.0'', wi_hostSnapshot = Some ex_host\<rparr>"

definition ex_installed :: "nat \<Rightarrow> WorkflowReadinessCheck list \<Rightarrow> InstallationState \<Rightarrow> installation_row" where
  "ex_installed n checks state = \<lparr>il_orgId = ''o'', il_workflowId = ''w'', il_installationId = ''i'', il_employeeId = ''a'',
     il_version = n, il_deviceAlias = ''d'', il_launcherVersion = ''0.16.0'', il_workflowPackageVersion = ''1.0.0'', il_state = state,
     il_hostSnapshot = Some ex_host, il_readinessChecks = checks, il_firstRunVerification = fr_not_run,
     il_lastCheckedAt = (if checks = [] then None else Some ex_now), il_updatedAt = ex_now\<rparr>"

definition ex_takeover :: takeover_change where
  "ex_takeover = \<lparr>tk_installationId = ''i'', tk_assignmentEpoch = 0, tk_oldInstallationId = None, tk_oldHostState = False,
     tk_unknownActionIds = [], tk_unknownActionCount = 0, tk_unknownLatestChange = None\<rparr>"

abbreviation ex_previews :: "preview_row list" where
  "ex_previews \<equiv> [ex_config_preview True, ex_scope_preview True, ex_control_preview True]"

abbreviation ex_takeover_preview :: "bool \<Rightarrow> preview_row" where
  "ex_takeover_preview \<equiv> ex_preview ''p4'' 1 2 (TakeoverChange ex_takeover)"

lemma ex_host_ok [simp]: "workflowHostSnapshotSchema ex_formats ex_host"
  by (simp add: workflowHostSnapshotSchema_def ex_host_def ex_formats_def schema_eval scalar_eval)

lemma ex_versions_ok [simp]:
  "version_format ''0.16.0''" "version_format ''1.0.0''" "supportsWorkflowPackageVersion ''1.0.0''"
  "launcherVersionAtLeast (Some ''0.16.0'') ENTERPRISE_WORKFLOW_LAUNCHER_VERSION"
  by (simp_all add: version_format_def all_digits_def is_digit_def supportsWorkflowPackageVersion_def decimal_number_def
      launcherVersionAtLeast_def ENTERPRISE_WORKFLOW_LAUNCHER_VERSION_def semanticVersion_def Let_def number_value_def)

lemma ex_checked_at: "Date_parse ''2026-01-07T00:00:00Z'' = Some (20460 * 86400000)"
  by code_simp

lemma ex_ready [simp]: "check_ready ex_now ex_checks c" if "c \<in> set (required_capabilities WeeklyBusinessReport)" for c
  using that by (auto simp: ex_checks_def check_ready_def ex_checked_at ex_now_def nan_at_most_def nan_greater_def)

lemma ex_checks_ok [simp]:
  "list_all (workflowReadinessCheckSchema ex_formats) ex_checks" "length ex_checks = 10"
  "length (js_uniq (map rk_capability ex_checks)) = 10" "ex_checks \<noteq> []"
  by (simp_all add: ex_checks_def workflowReadinessCheckSchema_def ex_formats_def ex_checked_at)

lemmas install_eval = getInstallation_def find_installation_def update_installation_def update_where_def
  record_installation_def record_checks_def requireReady_def takeover_guard_def paused_guard_def lease_live_def
  prepare_takeover_def pending_actions_def unknown_action_ids_def latest_change_def activateOrderScope_def ex_installed_def
  ex_configured_def ex_granted_def

lemma ex_call7:
  "\<exists>r a. execute ex_sha ex_formats (ex_env ''c1'') ex_actor (ManageInstallation ''w'' (Register ex_installation))
       (ex_db (ex_workflow 1 2 ctl_active) [ex_configured] ex_previews [ex_granted] [] [] [] [] au) =
     Inr (r, ex_db (ex_workflow 1 2 ctl_active) [ex_configured] ex_previews [ex_granted] [ex_installed 1 [] ins_pending] [] [] [] a)"
  by (simp add: execute_ex base_eval register_installation_def new_installation_def ex_installation_def install_eval
      workflowInstallationSchema_def cong: res_bind_weak)

lemma ex_call8:
  "\<exists>r a. execute ex_sha ex_formats (ex_env ''c2'') ex_actor (ManageInstallation ''w'' (RecordChecks ''i'' ex_checks fr_not_run))
       (ex_db (ex_workflow 1 2 ctl_active) [ex_configured] ex_previews [ex_granted] [ex_installed 1 [] ins_pending] [] [] [] au) =
     Inr (r, ex_db (ex_workflow 1 2 ctl_active) [ex_configured] ex_previews [ex_granted] [ex_installed 2 ex_checks ins_pending] [] [] [] a)"
  by (simp add: execute_ex base_eval install_eval cong: res_bind_weak)

lemma ex_call9:
  "\<exists>r a. execute ex_sha ex_formats (ex_env ''p4'') ex_actor (ManageInstallation ''w'' (PrepareTakeover ''i'' 0 False))
       (ex_db (ex_workflow 1 2 ctl_active) [ex_configured] ex_previews [ex_granted] [ex_installed 2 ex_checks ins_pending] [] [] [] au) =
     Inr (r, ex_db (ex_workflow 1 2 ctl_active) [ex_configured] (ex_previews @ [ex_takeover_preview False]) [ex_granted]
       [ex_installed 2 ex_checks ins_pending] [] [] [] a)"
  by (simp add: execute_ex base_eval install_eval ex_takeover_def empty_integration_def cong: res_bind_weak)

lemma ex_call10:
  "\<exists>r a. execute ex_sha ex_formats (ex_env ''c3'') ex_actor (ManageInstallation ''w'' (Takeover ''i'' 0 ''p4'' ex_hash))
       (ex_db (ex_workflow 1 2 ctl_active) [ex_configured] (ex_previews @ [ex_takeover_preview False]) [ex_granted]
         [ex_installed 2 ex_checks ins_pending] [] [] [] au) =
     Inr (r, ex_db (ex_assigned None) [ex_configured] (ex_previews @ [ex_takeover_preview True]) [ex_granted]
       [ex_installed 3 ex_checks ins_enabled] [] [] [] a)"
  by (simp add: execute_ex base_eval install_eval ex_takeover_def takeover_def find_preview_def parse_takeover_def
      takeover_matches_def revoke_assigned_def reassign_def update_workflow_def consume_preview_def ex_assigned_def
      cong: res_bind_weak)

text \<open>The run of call 11 and the action of call 12.\<close>

definition ex_snapshot :: WorkflowRunSnapshot where
  "ex_snapshot = \<lparr>sn_workflowType = WeeklyBusinessReport, sn_window = ex_window, sn_integrationVersion = 0,
     sn_configurationVersion = 1, sn_workflowPackageVersion = ''1.0.0'', sn_integration = empty_integration,
     sn_configuration = ex_weekly\<rparr>"

definition ex_run :: run_row where
  "ex_run = \<lparr>rn_id = ''r'', rn_orgId = ''o'', rn_workflowId = ''w'', rn_installationId = ''i'', rn_employeeId = ''a'',
     rn_configurationVersion = 1, rn_integrationVersion = 0, rn_controlVersion = 2, rn_assignmentEpoch = 1,
     rn_workflowPackageVersion = ''1.0.0'', rn_startDate = ''2025-12-29'', rn_endDate = ''2026-01-04'',
     rn_mode = mode_scheduled, rn_snapshot = ex_snapshot, rn_restrictivePolicy = None, rn_phase = ph_preparing,
     rn_status = st_running, rn_summary = None, rn_startedAt = ex_now, rn_renewedAt = ex_now, rn_finishedAt = None,
     rn_retainUntil = ex_now + 90 * 86400000\<rparr>"

definition ex_action :: "WorkflowActionReceipt option \<Rightarrow> action_row" where
  "ex_action receipt = \<lparr>at_orgId = ''o'', at_workflowId = ''w'', at_actionId = ''x'', at_runId = ''r'',
     at_idempotencyKey = ex_hash, at_identity = ai_identity (ex_intent ''x''), at_artifactHash = Some ex_hash,
     at_correlationMarker = Some ''c'', at_state = (if receipt = None then ac_intent else ac_confirmed),
     at_receipt = receipt, at_createdAt = ex_now, at_updatedAt = ex_now,
     at_confirmedAt = (if receipt = None then None else Some ex_now)\<rparr>"

definition ex_key :: dedup_row where
  "ex_key = \<lparr>dd_orgId = ''o'', dd_workflowId = ''w'', dd_key = ex_hash, dd_actionId = ''x''\<rparr>"

abbreviation ex_leased :: "run_row list \<Rightarrow> action_row list \<Rightarrow> dedup_row list \<Rightarrow> audit_row list \<Rightarrow> wf_db" where
  "ex_leased rs \<equiv> ex_db (ex_assigned (if rs = [] then None else Some ''r'')) [ex_configured]
     (ex_previews @ [ex_takeover_preview True]) [ex_granted] [ex_installed 3 ex_checks ins_enabled] rs"

lemma ex_scheduled: "scheduledWindow WeeklyBusinessReport ex_now = ex_window"
  by code_simp

lemma ex_window_ok [simp]: "workflowDateRangeSchema ex_formats ex_window" "\<not> window_too_long ex_window"
  by (code_simp)+

lemma ex_auth_mode [simp]: "sn_mode ex_auth = ModeEnabled"
  by (simp add: ex_auth_def)

lemma ex_read [simp]: "requireRead ex_auth w [''n''] [''business'', ''dishes''] = Inr ()"
  if "wf_orgId w = ''o''" "wf_enterpriseKey w = ''k''" for w
  unfolding requireRead_def that by code_simp

lemma ex_window_days [simp]: "w_startDate ex_window = ''2025-12-29''" "w_endDate ex_window = ''2026-01-04''"
  by (simp_all add: ex_window_def)

lemma ex_call11:
  "\<exists>r a. execute ex_sha ex_formats (ex_env ''r'') ex_actor ex_start (ex_leased [] [] [] au) =
     Inr (r, ex_leased [ex_run] [] [] a)"
  by (simp add: execute_ex base_eval install_eval ex_start_def ex_assigned_def runOperation_def start_run_def
      requireRunRead_def unfinished_runs_def claim_window_def ex_scheduled new_run_def create_run_def set_lease_def
      lease_until_def retention_def update_workflow_def ex_run_def ex_snapshot_def
      cong: res_bind_weak)

end
