(* ===== verification/Workflow_Witnesses.thy ===== *)
theory Workflow_Witnesses
  imports Workflow_Examples
begin

text \<open>
  The history of \<open>Workflow_Examples\<close> goes on: a claim, the receipt that confirms it and a second
  claim of the same effect. \<open>ex_reach1\<close> to \<open>ex_reach13\<close> make the states reachable, and the
  properties of the services are applied to them.
\<close>

section \<open>The claim of the run and its receipt\<close>

lemma ex_binding_ok [simp]: "bindingSchema ex_binding"
  by (simp add: bindingSchema_def ex_binding_def schema_eval scalar_eval)

definition ex_identity :: WorkflowActionIdentity where
  "ex_identity = ai_identity (ex_intent ''x'')"

lemma ex_intent_simps [simp]:
  "ai_actionId (ex_intent i) = i" "ai_identity (ex_intent i) = ex_identity" "ai_artifactHash (ex_intent i) = Some ex_hash"
  "ai_correlationMarker (ex_intent i) = Some ''c''"
  by (simp_all add: ex_intent_def ex_identity_def)

lemma ex_identity_ok [simp]: "workflowActionIdentitySchema ex_formats ex_identity" "is_external ex_identity"
    "is_email ex_identity"
  by (simp_all add: ex_identity_def ex_intent_def email_review_check_def ex_formats_def scalar_eval
      workflowDateRangeSchema_def workflowRecipientsSchema_def workflowVersionSchema_def ex_window_def
        less_char_def less_eq_char_def js_num_def)

definition ex_live :: WorkflowLivePolicy where
  "ex_live = \<lparr>lp_stores = [''n''],
    lp_datasets = [ds_business, ds_dishes, ds_in_store_orders, ds_takeaway_orders], lp_channels = [],
    lp_publicationStores = [], lp_senders = [''s@m''], lp_recipients = [''r@m''], lp_sources = [], lp_ignored = [],
    lp_reviewsBlocked = False\<rparr>"

lemma ex_policy: "live_policy ex_weekly empty_integration = Inr ex_live"
  by (simp add: ex_live_def live_policy_def workflowLivePolicy_def policy_mappings_def ex_weekly_def empty_integration_def lower_def scalar_eval)

lemma ex_keys [simp]: "deduplicationKeys ex_sha ex_identity r i = Inr [ex_hash]"
  by (simp add: ex_identity_def ex_intent_def email_key_def)

text \<open>The length of a JSON text whose strings need no escape.\<close>

definition plain :: "string \<Rightarrow> bool" where
  "plain s \<longleftrightarrow> list_all (\<lambda>c. (of_char c :: nat) \<in> {32..127} - {34, 92}) s"

lemma utf8_bytes_simps [simp]:
  "utf8_bytes [] = 0" "utf8_bytes (s @ t) = utf8_bytes s + utf8_bytes t"
  "utf8_bytes (c # s) = (if (of_char c :: nat) < 128 then 1 else 2) + utf8_bytes s"
  by (simp_all add: utf8_bytes_def)

lemma plain_bytes: "plain s \<Longrightarrow> utf8_bytes s = length s"
  by (induction s) (auto simp: plain_def)

lemma plain_quote [simp]: "plain s \<Longrightarrow> utf8_bytes (js_quote s) = length s + 2"
proof -
  assume s: "plain s"
  have "concat (map quote_char s) = s"
    using s by (induction s) (auto simp: plain_def quote_char_def Let_def)
  with s show ?thesis
    by (simp add: js_quote_def plain_bytes)
qed

lemma plain_ex_hash [simp]: "plain ex_hash"
  by (simp add: plain_def ex_hash_def list_all_length)

lemma length_ex_hash [simp]: "length ex_hash = 64"
  by (simp add: ex_hash_def)

lemma plain_Nil [simp]: "plain []" and plain_Cons [simp]:
  "plain (c # s) \<longleftrightarrow> (of_char c :: nat) \<in> {32..127} - {34, 92} \<and> plain s"
  by (simp_all add: plain_def)

lemma ex_intent_fits [simp]:
  "workflowPayloadFits (JArr [json_of_intent (ex_intent ''x'')]) 262144"
  "workflowPayloadFits (JArr [json_of_intent (ex_intent ''y'')]) 262144"
  by (simp_all add: workflowPayloadFits_def json_of_intent_def ex_identity_def ex_intent_def
      ex_window_def opt_field_def json_of_window_def num_text_def js_num_def int_text_def nat_text.simps jstrs_def)

lemma ex_batch_ok [simp]:
  "intentBatch ex_formats [ex_intent ''x'']" "intentBatch ex_formats [ex_intent ''y'']"
  by (simp_all add: intentBatch_def workflowActionIntentSchema_def schema_eval scalar_eval)


abbreviation ex_held :: "preview_row list \<Rightarrow> action_row list \<Rightarrow> dedup_row list \<Rightarrow> audit_row list \<Rightarrow> wf_db" where
  "ex_held ps \<equiv> ex_db (ex_assigned (Some ''r'')) [ex_configured] ps [ex_granted] [ex_installed 3 ex_checks ins_enabled] [ex_run]"

lemma ex_db_parts [simp]:
  "wd_facts (ex_db w cs ps as is rs acts ds au) = ex_facts"
  "wd_actions (ex_db w cs ps as is rs acts ds au) = acts" "wd_dedup (ex_db w cs ps as is rs acts ds au) = ds"
  "wd_runs (ex_db w cs ps as is rs acts ds au) = rs"
  "(ex_db w cs ps as is rs acts ds au)\<lparr>wd_actions := acts'\<rparr> = ex_db w cs ps as is rs acts' ds au"
  "(ex_db w cs ps as is rs acts ds au)\<lparr>wd_dedup := ds'\<rparr> = ex_db w cs ps as is rs acts ds' au"
  "audit actor kind i d (ex_db w cs ps as is rs acts ds au) =
     ex_db w cs ps as is rs acts ds (au @ [\<lparr>au_orgId = ac_orgId actor, au_actorEmployeeId = ac_id actor,
       au_action = ''workflow.'' @ kind, au_targetId = i, au_metadata = JObj d\<rparr>])"
  by (simp_all add: ex_db_def audit_def)

lemma ex_db_some_audit [simp]:
  "\<exists>a. ex_db w cs ps as is rs acts ds au = ex_db w cs ps as is rs acts ds a"
  by blast

lemma ex_binding_run [simp]: "bd_runId ex_binding = ''r''"
  by (simp add: ex_binding_def)

lemma ex_assigned_id [simp]: "wf_id (ex_assigned run) = ''w''"
  by (simp add: ex_assigned_def ex_workflow_def)

lemma ex_w_ok [simp]: "workflowIdSchema ''w''"
  by (simp add: schema_eval scalar_eval)

lemma ex_bound:
  "requireBinding (ex_env c) ex_actor (ex_assigned (Some ''r'')) ex_binding True (ex_held ps acts ds au) =
    Inr \<lparr>bn_run = ex_run, bn_snapshot = ex_snapshot, bn_installation = ex_installed 3 ex_checks ins_enabled,
      bn_livePolicy = ex_live\<rparr>"
  by (simp add: requireBinding_def base_eval install_eval ex_assigned_def ex_binding_def find_run_def lease_held_def
     bound_policy_def ex_policy run_policy_def ex_run_def ex_snapshot_def ex_live_def intersectWorkflowLivePolicy_def
     intersect_def scalar_eval cong: res_bind_weak)

lemma ex_mail_ready: "mail_ready (ex_env c) ex_checks"
  by (simp add: mail_ready_def ex_checks_def ex_checked_at ex_now_def nan_greater_def)

lemma ex_locked: "lockWorkflow ex_actor ''w'' (ex_held ps acts ds au) = Inr (ex_assigned (Some ''r''))"
  by (simp add: lockWorkflow_def find_workflow_def ex_db_def ex_assigned_def ex_workflow_def schema_eval scalar_eval)

lemma ex_authorized:
  "check_intent (ex_env c) ex_actor ex_auth (ex_assigned (Some ''r'')) \<lparr>bn_run = ex_run, bn_snapshot = ex_snapshot,
      bn_installation = ex_installed 3 ex_checks ins_enabled, bn_livePolicy = ex_live\<rparr> (ex_held ps acts ds au)
    (ex_intent i) = Inr ()"
  using ex_mail_ready [of c]
  by (simp add: check_intent_def authorizeAction_def ex_identity_def ex_intent_def ex_snapshot_def workflowLivePolicyAllows_def
      ex_live_def scalar_eval lower_def names_ignored_def check_window_def window_outside_def check_dataset_def check_review_def
      check_email_def mail_admits_def purpose_mail_def chosen_def missing_text_def active_authorizations_def ex_db_def
      ex_granted_def ex_scope_def ex_weekly_def ex_hash_def ex_installed_def)

lemma ex_call12:
  "\<exists>a. execute ex_sha ex_formats (ex_env ''c4'') ex_actor (RecordAction ''w'' (ActionIntents ex_binding [ex_intent ''x'']))
       (ex_leased [ex_run] [] [] au) =
     Inr (ActionRecorded (ActionsClaimed [\<lparr>cr_actionId = ''x'', cr_state = ac_intent, cr_permitted = True,
       cr_conflictActionIds = [], cr_claimedItems = 0, cr_requestedItems = 1, cr_identityHash = ex_hash, cr_receipt = None\<rparr>]),
       ex_leased [ex_run] [ex_action None] [ex_key] a)"
  by (simp add: execute_ex ex_locked claim_actions_def ex_bound ex_authorized claimAction_def key_rows_def find_action_def
      create_action_def create_keys_def new_action_def ex_action_def ex_key_def cong: res_bind_weak)

lemma ex_receipt_ok [simp]: "receiptBatch ex_formats [ex_receipt]"
proof -
  have "workflowPayloadFits (JArr [json_of_receipt ex_receipt]) 262144"
    by (simp add: workflowPayloadFits_def json_of_receipt_def ex_receipt_def opt_field_def)
  then show ?thesis
    by (simp add: receiptBatch_def scalar_eval) (simp add: ex_receipt_def workflowActionReceiptSchema_def receipt_issues_def ex_formats_def
      schema_eval scalar_eval)
qed

lemma ex_recorder:
  "getInstallation ex_actor (ex_assigned (Some ''r'')) ''i'' False (ex_held ps acts ds au) =
     Inr (ex_installed 3 ex_checks ins_enabled)"
  by (simp add: base_eval install_eval ex_assigned_def)

lemma ex_recorded:
  "record_receipt ex_sha (ex_env c) ex_actor ex_auth (ex_assigned (Some ''r'')) ex_binding False True ex_receipt
     (ex_held ps [ex_action None] ds au) =
   Inr (store_receipt (ex_env c) ex_actor (ex_assigned (Some ''r'')) ''r'' ex_receipt (ex_held ps [ex_action None] ds au))"
  by (simp add: record_receipt_def find_action_def ex_receipt_def ex_action_def ex_binding_def check_evidence_def
      failure_evidence_def ex_checked_at ex_now_def nan_greater_def)

lemma ex_stored:
  "\<exists>a. store_receipt (ex_env c) ex_actor (ex_assigned (Some ''r'')) ''r'' ex_receipt (ex_held ps [ex_action None] ds au) =
     ex_held ps [ex_action (Some ex_receipt)] ds a"
  by (simp add: store_receipt_def Let_def update_action_def update_where_def ex_action_def ex_receipt_def)

lemma ex_call13:
  "\<exists>r a. execute ex_sha ex_formats (ex_env ''c5'') ex_actor (RecordAction ''w'' (RecordReceipts ex_binding [ex_receipt]))
       (ex_leased [ex_run] [ex_action None] [ex_key] au) =
     Inr (r, ex_leased [ex_run] [ex_action (Some ex_receipt)] [ex_key] a)"
proof -
  have "find_run ''o'' ''w'' ''r'' (ex_held ps acts ds au) = Some ex_run" for ps acts ds au
    by (simp add: find_run_def ex_run_def)
  moreover have "wf_assignedInstallationId (ex_assigned (Some ''r'')) = Some (bd_installationId ex_binding)"
      "wf_assignmentEpoch (ex_assigned (Some ''r'')) = bd_assignmentEpoch ex_binding" "bd_installationId ex_binding = ''i''"
    by (simp_all add: ex_assigned_def ex_binding_def)
  ultimately show ?thesis
    using ex_stored by (simp add: execute_ex ex_locked record_evidence_def ex_recorder ex_recorded Let_def cong: res_bind_weak)
qed

lemma ex_call14:
  "\<exists>c a. execute ex_sha ex_formats (ex_env ''c5'') ex_actor (RecordAction ''w'' (ActionIntents ex_binding [ex_intent ''y'']))
       (ex_leased [ex_run] [ex_action None] [ex_key] au) =
     Inr (ActionRecorded (ActionsClaimed [c]), ex_leased [ex_run] [ex_action None] [ex_key] a) \<and> \<not> cr_permitted c"
  by (simp add: execute_ex ex_locked claim_actions_def ex_bound ex_authorized claimAction_def key_rows_def find_action_def
      ex_key_def ex_action_def refused_claim_def cong: res_bind_weak)

lemma ex_claimed:
  "\<exists>r a. execute ex_sha ex_formats (ex_env ''c4'') ex_actor (RecordAction ''w'' (ActionIntents ex_binding [ex_intent ''x'']))
       (ex_leased [ex_run] [] [] au) = Inr (r, ex_leased [ex_run] [ex_action None] [ex_key] a)"
  using ex_call12 by blast

section \<open>The history of the calls\<close>

lemma reachable_call:
  "reachable sha z db \<Longrightarrow> execute sha z e actor call db = Inr (r, db') \<Longrightarrow> reachable sha z db'"
  unfolding reachable_def by (blast intro: rtranclp.rtrancl_into_rtrancl step_call)

lemma reach_next:
  assumes "\<exists>a. reachable sha z (f a)" "\<And>a. \<exists>r b. execute sha z e actor call (f a) = Inr (r, g b)"
  shows "\<exists>b. reachable sha z (g b)"
proof -
  obtain a where a: "reachable sha z (f a)"
    using assms(1) by blast
  obtain r b where "execute sha z e actor call (f a) = Inr (r, g b)"
    using assms(2) by blast
  from reachable_call [OF a this] show ?thesis by blast
qed

lemma ex_reach0: "reachable ex_sha ex_formats (empty_db ex_facts)"
  unfolding reachable_def by blast

lemma ex_reach1:
  "\<exists>a. reachable ex_sha ex_formats (ex_db (ex_workflow 0 0 ctl_paused) [] [ex_config_preview False] [] [] [] [] [] a)"
  using reachable_call [OF ex_reach0] ex_call1 by blast

lemmas ex_reach6 = reach_next [OF reach_next [OF reach_next [OF reach_next [OF reach_next [OF ex_reach1
  ex_call2] ex_call3] ex_call4] ex_call5] ex_call6]

lemmas ex_reach10 = reach_next [OF reach_next [OF reach_next [OF reach_next [OF ex_reach6
  ex_call7] ex_call8] ex_call9] ex_call10]

lemma ex_reach10': "\<exists>a. reachable ex_sha ex_formats (ex_leased [] [] [] a)"
  using ex_reach10 by simp

lemma ex_reach11: "\<exists>a. reachable ex_sha ex_formats (ex_leased [ex_run] [] [] a)"
  by (rule reach_next [OF ex_reach10' ex_call11])

lemma ex_reach12: "\<exists>a. reachable ex_sha ex_formats (ex_leased [ex_run] [ex_action None] [ex_key] a)"
  by (rule reach_next [OF ex_reach11 ex_claimed])

lemma ex_reach13: "\<exists>a. reachable ex_sha ex_formats (ex_leased [ex_run] [ex_action (Some ex_receipt)] [ex_key] a)"
  by (rule reach_next [OF ex_reach12 ex_call13])

section \<open>Witnesses of the properties\<close>

theorem services_refine_protocol_witness:
  "\<exists>f a. protocol UNIV (coord_of (empty_db f)) (coord_of (ex_leased [ex_run] [ex_action None] [ex_key] a))"
  using ex_reach12 services_refine_protocol unfolding reachable_def by blast

theorem one_unfinished_run_witness:
  "\<exists>db :: wf_db. {r \<in> set (wd_runs db). rn_finishedAt r = None \<and> rn_workflowId r = ''w''} = {ex_run}"
proof -
  obtain a where a: "reachable ex_sha ex_formats (ex_leased [ex_run] [] [] a)"
    using ex_reach11 by blast
  have run: "ex_run \<in> set (wd_runs (ex_leased [ex_run] [] [] a))" "rn_finishedAt ex_run = None" "rn_workflowId ex_run = ''w''"
    by (simp_all add: ex_run_def)
  have "r = ex_run" if "r \<in> set (wd_runs (ex_leased [ex_run] [] [] a))" "rn_finishedAt r = None" "rn_workflowId r = ''w''" for r
    by (rule one_unfinished_run [OF a that(1) run(1) that(2) run(2)]) (simp add: that(3) run(3))
  with run have "{r \<in> set (wd_runs (ex_leased [ex_run] [] [] a)). rn_finishedAt r = None \<and> rn_workflowId r = ''w''} = {ex_run}"
    by blast
  then show ?thesis
    by (rule exI [of _ "ex_leased [ex_run] [] [] a"])
qed

lemma ex_workflows [simp]: "wd_workflows (ex_db w cs ps as is rs acts ds au) = [w]"
  by (simp add: ex_db_def)

theorem lease_names_assigned_run_witness:
  "\<exists>a. \<exists>r\<in>set (wd_runs (ex_leased [ex_run] [] [] a)). rn_id r = ''r'' \<and> rn_workflowId r = ''w'' \<and> rn_finishedAt r = None \<and>
    Some (rn_installationId r) = Some ''i'' \<and> rn_assignmentEpoch r = 1"
proof -
  obtain a where a: "reachable ex_sha ex_formats (ex_leased [ex_run] [] [] a)"
    using ex_reach11 by blast
  have "ex_assigned (Some ''r'') \<in> set (wd_workflows (ex_leased [ex_run] [] [] a))" "wf_leaseRunId (ex_assigned (Some ''r'')) = Some ''r''"
    by (simp_all add: ex_assigned_def)
  from lease_names_assigned_run [OF a this] show ?thesis
    by (intro exI [of _ a]) (auto simp: ex_assigned_def ex_workflow_def)
qed


theorem confirmed_action_final_witness:
  "\<exists>db a. reachable ex_sha ex_formats db \<and>
     find_action ''o'' ''w'' ''x'' (snd (pruneRetention (ex_now + 10 ^ 12) db)) = Some a \<and> at_state a = ac_confirmed \<and>
     at_receipt a = Some ex_receipt"
proof -
  obtain u where u: "reachable ex_sha ex_formats (ex_leased [ex_run] [ex_action (Some ex_receipt)] [ex_key] u)" (is "reachable _ _ ?db")
    using ex_reach13 by blast
  have found: "find_action ''o'' ''w'' ''x'' ?db = Some (ex_action (Some ex_receipt))" "at_state (ex_action (Some ex_receipt)) = ac_confirmed"
    "at_receipt (ex_action (Some ex_receipt)) = Some ex_receipt"
    by (simp_all add: find_action_def ex_action_def)
  have "wf_steps ex_sha ex_formats UNIV ?db (snd (pruneRetention (ex_now + 10 ^ 12) ?db))"
    by (rule r_into_rtranclp, rule step_prune [OF surjective_pairing])
  from confirmed_action_final [OF u found(1,2) this] found(3) u show ?thesis by force
qed

theorem claimed_key_exclusive_witness:
  "\<exists>db1 c db2. execute ex_sha ex_formats (ex_env ''c5'') ex_actor (RecordAction ''w'' (ActionIntents ex_binding [ex_intent ''y''])) db1 =
     Inr (ActionRecorded (ActionsClaimed [c]), db2) \<and> \<not> cr_permitted c \<and> ''x'' \<in> set (cr_conflictActionIds c)"
proof -
  obtain r a where first: "execute ex_sha ex_formats (ex_env ''c4'') ex_actor (RecordAction ''w'' (ActionIntents ex_binding [ex_intent ''x'']))
       (ex_leased [ex_run] [] [] []) = Inr (ActionRecorded (ActionsClaimed [r]), ex_leased [ex_run] [ex_action None] [ex_key] a)"
    and r: "cr_permitted r"
    using ex_call12 [of "[]"] by force
  obtain c b where second: "execute ex_sha ex_formats (ex_env ''c5'') ex_actor (RecordAction ''w'' (ActionIntents ex_binding [ex_intent ''y'']))
       (ex_leased [ex_run] [ex_action None] [ex_key] a) =
     Inr (ActionRecorded (ActionsClaimed [c]), ex_leased [ex_run] [ex_action None] [ex_key] b)"
    using ex_call14 by blast
  have "\<not> cr_permitted ([c] ! 0) \<and> ai_actionId ([ex_intent ''x''] ! 0) \<in> set (cr_conflictActionIds ([c] ! 0))"
    by (rule claimed_key_exclusive [OF first, where F = "{}" and keys = "[ex_hash]" and keys' = "[ex_hash]" and key = ex_hash,
          OF _ _ _ _ rtranclp.rtrancl_refl _ second])
       (simp_all add: r)
  with second show ?thesis by auto
qed

theorem claim_needs_lease_and_authorization_witness:
  "\<exists>au w. wf_id w = ''w'' \<and> wf_controlState w = ctl_active \<and> lease_held w ''r'' ex_now \<and>
     w \<in> set (wd_workflows (ex_leased [ex_run] [] [] au))"
proof -
  obtain r a where first: "execute ex_sha ex_formats (ex_env ''c4'') ex_actor (RecordAction ''w'' (ActionIntents ex_binding [ex_intent ''x'']))
       (ex_leased [ex_run] [] [] []) = Inr (r, ex_leased [ex_run] [ex_action None] [ex_key] a)"
    using ex_call12 [of "[]"] by blast
  have "ex_intent ''x'' \<in> set [ex_intent ''x'']" by simp
  from claim_needs_lease_and_authorization [OF first this] show ?thesis
    unfolding ex_env_simps ex_binding_run by blast
qed


theorem execute_requires_admin_witness:
  "execute ex_sha ex_formats (ex_env ''c'') ex_actor (GetStatus \<lparr>gs_workflowId = ''w'', gs_runId = None, gs_limit = None,
     gs_cursor = None, gs_actionCursor = None, gs_migrationCursor = None\<rparr>) (empty_db (ex_facts\<lparr>fc_employees := []\<rparr>)) =
   Inl WORKFLOW_ADMIN_REQUIRED"
  by (rule execute_requires_admin) (simp add: empty_db_def)

theorem preview_used_once_witness:
  "\<exists>db. \<not> is_ok (execute ex_sha ex_formats (ex_env ''s1'') ex_actor (ex_save 0 0 ''w'') db) \<and> reachable ex_sha ex_formats db"
proof -
  obtain a where a: "reachable ex_sha ex_formats (ex_db (ex_workflow 0 0 ctl_paused) [] [ex_config_preview False] [] [] [] [] [] a)"
    using ex_reach1 by blast
  have used: "used_preview (ex_save 0 0 ''w'') = Some ''w''"
    by (simp add: ex_save_def)
  obtain r b where saved: "execute ex_sha ex_formats (ex_env ''s1'') ex_actor (ex_save 0 0 ''w'')
       (ex_db (ex_workflow 0 0 ctl_paused) [] [ex_config_preview False] [] [] [] [] [] a) = Inr (r, b)"
    using ex_call2 by blast
  show ?thesis
    using preview_used_once [OF a used saved rtranclp.rtrancl_refl used] reachable_call [OF a saved] by blast
qed

end
