(* ===== verification/Workflow_Migration_Example.thy ===== *)
theory Workflow_Migration_Example
  imports Workflow_Witnesses
begin

text \<open>
  A migration of one page, previewed and sealed on the state of the first call of
  \<open>Workflow_Examples\<close>, and two hand-made states: a restriction of a running workflow, and a late
  confirmation of a failed action.
\<close>

section \<open>A sealed migration\<close>

definition ex_page :: migration_page_item where
  "ex_page = \<lparr>mp_workflowId = ''w'', mp_completedActions = [], mp_unresolved = [], mp_recoveryItems = None\<rparr>"

definition ex_manifest :: migration_manifest where
  "ex_manifest = \<lparr>mm_sourceSnapshotHash = ex_hash, mm_targetVersion = 0, mm_integration = empty_integration,
     mm_workflows = [\<lparr>mw_page = ex_page, mw_configuration = ex_weekly, mw_authorizations = [], mw_hostSnapshot = ex_host\<rparr>]\<rparr>"

definition ex_target :: migration_target where
  "ex_target = \<lparr>mt_workflowId = ''w'', mt_version = 0, mt_controlVersion = 0, mt_assignmentEpoch = 0\<rparr>"

definition ex_migration :: "time_ms option \<Rightarrow> migration_row" where
  "ex_migration sealedAt = \<lparr>mg_id = ''m'', mg_orgId = ''o'', mg_enterpriseKey = ''k'', mg_sourceSnapshotHash = ex_hash,
     mg_targetVersion = 0, mg_version = (if sealedAt = None then 1 else 2), mg_stage = stg_preview, mg_manifest = ex_manifest,
     mg_targetVersions = [ex_target], mg_confirmationDigest = ex_hash, mg_createdBy = ''a'', mg_createdAt = ex_now,
     mg_sealedAt = sealedAt, mg_chunkCount = 1, mg_recordCount = 0, mg_chunksDigest = Some ex_hash,
     mg_validatedChunks = 0, mg_importedChunks = 0\<rparr>"

definition ex_chunk :: chunk_row where
  "ex_chunk = \<lparr>ck_orgId = ''o'', ck_migrationId = ''m'', ck_sequence = 0, ck_payload = [ex_page], ck_digest = ex_hash,
     ck_recordCount = 0, ck_importedAt = None\<rparr>"

definition ex_migrating :: "migration_row list \<Rightarrow> chunk_row list \<Rightarrow> audit_row list \<Rightarrow> wf_db" where
  "ex_migrating ms cs au = (ex_db (ex_workflow 0 0 ctl_paused) [] [ex_config_preview False] [] [] [] [] [] au)
     \<lparr>wd_migrations := ms, wd_chunks := cs\<rparr>"

lemma ex_migrating_start: "ex_db (ex_workflow 0 0 ctl_paused) [] [ex_config_preview False] [] [] [] [] [] au = ex_migrating [] [] au"
  by (simp add: ex_migrating_def ex_db_def)

lemma ex_page_ok [simp]: "pageItemSchema ex_formats ex_page"
  by (simp add: pageItemSchema_def ex_page_def scalar_eval)

lemma ex_host_json: "json_of_host ex_host = JObj
     [(''host'', JStr ''codex''), (''platform'', JStr ''macos''), (''taskId'', JStr ''t''),
      (''projectRef'', JStr ''p''), (''cron'', JStr ''0 1 * * 1''),
      (''timezone'', JStr ''Asia/Shanghai''), (''model'', JStr ''m''),
      (''reasoningEffort'', JStr ''low''), (''state'', JStr ''enabled''),
      (''verifiedAt'', JStr ''2026-01-07T00:00:00Z'')]"
  by (simp add: json_of_host_def ex_host_def)

lemma ex_integration_ok [simp]: "enterpriseIntegrationSchema empty_integration"
  by (simp add: empty_integration_def integration_eval)

lemma ex_manifest_parts:
  "mm_sourceSnapshotHash ex_manifest = ex_hash" "mm_targetVersion ex_manifest = 0" "mm_integration ex_manifest = empty_integration"
  "mm_workflows ex_manifest = [\<lparr>mw_page = ex_page, mw_configuration = ex_weekly, mw_authorizations = [], mw_hostSnapshot = ex_host\<rparr>]"
  "mp_workflowId ex_page = ''w''" "records [ex_page] = 0" "in_storeMappings empty_integration = []"
  by (simp_all add: ex_manifest_def ex_page_def records_def recovery_items_def empty_integration_def)

lemma ex_manifest_ok [simp]: "workflowMigrationManifestSchema ex_formats ex_manifest"
proof -
  have "workflowPayloadFits (JArr [JObj (page_members ex_page)]) 262144"
    by (simp add: workflowPayloadFits_def page_members_def ex_page_def opt_field_def)
  moreover have "workflowPayloadFits (json_of_manifest ex_manifest) 1048576"
    by (simp add: workflowPayloadFits_def json_of_manifest_def ex_manifest_def page_members_def ex_page_def opt_field_def
        json_of_integration_def empty_integration_def ex_weekly_def json_config_base_def json_of_mail_def ex_host_json jnat_def num_text_def
        js_num_def int_text_def nat_text.simps)
  ultimately show ?thesis
    by (simp add: workflowMigrationManifestSchema_def ex_manifest_parts scalar_eval)
qed

lemma ex_chunk_ok [simp]: "workflowMigrationChunkSchema ex_formats [ex_page]"
proof -
  have "workflowPayloadFits (json_of_chunk [ex_page]) 262144"
    by (simp add: workflowPayloadFits_def json_of_chunk_def page_members_def ex_page_def opt_field_def)
  then show ?thesis
    by (simp add: workflowMigrationChunkSchema_def records_def scalar_eval) (simp add: ex_page_def recovery_items_def)
qed

lemma ex_migration_call1:
  "\<exists>r a. execute ex_sha ex_formats (ex_env ''m'') ex_actor (ManageMigration ''w'' (MigrationPreview ex_manifest))
       (ex_migrating [] [] au) = Inr (r, ex_migrating [ex_migration None] [ex_chunk] a)"
  by (simp add: execute_ex ex_migrating_def base_eval migrationOperation_def migration_preview_def ex_manifest_parts
      migration_target_step_def lease_unexpired_def create_migration_def create_chunk_def new_chunk_def new_migration_def
      ex_migration_def ex_target_def ex_chunk_def nextDigest_def
      cong: res_bind_weak)

lemma ex_migration_call2:
  "\<exists>r a. execute ex_sha ex_formats (ex_env ''n'') ex_actor (ManageMigration ''w'' (MigrationSeal ''m'' 1 1 0 ex_hash))
       (ex_migrating [ex_migration None] [ex_chunk] au) = Inr (r, ex_migrating [ex_migration (Some ex_now)] [ex_chunk] a)"
  by (simp add: execute_ex ex_migrating_def base_eval migrationOperation_def locked_migration_def find_migration_def
      migration_seal_def update_migration_def update_where_def seal_digest_def ex_migration_def ex_manifest_parts
      cong: res_bind_weak)

lemma ex_migration_sealed: "\<exists>a. reachable ex_sha ex_formats (ex_migrating [ex_migration (Some ex_now)] [ex_chunk] a)"
  by (rule reach_next [OF reach_next [OF _ ex_migration_call1] ex_migration_call2]) (use ex_reach1 in \<open>simp add: ex_migrating_start\<close>)


theorem sealed_pages_fixed_witness:
  "\<exists>db. reachable ex_sha ex_formats db \<and> pages_of ''m'' (wd_chunks (snd (pruneRetention ex_now db))) = pages_of ''m'' [ex_chunk]"
proof -
  obtain a where a: "reachable ex_sha ex_formats (ex_migrating [ex_migration (Some ex_now)] [ex_chunk] a)" (is "reachable _ _ ?db")
    using ex_migration_sealed by blast
  have m: "ex_migration (Some ex_now) \<in> set (wd_migrations ?db)" "mg_sealedAt (ex_migration (Some ex_now)) \<noteq> None"
      "mg_id (ex_migration (Some ex_now)) = ''m''" "wd_chunks ?db = [ex_chunk]"
    by (simp_all add: ex_migrating_def ex_migration_def)
  have "wf_steps ex_sha ex_formats UNIV ?db (snd (pruneRetention ex_now ?db))"
    by (rule r_into_rtranclp, rule step_prune [OF surjective_pairing])
  from sealed_pages_fixed [OF a m(1,2) this] a show ?thesis
    unfolding m(3,4) by blast
qed

section \<open>A restriction and a late confirmation\<close>

text \<open>The workflow switches its mail off while the run is under way.\<close>

definition ex_silent :: WorkflowConfiguration where
  "ex_silent = WeeklyConfig \<lparr>wc_storeNames = [''n''], wc_groups = [],
     wc_delivery = \<lparr>mail_enabled = False, mail_recipients = [], mail_allowedSender = None\<rparr>\<rparr>"

definition ex_silent_live :: WorkflowLivePolicy where
  "ex_silent_live = ex_live\<lparr>lp_senders := [], lp_recipients := []\<rparr>"

definition ex_download :: WorkflowActionIdentity where
  "ex_download = DownloadAction \<lparr>dl_storeNames = [''n''], dl_window = ex_window, dl_dataset = ds_business, dl_manifestHash = None\<rparr>"

lemma ex_silent_policy: "live_policy ex_silent empty_integration = Inr ex_silent_live"
  by (simp add: ex_live_def ex_silent_live_def live_policy_def workflowLivePolicy_def policy_mappings_def ex_silent_def
      empty_integration_def)

lemma ex_silent_meet: "intersectWorkflowLivePolicy ex_live ex_silent_live = ex_silent_live"
  by (simp add: ex_live_def ex_silent_live_def intersectWorkflowLivePolicy_def intersect_def scalar_eval)

lemma ex_silent_differs: "hash (\<lambda>s. s) (json_of_policy ex_live) \<noteq> hash (\<lambda>s. s) (json_of_policy ex_silent_live)"
  by code_simp

theorem restrictRuns_narrows_unfinished_witness:
  "\<exists>db'. restrictRuns (\<lambda>s. s) (ex_assigned (Some ''r'')) ex_weekly ex_silent empty_integration empty_integration (ex_held [] [] [] []) = Inr db' \<and>
     workflowLivePolicyAllows ex_silent_live ex_download WeeklyBusinessReport \<and>
     (\<exists>r\<in>set (wd_runs (ex_held [] [] [] [])). rn_id r = ''r'' \<and>
       (\<exists>q. run_policy r = Inr q \<and> workflowLivePolicyAllows q ex_download WeeklyBusinessReport))"
proof -
  let ?db = "ex_held [] [] [] []" and ?w = "ex_assigned (Some ''r'')"
  let ?r = "ex_run\<lparr>rn_restrictivePolicy := Some ex_silent_live\<rparr>"
  have run: "run_policy ex_run = Inr ex_live" "run_policy ?r = Inr ex_silent_live"
    by (simp_all add: run_policy_def ex_run_def ex_snapshot_def ex_policy)
  have own: "wf_orgId ?w = ''o''" "rn_id ?r = ''r''" "rn_orgId ?r = wf_orgId ?w" "rn_workflowId ?r = wf_id ?w"
      "rn_finishedAt ?r = None" "rn_id ex_run = ''r''" "rn_orgId ex_run = ''o''" "rn_workflowId ex_run = ''w''"
      "rn_finishedAt ex_run = None"
    by (simp_all add: ex_run_def ex_assigned_def ex_workflow_def)
  obtain db' where db': "restrictRuns (\<lambda>s. s) ?w ex_weekly ex_silent empty_integration empty_integration ?db = Inr db'"
      "?r \<in> set (wd_runs db')"
    using ex_silent_differs
    by (simp add: restrictRuns_def ex_policy ex_silent_policy ex_silent_meet Let_def unfinished_runs_def own run update_where_def)
  have allowed: "workflowLivePolicyAllows ex_silent_live ex_download WeeklyBusinessReport"
    by (simp add: workflowLivePolicyAllows_def ex_download_def ex_silent_live_def ex_live_def)
  have differs: "hash (\<lambda>s. s) (json_of_policy ex_live) \<noteq> hash (\<lambda>s. s) (json_of_policy (intersectWorkflowLivePolicy ex_live ex_silent_live))"
    using ex_silent_differs by (simp add: ex_silent_meet)
  have "distinct (map rn_id (wd_runs ?db))" by simp
  from restrictRuns_narrows_unfinished [OF db'(1) this ex_policy ex_silent_policy differs db'(2) own(3-5) run(2) allowed] db'(1)
  show ?thesis
    unfolding own(2) by blast
qed

definition ex_failed :: action_row where
  "ex_failed = (ex_action None)\<lparr>at_state := ac_failed\<rparr>"

theorem late_confirmation_takes_no_key_witness:
  "\<exists>(db :: wf_db) b. b \<in> set (wd_actions db) \<and> at_state b = ac_confirmed \<and> wd_dedup db = []"
proof -
  let ?db = "ex_held [] [ex_failed] [] []" and ?w = "ex_assigned (Some ''r'')"
  have found: "find_action (ac_orgId ex_actor) (wf_id ?w) (rt_actionId ex_receipt) ?db = Some ex_failed"
      "at_state ex_failed = ac_failed" "rt_state ex_receipt = rcp_confirmed" "at_runId ex_failed = bd_runId ex_binding"
    by (simp_all add: find_action_def ex_failed_def ex_action_def ex_receipt_def)
  have "check_evidence ex_sha (ex_env ''z'') ex_actor ex_auth ?w ex_binding ex_failed ex_receipt ?db = Inr ()"
    by (simp add: check_evidence_def ex_receipt_def failure_evidence_def ex_checked_at ex_now_def nan_greater_def)
  then obtain db' where "record_receipt ex_sha (ex_env ''z'') ex_actor ex_auth ?w ex_binding False True ex_receipt ?db = Inr db'"
    using found by (simp add: record_receipt_def)
  from late_confirmation_takes_no_key [OF this found(1-3)] show ?thesis
    by auto
qed

end
