(* ===== verification/Spec2Isabelle.thy ===== *)
theory Spec2Isabelle
  imports Workflow_Live_Policy Query_Examples Auth_Examples Workflow_Migration_Example
begin

text \<open>
  \<^bold>\<open>The SME data center, verified.\<close>

  The program is a multi-tenant data center for small enterprises: an HTTP and MCP interface
  (\<^verbatim>\<open>apps/api\<close>) over a MySQL database lets employees query imported spreadsheets, cost cards and
  evidence; a worker imports files; installed enterprise workflows act on the data. Every
  request passes three parts that this development models: authentication establishes who
  calls, the business authorization decision says what the caller may read, and the query
  compilers turn a request into SQL that is bound to the caller's organization. Workflows run
  under a live policy that is narrowed whenever an administrator narrows their configuration;
  the workflow services hand out leases, permit external actions once and record what became of
  them.

  \<^bold>\<open>Theories and sources.\<close> Definitions keep the names of the source.

  \<^item> \<open>Smedc_Prelude\<close>, \<open>Json_Text\<close>, \<open>Row_Store\<close>: JavaScript strings, numbers, objects, throwing
    computations and JSON text; database tables as lists of rows, with \<open>updateMany\<close>, \<open>deleteMany\<close>
    and the interfaces \<open>stable\<close> and \<open>single_use\<close> of a transition system.
  \<^item> \<open>Business_Authorization\<close>: \<^verbatim>\<open>packages/domain/src/business-authorization.ts\<close>, \<^verbatim>\<open>permissions.ts\<close> and
    \<^verbatim>\<open>file-upload.ts\<close>. The decision equals a declarative contract (a refinement), is backed by a grant
    of the own organization, and reports a missing grant exactly when nothing else is wrong.
  \<^item> \<open>Workflow_Schemas\<close>, \<open>Workflow_Live_Policy\<close>: the schemas of \<^verbatim>\<open>enterprise-workflows.ts\<close> that
    the policy rests on, and \<^verbatim>\<open>workflow-live-policy.ts\<close>; the other schemas of that file are in
    \<open>Workflow_Records\<close> and \<open>Workflow_Migrations\<close>, its canonical text in \<open>Json_Canonical\<close>. An intersection of policies allows only
    what both allow, a run stays within every policy it was narrowed by, and a valid
    configuration always has a policy.
  \<^item> \<open>Structured_Query\<close>, \<open>Structured_Cursor\<close>, \<open>Structured_Compile\<close>, \<open>Structured_Safety\<close>:
    \<^verbatim>\<open>structured-query.ts\<close> and \<^verbatim>\<open>structured-ledger-policy.ts\<close>: normalization, validation, cursors and
    translation to SQL. Compiled queries are bound to the tenant, have one parameter per
    placeholder, and their text does not depend on values; accepted queries respect the limits
    and compile. The locale \<open>filter_compiler\<close> is the interface of a compiled condition; it is
    interpreted for row queries (\<open>row_filter\<close>) and for cost cards (\<open>card_filter\<close>).
  \<^item> \<open>Structured_Registry\<close>: field construction and header resolution of \<^verbatim>\<open>structured-registry.ts\<close>
    and the partition identities of \<^verbatim>\<open>structured-partitions.ts\<close>.
  \<^item> \<open>Cost_Card_Query\<close>, \<open>Cost_Card_Safety\<close>, \<open>Cost_Card_Decimal\<close>: \<^verbatim>\<open>cost-card-query.ts\<close> and the
    directory registry and decimals of \<^verbatim>\<open>cost-cards.ts\<close>.
  \<^item> \<open>Auth_Primitives\<close>, \<open>Auth_Repository\<close>, \<open>Auth_Browser\<close>, \<open>Auth_Operator\<close>, \<open>Auth_Core\<close>:
    \<^verbatim>\<open>apps/api/src/auth\<close>: \<^verbatim>\<open>primitives.ts\<close>, \<^verbatim>\<open>prisma-auth-repository.ts\<close>, \<^verbatim>\<open>browser-session.ts\<close> with
    \<^verbatim>\<open>prisma-browser-session.ts\<close>, \<^verbatim>\<open>prisma-auth-operator-repository.ts\<close> and \<^verbatim>\<open>auth-core.ts\<close>. The state
    is the record \<open>auth_db\<close> with one list of rows per table.
  \<^item> \<open>Auth_System\<close>, \<open>Auth_Sessions\<close>, \<open>Auth_Safety\<close>, \<open>Auth_Accounts\<close>: the service as a step
    relation \<open>auth_step\<close> over all repository operations. \<open>evolves\<close> (rows are never recycled and
    closed rows never reopened) holds of every step; \<open>session_inv\<close> holds in every reachable
    state; \<open>single_use\<close> is interpreted for credentials, setup grants and device codes. The
    properties say that an ended session is final, that a reused credential ends its session,
    and what a login and a password setup do.
  \<^item> \<open>Js_Date\<close>: the calendar of JavaScript dates on day numbers, ISO texts and \<open>Date.parse\<close>.
  \<^item> \<open>Workflow_Store\<close>, \<open>Workflow_Change\<close>, \<open>Workflow_Installations\<close>, \<open>Workflow_Runs\<close>,
    \<open>Workflow_Actions\<close>, \<open>Workflow_Migrations\<close>, \<open>Workflow_Service\<close>:
    \<^verbatim>\<open>apps/api/src/enterprise-workflows\<close>, file by file: \<^verbatim>\<open>repository.ts\<close>, \<^verbatim>\<open>configuration.ts\<close>,
    \<^verbatim>\<open>installations.ts\<close>, \<^verbatim>\<open>runs.ts\<close>, \<^verbatim>\<open>actions.ts\<close>, \<^verbatim>\<open>migrations.ts\<close> and \<^verbatim>\<open>service.ts\<close> with the input
    schemas of \<^verbatim>\<open>packages/mcp-contract\<close>. The state is the record \<open>wf_db\<close>, one list of rows per
    table (the models of \<^verbatim>\<open>schema.prisma\<close>) and the facts other parts of the program write
    (\<open>wf_facts\<close>). \<open>execute\<close> is the entry point of every tool, \<open>pruneRetention\<close> the cleanup job. An
    operation returns an error or a result with the new database, so a failed transaction changes
    nothing.
  \<^item> \<open>Workflow_Protocol\<close>, \<open>Workflow_Engine\<close>, \<open>Workflow_Safety\<close>, \<open>Workflow_Claims\<close>: the abstract
    protocol of workflows, runs, actions and deduplication keys (\<open>coord\<close>, \<open>protocol_step\<close>), the
    proof that every tool call is a sequence of its steps (\<open>services_refine_protocol\<close>), and what
    follows for every reachable database: one unfinished run, leases that name an assigned run,
    fencing of replaced installations, final confirmations and exclusive deduplication keys; a
    claim rests on a live lease, an authorization and the policy in force.
  \<^item> \<open>Workflow_Approval\<close>: a second abstraction, of previews, migrations and their pages
    (\<open>ledger_step\<close>): a confirmation is used once, the stages of a migration mean what they say,
    and a sealed migration keeps its pages.
  \<^item> \<open>Workflow_Windows\<close>: the scheduled window of a weekly report, the clamping of a leap day, and
    the termination and completeness of paging.
  \<^item> \<open>Query_Examples\<close>, \<open>Auth_Examples\<close>, \<open>Workflow_Examples\<close>, \<open>Workflow_Witnesses\<close>,
    \<open>Workflow_Migration_Example\<close>: concrete registries, queries, databases and histories of calls on
    which the properties are instantiated.

  \<^bold>\<open>Parameters.\<close> Third-party code is an argument: SHA-256, HMAC and Argon2 (\<open>js_runtime\<close>,
  \<open>auth_platform\<close>), number printing, base64url decoding and \<open>JSON.parse\<close> of cursors, and the
  format checks of the schema library (\<open>zod_formats\<close>). Random bytes and clocks are arguments of
  the operations that draw them; the digest of the workflow services is the argument \<open>sha\<close>, and
  their clock and the ids a call draws are the record \<open>wf_env\<close>.

  \<^bold>\<open>Concurrency.\<close> A transaction that reads a row and later claims it with a guarded \<open>updateMany\<close>
  is two steps for rotations, exchanges of setup grants, and completions and redemptions of
  device codes: the read puts the row into the list of pending transactions, the claim uses the
  row as read against the database as it is then. Everything from the guarded update to the
  commit is one step, because the update holds the lock of the row. Every other operation, the
  consumption of a setup session included, is one step. A call of a workflow tool is one step:
  its transaction locks the integration and the workflow before it reads the rows it decides on.
  No operation needs fuel: every loop of the code runs over a list. Only \<open>follow_pages\<close>, the loop
  of a client that follows cursors, has fuel, and \<open>pages_cover_every_row\<close> shows that as many
  rounds as there are rows are enough.

  \<^bold>\<open>Ranges.\<close> Strings have code units below 256; database ids are natural numbers drawn from one
  counter in place of generated cuids; times are integers in milliseconds. Versions and counters of the workflow tables are natural
  numbers (the columns are unsigned, and an overflow would be an error of the database); the zone
  \<^verbatim>\<open>Asia/Shanghai\<close> is UTC plus eight hours. Foreign keys of the workflow tables restrict
  deletions only, and the services delete no row that others refer to.

  \<^bold>\<open>Not modelled.\<close> HTTP and MCP routes and pages, except the mapping of workflow errors to status
  codes; the worker and spreadsheet parsing, object storage, evidence retrieval and the ledger
  archive (input and output around external services); the writing of business grants and of
  partitions; the descriptions of MCP tools; onboarding of an account, which goes through the
  business grants; the command line of the operator; the tables of Chinese column titles of the
  registry, which are data. Of the workflow rows, the literals that admit one value (host,
  platform, schema version) and timestamps that no code reads are left out, and \<open>setupUrl\<close> of a
  listing.
\<close>

end
